(* ===== verification/Prelude.thy ===== *)
theory Prelude
  imports Main "HOL-Library.AList"
begin

text \<open>
  Shared vocabulary of the development: the outcome of a Go call (a value or a
  panic), the collections of rewrite rules the component theories fill, and the
  generic facts on lists and association lists that several components use.
\<close>

section \<open>Outcomes of Go calls\<close>

text \<open>
  A Go call returns or panics. Functions that also change a state return the pair
  of the outcome and the state, so the state a panic leaves behind stays visible
  (deferred calls run on it).
\<close>

datatype 'a outcome = Return 'a | Panic string

fun returns :: "'a outcome \<Rightarrow> bool" where
  "returns (Return _) = True"
| "returns (Panic _) = False"

fun bind_outcome :: "'a outcome \<Rightarrow> ('a \<Rightarrow> 'b outcome) \<Rightarrow> 'b outcome" where
  "bind_outcome (Return a) f = f a"
| "bind_outcome (Panic m) f = Panic m"

lemma bind_outcome_Return [simp]: "bind_outcome r Return = r"
  by (cases r) simp_all

lemma bind_outcome_assoc:
  "bind_outcome (bind_outcome r f) g = bind_outcome r (\<lambda>a. bind_outcome (f a) g)"
  by (cases r) simp_all

lemma returns_bind_outcome [simp]:
  "returns (bind_outcome r f) \<longleftrightarrow> (\<exists>a. r = Return a \<and> returns (f a))"
  by (cases r) simp_all

lemma bind_outcome_eq_Return [simp]:
  "bind_outcome r f = Return b \<longleftrightarrow> (\<exists>a. r = Return a \<and> f a = Return b)"
  by (cases r) simp_all

section \<open>Collections\<close>

named_theorems go_string_simps \<open>closed forms of the functions of package strings\<close>
named_theorems header_simps \<open>what an operation of http.Header leaves in the map\<close>

section \<open>Byte strings\<close>

type_synonym bytes = string

text \<open>Byte 10, the newline, and the carriage return; Isabelle literals have no escapes.\<close>

abbreviation newline :: char where "newline \<equiv> CHR 0x0A"
abbreviation carriage_return :: char where "carriage_return \<equiv> CHR 0x0D"
abbreviation dquote :: char where "dquote \<equiv> CHR 0x22"

section \<open>Lists\<close>

lemma append_take_drop_prefix: "take (length p) s = p \<Longrightarrow> s = p @ drop (length p) s"
  by (metis append_take_drop_id)

lemma take_length_append_eq_iff: "take (length p) s = p \<longleftrightarrow> (\<exists>t. s = p @ t)"
  by (metis append_eq_conv_conj append_take_drop_id)

lemma filter_single_occurrence:
  "distinct xs \<Longrightarrow> i < length xs \<Longrightarrow> j < length xs \<Longrightarrow> xs ! i = xs ! j \<Longrightarrow> i = j"
  by (simp add: nth_eq_iff_index_eq)

lemma Cons_occurrence:
  "(\<exists>pre z post. x # es = pre @ z # post \<and> P z \<and> R post) \<longleftrightarrow>
     (P x \<and> R es) \<or> (\<exists>pre z post. es = pre @ z # post \<and> P z \<and> R post)"
  (is "?L \<longleftrightarrow> ?R")
proof
  assume ?L
  then obtain pre z post where d: "x # es = pre @ z # post" "P z" "R post" by blast
  then show ?R by (cases pre) auto
next
  assume ?R
  then show ?L
  proof
    assume "P x \<and> R es"
    then have "x # es = [] @ x # es \<and> P x \<and> R es" by simp
    then show ?L by blast
  next
    assume "\<exists>pre z post. es = pre @ z # post \<and> P z \<and> R post"
    then obtain pre z post where "es = pre @ z # post" "P z" "R post" by blast
    then have "x # es = (x # pre) @ z # post \<and> P z \<and> R post" by simp
    then show ?L by blast
  qed
qed

text \<open>The first index at which a predicate holds: the search loops of the source.\<close>

fun find_index_from :: "nat \<Rightarrow> ('a \<Rightarrow> bool) \<Rightarrow> 'a list \<Rightarrow> nat option" where
  "find_index_from i P [] = None"
| "find_index_from i P (x # xs) = (if P x then Some i else find_index_from (Suc i) P xs)"

abbreviation find_index :: "('a \<Rightarrow> bool) \<Rightarrow> 'a list \<Rightarrow> nat option" where
  "find_index \<equiv> find_index_from 0"

lemma find_index_from_Some:
  "find_index_from k P xs = Some i \<longleftrightarrow>
     k \<le> i \<and> i - k < length xs \<and> P (xs ! (i - k)) \<and> (\<forall>j < i - k. \<not> P (xs ! j))"
proof (induction xs arbitrary: k)
  case Nil
  then show ?case by simp
next
  case (Cons x xs)
  show ?case
  proof (cases "P x")
    case True
    then show ?thesis by (auto simp: nth_Cons split: nat.splits)
  next
    case False
    have "(k \<le> i \<and> i - k < length (x # xs) \<and> P ((x # xs) ! (i - k)) \<and>
            (\<forall>j < i - k. \<not> P ((x # xs) ! j))) \<longleftrightarrow>
          (Suc k \<le> i \<and> i - Suc k < length xs \<and> P (xs ! (i - Suc k)) \<and>
            (\<forall>j < i - Suc k. \<not> P (xs ! j)))" (is "?L \<longleftrightarrow> ?R")
    proof
      assume L: ?L
      with False have "i \<noteq> k" by auto
      with L obtain n where n: "i = Suc k + n"
        by (metis add_Suc_shift le_Suc_ex le_neq_implies_less less_eq_Suc_le)
      with L show ?R by auto
    next
      assume R: ?R
      then obtain n where "i = Suc k + n" using le_Suc_ex by blast
      with R False show ?L by (auto simp: nth_Cons split: nat.splits)
    qed
    with False Cons.IH show ?thesis by simp
  qed
qed

lemma find_index_Some:
  "find_index P xs = Some i \<longleftrightarrow> i < length xs \<and> P (xs ! i) \<and> (\<forall>j < i. \<not> P (xs ! j))"
  by (simp add: find_index_from_Some)

lemma find_index_from_None: "find_index_from k P xs = None \<longleftrightarrow> (\<forall>x \<in> set xs. \<not> P x)"
  by (induction xs arbitrary: k) auto

section \<open>Association lists\<close>

lemma map_of_update_same [simp]: "map_of (AList.update k v al) k = Some v"
  by (simp add: update_conv')

lemma map_of_update_other: "k' \<noteq> k \<Longrightarrow> map_of (AList.update k v al) k' = map_of al k'"
  by (simp add: update_conv')

lemma map_of_delete_same [simp]: "map_of (AList.delete k al) k = None"
  by (simp add: delete_conv')

lemma map_of_delete_other: "k' \<noteq> k \<Longrightarrow> map_of (AList.delete k al) k' = map_of al k'"
  by (simp add: delete_conv')

section \<open>Step relations\<close>

text \<open>The states a step relation leads to, and the contract of an invariant.\<close>

inductive reachable :: "('s \<Rightarrow> 's \<Rightarrow> bool) \<Rightarrow> 's \<Rightarrow> 's \<Rightarrow> bool" for step init where
  start: "reachable step init init"
| step: "reachable step init s \<Longrightarrow> step s t \<Longrightarrow> reachable step init t"

lemma reachable_after: "step s t \<Longrightarrow> reachable step t u \<Longrightarrow> reachable step s u"
  by (rotate_tac 1, induction rule: reachable.induct) (blast intro: reachable.start reachable.step)+

lemma reachable_trans: "reachable step s t \<Longrightarrow> reachable step t u \<Longrightarrow> reachable step s u"
  by (rotate_tac 1, induction rule: reachable.induct) (blast intro: reachable.step)+

locale invariant =
  fixes step :: "'s \<Rightarrow> 's \<Rightarrow> bool" and init :: 's and I :: "'s \<Rightarrow> bool"
  assumes holds_first: "I init"
    and kept: "step s t \<Longrightarrow> I s \<Longrightarrow> I t"
begin

lemma always: "reachable step init s \<Longrightarrow> I s"
  by (induction rule: reachable.induct) (auto intro: holds_first kept)

end

end
