(* ===== verification/Go_Strings.thy ===== *)
theory Go_Strings
  imports Prelude
begin

text \<open>
  The functions of Go's packages strings, path, strconv and fmt that the program
  calls, on byte strings. A Go string is a sequence of bytes, and so is a
  HOL string, so lengths and indices agree. Every definition computes.
\<close>

section \<open>Prefixes and suffixes\<close>

definition hasPrefix :: "string \<Rightarrow> string \<Rightarrow> bool" where
  "hasPrefix s p \<longleftrightarrow> take (length p) s = p"

definition hasSuffix :: "string \<Rightarrow> string \<Rightarrow> bool" where
  "hasSuffix s p \<longleftrightarrow> length p \<le> length s \<and> drop (length s - length p) s = p"

definition trimPrefix :: "string \<Rightarrow> string \<Rightarrow> string" where
  "trimPrefix s p = (if hasPrefix s p then drop (length p) s else s)"

lemma hasPrefix_iff [go_string_simps]: "hasPrefix s p \<longleftrightarrow> (\<exists>t. s = p @ t)"
  by (simp add: hasPrefix_def take_length_append_eq_iff)

lemma hasPrefix_append [simp]: "hasPrefix (p @ t) p"
  by (simp add: hasPrefix_def)

lemma hasPrefix_Nil [simp]: "hasPrefix s []"
  by (simp add: hasPrefix_def)

lemma hasPrefix_refl [simp]: "hasPrefix s s"
  by (simp add: hasPrefix_def)

lemma hasPrefix_trans: "hasPrefix s p \<Longrightarrow> hasPrefix p q \<Longrightarrow> hasPrefix s q"
  by (auto simp: hasPrefix_iff)

lemma hasSuffix_iff [go_string_simps]: "hasSuffix s p \<longleftrightarrow> (\<exists>t. s = t @ p)"
proof
  assume "hasSuffix s p"
  then have "s = take (length s - length p) s @ p"
    by (metis append_take_drop_id hasSuffix_def)
  then show "\<exists>t. s = t @ p" by blast
next
  assume "\<exists>t. s = t @ p"
  then show "hasSuffix s p" by (auto simp: hasSuffix_def)
qed

lemma hasSuffix_single: "hasSuffix s [c] \<longleftrightarrow> s \<noteq> [] \<and> last s = c"
  by (auto simp: hasSuffix_iff) (metis append_butlast_last_id)

lemma hasPrefix_single: "hasPrefix s [c] \<longleftrightarrow> s \<noteq> [] \<and> hd s = c"
  by (cases s) (auto simp: hasPrefix_def)

lemma trimPrefix_append [simp]: "trimPrefix (p @ t) p = t"
  by (simp add: trimPrefix_def)

lemma trimPrefix_no_prefix: "\<not> hasPrefix s p \<Longrightarrow> trimPrefix s p = s"
  by (simp add: trimPrefix_def)

section \<open>Split and Join\<close>

text \<open>strings.Split with a one-byte separator, the only form the program uses.\<close>

fun split_on :: "char \<Rightarrow> string \<Rightarrow> string list" where
  "split_on c [] = [[]]"
| "split_on c (x # xs) =
     (if x = c then [] # split_on c xs
      else case split_on c xs of [] \<Rightarrow> [[x]] | p # ps \<Rightarrow> (x # p) # ps)"

fun join_with :: "string \<Rightarrow> string list \<Rightarrow> string" where
  "join_with sep [] = []"
| "join_with sep [s] = s"
| "join_with sep (s # t # ts) = s @ sep @ join_with sep (t # ts)"

lemma split_on_not_Nil [simp]: "split_on c s \<noteq> []"
  by (cases s) (auto split: list.splits)

lemma join_with_Cons: "ts \<noteq> [] \<Longrightarrow> join_with sep (s # ts) = s @ sep @ join_with sep ts"
  by (cases ts) auto

lemma join_with_hd_Cons: "join_with sep ((x # s) # ts) = x # join_with sep (s # ts)"
  by (cases ts) auto

lemma join_split_on: "join_with [c] (split_on c s) = s"
  by (induction s) (auto simp: join_with_Cons join_with_hd_Cons split: list.splits)

lemma split_on_no_sep: "p \<in> set (split_on c s) \<Longrightarrow> c \<notin> set p"
  by (induction s arbitrary: p) (auto split: if_splits list.splits)

lemma split_on_plain: "c \<notin> set s \<Longrightarrow> split_on c s = [s]"
  by (induction s) auto

lemma split_on_append_sep: "c \<notin> set p \<Longrightarrow> split_on c (p @ c # s) = p # split_on c s"
  by (induction p) auto

lemma split_on_append:
  "split_on c (s @ c # t) = split_on c s @ split_on c t"
  by (induction s) (auto split: list.splits)

lemma split_join:
  assumes "ps \<noteq> []" and "\<And>p. p \<in> set ps \<Longrightarrow> c \<notin> set p"
  shows "split_on c (join_with [c] ps) = ps"
  using assms
  by (induction "[c]" ps rule: join_with.induct) (auto simp: split_on_plain split_on_append_sep)

section \<open>Trimming\<close>

text \<open>strings.Trim with a one-byte cut set.\<close>

definition trim_byte :: "char \<Rightarrow> string \<Rightarrow> string" where
  "trim_byte c s = rev (dropWhile (\<lambda>x. x = c) (rev (dropWhile (\<lambda>x. x = c) s)))"

text \<open>
  strings.TrimSpace removes leading and trailing Unicode white space: six ASCII
  bytes and the UTF-8 encodings of U+0085, U+00A0, U+1680, U+2000 to U+200A, U+2028,
  U+2029, U+202F, U+205F and U+3000.
\<close>

definition go_spaces :: "string list" where
  "go_spaces =
     [[CHR 0x09], [CHR 0x0A], [CHR 0x0B], [CHR 0x0C], [CHR 0x0D], [CHR 0x20],
      [CHR 0xC2, CHR 0x85], [CHR 0xC2, CHR 0xA0], [CHR 0xE1, CHR 0x9A, CHR 0x80],
      [CHR 0xE2, CHR 0x80, CHR 0x80], [CHR 0xE2, CHR 0x80, CHR 0x81],
      [CHR 0xE2, CHR 0x80, CHR 0x82], [CHR 0xE2, CHR 0x80, CHR 0x83],
      [CHR 0xE2, CHR 0x80, CHR 0x84], [CHR 0xE2, CHR 0x80, CHR 0x85],
      [CHR 0xE2, CHR 0x80, CHR 0x86], [CHR 0xE2, CHR 0x80, CHR 0x87],
      [CHR 0xE2, CHR 0x80, CHR 0x88], [CHR 0xE2, CHR 0x80, CHR 0x89],
      [CHR 0xE2, CHR 0x80, CHR 0x8A], [CHR 0xE2, CHR 0x80, CHR 0xA8],
      [CHR 0xE2, CHR 0x80, CHR 0xA9], [CHR 0xE2, CHR 0x80, CHR 0xAF],
      [CHR 0xE2, CHR 0x81, CHR 0x9F], [CHR 0xE3, CHR 0x80, CHR 0x80]]"

lemma find_prefix_shorter:
  assumes "find (\<lambda>sp. sp \<noteq> [] \<and> hasPrefix s sp) sps = Some sp"
  shows "length (drop (length sp) s) < length s"
proof -
  from assms have "sp \<noteq> []" and "hasPrefix s sp"
    by (auto simp: find_Some_iff)
  then show ?thesis by (cases sp) (auto simp: hasPrefix_iff)
qed

function trim_runes :: "string list \<Rightarrow> string \<Rightarrow> string" where
  "trim_runes sps s =
     (case find (\<lambda>sp. sp \<noteq> [] \<and> hasPrefix s sp) sps of
        None \<Rightarrow> s
      | Some sp \<Rightarrow> trim_runes sps (drop (length sp) s))"
  by pat_completeness auto
termination
  by (relation "measure (\<lambda>(sps, s). length s)")
     (auto simp only: in_measure prod.case wf_measure intro: find_prefix_shorter)

declare trim_runes.simps [simp del]

definition trimSpace :: "string \<Rightarrow> string" where
  "trimSpace s = rev (trim_runes (map rev go_spaces) (rev (trim_runes go_spaces s)))"

lemma trim_runes_suffix: "\<exists>w. s = w @ trim_runes sps s"
proof (induction sps s rule: trim_runes.induct)
  case (1 sps s)
  show ?case
  proof (cases "find (\<lambda>sp. sp \<noteq> [] \<and> hasPrefix s sp) sps")
    case None
    then show ?thesis by (simp add: trim_runes.simps [of sps s])
  next
    case (Some sp)
    from "1.IH" [OF Some] obtain w where "drop (length sp) s = w @ trim_runes sps (drop (length sp) s)"
      by blast
    then have "s = (take (length sp) s @ w) @ trim_runes sps (drop (length sp) s)"
      by (metis append.assoc append_take_drop_id)
    moreover from Some have "trim_runes sps s = trim_runes sps (drop (length sp) s)"
      by (simp add: trim_runes.simps [of sps s])
    ultimately show ?thesis by (simp only:) blast
  qed
qed

lemma trimSpace_infix: "\<exists>v w. s = v @ trimSpace s @ w"
proof -
  obtain v where v: "s = v @ trim_runes go_spaces s" using trim_runes_suffix by blast
  obtain w where "rev (trim_runes go_spaces s) =
      w @ trim_runes (map rev go_spaces) (rev (trim_runes go_spaces s))"
    using trim_runes_suffix by blast
  then have "trim_runes go_spaces s = trimSpace s @ rev w"
    unfolding trimSpace_def by (metis rev_append rev_rev_ident)
  with v show ?thesis by metis
qed

lemma trim_runes_plain:
  "(\<And>sp. sp \<in> set sps \<Longrightarrow> sp \<noteq> [] \<Longrightarrow> \<not> hasPrefix s sp) \<Longrightarrow> trim_runes sps s = s"
  by (subst trim_runes.simps) (auto simp: find_None_iff split: option.splits dest!: find_Some_iff [THEN iffD1])

section \<open>Letter case\<close>

definition lower_byte :: "char \<Rightarrow> char" where
  "lower_byte c = (if 65 \<le> (of_char c :: nat) \<and> (of_char c :: nat) \<le> 90
     then char_of ((of_char c :: nat) + 32) else c)"

definition upper_byte :: "char \<Rightarrow> char" where
  "upper_byte c = (if 97 \<le> (of_char c :: nat) \<and> (of_char c :: nat) \<le> 122
     then char_of ((of_char c :: nat) - 32) else c)"

text \<open>
  strings.ToLower, up to the strings it can make equal to, or part of, an ASCII
  literal: the ASCII capitals, the Kelvin sign U+212A and the dotted capital I
  U+0130 map into ASCII, every other rune maps outside ASCII and is left as it is.
  The program only compares lowered strings with ASCII literals.
\<close>

fun toLower :: "string \<Rightarrow> string" where
  "toLower [] = []"
| "toLower (c # s) =
     (if c = CHR 0xE2 \<and> take 2 s = [CHR 0x84, CHR 0xAA] then CHR ''k'' # toLower (drop 2 s)
      else if c = CHR 0xC4 \<and> take 1 s = [CHR 0xB0] then CHR ''i'' # toLower (drop 1 s)
      else lower_byte c # toLower s)"

section \<open>Searching\<close>

fun contains :: "string \<Rightarrow> string \<Rightarrow> bool" where
  "contains [] t \<longleftrightarrow> t = []"
| "contains (c # s) t \<longleftrightarrow> hasPrefix (c # s) t \<or> contains s t"

lemma contains_iff: "contains s t \<longleftrightarrow> (\<exists>v w. s = v @ t @ w)"
proof (induction s)
  case Nil
  then show ?case by auto
next
  case (Cons c s)
  have "(\<exists>v w. c # s = v @ t @ w) \<longleftrightarrow> (\<exists>w. c # s = t @ w) \<or> (\<exists>v w. s = v @ t @ w)"
    by (metis Cons_eq_append_conv append_Cons)
  with Cons.IH show ?case by (simp add: hasPrefix_iff)
qed

definition index_byte :: "string \<Rightarrow> char \<Rightarrow> int" where
  "index_byte s c = (case find_index (\<lambda>x. x = c) s of None \<Rightarrow> - 1 | Some i \<Rightarrow> int i)"

definition last_index_byte :: "string \<Rightarrow> char \<Rightarrow> int" where
  "last_index_byte s c =
     (case find_index (\<lambda>x. x = c) (rev s) of None \<Rightarrow> - 1 | Some i \<Rightarrow> int (length s) - 1 - int i)"

lemma index_byte_absent: "c \<notin> set s \<Longrightarrow> index_byte s c = - 1"
  by (auto simp: index_byte_def find_index_from_None split: option.splits dest!: find_index_Some [THEN iffD1])

lemma find_index_from_plain: "c \<notin> set p \<Longrightarrow> find_index_from k (\<lambda>x. x = c) (p @ c # s) = Some (k + length p)"
  by (induction p arbitrary: k) auto

lemma index_byte_first: "c \<notin> set p \<Longrightarrow> index_byte (p @ c # s) c = int (length p)"
  by (simp add: index_byte_def find_index_from_plain)

lemma last_index_byte_absent: "c \<notin> set s \<Longrightarrow> last_index_byte s c = - 1"
  by (auto simp: last_index_byte_def find_index_from_None split: option.splits
      dest!: find_index_Some [THEN iffD1]) (metis length_rev nth_mem set_rev)

lemma last_index_byte_last: "c \<notin> set t \<Longrightarrow> last_index_byte (s @ c # t) c = int (length s)"
  using find_index_from_plain [of c "rev t" 0 "rev s"] by (simp add: last_index_byte_def)

lemma last_index_byte_bounds: "- 1 \<le> last_index_byte s c \<and> last_index_byte s c < int (length s)"
proof (cases "c \<in> set s")
  case True
  then obtain u t where "s = u @ c # t" and "c \<notin> set t"
    by (meson split_list_last)
  then show ?thesis by (simp add: last_index_byte_last)
next
  case False
  then show ?thesis by (simp add: last_index_byte_absent)
qed

section \<open>Numbers in text\<close>

definition digit_char :: "nat \<Rightarrow> char" where
  "digit_char d = char_of (if d < 10 then 48 + d else 87 + d)"

definition digit_val :: "char \<Rightarrow> nat" where
  "digit_val c = (let n = of_char c in if n < 58 then n - 48 else n - 87)"

fun radix_text :: "nat \<Rightarrow> nat \<Rightarrow> string" where
  "radix_text b n =
     (if b < 2 \<or> n < b then [digit_char n]
      else radix_text b (n div b) @ [digit_char (n mod b)])"

declare radix_text.simps [simp del]

text \<open>fmt's verbs d and x on integers.\<close>

definition fmt_d :: "int \<Rightarrow> string" where
  "fmt_d i = (if i < 0 then ''-'' else []) @ radix_text 10 (nat \<bar>i\<bar>)"

definition fmt_x :: "int \<Rightarrow> string" where
  "fmt_x i = (if i < 0 then ''-'' else []) @ radix_text 16 (nat \<bar>i\<bar>)"

definition radix_value :: "nat \<Rightarrow> string \<Rightarrow> nat" where
  "radix_value b s = foldl (\<lambda>acc c. b * acc + digit_val c) 0 s"

lemma digit_val_char: "d < 36 \<Longrightarrow> digit_val (digit_char d) = d"
  by (simp add: digit_val_def digit_char_def Let_def)

lemma radix_value_snoc: "radix_value b (s @ [c]) = b * radix_value b s + digit_val c"
  by (simp add: radix_value_def)

lemma radix_value_text: "2 \<le> b \<Longrightarrow> b \<le> 36 \<Longrightarrow> radix_value b (radix_text b n) = n"
proof (induction b n rule: radix_text.induct)
  case (1 b n)
  show ?case
  proof (cases "n < b")
    case True
    with "1.prems" show ?thesis
      by (simp add: radix_text.simps [of b n] radix_value_def digit_val_char)
  next
    case False
    have "n mod b < b" using "1.prems" by simp
    with "1.prems" have "n mod b < 36" by linarith
    with False "1" show ?thesis
      by (simp add: radix_text.simps [of b n] radix_value_snoc digit_val_char)
  qed
qed

lemma radix_text_inject:
  "2 \<le> b \<Longrightarrow> b \<le> 36 \<Longrightarrow> radix_text b m = radix_text b n \<longleftrightarrow> m = n"
  by (metis radix_value_text)

lemma radix_text_digits: "2 \<le> b \<Longrightarrow> set (radix_text b n) \<subseteq> digit_char ` {..<b}"
proof (induction b n rule: radix_text.induct)
  case (1 b n)
  then show ?case
    by (cases "n < b") (auto simp: radix_text.simps [of b n])
qed

lemma dash_not_digit: "d < 36 \<Longrightarrow> digit_char d \<noteq> CHR ''-''"
proof -
  have "of_char (CHR ''-'') = (45::nat)" by simp
  moreover assume "d < 36"
  then have "of_char (digit_char d) \<noteq> (45::nat)" by (simp add: digit_char_def)
  ultimately show ?thesis by metis
qed

lemma radix_text_no_dash:
  assumes "2 \<le> b" and "b \<le> 36"
  shows "CHR ''-'' \<notin> set (radix_text b n)"
proof
  assume "CHR ''-'' \<in> set (radix_text b n)"
  with radix_text_digits [OF assms(1), of n] obtain d where "d < b" and "digit_char d = CHR ''-''"
    by (metis (no_types, opaque_lifting) imageE lessThan_iff subsetD)
  with assms(2) dash_not_digit [of d] show False by simp
qed

lemma fmt_x_inject: "fmt_x i = fmt_x j \<longleftrightarrow> i = j"
proof -
  have no_dash: "CHR ''-'' \<notin> set (radix_text 16 n)" for n
    by (rule radix_text_no_dash) simp_all
  have "fmt_x i = fmt_x j \<Longrightarrow> i = j"
    using no_dash [of "nat \<bar>i\<bar>"] no_dash [of "nat \<bar>j\<bar>"]
    by (auto simp: fmt_x_def radix_text_inject split: if_splits)
       (metis list.set_intros(1))+
  then show ?thesis by blast
qed

section \<open>path.Clean\<close>

text \<open>
  path.Clean works element by element: empty and dot elements go, a double dot
  removes the element before it, unless there is none (kept in a relative path,
  dropped in a rooted one). The stack holds the elements written so far, last first.
\<close>

fun clean_elems :: "bool \<Rightarrow> string list \<Rightarrow> string list \<Rightarrow> string list" where
  "clean_elems rooted st [] = rev st"
| "clean_elems rooted st (e # es) =
     (if e = [] \<or> e = ''.'' then clean_elems rooted st es
      else if e = ''..'' then
        (if st \<noteq> [] \<and> hd st \<noteq> ''..'' then clean_elems rooted (tl st) es
         else if rooted then clean_elems rooted st es
         else clean_elems rooted (''..'' # st) es)
      else clean_elems rooted (e # st) es)"

definition path_clean :: "string \<Rightarrow> string" where
  "path_clean p =
     (if p = [] then ''.''
      else let rooted = (hd p = CHR ''/'');
               es = clean_elems rooted [] (split_on (CHR ''/'') p)
           in if rooted then CHR ''/'' # join_with ''/'' es
              else if es = [] then ''.'' else join_with ''/'' es)"

lemma clean_elems_append_plain:
  assumes "\<And>e. e \<in> set es \<Longrightarrow> e \<noteq> ''..''"
  shows "clean_elems rooted st es = rev st @ filter (\<lambda>e. e \<noteq> [] \<and> e \<noteq> ''.'') es"
  using assms by (induction es arbitrary: st) auto

lemma clean_elems_append:
  "clean_elems rooted st (ds @ es) = clean_elems rooted (rev (clean_elems rooted st ds)) es"
  by (induction ds arbitrary: st) auto

lemma clean_elems_rooted:
  "''..'' \<notin> set st \<Longrightarrow> ''..'' \<notin> set (clean_elems True st es)"
  by (induction es arbitrary: st) (auto dest: list.set_sel(2))

end
