(* ===== verification/Http.thy ===== *)
theory Http
  imports Go_Strings
begin

text \<open>
  What the program uses of net/http: header maps, URLs and requests, the
  ResponseWriter interface as a record of methods, the server's own response
  writer (the \<open>conn\<close> state below), and http.Error. The locale
  \<open>plain_writer\<close> states what a handler that sends a body of undeclared length
  relies on; the server's writer is shown to provide it here, the compressing
  writer in the theory Gzip. A response to a HEAD request is modelled as if its body were
  sent: the server drops it on the wire, and no handler of the program looks at that
  method.
\<close>

section \<open>Header maps\<close>

text \<open>
  http.Header is map[string][]string. The association list stands for the map, its
  order for the order in which a range loop happens to visit it. Get, Set, Add and
  Del put the key into canonical form first; indexing does not.
\<close>

type_synonym header = "(string \<times> string list) list"

definition alnum_byte :: "char \<Rightarrow> bool" where
  "alnum_byte c = (let n = (of_char c :: nat) in
     (48 \<le> n \<and> n \<le> 57) \<or> (65 \<le> n \<and> n \<le> 90) \<or> (97 \<le> n \<and> n \<le> 122))"

definition token_byte :: "char \<Rightarrow> bool" where
  "token_byte c \<longleftrightarrow> alnum_byte c \<or>
     c \<in> set [CHR ''!'', CHR ''#'', CHR ''$'', CHR ''%'', CHR ''&'', CHR 0x27, CHR ''*'', CHR ''+'',
       CHR ''-'', CHR ''.'', CHR 0x5E, CHR ''_'', CHR 0x60, CHR ''|'', CHR ''~'']"

fun canonical_from :: "bool \<Rightarrow> string \<Rightarrow> string" where
  "canonical_from up [] = []"
| "canonical_from up (c # s) =
     (if up then upper_byte c else lower_byte c) # canonical_from (c = CHR ''-'') s"

definition canonical_key :: "string \<Rightarrow> string" where
  "canonical_key k = (if list_all token_byte k then canonical_from True k else k)"

definition hget :: "header \<Rightarrow> string \<Rightarrow> string" where
  "hget h k = (case map_of h (canonical_key k) of Some (v # vs) \<Rightarrow> v | _ \<Rightarrow> [])"

definition hset :: "header \<Rightarrow> string \<Rightarrow> string \<Rightarrow> header" where
  "hset h k v = AList.update (canonical_key k) [v] h"

definition hadd :: "header \<Rightarrow> string \<Rightarrow> string \<Rightarrow> header" where
  "hadd h k v = AList.update (canonical_key k)
     ((case map_of h (canonical_key k) of Some vs \<Rightarrow> vs | None \<Rightarrow> []) @ [v]) h"

definition hdel :: "header \<Rightarrow> string \<Rightarrow> header" where
  "hdel h k = AList.delete (canonical_key k) h"

lemma map_of_hset [header_simps]:
  "map_of (hset h k v) = (map_of h)(canonical_key k \<mapsto> [v])"
  by (simp add: hset_def update_conv')

lemma map_of_hadd [header_simps]:
  "map_of (hadd h k v) = (map_of h)(canonical_key k \<mapsto>
     (case map_of h (canonical_key k) of Some vs \<Rightarrow> vs | None \<Rightarrow> []) @ [v])"
  by (simp add: hadd_def update_conv')

lemma map_of_hdel [header_simps]: "map_of (hdel h k) = (map_of h)(canonical_key k := None)"
  by (simp add: hdel_def delete_conv')

lemma hget_hset [header_simps]:
  "hget (hset h k v) k' = (if canonical_key k' = canonical_key k then v else hget h k')"
  by (simp add: hget_def map_of_hset)

lemma hget_hdel [header_simps]:
  "hget (hdel h k) k' = (if canonical_key k' = canonical_key k then [] else hget h k')"
  by (simp add: hget_def map_of_hdel)

lemma hget_cong: "map_of h = map_of h' \<Longrightarrow> hget h k = hget h' k"
  by (simp add: hget_def)

text \<open>The header names the program writes in its text are canonical already.\<close>

lemma canonical_names [simp]:
  "canonical_key ''Content-Type'' = ''Content-Type''"
  "canonical_key ''Content-Length'' = ''Content-Length''"
  "canonical_key ''Content-Encoding'' = ''Content-Encoding''"
  "canonical_key ''Accept-Encoding'' = ''Accept-Encoding''"
  "canonical_key ''Vary'' = ''Vary''"
  "canonical_key ''X-Content-Type-Options'' = ''X-Content-Type-Options''"
  "canonical_key ''Cache-Control'' = ''Cache-Control''"
  "canonical_key ''Connection'' = ''Connection''"
  "canonical_key ''Upgrade'' = ''Upgrade''"
  "canonical_key ''Origin'' = ''Origin''"
  "canonical_key ''Location'' = ''Location''"
  "canonical_key ''If-None-Match'' = ''If-None-Match''"
  "canonical_key ''Authorization'' = ''Authorization''"
  "canonical_key ''Etag'' = ''Etag''"
  "canonical_key ''ETag'' = ''Etag''"
  by code_simp+

section \<open>URLs and requests\<close>

record userinfo =
  username :: string
  password :: "string option"

record url =
  Scheme :: string
  Opaque :: string
  User :: "userinfo option"
  Host :: string
  Path :: string
  RawPath :: string
  ForceQuery :: bool
  RawQuery :: string
  Fragment :: string

record request =
  Method :: string
  URL :: url
  Header :: header
  ReqHost :: string
  TLS :: bool \<comment> \<open>whether the request came over a TLS connection (r.TLS is not nil)\<close>

section \<open>The ResponseWriter interface\<close>

datatype go_error =
    ErrHijacked | ErrBodyNotAllowed | ErrContentLength | ErrShortWrite | ErrNoHijacker
  | ErrWrap string go_error | ErrText string

text \<open>
  An interface value is a record of its methods over the state it works on. Header
  returns the live map, so a handler reads it and stores it back changed. Flush and
  Hijack belong to further interfaces, which a type assertion may find missing.
\<close>

record 'w response_writer =
  rw_header :: "'w \<Rightarrow> header"
  rw_set_header :: "header \<Rightarrow> 'w \<Rightarrow> 'w"
  rw_write_header :: "int \<Rightarrow> 'w \<Rightarrow> 'w"
  rw_write :: "bytes \<Rightarrow> 'w \<Rightarrow> (nat \<times> go_error option) \<times> 'w"
  rw_flush :: "('w \<Rightarrow> 'w) option"
  rw_hijack :: "('w \<Rightarrow> go_error option \<times> 'w) option"

definition edit_header :: "'w response_writer \<Rightarrow> (header \<Rightarrow> header) \<Rightarrow> 'w \<Rightarrow> 'w" where
  "edit_header rw f w = rw_set_header rw (f (rw_header rw w)) w"

definition write_string :: "'w response_writer \<Rightarrow> string \<Rightarrow> 'w \<Rightarrow> 'w" where
  "write_string rw s w = snd (rw_write rw s w)"

definition body_allowed :: "int \<Rightarrow> bool" where
  "body_allowed status \<longleftrightarrow> \<not> (100 \<le> status \<and> status \<le> 199) \<and> status \<noteq> 204 \<and> status \<noteq> 304"

text \<open>
  A handler's use of its writer, as a script: header settings, the choice of a
  status, and writes, in any order.
\<close>

datatype rw_op = RSet string string | RCode int | RWrite bytes

fun run_op :: "'w response_writer \<Rightarrow> rw_op \<Rightarrow> 'w \<Rightarrow> 'w" where
  "run_op rw (RSet k v) w = edit_header rw (\<lambda>h. hset h k v) w"
| "run_op rw (RCode code) w = rw_write_header rw code w"
| "run_op rw (RWrite b) w = snd (rw_write rw b w)"

text \<open>Scripts that leave the length undeclared, the encoding alone and use statuses with a body.\<close>

fun benign_op :: "rw_op \<Rightarrow> bool" where
  "benign_op (RSet k v) \<longleftrightarrow> canonical_key k \<noteq> ''Content-Length'' \<and> canonical_key k \<noteq> ''Content-Encoding''"
| "benign_op (RCode code) \<longleftrightarrow> body_allowed code \<and> code \<noteq> 0"
| "benign_op (RWrite b) \<longleftrightarrow> True"

text \<open>http.Error.\<close>

definition http_error :: "'w response_writer \<Rightarrow> string \<Rightarrow> int \<Rightarrow> 'w \<Rightarrow> 'w" where
  "http_error rw msg code w =
     write_string rw (msg @ [newline])
       (rw_write_header rw code
         (edit_header rw
           (\<lambda>h. hset (hset h ''Content-Type'' ''text/plain; charset=utf-8'')
                  ''X-Content-Type-Options'' ''nosniff'') w))"

section \<open>The server's response writer\<close>

text \<open>
  The response of one request on a server connection: the live header map, whether
  the status line has been sent, with which status and which headers, the declared
  length, the bytes counted against it, the body bytes accepted, and whether the
  connection was handed over by Hijack. Sending to the network is taken to succeed.
\<close>

record conn =
  c_header :: header
  c_wrote :: bool
  c_status :: int
  c_sent :: header
  c_length :: "int option"
  c_written :: int
  c_body :: bytes
  c_hijacked :: bool

definition new_conn :: conn where
  "new_conn = \<lparr>c_header = [], c_wrote = False, c_status = 0, c_sent = [], c_length = None,
     c_written = 0, c_body = [], c_hijacked = False\<rparr>"

text \<open>strconv.ParseInt in base ten, restricted to what a length needs: digits and a sign.\<close>

definition digit_byte :: "char \<Rightarrow> bool" where
  "digit_byte c \<longleftrightarrow> 48 \<le> (of_char c :: nat) \<and> (of_char c :: nat) \<le> 57"

definition parse_int64 :: "string \<Rightarrow> int option" where
  "parse_int64 s =
     (let neg = (s \<noteq> [] \<and> hd s = CHR ''-'');
          ds = (if s \<noteq> [] \<and> (hd s = CHR ''-'' \<or> hd s = CHR ''+'') then tl s else s);
          v = int (radix_value 10 ds)
      in if ds = [] \<or> \<not> list_all digit_byte ds then None
         else if neg then (if v \<le> 2 ^ 63 then Some (- v) else None)
         else if v < 2 ^ 63 then Some v else None)"

definition conn_WriteHeader :: "int \<Rightarrow> conn \<Rightarrow> conn" where
  "conn_WriteHeader code c =
     (if c_hijacked c \<or> c_wrote c then c
      else let c' = c\<lparr>c_wrote := True, c_status := code, c_sent := c_header c\<rparr>;
               cl = hget (c_header c) ''Content-Length''
           in if cl = [] then c'
              else case parse_int64 cl of
                Some v \<Rightarrow> if 0 \<le> v then c'\<lparr>c_length := Some v\<rparr>
                           else c'\<lparr>c_header := hdel (c_header c) ''Content-Length''\<rparr>
              | None \<Rightarrow> c'\<lparr>c_header := hdel (c_header c) ''Content-Length''\<rparr>)"

definition conn_Write :: "bytes \<Rightarrow> conn \<Rightarrow> (nat \<times> go_error option) \<times> conn" where
  "conn_Write b c =
     (if c_hijacked c then ((0, Some ErrHijacked), c)
      else let c' = (if c_wrote c then c else conn_WriteHeader 200 c)
           in if b = [] then ((0, None), c')
              else if \<not> body_allowed (c_status c') then ((0, Some ErrBodyNotAllowed), c')
              else let c'' = c'\<lparr>c_written := c_written c' + int (length b)\<rparr>
                   in case c_length c'' of
                        Some l \<Rightarrow> if c_written c'' > l then ((0, Some ErrContentLength), c'')
                                  else ((length b, None), c''\<lparr>c_body := c_body c'' @ b\<rparr>)
                      | None \<Rightarrow> ((length b, None), c''\<lparr>c_body := c_body c'' @ b\<rparr>))"

definition conn_Flush :: "conn \<Rightarrow> conn" where
  "conn_Flush c = (if c_wrote c then c else conn_WriteHeader 200 c)"

definition conn_Hijack :: "conn \<Rightarrow> go_error option \<times> conn" where
  "conn_Hijack c = (if c_hijacked c then (Some ErrHijacked, c) else (None, c\<lparr>c_hijacked := True\<rparr>))"

definition conn_rw :: "conn response_writer" where
  "conn_rw = \<lparr>rw_header = c_header, rw_set_header = (\<lambda>h c. c\<lparr>c_header := h\<rparr>),
     rw_write_header = conn_WriteHeader, rw_write = conn_Write,
     rw_flush = Some conn_Flush, rw_hijack = Some conn_Hijack\<rparr>"

text \<open>When the handler returns, a response without a status line is sent as 200.\<close>

definition conn_finish :: "conn \<Rightarrow> conn" where
  "conn_finish c = (if c_wrote c then c else conn_WriteHeader 200 c)"

text \<open>A declared length, where there is one, is that of the whole body.\<close>

definition length_fits :: "header \<Rightarrow> bytes \<Rightarrow> bool" where
  "length_fits h b \<longleftrightarrow> b = [] \<or> hget h ''Content-Length'' = [] \<or>
     parse_int64 (hget h ''Content-Length'') = Some (int (length b))"

lemma conn_rw_simps [simp]:
  "rw_header conn_rw = c_header"
  "rw_set_header conn_rw = (\<lambda>h c. c\<lparr>c_header := h\<rparr>)"
  "rw_write_header conn_rw = conn_WriteHeader"
  "rw_write conn_rw = conn_Write"
  "rw_flush conn_rw = Some conn_Flush"
  "rw_hijack conn_rw = Some conn_Hijack"
  by (simp_all add: conn_rw_def)

lemma conn_WriteHeader_frame [simp]:
  "c_body (conn_WriteHeader code c) = c_body c"
  "c_written (conn_WriteHeader code c) = c_written c"
  "c_hijacked (conn_WriteHeader code c) = c_hijacked c"
  by (auto simp: conn_WriteHeader_def Let_def split: option.splits)

lemma conn_WriteHeader_wrote [simp]:
  "c_wrote (conn_WriteHeader code c) \<longleftrightarrow> c_wrote c \<or> \<not> c_hijacked c"
  by (auto simp: conn_WriteHeader_def Let_def split: option.splits)

lemma conn_WriteHeader_fresh:
  assumes "\<not> c_wrote c" and "\<not> c_hijacked c"
  shows "c_status (conn_WriteHeader code c) = code" and "c_sent (conn_WriteHeader code c) = c_header c"
  using assms by (auto simp: conn_WriteHeader_def Let_def split: option.splits)

lemma conn_WriteHeader_committed: "c_wrote c \<Longrightarrow> conn_WriteHeader code c = c"
  by (simp add: conn_WriteHeader_def)

section \<open>The contract of a plain response\<close>

text \<open>
  What a handler relies on that declares no Content-Length and uses a status that
  allows a body. \<open>status\<close> is the status the client will see (200 while none is
  chosen), \<open>body\<close> the bytes it will see after decoding; \<open>fresh\<close> says that the
  status may still be chosen, \<open>plain\<close> that writes are accepted. Flush is not part
  of the contract.
\<close>

definition undeclared :: "header \<Rightarrow> bool" where
  "undeclared h \<longleftrightarrow> hget h ''Content-Length'' = []"

locale plain_writer =
  fixes rw :: "'w response_writer"
    and plain :: "'w \<Rightarrow> bool" and fresh :: "'w \<Rightarrow> bool"
    and status :: "'w \<Rightarrow> int" and body :: "'w \<Rightarrow> bytes"
  assumes header_set: "rw_header rw (rw_set_header rw h w) = h"
    and set_plain: "plain w \<Longrightarrow> undeclared h \<Longrightarrow> plain (rw_set_header rw h w)"
    and set_fresh: "fresh w \<Longrightarrow> fresh (rw_set_header rw h w)"
    and set_status: "status (rw_set_header rw h w) = status w"
    and set_body: "body (rw_set_header rw h w) = body w"
    and code_plain: "plain w \<Longrightarrow> fresh w \<Longrightarrow> body_allowed code \<Longrightarrow> code \<noteq> 0 \<Longrightarrow>
      undeclared (rw_header rw w) \<Longrightarrow> plain (rw_write_header rw code w)"
    and code_status: "plain w \<Longrightarrow> fresh w \<Longrightarrow> code \<noteq> 0 \<Longrightarrow> status (rw_write_header rw code w) = code"
    and code_body: "body (rw_write_header rw code w) = body w"
    and write_result: "plain w \<Longrightarrow> undeclared (rw_header rw w) \<Longrightarrow>
      fst (rw_write rw b w) = (length b, None)"
    and write_plain: "plain w \<Longrightarrow> undeclared (rw_header rw w) \<Longrightarrow> plain (snd (rw_write rw b w))"
    and write_status: "plain w \<Longrightarrow> undeclared (rw_header rw w) \<Longrightarrow>
      status (snd (rw_write rw b w)) = status w"
    and write_body: "plain w \<Longrightarrow> undeclared (rw_header rw w) \<Longrightarrow>
      body (snd (rw_write rw b w)) = body w @ b"
    and code_header: "plain w \<Longrightarrow> undeclared (rw_header rw w) \<Longrightarrow>
      undeclared (rw_header rw (rw_write_header rw code w))"
begin

lemma header_edit: "rw_header rw (edit_header rw f w) = f (rw_header rw w)"
  by (simp add: edit_header_def header_set)

lemma edit_body: "body (edit_header rw f w) = body w"
  by (simp add: edit_header_def set_body)

lemma edit_status: "status (edit_header rw f w) = status w"
  by (simp add: edit_header_def set_status)

lemma edit_plain: "plain w \<Longrightarrow> undeclared (f (rw_header rw w)) \<Longrightarrow> plain (edit_header rw f w)"
  by (simp add: edit_header_def set_plain)

lemma edit_fresh: "fresh w \<Longrightarrow> fresh (edit_header rw f w)"
  by (simp add: edit_header_def set_fresh)

text \<open>http.Error on a response not yet begun: the client sees the code and the message.\<close>

lemma error_response:
  assumes "plain w" and "fresh w" and "undeclared (rw_header rw w)"
    and "body_allowed code" and "code \<noteq> 0"
  shows "status (http_error rw msg code w) = code"
    and "body (http_error rw msg code w) = body w @ msg @ [newline]"
    and "plain (http_error rw msg code w)"
proof -
  let ?f = "\<lambda>h. hset (hset h ''Content-Type'' ''text/plain; charset=utf-8'')
                  ''X-Content-Type-Options'' ''nosniff''"
  let ?w1 = "edit_header rw ?f w"
  let ?w2 = "rw_write_header rw code ?w1"
  have u: "undeclared (?f (rw_header rw w))"
    using assms(3) by (simp add: undeclared_def header_simps)
  have p1: "plain ?w1" and f1: "fresh ?w1"
    using assms(1,2) u by (simp_all add: edit_plain edit_fresh)
  have u1: "undeclared (rw_header rw ?w1)" using u by (simp add: header_edit)
  have p2: "plain ?w2" and u2: "undeclared (rw_header rw ?w2)"
    using p1 f1 u1 assms(4,5) by (simp_all add: code_plain code_header)
  show "status (http_error rw msg code w) = code"
    using p1 f1 p2 u2 assms(5) by (simp add: http_error_def write_string_def write_status code_status)
  show "body (http_error rw msg code w) = body w @ msg @ [newline]"
    using p2 u2 by (simp add: http_error_def write_string_def write_body code_body edit_body)
  show "plain (http_error rw msg code w)"
    using p2 u2 by (simp add: http_error_def write_string_def write_plain)
qed

text \<open>A document sent with a content type and no explicit status.\<close>

lemma document_response:
  assumes "plain w" and "undeclared (rw_header rw w)" and "canonical_key k \<noteq> ''Content-Length''"
  shows "status (write_string rw doc (edit_header rw (\<lambda>h. hset h k v) w)) = status w"
    and "body (write_string rw doc (edit_header rw (\<lambda>h. hset h k v) w)) = body w @ doc"
proof -
  have u: "undeclared (hset (rw_header rw w) k v)"
    using assms(2,3) by (simp add: undeclared_def header_simps)
  then have "plain (edit_header rw (\<lambda>h. hset h k v) w)"
    using assms(1) by (simp add: edit_plain)
  with u show "status (write_string rw doc (edit_header rw (\<lambda>h. hset h k v) w)) = status w"
    and "body (write_string rw doc (edit_header rw (\<lambda>h. hset h k v) w)) = body w @ doc"
    by (simp_all add: write_string_def write_status write_body header_edit edit_body edit_status)
qed

end

definition conn_plain :: "conn \<Rightarrow> bool" where
  "conn_plain c \<longleftrightarrow> \<not> c_hijacked c \<and> c_length c = None \<and> (c_wrote c \<longrightarrow> body_allowed (c_status c))"

definition conn_fresh :: "conn \<Rightarrow> bool" where
  "conn_fresh c \<longleftrightarrow> \<not> c_wrote c"

definition conn_status :: "conn \<Rightarrow> int" where
  "conn_status c = (if c_wrote c then c_status c else 200)"

interpretation server: plain_writer conn_rw conn_plain conn_fresh conn_status c_body
proof unfold_locales
  fix w :: conn and code :: int
  assume "conn_plain w" and "conn_fresh w" and "body_allowed code" and "code \<noteq> 0"
    and "undeclared (rw_header conn_rw w)"
  then show "conn_plain (rw_write_header conn_rw code w)"
    by (simp add: conn_plain_def conn_fresh_def conn_WriteHeader_def undeclared_def)
next
  fix w :: conn and code :: int
  assume "conn_plain w" and "undeclared (rw_header conn_rw w)"
  then show "undeclared (rw_header conn_rw (rw_write_header conn_rw code w))"
    by (simp add: conn_WriteHeader_def undeclared_def)
next
  fix w :: conn and b :: bytes
  assume "conn_plain w" and "undeclared (rw_header conn_rw w)"
  then show "fst (rw_write conn_rw b w) = (length b, None)"
    by (auto simp: conn_Write_def conn_WriteHeader_def conn_plain_def undeclared_def body_allowed_def Let_def)
next
  fix w :: conn and b :: bytes
  assume "conn_plain w" and "undeclared (rw_header conn_rw w)"
  then show "conn_plain (snd (rw_write conn_rw b w))"
    by (auto simp: conn_Write_def conn_WriteHeader_def conn_plain_def undeclared_def body_allowed_def Let_def)
next
  fix w :: conn and b :: bytes
  assume "conn_plain w" and "undeclared (rw_header conn_rw w)"
  then show "conn_status (snd (rw_write conn_rw b w)) = conn_status w"
    by (auto simp: conn_Write_def conn_WriteHeader_def conn_plain_def undeclared_def body_allowed_def
        conn_status_def Let_def)
next
  fix w :: conn and b :: bytes
  assume "conn_plain w" and "undeclared (rw_header conn_rw w)"
  then show "c_body (snd (rw_write conn_rw b w)) = c_body w @ b"
    by (auto simp: conn_Write_def conn_WriteHeader_def conn_plain_def undeclared_def body_allowed_def Let_def)
qed (auto simp: conn_plain_def conn_fresh_def conn_status_def conn_WriteHeader_fresh)

end
