(* ===== verification/Gzip.thy ===== *)
theory Gzip
  imports Http Complex_Main
begin

text \<open>
  The compressing response writer and the negotiation of gziphandler.go.
  Compression itself (compress/gzip) is a parameter: \<open>emit\<close> gives the bytes a
  gzip.Writer sends on for its next operation, from the operations it has had so
  far, which covers every deterministic compressor. Content sniffing
  (http.DetectContentType) is the parameter \<open>detect\<close>.
\<close>

section \<open>strconv.ParseFloat\<close>

text \<open>
  The finite doubles as rationals, the infinities and NaN. The comparison is the one
  of the language: every comparison with NaN is false.
\<close>

datatype float64 = Fin rat | PosInf | NegInf | NaN

fun f_less :: "float64 \<Rightarrow> float64 \<Rightarrow> bool" where
  "f_less (Fin a) (Fin b) \<longleftrightarrow> a < b"
| "f_less (Fin a) PosInf \<longleftrightarrow> True"
| "f_less NegInf (Fin b) \<longleftrightarrow> True"
| "f_less NegInf PosInf \<longleftrightarrow> True"
| "f_less _ _ \<longleftrightarrow> False"

definition pow2 :: "int \<Rightarrow> rat" where
  "pow2 e = (if 0 \<le> e then 2 ^ nat e else 1 / 2 ^ nat (- e))"

function bit_length :: "int \<Rightarrow> int" where
  "bit_length n = (if n \<le> 0 then 0 else 1 + bit_length (n div 2))"
  by pat_completeness auto
termination
  by (relation "measure nat") auto

declare bit_length.simps [simp del]

text \<open>The exponent \<open>e\<close> of a positive rational: \<open>2 ^ e \<le> x < 2 ^ (e + 1)\<close>.\<close>

definition exponent2 :: "rat \<Rightarrow> int" where
  "exponent2 x =
     (let (n, d) = quotient_of x;
          k = bit_length n - bit_length d
      in if pow2 k \<le> x then k else k - 1)"

definition round_half_even :: "rat \<Rightarrow> int" where
  "round_half_even x =
     (let f = \<lfloor>x\<rfloor>; r = x - of_int f
      in if r < 1 / 2 then f else if 1 / 2 < r then f + 1 else if even f then f else f + 1)"

text \<open>Rounding a non-negative rational to the nearest double, ties to even.\<close>

definition to_float64 :: "rat \<Rightarrow> float64" where
  "to_float64 x =
     (if x \<le> 0 then Fin 0
      else let e = max (exponent2 x - 52) (- 1074);
               v = of_int (round_half_even (x / pow2 e)) * pow2 e
           in if pow2 1024 \<le> v then PosInf else Fin v)"

datatype float_error = FloatSyntax | FloatRange

definition float_special :: "string \<Rightarrow> float64 option" where
  "float_special s =
     (let l = map lower_byte s in
      if l = ''+inf'' \<or> l = ''+infinity'' \<or> l = ''inf'' \<or> l = ''infinity'' then Some PosInf
      else if l = ''-inf'' \<or> l = ''-infinity'' then Some NegInf
      else if l = ''nan'' then Some NaN else None)"

text \<open>
  The mantissa loop: digits and at most one dot. The result is the digit value, the
  number of digits after the dot, whether a digit was seen, and the rest.
\<close>

fun read_mantissa :: "bool \<Rightarrow> bool \<Rightarrow> int \<Rightarrow> nat \<Rightarrow> string \<Rightarrow> int \<times> nat \<times> bool \<times> string" where
  "read_mantissa dot digits m fd [] = (m, fd, digits, [])"
| "read_mantissa dot digits m fd (c # s) =
     (if c = CHR ''.'' \<and> \<not> dot then read_mantissa True digits m fd s
      else if digit_byte c then
        read_mantissa dot True (10 * m + int (digit_val c)) (if dot then Suc fd else fd) s
      else (m, fd, digits, c # s))"

fun read_exp_digits :: "int \<Rightarrow> string \<Rightarrow> int \<times> string" where
  "read_exp_digits e [] = (e, [])"
| "read_exp_digits e (c # s) =
     (if digit_byte c
      then read_exp_digits (if e < 10000 then 10 * e + int (digit_val c) else e) s
      else (e, c # s))"

definition read_exponent :: "string \<Rightarrow> (int \<times> string) option" where
  "read_exponent s =
     (case s of
        [] \<Rightarrow> Some (0, [])
      | c # t \<Rightarrow>
          if c = CHR ''e'' \<or> c = CHR ''E'' then
            (let neg = (t \<noteq> [] \<and> hd t = CHR ''-'');
                 u = (if t \<noteq> [] \<and> (hd t = CHR ''+'' \<or> hd t = CHR ''-'') then tl t else t)
             in if u = [] \<or> \<not> digit_byte (hd u) then None
                else let (e, rest) = read_exp_digits 0 u
                     in Some (if neg then - e else e, rest))
          else Some (0, s))"

definition float_neg :: "float64 \<Rightarrow> float64" where
  "float_neg x = (case x of Fin a \<Rightarrow> Fin (- a) | PosInf \<Rightarrow> NegInf | NegInf \<Rightarrow> PosInf | NaN \<Rightarrow> NaN)"

definition parse_float :: "string \<Rightarrow> float64 \<times> float_error option" where
  "parse_float s =
     (case float_special s of
        Some x \<Rightarrow> (x, None)
      | None \<Rightarrow>
         (let neg = (s \<noteq> [] \<and> hd s = CHR ''-'');
              t = (if s \<noteq> [] \<and> (hd s = CHR ''+'' \<or> hd s = CHR ''-'') then tl s else s);
              (m, fd, digits, u) = read_mantissa False False 0 0 t
          in if \<not> digits then (Fin 0, Some FloatSyntax)
             else case read_exponent u of
               None \<Rightarrow> (Fin 0, Some FloatSyntax)
             | Some (e, rest) \<Rightarrow>
                 if rest \<noteq> [] then (Fin 0, Some FloatSyntax)
                 else let d = e - int fd;
                          x = to_float64 (of_int m * (if 0 \<le> d then 10 ^ nat d else 1 / 10 ^ nat (- d)));
                          v = (if neg then float_neg x else x)
                      in (v, if x = PosInf then Some FloatRange else None)))"

section \<open>Negotiation\<close>

datatype coding_error = EmptyCoding | BadQuality float_error

definition clamp_quality :: "float64 \<Rightarrow> float64" where
  "clamp_quality q = (if f_less q (Fin 0) then Fin 0 else if f_less (Fin 1) q then Fin 1 else q)"

text \<open>One turn of parseCoding's loop over the parts of an element; the state is its named results.\<close>

definition coding_part ::
  "nat \<Rightarrow> string \<Rightarrow> string \<times> float64 \<times> coding_error option \<Rightarrow> string \<times> float64 \<times> coding_error option" where
  "coding_part n part0 st =
     (case st of (coding, _, err) \<Rightarrow>
        let part = trimSpace part0 in
        if n = 0 then (toLower part, Fin 1, err)
        else if hasPrefix part ''q='' then
          (case parse_float (trimPrefix part ''q='') of
             (q, e) \<Rightarrow> (coding, clamp_quality q, map_option BadQuality e))
        else (coding, Fin 1, err))"

fun coding_parts ::
  "nat \<Rightarrow> string list \<Rightarrow> string \<times> float64 \<times> coding_error option \<Rightarrow> string \<times> float64 \<times> coding_error option" where
  "coding_parts n [] st = st"
| "coding_parts n (p # ps) st = coding_parts (Suc n) ps (coding_part n p st)"

definition parseCoding :: "string \<Rightarrow> string \<times> float64 \<times> coding_error option" where
  "parseCoding s =
     (case coding_parts 0 (split_on (CHR '';'') s) ([], Fin 0, None) of
        (coding, q, err) \<Rightarrow> (coding, q, if coding = [] then Some EmptyCoding else err))"

fun encodings_loop ::
  "string list \<Rightarrow> (string \<rightharpoonup> float64) \<Rightarrow> coding_error list \<Rightarrow> (string \<rightharpoonup> float64) \<times> coding_error list" where
  "encodings_loop [] c e = (c, e)"
| "encodings_loop (ss # rest) c e =
     (case parseCoding ss of
        (coding, q, None) \<Rightarrow> encodings_loop rest (c(coding \<mapsto> q)) e
      | (coding, q, Some err) \<Rightarrow> encodings_loop rest c (e @ [err]))"

definition parseEncodings :: "string \<Rightarrow> (string \<rightharpoonup> float64) \<times> coding_error list" where
  "parseEncodings s = encodings_loop (split_on (CHR '','') s) Map.empty []"

definition acceptsGzip :: "request \<Rightarrow> bool" where
  "acceptsGzip r =
     (case fst (parseEncodings (hget (Header r) ''Accept-Encoding'')) ''gzip'' of
        Some q \<Rightarrow> f_less (Fin 0) q
      | None \<Rightarrow> False)"

section \<open>The gzip.Writer\<close>

datatype gz_op = GzWrite bytes | GzFlush | GzClose

type_synonym emitter = "gz_op list \<Rightarrow> gz_op \<Rightarrow> bytes"

record gzwriter =
  z_ops :: "gz_op list"
  z_err :: "go_error option"

fun gz_input :: "gz_op list \<Rightarrow> bytes" where
  "gz_input [] = []"
| "gz_input (GzWrite b # ops) = b @ gz_input ops"
| "gz_input (_ # ops) = gz_input ops"

text \<open>Everything a writer has sent on after the operations \<open>ops\<close>.\<close>

fun gz_stream_from :: "emitter \<Rightarrow> gz_op list \<Rightarrow> gz_op list \<Rightarrow> bytes" where
  "gz_stream_from emit past [] = []"
| "gz_stream_from emit past (x # ops) = emit past x @ gz_stream_from emit (past @ [x]) ops"

abbreviation gz_stream :: "emitter \<Rightarrow> gz_op list \<Rightarrow> bytes" where
  "gz_stream emit \<equiv> gz_stream_from emit []"

text \<open>
  The documented behaviour of compress/gzip: what a writer has sent on when it is
  closed decodes to what was written to it.
\<close>

definition gz_codec :: "emitter \<Rightarrow> (bytes \<Rightarrow> bytes option) \<Rightarrow> bool" where
  "gz_codec emit decode \<longleftrightarrow>
     (\<forall>ops. GzClose \<notin> set ops \<longrightarrow> decode (gz_stream emit (ops @ [GzClose])) = Some (gz_input ops))"

definition gz_send ::
  "emitter \<Rightarrow> 'w response_writer \<Rightarrow> gz_op \<Rightarrow> gzwriter \<Rightarrow> 'w \<Rightarrow> gzwriter \<times> 'w" where
  "gz_send emit rw x z w =
     (case rw_write rw (emit (z_ops z) x) w of
        ((n, e), w') \<Rightarrow> (z\<lparr>z_ops := z_ops z @ [x], z_err := e\<rparr>, w'))"

definition gz_Write ::
  "emitter \<Rightarrow> 'w response_writer \<Rightarrow> bytes \<Rightarrow> gzwriter \<Rightarrow> 'w
     \<Rightarrow> (nat \<times> go_error option) \<times> gzwriter \<times> 'w" where
  "gz_Write emit rw b z w =
     (case z_err z of
        Some e \<Rightarrow> ((0, Some e), z, w)
      | None \<Rightarrow>
          (case gz_send emit rw (GzWrite b) z w of
             (z', w') \<Rightarrow> ((if z_err z' = None then length b else 0, z_err z'), z', w')))"

definition gz_Flush :: "emitter \<Rightarrow> 'w response_writer \<Rightarrow> gzwriter \<Rightarrow> 'w \<Rightarrow> gzwriter \<times> 'w" where
  "gz_Flush emit rw z w =
     (if z_err z \<noteq> None \<or> GzClose \<in> set (z_ops z) then (z, w) else gz_send emit rw GzFlush z w)"

definition gz_Close ::
  "emitter \<Rightarrow> 'w response_writer \<Rightarrow> gzwriter \<Rightarrow> 'w \<Rightarrow> go_error option \<times> gzwriter \<times> 'w" where
  "gz_Close emit rw z w =
     (case z_err z of
        Some e \<Rightarrow> (Some e, z, w)
      | None \<Rightarrow>
          if GzClose \<in> set (z_ops z) then (None, z, w)
          else (case gz_send emit rw GzClose z w of (z', w') \<Rightarrow> (z_err z', z', w')))"

section \<open>GzipResponseWriter\<close>

definition minSize :: nat where
  "minSize = 512"

text \<open>
  The struct: the wrapped writer, the gzip.Writer (nil until compression starts), the
  saved status code (0 for none) and the buffer. Appending no bytes to a nil slice
  gives nil, so the nil buffer is exactly the empty one.
\<close>

record 'w gzip_response_writer =
  g_under :: 'w
  g_writer :: "gzwriter option"
  g_code :: int
  g_buf :: bytes

definition gzip_edit ::
  "'w response_writer \<Rightarrow> (header \<Rightarrow> header) \<Rightarrow> 'w gzip_response_writer \<Rightarrow> 'w gzip_response_writer" where
  "gzip_edit rw f g = g\<lparr>g_under := edit_header rw f (g_under g)\<rparr>"

definition startGzip ::
  "emitter \<Rightarrow> 'w response_writer \<Rightarrow> 'w gzip_response_writer \<Rightarrow> go_error option \<times> 'w gzip_response_writer" where
  "startGzip emit rw g =
     (let g1 = gzip_edit rw (\<lambda>h. hdel (hset h ''Content-Encoding'' ''gzip'') ''Content-Length'') g;
          u = (if g_code g1 \<noteq> 0 then rw_write_header rw (g_code g1) (g_under g1) else g_under g1)
      in case gz_Write emit rw (g_buf g1) \<lparr>z_ops = [], z_err = None\<rparr> u of
           ((n, err), z, u') \<Rightarrow>
             (let g2 = g1\<lparr>g_under := u', g_writer := Some z\<rparr> in
              if err = None \<and> n < length (g_buf g2) then (Some ErrShortWrite, g2)
              else (err, g2\<lparr>g_buf := []\<rparr>)))"

definition gzip_Write ::
  "emitter \<Rightarrow> (bytes \<Rightarrow> string) \<Rightarrow> 'w response_writer \<Rightarrow> bytes \<Rightarrow> 'w gzip_response_writer
     \<Rightarrow> (nat \<times> go_error option) \<times> 'w gzip_response_writer" where
  "gzip_Write emit detect rw b g0 =
     (let g = (if map_of (rw_header rw (g_under g0)) ''Content-Type'' = None
               then gzip_edit rw (\<lambda>h. hset h ''Content-Type'' (detect b)) g0 else g0)
      in case g_writer g of
           Some z \<Rightarrow>
             (case gz_Write emit rw b z (g_under g) of
                (res, z', u') \<Rightarrow> (res, g\<lparr>g_writer := Some z', g_under := u'\<rparr>))
         | None \<Rightarrow>
             (let g1 = g\<lparr>g_buf := g_buf g @ b\<rparr> in
              if hget (rw_header rw (g_under g1)) ''Content-Encoding'' = [] \<and> minSize \<le> length (g_buf g1)
              then (case startGzip emit rw g1 of
                      (Some e, g2) \<Rightarrow> ((0, Some e), g2)
                    | (None, g2) \<Rightarrow> ((length b, None), g2))
              else ((length b, None), g1)))"

definition gzip_WriteHeader :: "int \<Rightarrow> 'w gzip_response_writer \<Rightarrow> 'w gzip_response_writer" where
  "gzip_WriteHeader code g = g\<lparr>g_code := code\<rparr>"

definition gzip_Close ::
  "emitter \<Rightarrow> 'w response_writer \<Rightarrow> 'w gzip_response_writer \<Rightarrow> go_error option \<times> 'w gzip_response_writer" where
  "gzip_Close emit rw g =
     (case g_writer g of
        None \<Rightarrow>
          (let u = (if g_code g \<noteq> 0 then rw_write_header rw (g_code g) (g_under g) else g_under g) in
           if g_buf g \<noteq> [] then
             (case rw_write rw (g_buf g) u of
                ((n, Some e), u') \<Rightarrow>
                  (Some (ErrWrap ''gziphandler: write to regular responseWriter at close gets error'' e),
                   g\<lparr>g_under := u'\<rparr>)
              | ((n, None), u') \<Rightarrow> (None, g\<lparr>g_under := u'\<rparr>))
           else (None, g\<lparr>g_under := u\<rparr>))
      | Some z \<Rightarrow>
          (case gz_Close emit rw z (g_under g) of
             (e, z', u') \<Rightarrow> (e, g\<lparr>g_writer := Some z', g_under := u'\<rparr>)))"

definition gzip_Flush ::
  "emitter \<Rightarrow> 'w response_writer \<Rightarrow> 'w gzip_response_writer \<Rightarrow> 'w gzip_response_writer" where
  "gzip_Flush emit rw g =
     (let g1 = (case g_writer g of
                  Some z \<Rightarrow> (case gz_Flush emit rw z (g_under g) of
                               (z', u') \<Rightarrow> g\<lparr>g_writer := Some z', g_under := u'\<rparr>)
                | None \<Rightarrow> g)
      in case rw_flush rw of
           Some fl \<Rightarrow> g1\<lparr>g_under := fl (g_under g1)\<rparr>
         | None \<Rightarrow> g1)"

definition gzip_Hijack ::
  "'w response_writer \<Rightarrow> 'w gzip_response_writer \<Rightarrow> go_error option \<times> 'w gzip_response_writer" where
  "gzip_Hijack rw g =
     (case rw_hijack rw of
        Some hj \<Rightarrow> (case hj (g_under g) of (e, u') \<Rightarrow> (e, g\<lparr>g_under := u'\<rparr>))
      | None \<Rightarrow> (Some ErrNoHijacker, g))"

definition gzip_rw ::
  "emitter \<Rightarrow> (bytes \<Rightarrow> string) \<Rightarrow> 'w response_writer \<Rightarrow> 'w gzip_response_writer response_writer" where
  "gzip_rw emit detect rw =
     \<lparr>rw_header = (\<lambda>g. rw_header rw (g_under g)),
      rw_set_header = (\<lambda>h g. g\<lparr>g_under := rw_set_header rw h (g_under g)\<rparr>),
      rw_write_header = gzip_WriteHeader,
      rw_write = gzip_Write emit detect rw,
      rw_flush = Some (gzip_Flush emit rw),
      rw_hijack = Some (gzip_Hijack rw)\<rparr>"

definition new_gzip :: "'w \<Rightarrow> 'w gzip_response_writer" where
  "new_gzip w = \<lparr>g_under = w, g_writer = None, g_code = 0, g_buf = []\<rparr>"

text \<open>
  The wrapping handler. The wrapped handler runs on one of two writer types, so it
  is given at both: \<open>hg\<close> and \<open>hw\<close> are the same code at the compressing and at
  the plain writer. The deferred Close runs whether the handler returns or panics.
\<close>

type_synonym 'w handler = "'w response_writer \<Rightarrow> request \<Rightarrow> 'w \<Rightarrow> unit outcome \<times> 'w"

definition NewGzipHandler ::
  "emitter \<Rightarrow> (bytes \<Rightarrow> string) \<Rightarrow> 'w gzip_response_writer handler \<Rightarrow> 'w handler \<Rightarrow> 'w handler" where
  "NewGzipHandler emit detect hg hw rw r w =
     (let w1 = edit_header rw (\<lambda>h. hadd h ''Vary'' ''Accept-Encoding'') w in
      if acceptsGzip r then
        (case hg (gzip_rw emit detect rw) r (new_gzip w1) of
           (res, g) \<Rightarrow> (res, g_under (snd (gzip_Close emit rw g))))
      else hw rw r w1)"

section \<open>What the client is promised\<close>

text \<open>
  The abstract response: the status (200 while none is chosen), the bytes written,
  and whether the response is committed, after which the status is final. It is
  committed, and compressed, as soon as 512 bytes have been written.
\<close>

record response_spec =
  sp_status :: int
  sp_data :: bytes
  sp_committed :: bool

definition spec_init :: response_spec where
  "spec_init = \<lparr>sp_status = 200, sp_data = [], sp_committed = False\<rparr>"

fun spec_op :: "rw_op \<Rightarrow> response_spec \<Rightarrow> response_spec" where
  "spec_op (RSet k v) a = a"
| "spec_op (RCode code) a = (if sp_committed a then a else a\<lparr>sp_status := code\<rparr>)"
| "spec_op (RWrite b) a =
     a\<lparr>sp_data := sp_data a @ b,
       sp_committed := (sp_committed a \<or> minSize \<le> length (sp_data a @ b))\<rparr>"

definition script_handler :: "rw_op list \<Rightarrow> 'w handler" where
  "script_handler ops rw r w = (Return (), fold (run_op rw) ops w)"

section \<open>Streams\<close>

lemma gz_stream_snoc [simp]:
  "gz_stream_from emit past (ops @ [x]) = gz_stream_from emit past ops @ emit (past @ ops) x"
  by (induction ops arbitrary: past) simp_all

lemma gz_input_append [simp]: "gz_input (ops @ ops') = gz_input ops @ gz_input ops'"
  by (induction ops rule: gz_input.induct) simp_all

lemma gz_codec_closed:
  "gz_codec emit decode \<Longrightarrow> GzClose \<notin> set ops \<Longrightarrow>
     decode (gz_stream emit ops @ emit ops GzClose) = Some (gz_input ops)"
  unfolding gz_codec_def by (metis append.left_neutral gz_stream_snoc)

lemma conn_Write_committed:
  assumes "\<not> c_hijacked c" and "c_wrote c" and "body_allowed (c_status c)" and "c_length c = None"
  shows "conn_Write b c = ((length b, None),
    if b = [] then c else c\<lparr>c_written := c_written c + int (length b), c_body := c_body c @ b\<rparr>)"
  using assms by (simp add: conn_Write_def)

section \<open>The compressing writer keeps the contract of a plain response\<close>

text \<open>
  Two phases. Before compression starts nothing has reached the wrapped writer: the
  status is the saved code and the body is the buffer. Once it has started, the
  response is committed, the gzip.Writer has had exactly the bytes written, and the
  wrapped body is what it has sent on.
\<close>

definition buffering :: "conn gzip_response_writer \<Rightarrow> bool" where
  "buffering g \<longleftrightarrow> g_writer g = None \<and> \<not> c_wrote (g_under g) \<and> \<not> c_hijacked (g_under g) \<and>
     c_length (g_under g) = None \<and> c_body (g_under g) = [] \<and> c_written (g_under g) = 0 \<and>
     body_allowed (g_code g)"

definition compressing :: "emitter \<Rightarrow> conn gzip_response_writer \<Rightarrow> bool" where
  "compressing emit g \<longleftrightarrow>
     (\<exists>z. g_writer g = Some z \<and> z_err z = None \<and> GzClose \<notin> set (z_ops z) \<and>
        c_wrote (g_under g) \<and> \<not> c_hijacked (g_under g) \<and> c_length (g_under g) = None \<and>
        body_allowed (c_status (g_under g)) \<and> g_buf g = [] \<and>
        c_body (g_under g) = gz_stream emit (z_ops z) \<and>
        hget (c_sent (g_under g)) ''Content-Encoding'' = ''gzip'' \<and>
        undeclared (c_sent (g_under g)))"

definition gzip_plain :: "emitter \<Rightarrow> conn gzip_response_writer \<Rightarrow> bool" where
  "gzip_plain emit g \<longleftrightarrow> buffering g \<or> compressing emit g"

definition gzip_fresh :: "conn gzip_response_writer \<Rightarrow> bool" where
  "gzip_fresh g \<longleftrightarrow> g_writer g = None"

definition gzip_status :: "conn gzip_response_writer \<Rightarrow> int" where
  "gzip_status g = (case g_writer g of
     None \<Rightarrow> if g_code g = 0 then 200 else g_code g
   | Some z \<Rightarrow> c_status (g_under g))"

definition gzip_body :: "conn gzip_response_writer \<Rightarrow> bytes" where
  "gzip_body g = (case g_writer g of None \<Rightarrow> g_buf g | Some z \<Rightarrow> gz_input (z_ops z))"

lemma gzip_rw_simps [simp]:
  "rw_header (gzip_rw emit detect rw) = (\<lambda>g. rw_header rw (g_under g))"
  "rw_set_header (gzip_rw emit detect rw) = (\<lambda>h g. g\<lparr>g_under := rw_set_header rw h (g_under g)\<rparr>)"
  "rw_write_header (gzip_rw emit detect rw) = gzip_WriteHeader"
  "rw_write (gzip_rw emit detect rw) = gzip_Write emit detect rw"
  "rw_flush (gzip_rw emit detect rw) = Some (gzip_Flush emit rw)"
  "rw_hijack (gzip_rw emit detect rw) = Some (gzip_Hijack rw)"
  by (simp_all add: gzip_rw_def)

lemma buffering_edit [simp]: "buffering (gzip_edit conn_rw f g) = buffering g"
  by (simp add: buffering_def gzip_edit_def edit_header_def)

lemma compressing_edit [simp]: "compressing emit (gzip_edit conn_rw f g) = compressing emit g"
  by (simp add: compressing_def gzip_edit_def edit_header_def)

lemma gzip_edit_fields [simp]:
  "g_writer (gzip_edit rw f g) = g_writer g" "g_code (gzip_edit rw f g) = g_code g"
  "g_buf (gzip_edit rw f g) = g_buf g"
  by (simp_all add: gzip_edit_def)

lemma gzip_status_edit [simp]: "gzip_status (gzip_edit conn_rw f g) = gzip_status g"
  by (simp add: gzip_status_def gzip_edit_def edit_header_def split: option.splits)

lemma gzip_body_edit [simp]: "gzip_body (gzip_edit conn_rw f g) = gzip_body g"
  by (simp add: gzip_body_def split: option.splits)

lemma gz_Write_committed:
  assumes "z_err z = None" and "\<not> c_hijacked c" and "c_wrote c" and "body_allowed (c_status c)"
    and "c_length c = None"
  shows "gz_Write emit conn_rw b z c =
    ((length b, None), z\<lparr>z_ops := z_ops z @ [GzWrite b]\<rparr>, snd (conn_Write (emit (z_ops z) (GzWrite b)) c))"
  using assms by (simp add: gz_Write_def gz_send_def conn_Write_committed)

text \<open>Writing while compressing: the bytes go into the stream, nothing else changes.\<close>

lemma compressing_Write:
  assumes "compressing emit g"
  shows "fst (gzip_Write emit detect conn_rw b g) = (length b, None)"
    and "compressing emit (snd (gzip_Write emit detect conn_rw b g))"
    and "gzip_status (snd (gzip_Write emit detect conn_rw b g)) = gzip_status g"
    and "gzip_body (snd (gzip_Write emit detect conn_rw b g)) = gzip_body g @ b"
proof -
  have main: "fst (gzip_Write emit detect conn_rw b g) = (length b, None) \<and>
      compressing emit (snd (gzip_Write emit detect conn_rw b g)) \<and>
      gzip_status (snd (gzip_Write emit detect conn_rw b g)) = gzip_status g \<and>
      gzip_body (snd (gzip_Write emit detect conn_rw b g)) = gzip_body g @ b"
  proof -
    define g' where "g' = (if map_of (c_header (g_under g)) ''Content-Type'' = None
      then gzip_edit conn_rw (\<lambda>h. hset h ''Content-Type'' (detect b)) g else g)"
    have c: "compressing emit g'" and s: "gzip_status g' = gzip_status g"
      and bd: "gzip_body g' = gzip_body g"
      using assms by (simp_all add: g'_def)
    from c obtain z where z: "g_writer g' = Some z" "z_err z = None" "GzClose \<notin> set (z_ops z)"
      "c_wrote (g_under g')" "\<not> c_hijacked (g_under g')" "c_length (g_under g') = None"
      "body_allowed (c_status (g_under g'))" "c_body (g_under g') = gz_stream emit (z_ops z)"
      by (auto simp: compressing_def)
    have w: "gzip_Write emit detect conn_rw b g = ((length b, None),
        g'\<lparr>g_writer := Some (z\<lparr>z_ops := z_ops z @ [GzWrite b]\<rparr>),
           g_under := snd (conn_Write (emit (z_ops z) (GzWrite b)) (g_under g'))\<rparr>)"
      using z by (simp add: gzip_Write_def g'_def [symmetric] Let_def gz_Write_committed)
    show ?thesis
      using c z unfolding w s [symmetric] bd [symmetric]
      by (auto simp: compressing_def gzip_status_def gzip_body_def conn_Write_committed)
  qed
  then show "fst (gzip_Write emit detect conn_rw b g) = (length b, None)"
    and "compressing emit (snd (gzip_Write emit detect conn_rw b g))"
    and "gzip_status (snd (gzip_Write emit detect conn_rw b g)) = gzip_status g"
    and "gzip_body (snd (gzip_Write emit detect conn_rw b g)) = gzip_body g @ b"
    by blast+
qed

text \<open>Flushing while compressing: the client gets more of the stream, which says the same.\<close>

lemma compressing_Flush:
  assumes "compressing emit g"
  shows "compressing emit (gzip_Flush emit conn_rw g)"
    and "gzip_status (gzip_Flush emit conn_rw g) = gzip_status g"
    and "gzip_body (gzip_Flush emit conn_rw g) = gzip_body g"
proof -
  from assms obtain z where z: "g_writer g = Some z" "z_err z = None" "GzClose \<notin> set (z_ops z)"
    "c_wrote (g_under g)" "\<not> c_hijacked (g_under g)" "c_length (g_under g) = None"
    "body_allowed (c_status (g_under g))" "c_body (g_under g) = gz_stream emit (z_ops z)"
    by (auto simp: compressing_def)
  have fl: "gzip_Flush emit conn_rw g = g\<lparr>g_writer := Some (z\<lparr>z_ops := z_ops z @ [GzFlush]\<rparr>),
      g_under := snd (conn_Write (emit (z_ops z) GzFlush) (g_under g))\<rparr>"
    using z by (simp add: gzip_Flush_def gz_Flush_def gz_send_def conn_Write_committed conn_Flush_def)
  show "compressing emit (gzip_Flush emit conn_rw g)"
    and "gzip_status (gzip_Flush emit conn_rw g) = gzip_status g"
    and "gzip_body (gzip_Flush emit conn_rw g) = gzip_body g"
    using assms z unfolding fl by (auto simp: compressing_def gzip_status_def gzip_body_def conn_Write_committed)
qed

text \<open>Starting compression commits the response with the saved code and the buffer as input.\<close>

lemma startGzip_buffering:
  assumes "buffering g"
  shows "fst (startGzip emit conn_rw g) = None"
    and "compressing emit (snd (startGzip emit conn_rw g))"
    and "gzip_status (snd (startGzip emit conn_rw g)) = gzip_status g"
    and "gzip_body (snd (startGzip emit conn_rw g)) = g_buf g"
proof -
  define h where "h = hdel (hset (c_header (g_under g)) ''Content-Encoding'' ''gzip'') ''Content-Length''"
  define u where "u = (g_under g)\<lparr>c_header := h\<rparr>"
  define c where "c = conn_WriteHeader (if g_code g = 0 then 200 else g_code g) u"
  define out where "out = emit [] (GzWrite (g_buf g))"
  have hCL: "hget h ''Content-Length'' = []" and hCE: "hget h ''Content-Encoding'' = ''gzip''"
    by (simp_all add: h_def header_simps)
  have b200: "body_allowed 200" by (simp add: body_allowed_def)
  have c: "c = u\<lparr>c_wrote := True, c_status := (if g_code g = 0 then 200 else g_code g), c_sent := h\<rparr>"
    using assms hCL by (simp add: c_def u_def buffering_def conn_WriteHeader_def)
  define c' where "c' = (if out = [] then c
    else c\<lparr>c_written := c_written c + int (length out), c_body := c_body c @ out\<rparr>)"
  have wr0: "conn_Write out u = ((length out, None), c')" if "g_code g = 0"
    using assms b200 that
    by (auto simp: conn_Write_def c c'_def u_def buffering_def conn_WriteHeader_def hCL)
  have wr1: "conn_Write out (conn_WriteHeader (g_code g) u) = ((length out, None), c')" if "g_code g \<noteq> 0"
    using assms that
    by (auto simp: conn_Write_def c c'_def u_def buffering_def conn_WriteHeader_def hCL)
  have st: "startGzip emit conn_rw g = (None, g\<lparr>g_under := c',
      g_writer := Some \<lparr>z_ops = [GzWrite (g_buf g)], z_err = None\<rparr>, g_buf := []\<rparr>)"
    using wr0 wr1
    by (cases "g_code g = 0")
       (simp_all add: startGzip_def gzip_edit_def edit_header_def h_def [symmetric] u_def [symmetric]
        gz_Write_def gz_send_def out_def [symmetric] Let_def)
  have props: "c_body c = []" "\<not> c_hijacked c" "c_length c = None" "c_wrote c" "c_sent c = h"
    "c_status c = (if g_code g = 0 then 200 else g_code g)" "body_allowed (c_status c)"
    using assms b200 by (simp_all add: c u_def buffering_def)
  show "fst (startGzip emit conn_rw g) = None" by (simp add: st)
  show "compressing emit (snd (startGzip emit conn_rw g))"
    using props hCE hCL by (simp add: st c'_def compressing_def undeclared_def out_def)
  show "gzip_status (snd (startGzip emit conn_rw g)) = gzip_status g"
    using assms props by (simp add: st c'_def gzip_status_def buffering_def)
  show "gzip_body (snd (startGzip emit conn_rw g)) = g_buf g"
    by (simp add: st gzip_body_def)
qed

text \<open>Writing while buffering: kept, until the buffer reaches the threshold.\<close>

lemma buffering_Write:
  assumes "buffering g"
  shows "fst (gzip_Write emit detect conn_rw b g) = (length b, None)"
    and "gzip_plain emit (snd (gzip_Write emit detect conn_rw b g))"
    and "gzip_status (snd (gzip_Write emit detect conn_rw b g)) = gzip_status g"
    and "gzip_body (snd (gzip_Write emit detect conn_rw b g)) = gzip_body g @ b"
    and "hget (c_header (g_under g)) ''Content-Encoding'' = [] \<Longrightarrow>
      g_writer (snd (gzip_Write emit detect conn_rw b g)) \<noteq> None \<longleftrightarrow> minSize \<le> length (g_buf g @ b)"
    and "g_writer (snd (gzip_Write emit detect conn_rw b g)) = None \<Longrightarrow>
      \<exists>v. rw_header conn_rw (g_under (snd (gzip_Write emit detect conn_rw b g))) \<in>
        {c_header (g_under g), hset (c_header (g_under g)) ''Content-Type'' v}"
proof -
  define g' where "g' = (if map_of (c_header (g_under g)) ''Content-Type'' = None
    then gzip_edit conn_rw (\<lambda>h. hset h ''Content-Type'' (detect b)) g else g)"
  define g1 where "g1 = g'\<lparr>g_buf := g_buf g' @ b\<rparr>"
  have b1: "buffering g1"
    using assms by (simp add: g1_def g'_def buffering_def gzip_edit_def edit_header_def)
  have w0: "g_writer g' = None"
    using assms by (simp add: g'_def buffering_def)
  have s1: "gzip_status g1 = gzip_status g" and w1: "g_writer g1 = None" and f1: "g_buf g1 = g_buf g @ b"
    and ce: "hget (c_header (g_under g1)) ''Content-Encoding'' = hget (c_header (g_under g)) ''Content-Encoding''"
    and hd: "\<exists>v. c_header (g_under g1) \<in>
        {c_header (g_under g), hset (c_header (g_under g)) ''Content-Type'' v}"
    using assms
    by (auto simp: g1_def g'_def gzip_status_def buffering_def gzip_edit_def edit_header_def header_simps)
  note sg = startGzip_buffering [OF b1, of emit]
  obtain g2 where g2: "startGzip emit conn_rw g1 = (None, g2)"
    using sg(1) by (metis prod.collapse)
  have nw: "g_writer g2 \<noteq> None"
    using sg(2) g2 by (auto simp: compressing_def)
  have w: "gzip_Write emit detect conn_rw b g = ((length b, None),
      if hget (c_header (g_under g1)) ''Content-Encoding'' = [] \<and> minSize \<le> length (g_buf g1)
      then g2 else g1)"
    using w0 by (simp add: gzip_Write_def g'_def [symmetric] g1_def [symmetric] g2)
  have gb: "gzip_body g = g_buf g" using assms by (simp add: gzip_body_def buffering_def)
  show "fst (gzip_Write emit detect conn_rw b g) = (length b, None)" by (simp add: w)
  show "gzip_plain emit (snd (gzip_Write emit detect conn_rw b g))"
    using sg(2) g2 b1 by (simp add: w gzip_plain_def)
  show "gzip_status (snd (gzip_Write emit detect conn_rw b g)) = gzip_status g"
    using sg(3) g2 s1 by (simp add: w)
  show "gzip_body (snd (gzip_Write emit detect conn_rw b g)) = gzip_body g @ b"
    using sg(4) g2 w1 f1 gb by (simp add: w gzip_body_def)
  show "hget (c_header (g_under g)) ''Content-Encoding'' = [] \<Longrightarrow>
      g_writer (snd (gzip_Write emit detect conn_rw b g)) \<noteq> None \<longleftrightarrow> minSize \<le> length (g_buf g @ b)"
    using nw w1 f1 ce by (auto simp: w)
  show "g_writer (snd (gzip_Write emit detect conn_rw b g)) = None \<Longrightarrow>
      \<exists>v. rw_header conn_rw (g_under (snd (gzip_Write emit detect conn_rw b g))) \<in>
        {c_header (g_under g), hset (c_header (g_under g)) ''Content-Type'' v}"
    using nw hd by (auto simp: w split: if_splits)
qed

lemma gzip_plain_Write:
  assumes "gzip_plain emit g"
  shows "fst (gzip_Write emit detect conn_rw b g) = (length b, None)"
    and "gzip_plain emit (snd (gzip_Write emit detect conn_rw b g))"
    and "gzip_status (snd (gzip_Write emit detect conn_rw b g)) = gzip_status g"
    and "gzip_body (snd (gzip_Write emit detect conn_rw b g)) = gzip_body g @ b"
proof -
  consider "buffering g" | "compressing emit g" using assms by (auto simp: gzip_plain_def)
  then have "fst (gzip_Write emit detect conn_rw b g) = (length b, None) \<and>
      gzip_plain emit (snd (gzip_Write emit detect conn_rw b g)) \<and>
      gzip_status (snd (gzip_Write emit detect conn_rw b g)) = gzip_status g \<and>
      gzip_body (snd (gzip_Write emit detect conn_rw b g)) = gzip_body g @ b"
  proof cases
    case 1
    then show ?thesis using buffering_Write(1-4) by simp
  next
    case 2
    then show ?thesis using compressing_Write by (simp add: gzip_plain_def)
  qed
  then show "fst (gzip_Write emit detect conn_rw b g) = (length b, None)"
    and "gzip_plain emit (snd (gzip_Write emit detect conn_rw b g))"
    and "gzip_status (snd (gzip_Write emit detect conn_rw b g)) = gzip_status g"
    and "gzip_body (snd (gzip_Write emit detect conn_rw b g)) = gzip_body g @ b"
    by blast+
qed

text \<open>The compressing writer over the server's writer provides the contract of Http.\<close>

interpretation compressed: plain_writer "gzip_rw emit detect conn_rw" "gzip_plain emit"
  gzip_fresh gzip_status gzip_body
  by unfold_locales
    (simp_all add: gzip_plain_Write,
     auto simp: gzip_plain_def gzip_fresh_def gzip_status_def gzip_body_def gzip_WriteHeader_def
       buffering_def compressing_def split: option.splits)

section \<open>Closing\<close>

lemma compressing_Close:
  assumes "compressing emit g" and "gz_codec emit decode"
  shows "fst (gzip_Close emit conn_rw g) = None"
    and "c_wrote (g_under (snd (gzip_Close emit conn_rw g)))"
    and "c_status (g_under (snd (gzip_Close emit conn_rw g))) = gzip_status g"
    and "hget (c_sent (g_under (snd (gzip_Close emit conn_rw g)))) ''Content-Encoding'' = ''gzip''"
    and "decode (c_body (g_under (snd (gzip_Close emit conn_rw g)))) = Some (gzip_body g)"
proof -
  from assms(1) obtain z where z: "g_writer g = Some z" "z_err z = None" "GzClose \<notin> set (z_ops z)"
      "c_wrote (g_under g)" "\<not> c_hijacked (g_under g)" "c_length (g_under g) = None"
      "body_allowed (c_status (g_under g))" "c_body (g_under g) = gz_stream emit (z_ops z)"
      "hget (c_sent (g_under g)) ''Content-Encoding'' = ''gzip''"
    by (auto simp: compressing_def)
  note d = gz_codec_closed [OF assms(2) z(3)]
  show "fst (gzip_Close emit conn_rw g) = None"
    and "c_wrote (g_under (snd (gzip_Close emit conn_rw g)))"
    and "c_status (g_under (snd (gzip_Close emit conn_rw g))) = gzip_status g"
    and "hget (c_sent (g_under (snd (gzip_Close emit conn_rw g)))) ''Content-Encoding'' = ''gzip''"
    and "decode (c_body (g_under (snd (gzip_Close emit conn_rw g)))) = Some (gzip_body g)"
    using z d by (auto simp: gzip_Close_def gz_Close_def gz_send_def conn_Write_committed
        gzip_status_def gzip_body_def)
qed

text \<open>Status and body sent at once, on a connection that has sent nothing.\<close>

lemma conn_reply:
  assumes "\<not> c_wrote c" "\<not> c_hijacked c" "c_length c = None" "c_body c = []" "c_written c = 0"
    and "body_allowed code" "length_fits (c_header c) b" "b \<noteq> []"
  shows "fst (conn_Write b (conn_WriteHeader code c)) = (length b, None)"
    and "c_wrote (snd (conn_Write b (conn_WriteHeader code c)))"
    and "c_status (snd (conn_Write b (conn_WriteHeader code c))) = code"
    and "c_sent (snd (conn_Write b (conn_WriteHeader code c))) = c_header c"
    and "c_body (snd (conn_Write b (conn_WriteHeader code c))) = b"
proof -
  define c' where "c' = conn_WriteHeader code c"
  have c': "c_wrote c'" "\<not> c_hijacked c'" "c_status c' = code" "c_sent c' = c_header c" "c_body c' = []" "c_written c' = 0"
    using assms(1,2,4,5) by (auto simp: c'_def conn_WriteHeader_def Let_def split: option.splits)
  have "c_length c' \<in> {None, Some (int (length b))}"
    using assms(1-3,7,8) by (auto simp: c'_def conn_WriteHeader_def length_fits_def Let_def)
  then have "conn_Write b c' = ((length b, None), c'\<lparr>c_written := int (length b), c_body := b\<rparr>)"
    using c' assms(6,8) by (auto simp: conn_Write_def Let_def)
  with c' show "fst (conn_Write b (conn_WriteHeader code c)) = (length b, None)"
    and "c_wrote (snd (conn_Write b (conn_WriteHeader code c)))"
    and "c_status (snd (conn_Write b (conn_WriteHeader code c))) = code"
    and "c_sent (snd (conn_Write b (conn_WriteHeader code c))) = c_header c"
    and "c_body (snd (conn_Write b (conn_WriteHeader code c))) = b"
    by (simp_all add: c'_def [symmetric])
qed

lemma buffering_Close:
  assumes bf: "buffering g" and len: "length_fits (c_header (g_under g)) (g_buf g)"
  shows "fst (gzip_Close emit conn_rw g) = None"
    and "c_status (conn_finish (g_under (snd (gzip_Close emit conn_rw g)))) = gzip_status g"
    and "c_sent (conn_finish (g_under (snd (gzip_Close emit conn_rw g)))) = c_header (g_under g)"
    and "c_body (conn_finish (g_under (snd (gzip_Close emit conn_rw g)))) = gzip_body g"
proof -
  let ?code = "if g_code g = 0 then 200 else g_code g" and ?u = "g_under g"
  have u: "\<not> c_wrote ?u" "\<not> c_hijacked ?u" "c_length ?u = None" "c_body ?u = []" "c_written ?u = 0" "body_allowed ?code"
    and w: "g_writer g = None"
    using bf by (simp_all add: buffering_def body_allowed_def)
  define c where "c = (if g_buf g = [] then conn_WriteHeader ?code ?u
    else snd (conn_Write (g_buf g) (conn_WriteHeader ?code ?u)))"
  have c: "c_wrote c" "c_status c = ?code" "c_sent c = c_header ?u" "c_body c = g_buf g"
    using conn_reply [OF u len] u(1,2,4) by (auto simp: c_def conn_WriteHeader_def Let_def split: option.splits)
  have first: "conn_Write b ?u = conn_Write b (conn_WriteHeader 200 ?u)" for b
    using u(1,2) by (simp add: conn_Write_def)
  have "fst (gzip_Close emit conn_rw g) = None \<and> conn_finish (g_under (snd (gzip_Close emit conn_rw g))) = c"
  proof (cases "g_buf g = []")
    case True
    with w u(1,2) show ?thesis by (simp add: gzip_Close_def c_def conn_finish_def)
  next
    case False
    then have "conn_Write (g_buf g) (conn_WriteHeader ?code ?u) = ((length (g_buf g), None), c)"
      using conn_reply(1) [OF u len False] by (simp add: c_def prod_eq_iff)
    with False w c(1) show ?thesis by (auto simp: gzip_Close_def conn_finish_def first)
  qed
  with c w show "fst (gzip_Close emit conn_rw g) = None"
    and "c_status (conn_finish (g_under (snd (gzip_Close emit conn_rw g)))) = gzip_status g"
    and "c_sent (conn_finish (g_under (snd (gzip_Close emit conn_rw g)))) = c_header (g_under g)"
    and "c_body (conn_finish (g_under (snd (gzip_Close emit conn_rw g)))) = gzip_body g"
    by (simp_all add: gzip_status_def gzip_body_def)
qed

section \<open>Simulation of the abstract response\<close>

definition gzip_sim :: "emitter \<Rightarrow> conn gzip_response_writer \<Rightarrow> response_spec \<Rightarrow> bool" where
  "gzip_sim emit g a \<longleftrightarrow>
     gzip_plain emit g \<and> gzip_status g = sp_status a \<and> gzip_body g = sp_data a \<and>
     (sp_committed a \<longleftrightarrow> g_writer g \<noteq> None) \<and>
     (g_writer g = None \<longrightarrow>
        hget (c_header (g_under g)) ''Content-Encoding'' = [] \<and> undeclared (c_header (g_under g)))"

lemma gzip_sim_buffering: "gzip_sim emit g a \<Longrightarrow> g_writer g = None \<Longrightarrow> buffering g"
  by (auto simp: gzip_sim_def gzip_plain_def compressing_def)

lemma gzip_sim_set:
  assumes "gzip_sim emit g a" and "benign_op (RSet k v)"
  shows "gzip_sim emit (run_op (gzip_rw emit detect conn_rw) (RSet k v) g) a"
  using assms
  by (auto simp: gzip_sim_def gzip_plain_def gzip_status_def gzip_body_def buffering_def compressing_def
      edit_header_def undeclared_def header_simps split: option.splits)

lemma gzip_sim_code:
  assumes "gzip_sim emit g a" and "benign_op (RCode code)"
  shows "gzip_sim emit (run_op (gzip_rw emit detect conn_rw) (RCode code) g) (spec_op (RCode code) a)"
  using assms
  by (auto simp: gzip_sim_def gzip_plain_def gzip_status_def gzip_body_def buffering_def compressing_def
      gzip_WriteHeader_def)

lemma gzip_sim_write:
  assumes sim: "gzip_sim emit g a"
  shows "gzip_sim emit (run_op (gzip_rw emit detect conn_rw) (RWrite b) g) (spec_op (RWrite b) a)"
proof -
  let ?g = "snd (gzip_Write emit detect conn_rw b g)"
  have pl: "gzip_plain emit g" using sim by (simp add: gzip_sim_def)
  note w = gzip_plain_Write [OF pl, of detect b]
  show ?thesis
  proof (cases "g_writer g")
    case None
    have bf: "buffering g" using sim None by (rule gzip_sim_buffering)
    note bw = buffering_Write [OF bf, of emit detect b]
    have ce: "hget (c_header (g_under g)) ''Content-Encoding'' = []"
      and ud: "undeclared (c_header (g_under g))" and bd: "g_buf g = sp_data a"
      using sim None by (simp_all add: gzip_sim_def gzip_body_def)
    have "g_writer ?g \<noteq> None \<longleftrightarrow> minSize \<le> length (sp_data a @ b)"
      using bw(5) ce bd by simp
    moreover have "hget (c_header (g_under ?g)) ''Content-Encoding'' = [] \<and> undeclared (c_header (g_under ?g))"
      if n: "g_writer ?g = None"
      using bw(6) [OF n] ce ud by (auto simp: undeclared_def header_simps)
    ultimately show ?thesis
      using sim None w(2-4) by (simp add: gzip_sim_def)
  next
    case (Some z)
    then have c: "compressing emit g"
      using pl by (simp add: gzip_plain_def buffering_def)
    then have "g_writer ?g \<noteq> None"
      using compressing_Write(2) [OF c, of detect b] by (auto simp: compressing_def)
    then show ?thesis using sim Some w(2-4) by (auto simp: gzip_sim_def)
  qed
qed

lemma gzip_sim_run:
  assumes "gzip_sim emit g a" and "list_all benign_op ops"
  shows "gzip_sim emit (fold (run_op (gzip_rw emit detect conn_rw)) ops g) (fold spec_op ops a)"
  using assms
proof (induction ops arbitrary: g a)
  case Nil
  then show ?case by simp
next
  case (Cons x ops)
  have "gzip_sim emit (run_op (gzip_rw emit detect conn_rw) x g) (spec_op x a)"
    using Cons.prems gzip_sim_set gzip_sim_code gzip_sim_write by (cases x) auto
  with Cons show ?case by simp
qed

lemma spec_sp_data: "sp_data (fold spec_op ops a) = sp_data a @ concat (map (\<lambda>x. case x of RWrite b \<Rightarrow> b | _ \<Rightarrow> []) ops)"
proof (induction ops arbitrary: a)
  case Nil
  then show ?case by simp
next
  case (Cons x ops)
  then show ?case by (cases x) simp_all
qed

section \<open>A concrete codec\<close>

text \<open>
  A writer that sends the two magic bytes before its first operation and stores its
  input uncompressed, with its reader: the hypothesis \<open>gz_codec\<close> can hold.
\<close>

definition stored_emit :: emitter where
  "stored_emit past x =
     (if past = [] then [CHR 0x1F, CHR 0x8B] else []) @ (case x of GzWrite b \<Rightarrow> b | _ \<Rightarrow> [])"

definition stored_decode :: "bytes \<Rightarrow> bytes option" where
  "stored_decode s = (if take 2 s = [CHR 0x1F, CHR 0x8B] then Some (drop 2 s) else None)"

lemma stored_stream_from: "past \<noteq> [] \<Longrightarrow> gz_stream_from stored_emit past ops = gz_input ops"
proof (induction ops arbitrary: past)
  case Nil
  then show ?case by simp
next
  case (Cons x ops)
  then show ?case by (cases x) (simp_all add: stored_emit_def)
qed

lemma stored_codec: "gz_codec stored_emit stored_decode"
proof -
  have "gz_stream stored_emit (ops @ [GzClose]) = [CHR 0x1F, CHR 0x8B] @ gz_input ops" for ops
  proof (cases ops)
    case Nil
    then show ?thesis by (simp add: stored_emit_def)
  next
    case (Cons x xs)
    then show ?thesis
      by (cases x) (simp_all add: stored_emit_def stored_stream_from)
  qed
  then show ?thesis by (simp add: gz_codec_def stored_decode_def)
qed

definition gzip_request :: request where
  "gzip_request = \<lparr>Method = ''GET'',
     URL = \<lparr>Scheme = [], Opaque = [], User = None, Host = [], Path = ''/'', RawPath = [],
       ForceQuery = False, RawQuery = [], Fragment = []\<rparr>,
     Header = [(''Accept-Encoding'', [''deflate, gzip''])], ReqHost = ''hawk'', TLS = True\<rparr>"

lemma gzip_request_accepts: "acceptsGzip gzip_request"
  by code_simp

section \<open>Properties\<close>

lemma gzip_response:
  assumes codec: "gz_codec emit decode"
    and benign: "list_all benign_op ops"
    and accepts: "acceptsGzip r"
    and run: "NewGzipHandler emit detect (script_handler ops) hw conn_rw r new_conn = (res, c)"
  shows "res = Return () \<and>
    c_status (conn_finish c) = sp_status (fold spec_op ops spec_init) \<and>
    (if sp_committed (fold spec_op ops spec_init)
     then hget (c_sent (conn_finish c)) ''Content-Encoding'' = ''gzip'' \<and>
          decode (c_body (conn_finish c)) = Some (sp_data (fold spec_op ops spec_init))
     else hget (c_sent (conn_finish c)) ''Content-Encoding'' = [] \<and>
          c_body (conn_finish c) = sp_data (fold spec_op ops spec_init))"
proof -
  let ?a = "fold spec_op ops spec_init"
  define g0 where "g0 = new_gzip (edit_header conn_rw (\<lambda>h. hadd h ''Vary'' ''Accept-Encoding'') new_conn)"
  define g where "g = fold (run_op (gzip_rw emit detect conn_rw)) ops g0"
  have "gzip_sim emit g0 spec_init"
    by (simp add: gzip_sim_def gzip_plain_def buffering_def gzip_status_def gzip_body_def g0_def new_gzip_def
        new_conn_def spec_init_def edit_header_def undeclared_def hget_def map_of_hadd body_allowed_def)
  then have sim: "gzip_sim emit g ?a"
    unfolding g_def using benign by (rule gzip_sim_run)
  have c: "c = g_under (snd (gzip_Close emit conn_rw g))" and res: "res = Return ()"
    using run accepts by (simp_all add: NewGzipHandler_def script_handler_def g_def g0_def)
  have "c_status (conn_finish c) = sp_status ?a \<and>
    (if sp_committed ?a
     then hget (c_sent (conn_finish c)) ''Content-Encoding'' = ''gzip'' \<and>
          decode (c_body (conn_finish c)) = Some (sp_data ?a)
     else hget (c_sent (conn_finish c)) ''Content-Encoding'' = [] \<and>
          c_body (conn_finish c) = sp_data ?a)"
  proof (cases "g_writer g")
    case None
    note bf = gzip_sim_buffering [OF sim None]
    have "length_fits (c_header (g_under g)) (g_buf g)"
      using sim None by (simp add: gzip_sim_def length_fits_def undeclared_def)
    from buffering_Close [OF bf this, of emit] show ?thesis
      using sim None by (simp add: c gzip_sim_def)
  next
    case (Some z)
    then have "compressing emit g" using sim by (simp add: gzip_sim_def gzip_plain_def buffering_def)
    from compressing_Close [OF this codec] show ?thesis
      using sim Some by (simp add: c gzip_sim_def conn_finish_def)
  qed
  with res show ?thesis by simp
qed

text \<open>
  C5. Compression is transparent. Whatever sequence of header settings, status
  choices and writes a handler makes (no declared length, no encoding of its own,
  statuses that allow a body), a client that accepts gzip sees, once the deferred Close
  has run, the status and the bytes of the abstract response: compressed, marked as
  gzip and decoding to exactly the bytes written when at least 512 bytes were
  written, and verbatim otherwise.
\<close>

theorem gzip_transparent:
  assumes codec: "gz_codec emit decode"
    and benign: "list_all benign_op ops"
    and accepts: "acceptsGzip r"
    and run: "NewGzipHandler emit detect (script_handler ops) hw conn_rw r new_conn = (res, c)"
  shows "res = Return () \<and>
    c_status (conn_finish c) = sp_status (fold spec_op ops spec_init) \<and>
    (if sp_committed (fold spec_op ops spec_init)
     then hget (c_sent (conn_finish c)) ''Content-Encoding'' = ''gzip'' \<and>
          decode (c_body (conn_finish c)) = Some (sp_data (fold spec_op ops spec_init))
     else hget (c_sent (conn_finish c)) ''Content-Encoding'' = [] \<and>
          c_body (conn_finish c) = sp_data (fold spec_op ops spec_init))"
  by (rule gzip_response [OF assms])

theorem gzip_transparent_witness:
  "\<exists>c. NewGzipHandler stored_emit (\<lambda>b. ''text/plain'')
       (script_handler [RCode 404, RWrite ''ab'', RWrite (replicate 600 CHR ''x'')])
       (script_handler []) conn_rw gzip_request new_conn = (Return (), c) \<and>
     c_status (conn_finish c) = 404 \<and>
     stored_decode (c_body (conn_finish c)) = Some (''ab'' @ replicate 600 CHR ''x'')"
proof -
  let ?ops = "[RCode 404, RWrite ''ab'', RWrite (replicate 600 CHR ''x'')]"
  obtain res c where run: "NewGzipHandler stored_emit (\<lambda>b. ''text/plain'') (script_handler ?ops)
      (script_handler []) conn_rw gzip_request new_conn = (res, c)"
    by (meson surj_pair)
  have b: "list_all benign_op ?ops" by (simp add: body_allowed_def)
  have "sp_committed (fold spec_op ?ops spec_init)" by (simp add: spec_init_def minSize_def)
  with gzip_transparent [OF stored_codec b gzip_request_accepts run] run show ?thesis
    by (auto simp: spec_init_def)
qed

text \<open>
  Flushing before compression has started commits the response too early. A
  status other than 200 chosen before is lost, and the compressed body that follows
  is sent without the header that says so. The periodic flush of the reverse proxy
  and the explicit flush for trailers reach this case.
\<close>

lemma gzip_early_flush:
  assumes "minSize \<le> length b"
  shows "let g = gzip_Flush emit conn_rw (gzip_WriteHeader code (new_gzip new_conn));
             c = conn_finish (g_under (snd (gzip_Close emit conn_rw
                   (snd (gzip_Write emit detect conn_rw b g)))))
         in c_status c = 200 \<and> hget (c_sent c) ''Content-Encoding'' = [] \<and>
            c_body c = gz_stream emit [GzWrite b, GzClose]"
proof -
  define c1 where "c1 = new_conn\<lparr>c_wrote := True, c_status := 200\<rparr>"
  define g where "g = (new_gzip new_conn)\<lparr>g_code := code, g_under := c1\<rparr>"
  have g: "gzip_Flush emit conn_rw (gzip_WriteHeader code (new_gzip new_conn)) = g"
    by (simp add: gzip_Flush_def gzip_WriteHeader_def new_gzip_def conn_Flush_def conn_WriteHeader_def
        new_conn_def g_def c1_def hget_def)
  define h where "h = hdel (hset (hset [] ''Content-Type'' (detect b)) ''Content-Encoding'' ''gzip'') ''Content-Length''"
  define c2 where "c2 = c1\<lparr>c_header := h\<rparr>"
  have c2: "c_wrote c2" "\<not> c_hijacked c2" "c_length c2 = None" "c_status c2 = 200" "c_body c2 = []"
    "c_sent c2 = []" "body_allowed 200"
    by (simp_all add: c2_def c1_def new_conn_def body_allowed_def)
  define c3 where "c3 = snd (conn_Write (emit [] (GzWrite b)) c2)"
  have c3: "c_wrote c3" "\<not> c_hijacked c3" "c_length c3 = None" "c_status c3 = 200"
    "c_body c3 = emit [] (GzWrite b)" "c_sent c3 = []"
    using c2 by (simp_all add: c3_def conn_Write_committed)
  have w: "snd (gzip_Write emit detect conn_rw b g) =
      g\<lparr>g_under := c3, g_writer := Some \<lparr>z_ops = [GzWrite b], z_err = None\<rparr>, g_buf := []\<rparr>"
  proof -
    let ?c = "c1\<lparr>c_header := hset [] ''Content-Type'' (detect b)\<rparr>"
    have "conn_WriteHeader code c2 = c2" using c2 by (simp add: conn_WriteHeader_committed)
    then have "startGzip emit conn_rw (g\<lparr>g_under := ?c, g_buf := b\<rparr>) =
        (None, g\<lparr>g_under := c3, g_writer := Some \<lparr>z_ops = [GzWrite b], z_err = None\<rparr>, g_buf := []\<rparr>)"
      using c2 by (simp add: startGzip_def gzip_edit_def edit_header_def g_def new_gzip_def c2_def [symmetric]
          h_def [symmetric] gz_Write_committed c3_def Let_def)
    then show ?thesis
      using assms
      by (simp add: gzip_Write_def gzip_edit_def edit_header_def g_def new_gzip_def c1_def new_conn_def
          header_simps hget_def)
  qed
  show ?thesis
    unfolding g Let_def w using c3 c2(7)
    by (simp add: gzip_Close_def gz_Close_def gz_send_def conn_Write_committed conn_finish_def hget_def Let_def)
qed

lemma gzip_early_flush_example:
  "let g = gzip_Flush stored_emit conn_rw (gzip_WriteHeader 404 (new_gzip new_conn));
       c = conn_finish (g_under (snd (gzip_Close stored_emit conn_rw
             (snd (gzip_Write stored_emit (\<lambda>b. ''text/plain'') conn_rw (replicate 512 CHR ''x'') g)))))
   in c_status c = 200 \<and> hget (c_sent c) ''Content-Encoding'' = [] \<and>
      c_body c = gz_stream stored_emit [GzWrite (replicate 512 CHR ''x''), GzClose]"
  by (rule gzip_early_flush) (simp add: minSize_def)

lemma encodings_loop_lookup:
  "fst (encodings_loop es c e) k = Some q \<longleftrightarrow>
     (\<exists>pre x post. es = pre @ x # post \<and> parseCoding x = (k, q, None) \<and>
        (\<forall>y \<in> set post. \<forall>q'. parseCoding y \<noteq> (k, q', None))) \<or>
     (c k = Some q \<and> (\<forall>y \<in> set es. \<forall>q'. parseCoding y \<noteq> (k, q', None)))"
proof (induction es arbitrary: c e)
  case Nil
  then show ?case by simp
next
  case (Cons x es)
  obtain k' q' err where x: "parseCoding x = (k', q', err)" by (metis prod_cases3)
  show ?case
    unfolding Cons_occurrence by (cases err) (auto simp: x Cons.IH)
qed

text \<open>
  C37. Negotiation. The server compresses exactly when some element of Accept-Encoding
  parses without error as gzip with a quality above zero and no later element parses
  as gzip again: the last valid mention decides.
\<close>

theorem acceptsGzip_iff:
  "acceptsGzip r \<longleftrightarrow>
     (\<exists>pre x post q. split_on (CHR '','') (hget (Header r) ''Accept-Encoding'') = pre @ x # post \<and>
        parseCoding x = (''gzip'', q, None) \<and> f_less (Fin 0) q \<and>
        list_all (\<lambda>y. \<nexists>q'. parseCoding y = (''gzip'', q', None)) post)"
proof -
  have "acceptsGzip r \<longleftrightarrow> (\<exists>q. fst (parseEncodings (hget (Header r) ''Accept-Encoding'')) ''gzip'' = Some q \<and>
      f_less (Fin 0) q)"
    by (auto simp: acceptsGzip_def split: option.splits)
  also have "\<dots> \<longleftrightarrow> (\<exists>pre x post q. split_on (CHR '','') (hget (Header r) ''Accept-Encoding'') = pre @ x # post \<and>
        parseCoding x = (''gzip'', q, None) \<and> f_less (Fin 0) q \<and>
        list_all (\<lambda>y. \<nexists>q'. parseCoding y = (''gzip'', q', None)) post)"
    unfolding parseEncodings_def encodings_loop_lookup list_all_iff by auto
  finally show ?thesis .
qed

definition quality_ok :: "float64 \<Rightarrow> bool" where
  "quality_ok q \<longleftrightarrow> q = NaN \<or> (\<exists>x. q = Fin x \<and> 0 \<le> x \<and> x \<le> 1)"

lemma clamp_quality_ok: "quality_ok (clamp_quality q)"
  by (cases q) (auto simp: quality_ok_def clamp_quality_def)

lemma coding_part_quality: "quality_ok (fst (snd (coding_part n p st)))"
  using clamp_quality_ok
  by (auto simp: coding_part_def Let_def quality_ok_def split: prod.splits)

lemma coding_parts_quality:
  "quality_ok (fst (snd st)) \<or> ps \<noteq> [] \<Longrightarrow> quality_ok (fst (snd (coding_parts n ps st)))"
proof (induction ps arbitrary: n st)
  case Nil
  then show ?case by simp
next
  case (Cons p ps)
  then show ?case using coding_part_quality by simp
qed

text \<open>
  C38. A parsed quality is NaN or lies between 0 and 1, whatever the text.
\<close>

theorem parseCoding_quality:
  "fst (snd (parseCoding s)) = NaN \<or> (\<exists>x. fst (snd (parseCoding s)) = Fin x \<and> 0 \<le> x \<and> x \<le> 1)"
  using coding_parts_quality [of "([], Fin 0, None)" "split_on (CHR '';'') s" 0]
  by (auto simp: parseCoding_def quality_ok_def split: prod.splits)

lemma coding_parts_snoc:
  "coding_parts n (ps @ [p]) st = coding_part (n + length ps) p (coding_parts n ps st)"
  by (induction ps arbitrary: n st) simp_all

text \<open>
  A parameter after the quality cancels it: when the last parameter of an element
  does not start with q=, the quality is 1 whatever was given before, so an element
  that forbids gzip with a quality of zero and ends in a semicolon asks for it.
\<close>

lemma parseCoding_last_parameter:
  assumes "CHR '';'' \<notin> set p" and "\<not> hasPrefix (trimSpace p) ''q=''"
  shows "fst (snd (parseCoding (s @ CHR '';'' # p))) = Fin 1"
  using assms
  by (simp add: parseCoding_def split_on_append split_on_plain coding_parts_snoc coding_part_def
      split: prod.splits)

lemma parseCoding_last_parameter_example:
  "fst (snd (parseCoding (''gzip;q=0'' @ CHR '';'' # []))) = Fin 1"
  by (rule parseCoding_last_parameter) (simp, code_simp)

end
