(* ===== verification/Config.thy ===== *)
theory Config
  imports Go_Strings Http
begin

text \<open>
  The configuration: the Config structs of main.go, the configuration file reader of
  util.go with its error report, and the start of main, which merges defaults, file and
  command line. Reading a file and the JSON syntax are outside: a file is its text, and
  the parameter \<open>parse\<close> gives the JSON tree of a text or the error encoding/json
  reports.
\<close>

section \<open>Config\<close>

record ConfigRoute =
  Handler :: string
  RoutePath :: string
  Target :: "string option"

text \<open>A slice with what its backing array holds beyond its length.\<close>

record 'a slice =
  elems :: "'a list"
  spare :: "'a list"

record Config =
  Listen :: string
  Port :: int
  Key :: string
  Cert :: string
  LogLevel :: string
  Route :: "ConfigRoute slice"

definition zero_route :: ConfigRoute where
  "zero_route = \<lparr>Handler = [], RoutePath = [], Target = None\<rparr>"

section \<open>encoding/json: decoding into Config\<close>

datatype jdoc =
    DNull | DBool bool | DNum string | DStr string
  | DArr "jdoc list" | DObj "(string \<times> jdoc) list"

datatype json_error = SyntaxError int string | TypeError string

text \<open>
  Key matching: exact names first, else equal up to case, where the Kelvin sign counts
  as a k and the long s as an s.
\<close>

fun equal_fold :: "string \<Rightarrow> string \<Rightarrow> bool" where
  "equal_fold [] t \<longleftrightarrow> t = []"
| "equal_fold (c # s) (d # t) \<longleftrightarrow>
     (if lower_byte c = lower_byte d then equal_fold s t
      else if lower_byte c = CHR ''k'' \<and> d = CHR 0xE2 \<and> take 2 t = [CHR 0x84, CHR 0xAA] then equal_fold s (drop 2 t)
      else if lower_byte c = CHR ''s'' \<and> d = CHR 0xC5 \<and> take 1 t = [CHR 0xBF] then equal_fold s (drop 1 t)
      else False)"
| "equal_fold (c # s) [] \<longleftrightarrow> False"

definition json_field :: "string list \<Rightarrow> string \<Rightarrow> string option" where
  "json_field names key =
     (if key \<in> set names then Some key else find (\<lambda>n. equal_fold n key) names)"

definition decode_string :: "jdoc \<Rightarrow> string \<Rightarrow> json_error + string" where
  "decode_string d old =
     (case d of DStr s \<Rightarrow> Inr s | DNull \<Rightarrow> Inr old | _ \<Rightarrow> Inl (TypeError ''string''))"

definition decode_int :: "jdoc \<Rightarrow> int \<Rightarrow> json_error + int" where
  "decode_int d old =
     (case d of
        DNum s \<Rightarrow> (case parse_int64 s of Some i \<Rightarrow> Inr i | None \<Rightarrow> Inl (TypeError ''int''))
      | DNull \<Rightarrow> Inr old
      | _ \<Rightarrow> Inl (TypeError ''int''))"

definition decode_string_ptr :: "jdoc \<Rightarrow> string option \<Rightarrow> json_error + string option" where
  "decode_string_ptr d old =
     (case d of DNull \<Rightarrow> Inr None | DStr s \<Rightarrow> Inr (Some s) | _ \<Rightarrow> Inl (TypeError ''string''))"

definition map_sum_right :: "('a \<Rightarrow> 'b) \<Rightarrow> 'e + 'a \<Rightarrow> 'e + 'b" where
  "map_sum_right f r = (case r of Inl e \<Rightarrow> Inl e | Inr a \<Rightarrow> Inr (f a))"

definition route_names :: "string list" where
  "route_names = [''handler'', ''path'', ''target'']"

definition route_member :: "string \<Rightarrow> jdoc \<Rightarrow> ConfigRoute \<Rightarrow> json_error + ConfigRoute" where
  "route_member n d rt =
     (if n = ''handler'' then map_sum_right (\<lambda>s. rt\<lparr>Handler := s\<rparr>) (decode_string d (Handler rt))
      else if n = ''path'' then map_sum_right (\<lambda>s. rt\<lparr>RoutePath := s\<rparr>) (decode_string d (RoutePath rt))
      else map_sum_right (\<lambda>s. rt\<lparr>Target := s\<rparr>) (decode_string_ptr d (Target rt)))"

fun route_members :: "(string \<times> jdoc) list \<Rightarrow> ConfigRoute \<Rightarrow> json_error + ConfigRoute" where
  "route_members [] rt = Inr rt"
| "route_members ((k, d) # ms) rt =
     (case (case json_field route_names k of None \<Rightarrow> Inr rt | Some n \<Rightarrow> route_member n d rt) of
        Inl e \<Rightarrow> Inl e
      | Inr rt' \<Rightarrow> route_members ms rt')"

definition decode_route :: "jdoc \<Rightarrow> ConfigRoute \<Rightarrow> json_error + ConfigRoute" where
  "decode_route d rt =
     (case d of DObj ms \<Rightarrow> route_members ms rt | DNull \<Rightarrow> Inr rt | _ \<Rightarrow> Inl (TypeError ''route''))"

text \<open>
  Decoding an array into a slice. Element \<open>i\<close> is decoded into what the slice already
  holds there, within its length or its capacity; only a slot beyond the capacity is
  fresh. \<open>old\<close> is the rest of the backing array.
\<close>

fun decode_elems :: "jdoc list \<Rightarrow> ConfigRoute list \<Rightarrow> json_error + ConfigRoute list" where
  "decode_elems [] old = Inr []"
| "decode_elems (d # ds) old =
     (case decode_route d (case old of [] \<Rightarrow> zero_route | rt # _ \<Rightarrow> rt) of
        Inl e \<Rightarrow> Inl e
      | Inr rt \<Rightarrow> map_sum_right (\<lambda>rts. rt # rts) (decode_elems ds (tl old)))"

text \<open>The capacity after growing to \<open>n\<close> elements: half as much again each time, four at least.\<close>

function grow_cap :: "nat \<Rightarrow> nat \<Rightarrow> nat" where
  "grow_cap n k = (if n \<le> k then k else grow_cap n (max 4 (k + k div 2)))"
  by pat_completeness auto
termination
proof (relation "measure (\<lambda>(n, k). n - k)")
  fix n k :: nat
  assume "\<not> n \<le> k"
  then have "k < n" and "k < max 4 (k + k div 2)" by (auto simp: max_def)
  then show "((n, max 4 (k + k div 2)), n, k) \<in> measure (\<lambda>(n, k). n - k)" by auto
qed simp

declare grow_cap.simps [simp del]

definition decode_routes :: "jdoc \<Rightarrow> ConfigRoute slice \<Rightarrow> json_error + ConfigRoute slice" where
  "decode_routes d sl =
     (case d of
        DNull \<Rightarrow> Inr \<lparr>elems = [], spare = []\<rparr>
      | DArr ds \<Rightarrow>
          (let back = elems sl @ spare sl in
           map_sum_right (\<lambda>rts.
             if rts = [] then \<lparr>elems = [], spare = []\<rparr>
             else \<lparr>elems = rts,
                   spare = (if length rts \<le> length back then drop (length rts) back
                            else replicate (grow_cap (length rts) (length back) - length rts) zero_route)\<rparr>)
             (decode_elems ds back))
      | _ \<Rightarrow> Inl (TypeError ''route list''))"

definition config_member :: "string \<Rightarrow> jdoc \<Rightarrow> Config \<Rightarrow> json_error + Config" where
  "config_member n d c =
     (if n = ''listen'' then map_sum_right (\<lambda>s. c\<lparr>Listen := s\<rparr>) (decode_string d (Listen c))
      else if n = ''port'' then map_sum_right (\<lambda>i. c\<lparr>Port := i\<rparr>) (decode_int d (Port c))
      else if n = ''key'' then map_sum_right (\<lambda>s. c\<lparr>Key := s\<rparr>) (decode_string d (Key c))
      else if n = ''cert'' then map_sum_right (\<lambda>s. c\<lparr>Cert := s\<rparr>) (decode_string d (Cert c))
      else if n = ''loglevel'' then map_sum_right (\<lambda>s. c\<lparr>LogLevel := s\<rparr>) (decode_string d (LogLevel c))
      else map_sum_right (\<lambda>r. c\<lparr>Route := r\<rparr>) (decode_routes d (Route c)))"

definition config_names :: "string list" where
  "config_names = [''listen'', ''port'', ''key'', ''cert'', ''loglevel'', ''route'']"

fun config_members :: "(string \<times> jdoc) list \<Rightarrow> Config \<Rightarrow> json_error + Config" where
  "config_members [] c = Inr c"
| "config_members ((k, d) # ms) c =
     (case (case json_field config_names k of None \<Rightarrow> Inr c | Some n \<Rightarrow> config_member n d c) of
        Inl e \<Rightarrow> Inl e
      | Inr c' \<Rightarrow> config_members ms c')"

definition decode_config :: "jdoc \<Rightarrow> Config \<Rightarrow> json_error + Config" where
  "decode_config d c =
     (case d of DObj ms \<Rightarrow> config_members ms c | DNull \<Rightarrow> Inr c | _ \<Rightarrow> Inl (TypeError ''config''))"

section \<open>The configuration file (util.go)\<close>

record offsetContext =
  ctx_start :: int
  ctx_end :: int
  ctx_line :: int
  ctx_pos :: int

text \<open>Slicing a string out of range panics.\<close>

definition contextAtOffset :: "string \<Rightarrow> int \<Rightarrow> offsetContext outcome" where
  "contextAtOffset str offset =
     (if offset < 0 \<or> int (length str) < offset then Panic ''slice bounds out of range''
      else
        let start = last_index_byte (take (nat offset) str) newline + 1;
            idx = index_byte (drop (nat start) str) newline
        in Return \<lparr>ctx_start = start,
                   ctx_end = (if 0 \<le> idx then start + idx else int (length str)),
                   ctx_line = int (count_list (take (nat start) str) newline),
                   ctx_pos = offset - start - 1\<rparr>)"

text \<open>
  What is logged, and how a function that may end the process ends: it goes on, the
  process exits (log.Fatal), or it panics.
\<close>

datatype log_entry =
    Reading string | ReadError string | DecodeError json_error
  | ErrorInLine int json_error | SourceLine string | Caret string | BadLevel string

datatype 'a ending = Continue 'a | Exit | Crash string

definition strings_repeat :: "string \<Rightarrow> int \<Rightarrow> string outcome" where
  "strings_repeat s n =
     (if n < 0 then Panic ''strings: negative Repeat count'' else Return (concat (replicate (nat n) s)))"

definition fatalSyntaxError :: "string \<Rightarrow> json_error \<Rightarrow> log_entry list \<times> 'a ending" where
  "fatalSyntaxError js err =
     (case err of
        TypeError t \<Rightarrow> ([DecodeError err], Exit)
      | SyntaxError offset msg \<Rightarrow>
          (case contextAtOffset js offset of
             Panic m \<Rightarrow> ([], Crash m)
           | Return ctx \<Rightarrow>
               let line = take (nat (ctx_end ctx - ctx_start ctx)) (drop (nat (ctx_start ctx)) js);
                   logged = [ErrorInLine (ctx_line ctx) err, SourceLine line]
               in case strings_repeat '' '' (ctx_pos ctx) of
                    Panic m \<Rightarrow> (logged, Crash m)
                  | Return pad \<Rightarrow> (logged @ [Caret (pad @ ''^'')], Exit)))"

definition parseConfigFile ::
  "(string \<Rightarrow> string + string) \<Rightarrow> (string \<Rightarrow> json_error + jdoc) \<Rightarrow> string \<Rightarrow> Config
     \<Rightarrow> log_entry list \<times> Config ending" where
  "parseConfigFile read_file parse cfgfile target =
     (case read_file cfgfile of
        Inl e \<Rightarrow> ([Reading cfgfile, ReadError e], Exit)
      | Inr raw \<Rightarrow>
          (case (case parse raw of Inl e \<Rightarrow> Inl e | Inr d \<Rightarrow> decode_config d target) of
             Inr c \<Rightarrow> ([Reading cfgfile], Continue c)
           | Inl e \<Rightarrow> (case fatalSyntaxError raw e of (ls, end) \<Rightarrow> (Reading cfgfile # ls, end))))"

section \<open>Command line and start (main.go)\<close>

definition default_config :: Config where
  "default_config = \<lparr>Listen = ''0.0.0.0'', Port = 17630, Key = ''/etc/hawk/hawk.key'',
     Cert = ''/etc/hawk/hawk.pem'', LogLevel = ''info'',
     Route = \<lparr>elems = [\<lparr>Handler = ''api/v1'', RoutePath = ''/api/v1'', Target = None\<rparr>], spare = []\<rparr>\<rparr>"

record flags =
  fl_listen :: string
  fl_port :: int
  fl_key :: string
  fl_cert :: string
  fl_loglevel :: string
  fl_config :: string

definition default_flags :: flags where
  "default_flags = \<lparr>fl_listen = Listen default_config, fl_port = Port default_config, fl_key = Key default_config,
     fl_cert = Cert default_config, fl_loglevel = LogLevel default_config, fl_config = []\<rparr>"

text \<open>strconv.ParseInt with base zero: a prefix 0x or 0 chooses the base.\<close>

definition hex_byte :: "char \<Rightarrow> bool" where
  "hex_byte c \<longleftrightarrow> digit_byte c \<or> (let n = of_char (lower_byte c) :: nat in 97 \<le> n \<and> n \<le> 102)"

definition octal_byte :: "char \<Rightarrow> bool" where
  "octal_byte c \<longleftrightarrow> digit_byte c \<and> (of_char c :: nat) < 56"

definition parse_int0 :: "string \<Rightarrow> int option" where
  "parse_int0 s =
     (let neg = (s \<noteq> [] \<and> hd s = CHR ''-'');
          ds = (if s \<noteq> [] \<and> (hd s = CHR ''-'' \<or> hd s = CHR ''+'') then tl s else s);
          v = (if 1 < length ds \<and> hd ds = CHR ''0'' \<and> lower_byte (ds ! 1) = CHR ''x''
               then (if 2 < length ds \<and> list_all hex_byte (drop 2 ds)
                     then Some (int (radix_value 16 (map lower_byte (drop 2 ds)))) else None)
               else if ds \<noteq> [] \<and> hd ds = CHR ''0''
               then (if list_all octal_byte ds then Some (int (radix_value 8 ds)) else None)
               else if ds \<noteq> [] \<and> list_all digit_byte ds then Some (int (radix_value 10 ds))
               else None)
      in case v of
           None \<Rightarrow> None
         | Some n \<Rightarrow> if neg then (if n \<le> 2 ^ 63 then Some (- n) else None)
                     else if n < 2 ^ 63 then Some n else None)"

definition set_flag :: "string \<Rightarrow> string \<Rightarrow> flags \<Rightarrow> flags option" where
  "set_flag name value fl =
     (if name = ''listen'' then Some (fl\<lparr>fl_listen := value\<rparr>)
      else if name = ''port'' then map_option (\<lambda>i. fl\<lparr>fl_port := i\<rparr>) (parse_int0 value)
      else if name = ''key'' then Some (fl\<lparr>fl_key := value\<rparr>)
      else if name = ''cert'' then Some (fl\<lparr>fl_cert := value\<rparr>)
      else if name = ''loglevel'' then Some (fl\<lparr>fl_loglevel := value\<rparr>)
      else if name = ''config'' then Some (fl\<lparr>fl_config := value\<rparr>)
      else None)"

text \<open>
  flag.Parse: flags up to the first other argument or a double dash; an error (or a
  request for help) ends the process.
\<close>

fun flag_parse :: "string list \<Rightarrow> flags \<Rightarrow> flags ending" where
  "flag_parse [] fl = Continue fl"
| "flag_parse (s # args) fl =
     (if s = [] \<or> hd s \<noteq> CHR ''-'' \<or> length s = 1 then Continue fl
      else if s = ''--'' then Continue fl
      else
        let name = (if s ! 1 = CHR ''-'' then drop 2 s else drop 1 s)
        in if hd name = CHR ''-'' \<or> hd name = CHR ''='' then Exit
           else
             let i = index_byte (tl name) (CHR ''='');
                 key = (if 0 \<le> i then take (nat i + 1) name else name)
             in if 0 \<le> i then
                  (case set_flag key (drop (nat i + 2) name) fl of
                     None \<Rightarrow> Exit | Some fl' \<Rightarrow> flag_parse args fl')
                else (case args of
                        [] \<Rightarrow> Exit
                      | v # args' \<Rightarrow>
                          (case set_flag key v fl of None \<Rightarrow> Exit | Some fl' \<Rightarrow> flag_parse args' fl')))"

text \<open>The merge: a flag counts when its value is not the default.\<close>

definition apply_flags :: "flags \<Rightarrow> Config \<Rightarrow> Config" where
  "apply_flags fl c =
     (let c1 = (if fl_listen fl \<noteq> ''0.0.0.0'' then c\<lparr>Listen := fl_listen fl\<rparr> else c);
          c2 = (if fl_port fl \<noteq> 17630 then c1\<lparr>Port := fl_port fl\<rparr> else c1);
          c3 = (if fl_key fl \<noteq> ''/etc/hawk/hawk.key'' then c2\<lparr>Key := fl_key fl\<rparr> else c2);
          c4 = (if fl_cert fl \<noteq> ''/etc/hawk/hawk.pem'' then c3\<lparr>Cert := fl_cert fl\<rparr> else c3)
      in if fl_loglevel fl \<noteq> ''info'' then c4\<lparr>LogLevel := fl_loglevel fl\<rparr> else c4)"

text \<open>
  main up to the point where the server listens: the configuration it runs with, the log
  level (\<open>parse_level\<close> is logrus.ParseLevel) and the address.
\<close>

record 'l start =
  st_config :: Config
  st_level :: 'l
  st_address :: string

definition main_start ::
  "(string \<Rightarrow> string + string) \<Rightarrow> (string \<Rightarrow> json_error + jdoc) \<Rightarrow> (string \<Rightarrow> 'l option) \<Rightarrow> 'l \<Rightarrow> string list
     \<Rightarrow> log_entry list \<times> 'l start ending" where
  "main_start read_file parse parse_level InfoLevel args =
     (case flag_parse args default_flags of
        Exit \<Rightarrow> ([], Exit)
      | Crash m \<Rightarrow> ([], Crash m)
      | Continue fl \<Rightarrow>
          (case (if fl_config fl \<noteq> [] then parseConfigFile read_file parse (fl_config fl) default_config
                 else ([], Continue default_config)) of
             (ls, Exit) \<Rightarrow> (ls, Exit)
           | (ls, Crash m) \<Rightarrow> (ls, Crash m)
           | (ls, Continue c) \<Rightarrow>
               let config = apply_flags fl c;
                   address = Listen config @ '':'' @ fmt_d (Port config)
               in case parse_level (LogLevel config) of
                    Some lvl \<Rightarrow> (ls, Continue \<lparr>st_config = config, st_level = lvl, st_address = address\<rparr>)
                  | None \<Rightarrow> (ls @ [BadLevel (LogLevel config)],
                      Continue \<lparr>st_config = config, st_level = InfoLevel, st_address = address\<rparr>)))"

section \<open>The error report\<close>

text \<open>The line of a text that ends at its first line break.\<close>

lemma takeWhile_plain: "c \<notin> set p \<Longrightarrow> takeWhile (\<lambda>x. x \<noteq> c) (p @ w) = p @ takeWhile (\<lambda>x. x \<noteq> c) w"
  by (induction p) auto

lemma line_end:
  "(if 0 \<le> index_byte w newline then index_byte w newline else int (length w)) =
     int (length (takeWhile (\<lambda>c. c \<noteq> newline) w))"
proof (cases "newline \<in> set w")
  case True
  then obtain p q where w: "w = p @ newline # q" and p: "newline \<notin> set p" by (meson split_list_first)
  then have "takeWhile (\<lambda>c. c \<noteq> newline) w = p" by (simp add: takeWhile_plain)
  with w p show ?thesis by (simp add: index_byte_first)
next
  case False
  then have "takeWhile (\<lambda>c. c \<noteq> newline) w = w" using takeWhile_plain [of newline w "[]"] by (simp del: takeWhile_eq_all_conv)
  then show ?thesis using False by (simp add: index_byte_absent del: takeWhile_eq_all_conv)
qed

lemma last_line_split: "\<exists>u v. t = u @ v \<and> newline \<notin> set v \<and> int (length u) = last_index_byte t newline + 1 \<and>
    (u = [] \<or> last u = newline)"
proof (cases "newline \<in> set t")
  case True
  then obtain u v where t: "t = u @ newline # v" and v: "newline \<notin> set v" by (meson split_list_last)
  then have "t = (u @ [newline]) @ v \<and> newline \<notin> set v \<and>
      int (length (u @ [newline])) = last_index_byte t newline + 1 \<and> last (u @ [newline]) = newline"
    using last_index_byte_last [OF v, of u] by simp
  then show ?thesis by blast
next
  case False
  then show ?thesis using last_index_byte_absent [of newline t] by auto
qed

text \<open>The text around an offset: what stands before the line, the line up to the offset, the rest.\<close>

lemma contextAtOffset_split:
  assumes "str = u @ v @ w" and "offset = int (length u + length v)" and "newline \<notin> set v"
    and "u = [] \<or> last u = newline"
  shows "contextAtOffset str offset = Return \<lparr>ctx_start = int (length u),
    ctx_end = int (length u + length v + length (takeWhile (\<lambda>c. c \<noteq> newline) w)),
    ctx_line = int (count_list u newline), ctx_pos = int (length v) - 1\<rparr>"
proof -
  have off: "nat offset = length (u @ v)" "\<not> offset < 0" "\<not> int (length str) < offset"
    using assms(1,2) by simp_all
  obtain u' v' where s: "u @ v = u' @ v'" "newline \<notin> set v'" "int (length u') = last_index_byte (u @ v) newline + 1"
    "u' = [] \<or> last u' = newline"
    using last_line_split [of "u @ v"] by blast
  have "u' = u"
  proof -
    from s(1) consider r where "u = u' @ r" "v' = r @ v" | r where "u' = u @ r" "v = r @ v'"
      by (metis append_eq_append_conv2)
    then show ?thesis
    proof cases
      case 1
      with s(2) assms(4) show ?thesis by (cases r rule: rev_cases) auto
    next
      case 2
      with assms(3) s(4) show ?thesis by (cases r rule: rev_cases) auto
    qed
  qed
  then have start: "last_index_byte (u @ v) newline + 1 = int (length u)" using s(3) by simp
  have "takeWhile (\<lambda>c. c \<noteq> newline) (v @ w) = v @ takeWhile (\<lambda>c. c \<noteq> newline) w"
    using assms(3) by (rule takeWhile_plain)
  with line_end [of "v @ w"] have "(if 0 \<le> index_byte (v @ w) newline then int (length u) + index_byte (v @ w) newline
      else int (length str)) = int (length u + length v + length (takeWhile (\<lambda>c. c \<noteq> newline) w))"
    using assms(1) by (auto split: if_splits)
  with off start assms(1,2) show ?thesis by (simp add: contextAtOffset_def Let_def split: if_splits)
qed

lemma offset_split:
  assumes "0 \<le> offset" and "offset \<le> int (length str)"
  obtains u v w where "str = u @ v @ w" and "offset = int (length u + length v)" and "newline \<notin> set v"
    and "u = [] \<or> last u = newline"
proof -
  obtain u v where uv: "take (nat offset) str = u @ v" and nl: "newline \<notin> set v" "u = [] \<or> last u = newline"
    using last_line_split by blast
  have "str = (u @ v) @ drop (nat offset) str" by (simp flip: uv)
  then have "str = u @ v @ drop (nat offset) str" by simp
  moreover have "length (u @ v) = nat offset" using assms by (simp flip: uv)
  then have "offset = int (length u + length v)" using assms(1) by simp
  ultimately show ?thesis using nl by (rule that)
qed

section \<open>Properties\<close>

text \<open>
  C35. The context of an offset inside the text: the line it reports has no line break,
  begins at the start of the text or after a line break, ends at the end of the text or
  before one, the offset lies in it or right behind it, and the line number counts the
  line breaks before it.
\<close>

theorem contextAtOffset_line:
  assumes "0 \<le> offset" and "offset \<le> int (length str)"
  shows "\<exists>pre line post. str = pre @ line @ post \<and> newline \<notin> set line \<and>
    (pre = [] \<or> last pre = newline) \<and> (post = [] \<or> hd post = newline) \<and>
    int (length pre) \<le> offset \<and> offset \<le> int (length pre + length line) \<and>
    contextAtOffset str offset = Return \<lparr>ctx_start = int (length pre), ctx_end = int (length pre + length line),
      ctx_line = int (count_list pre newline), ctx_pos = offset - int (length pre) - 1\<rparr>"
proof -
  obtain u v w where d: "str = u @ v @ w" "offset = int (length u + length v)" "newline \<notin> set v"
    "u = [] \<or> last u = newline"
    using offset_split [OF assms] by blast
  let ?t = "takeWhile (\<lambda>c. c \<noteq> newline) w" and ?d = "dropWhile (\<lambda>c. c \<noteq> newline) w"
  have "str = u @ (v @ ?t) @ ?d" using d(1) by simp
  moreover have "newline \<notin> set ?t" using set_takeWhileD [of newline _ w] by blast
  then have "newline \<notin> set (v @ ?t)" using d(3) by simp
  moreover have "?d = [] \<or> hd ?d = newline" using hd_dropWhile [of "\<lambda>c. c \<noteq> newline" w] by blast
  ultimately have "str = u @ (v @ ?t) @ ?d \<and> newline \<notin> set (v @ ?t) \<and> (u = [] \<or> last u = newline) \<and>
      (?d = [] \<or> hd ?d = newline) \<and> int (length u) \<le> offset \<and> offset \<le> int (length u + length (v @ ?t)) \<and>
      contextAtOffset str offset = Return \<lparr>ctx_start = int (length u), ctx_end = int (length u + length (v @ ?t)),
        ctx_line = int (count_list u newline), ctx_pos = offset - int (length u) - 1\<rparr>"
    using d(2,4) contextAtOffset_split [OF d] by simp
  then show ?thesis by (intro exI)
qed

theorem contextAtOffset_line_witness:
  "\<exists>ctx. contextAtOffset (''ab'' @ newline # ''cd'' @ [newline]) 5 = Return ctx \<and> ctx_pos ctx = 1"
proof -
  have "contextAtOffset (''ab'' @ newline # ''cd'' @ [newline]) 5 =
      Return \<lparr>ctx_start = 3, ctx_end = 5, ctx_line = 1, ctx_pos = 1\<rparr>" by code_simp
  with contextAtOffset_line [of 5 "''ab'' @ newline # ''cd'' @ [newline]"] show ?thesis by auto
qed

text \<open>
  C36. Reporting a syntax error crashes, before the column marker is printed, exactly
  when the offending byte is a line break or the offset is zero (as for an empty file):
  the marker's column is then -1. Otherwise the process exits with the marker under the
  offending byte.
\<close>

theorem fatalSyntaxError_crash:
  assumes "0 \<le> offset" and "offset \<le> int (length js)"
  shows "snd (fatalSyntaxError js (SyntaxError offset msg)) =
    (if offset = 0 \<or> js ! nat (offset - 1) = newline then Crash ''strings: negative Repeat count'' else Exit)"
proof -
  obtain u v w where d: "js = u @ v @ w" "offset = int (length u + length v)" "newline \<notin> set v"
    "u = [] \<or> last u = newline"
    using offset_split [OF assms] by blast
  have "v = [] \<longleftrightarrow> offset = 0 \<or> js ! nat (offset - 1) = newline"
  proof (cases v rule: rev_cases)
    case Nil
    show ?thesis
    proof (cases u rule: rev_cases)
      case (snoc u' c)
      with Nil d show ?thesis by (simp add: nth_append nat_diff_distrib)
    qed (use Nil d in simp)
  next
    case (snoc v' c)
    then have "nat (offset - 1) = length (u @ v')" using d(2) by simp
    then have "js ! nat (offset - 1) = c" using d(1) snoc by (simp add: nth_append)
    with snoc d(2,3) show ?thesis by auto
  qed
  then show ?thesis
    by (auto simp: fatalSyntaxError_def contextAtOffset_split [OF d] strings_repeat_def Let_def)
qed

theorem fatalSyntaxError_crash_witness:
  "snd (fatalSyntaxError [] (SyntaxError 0 ''unexpected end of JSON input'') :: log_entry list \<times> unit ending) =
     Crash ''strings: negative Repeat count''"
  using fatalSyntaxError_crash [of 0 "[]" "''unexpected end of JSON input''"] by simp

lemma main_start_running:
  assumes fl: "flag_parse args default_flags = Continue fl"
    and conf: "(if fl_config fl \<noteq> [] then parseConfigFile read_file parse (fl_config fl) default_config
                else ([], Continue default_config)) = (ls, Continue c)"
  shows "\<exists>ls' st. main_start read_file parse parse_level InfoLevel args = (ls', Continue st) \<and>
    st_config st = apply_flags fl c \<and>
    st_address st = Listen (st_config st) @ '':'' @ fmt_d (Port (st_config st))"
  by (cases "parse_level (LogLevel (apply_flags fl c))") (simp_all add: main_start_def fl conf Let_def)

section \<open>Flags and file\<close>

text \<open>The options of the command line, and the settings they stand for as text.\<close>

datatype flag_name = FListen | FPort | FKey | FCert | FLoglevel | FConfig

fun flag_key :: "flag_name \<Rightarrow> string" where
  "flag_key FListen = ''listen''"
| "flag_key FPort = ''port''"
| "flag_key FKey = ''key''"
| "flag_key FCert = ''cert''"
| "flag_key FLoglevel = ''loglevel''"
| "flag_key FConfig = ''config''"

fun setting :: "flag_name \<Rightarrow> Config \<Rightarrow> string" where
  "setting FListen c = Listen c"
| "setting FPort c = fmt_d (Port c)"
| "setting FKey c = Key c"
| "setting FCert c = Cert c"
| "setting FLoglevel c = LogLevel c"
| "setting FConfig c = []"

fun flag_text :: "flag_name \<Rightarrow> flags \<Rightarrow> string" where
  "flag_text FListen fl = fl_listen fl"
| "flag_text FPort fl = fmt_d (fl_port fl)"
| "flag_text FKey fl = fl_key fl"
| "flag_text FCert fl = fl_cert fl"
| "flag_text FLoglevel fl = fl_loglevel fl"
| "flag_text FConfig fl = fl_config fl"

definition value_text :: "flag_name \<Rightarrow> string \<Rightarrow> string" where
  "value_text n v = (if n = FPort then fmt_d (the (parse_int0 v)) else v)"

definition valid_option :: "flag_name \<times> string \<Rightarrow> bool" where
  "valid_option e \<longleftrightarrow> (case e of (n, v) \<Rightarrow> n = FPort \<longrightarrow> parse_int0 v \<noteq> None)"

definition command_line :: "(flag_name \<times> string) list \<Rightarrow> string list" where
  "command_line opts = concat (map (\<lambda>(n, v). [CHR ''-'' # flag_key n, v]) opts)"

lemma fmt_d_inject: "fmt_d i = fmt_d j \<longleftrightarrow> i = j"
proof -
  have no_dash: "CHR ''-'' \<notin> set (radix_text 10 n)" for n
    by (rule radix_text_no_dash) simp_all
  have "fmt_d i = fmt_d j \<Longrightarrow> i = j"
    using no_dash [of "nat \<bar>i\<bar>"] no_dash [of "nat \<bar>j\<bar>"]
    by (auto simp: fmt_d_def radix_text_inject split: if_splits) (metis list.set_intros(1))+
  then show ?thesis by blast
qed

lemma flag_key_plain:
  "flag_key n \<noteq> []" "hd (flag_key n) \<noteq> CHR ''-''" "hd (flag_key n) \<noteq> CHR ''=''" "index_byte (tl (flag_key n)) (CHR ''='') = - 1"
  by (cases n; simp add: index_byte_def)+

lemma set_flag_text:
  assumes "valid_option (m, v)"
  shows "\<exists>fl'. set_flag (flag_key m) v fl = Some fl' \<and>
    (\<forall>n. flag_text n fl' = (if n = m then value_text m v else flag_text n fl))"
proof -
  have port: "m = FPort \<Longrightarrow> \<exists>i. parse_int0 v = Some i" using assms by (auto simp: valid_option_def)
  obtain fl' where fl': "set_flag (flag_key m) v fl = Some fl'"
    using port by (cases m) (auto simp: set_flag_def)
  moreover have "flag_text n fl' = (if n = m then value_text m v else flag_text n fl)" for n
    using fl' port by (cases m; cases n) (auto simp: set_flag_def value_text_def)
  ultimately show ?thesis by blast
qed

text \<open>After the whole command line each flag has the last value given for it, or else its default.\<close>

lemma flag_parse_options:
  assumes "list_all valid_option opts"
  shows "\<exists>fl'. flag_parse (command_line opts) fl = Continue fl' \<and>
    (\<forall>n. flag_text n fl' = (case map_of (rev opts) n of Some v \<Rightarrow> value_text n v | None \<Rightarrow> flag_text n fl))"
  using assms
proof (induction opts arbitrary: fl)
  case (Cons e opts)
  obtain m v where e: "e = (m, v)" by (cases e)
  with Cons.prems have "valid_option (m, v)" by simp
  from set_flag_text [OF this, of fl] obtain fl1 where fl1: "set_flag (flag_key m) v fl = Some fl1"
    "\<And>n. flag_text n fl1 = (if n = m then value_text m v else flag_text n fl)" by blast
  from Cons.IH [of fl1] Cons.prems obtain fl' where fl': "flag_parse (command_line opts) fl1 = Continue fl'"
    "\<And>n. flag_text n fl' = (case map_of (rev opts) n of Some v \<Rightarrow> value_text n v | None \<Rightarrow> flag_text n fl1)" by auto
  have "flag_parse (command_line (e # opts)) fl = flag_parse (command_line opts) fl1"
    using flag_key_plain [of m] fl1(1) by (cases "flag_key m") (simp_all add: e command_line_def Let_def)
  with fl' fl1(2) show ?case by (auto simp: e map_add_def split: option.splits)
qed (simp add: command_line_def)

lemma apply_flags_setting:
  "n \<noteq> FConfig \<Longrightarrow> setting n (apply_flags fl c) =
     (if flag_text n fl = setting n default_config then setting n c else flag_text n fl)"
  by (cases n) (simp_all add: apply_flags_def default_config_def fmt_d_inject Let_def)

text \<open>What the server runs with, for any command line and any file that can be read.\<close>

lemma main_start_setting:
  assumes opts: "list_all valid_option opts"
    and conf: "(case map_of (rev opts) FConfig of
        Some f \<Rightarrow> if f \<noteq> [] then parseConfigFile read_file parse f default_config else ([], Continue default_config)
      | None \<Rightarrow> ([], Continue default_config)) = (ls, Continue c)"
    and n: "n \<noteq> FConfig"
  shows "\<exists>ls' st. main_start read_file parse parse_level InfoLevel (command_line opts) = (ls', Continue st) \<and>
    setting n (st_config st) = (case map_of (rev opts) n of
        Some v \<Rightarrow> if value_text n v = setting n default_config then setting n c else value_text n v
      | None \<Rightarrow> setting n c)"
proof -
  obtain fl where fl: "flag_parse (command_line opts) default_flags = Continue fl"
    "\<And>n. flag_text n fl = (case map_of (rev opts) n of Some v \<Rightarrow> value_text n v | None \<Rightarrow> flag_text n default_flags)"
    using flag_parse_options [OF opts] by blast
  have "fl_config fl = (case map_of (rev opts) FConfig of Some f \<Rightarrow> f | None \<Rightarrow> [])"
    using fl(2) [of FConfig] by (simp add: value_text_def default_flags_def split: option.splits)
  then have "(if fl_config fl \<noteq> [] then parseConfigFile read_file parse (fl_config fl) default_config
      else ([], Continue default_config)) = (ls, Continue c)"
    using conf by (simp split: option.splits if_splits)
  from main_start_running [OF fl(1) this, of parse_level InfoLevel] obtain ls' st where
    st: "main_start read_file parse parse_level InfoLevel (command_line opts) = (ls', Continue st)" "st_config st = apply_flags fl c"
    by blast
  have "flag_text n default_flags = setting n default_config"
    using n by (cases n) (simp_all add: default_flags_def)
  then have "setting n (st_config st) = (case map_of (rev opts) n of
      Some v \<Rightarrow> if value_text n v = setting n default_config then setting n c else value_text n v | None \<Rightarrow> setting n c)"
    using apply_flags_setting [OF n] fl(2) st(2) by (simp split: option.splits)
  with st(1) show ?thesis by blast
qed

text \<open>
  C33. Precedence, as README promises it, with one restriction. For each of the five
  settings: when the command line gives it, the last value given there is what the
  server runs with, whatever the configuration file says, provided that this value is
  not the built-in default; when the command line does not give it, the file's value
  counts. (With the built-in default as its value an option has no effect.)
\<close>

theorem command_line_precedence:
  assumes opts: "list_all valid_option opts"
    and conf: "(case map_of (rev opts) FConfig of
        Some f \<Rightarrow> if f \<noteq> [] then parseConfigFile read_file parse f default_config else ([], Continue default_config)
      | None \<Rightarrow> ([], Continue default_config)) = (ls, Continue c)"
    and n: "n \<noteq> FConfig" and v: "\<And>v. map_of (rev opts) n = Some v \<Longrightarrow> value_text n v \<noteq> setting n default_config"
  shows "\<exists>ls' st. main_start read_file parse parse_level InfoLevel (command_line opts) = (ls', Continue st) \<and>
    setting n (st_config st) = (case map_of (rev opts) n of Some v \<Rightarrow> value_text n v | None \<Rightarrow> setting n c)"
proof (cases "map_of (rev opts) n")
  case None
  with main_start_setting [OF opts conf n] show ?thesis by simp
next
  case (Some u)
  with main_start_setting [OF opts conf n] v [OF Some] show ?thesis by simp
qed

theorem command_line_precedence_witness:
  "\<exists>ls st. main_start (\<lambda>_. Inr ''{}'') (\<lambda>_. Inr (DObj [(''key'', DStr ''k.pem'')])) (\<lambda>_. Some ()) ()
     (command_line [(FKey, ''a.pem''), (FConfig, ''hawk.json''), (FKey, ''b.pem'')]) = (ls, Continue st) \<and>
     Key (st_config st) = ''b.pem''"
proof -
  have "json_field config_names ''key'' = Some ''key''" by code_simp
  then have "parseConfigFile (\<lambda>_. Inr ''{}'') (\<lambda>_. Inr (DObj [(''key'', DStr ''k.pem'')])) ''hawk.json'' default_config =
      ([Reading ''hawk.json''], Continue (default_config\<lparr>Key := ''k.pem''\<rparr>))"
    by (simp add: parseConfigFile_def decode_config_def config_member_def decode_string_def map_sum_right_def)
  then show ?thesis
    using command_line_precedence [of "[(FKey, ''a.pem''), (FConfig, ''hawk.json''), (FKey, ''b.pem'')]" "\<lambda>_. Inr ''{}''"
        "\<lambda>_. Inr (DObj [(''key'', DStr ''k.pem'')])" "[Reading ''hawk.json'']" "default_config\<lparr>Key := ''k.pem''\<rparr>" FKey
        "\<lambda>_. Some ()" "()"]
    by (simp add: valid_option_def value_text_def default_config_def)
qed

text \<open>
  C40. README's "takes precedence" fails for one value of each setting: an option given
  explicitly whose value is the built-in default loses against the configuration file,
  for each of the five settings, wherever on the command line it stands.
\<close>

theorem explicit_default_flag_ignored:
  assumes opts: "list_all valid_option opts"
    and conf: "map_of (rev opts) FConfig = Some f" "f \<noteq> []"
      "parseConfigFile read_file parse f default_config = (ls, Continue c)"
    and n: "n \<noteq> FConfig" and v: "map_of (rev opts) n = Some v" "value_text n v = setting n default_config"
  shows "\<exists>ls' st. main_start read_file parse parse_level InfoLevel (command_line opts) = (ls', Continue st) \<and>
    setting n (st_config st) = setting n c"
  using main_start_setting [OF opts _ n, where read_file = read_file and parse = parse and ls = ls and c = c
      and parse_level = parse_level and InfoLevel = InfoLevel] conf v by simp

theorem explicit_default_flag_ignored_witness:
  "\<exists>ls st. main_start (\<lambda>_. Inr ''{}'') (\<lambda>_. Inr (DObj [(''port'', DNum ''7630'')])) (\<lambda>_. Some ()) ()
     (command_line [(FPort, ''17630''), (FConfig, ''hawk.json'')]) = (ls, Continue st) \<and>
     Port (st_config st) = 7630"
proof -
  have port: "parse_int0 ''17630'' = Some 17630" "parse_int64 ''7630'' = Some 7630" by code_simp+
  have "config_member ''port'' (DNum ''7630'') default_config = Inr (default_config\<lparr>Port := 7630\<rparr>)"
    using port(2) by (simp add: config_member_def decode_int_def map_sum_right_def)
  then have "parseConfigFile (\<lambda>_. Inr ''{}'') (\<lambda>_. Inr (DObj [(''port'', DNum ''7630'')])) ''hawk.json'' default_config =
      ([Reading ''hawk.json''], Continue (default_config\<lparr>Port := 7630\<rparr>))"
    by (simp add: parseConfigFile_def decode_config_def json_field_def config_names_def)
  note conf = this
  have opts: "list_all valid_option [(FPort, ''17630''), (FConfig, ''hawk.json'')]"
    using port(1) by (simp add: valid_option_def)
  have v: "value_text FPort ''17630'' = setting FPort default_config"
    using port(1) by (simp add: value_text_def default_config_def)
  from explicit_default_flag_ignored [OF opts _ _ conf _ _ v, where parse_level = "\<lambda>_. Some ()" and InfoLevel = "()"]
  show ?thesis by (simp add: fmt_d_inject)
qed

section \<open>Routes from the file\<close>

lemma map_sum_right_Inr: "map_sum_right f r = Inr b \<longleftrightarrow> (\<exists>a. r = Inr a \<and> b = f a)"
  by (cases r) (auto simp: map_sum_right_def)

lemma route_member_handler:
  assumes "route_member n d rt = Inr rt'" and "n \<noteq> ''handler''"
  shows "Handler rt' = Handler rt"
proof (cases "n = ''path''")
  case True
  with assms(1) have "map_sum_right (\<lambda>s. rt\<lparr>RoutePath := s\<rparr>) (decode_string d (RoutePath rt)) = Inr rt'"
    by (simp add: route_member_def)
  then show ?thesis unfolding map_sum_right_Inr by (elim exE conjE) simp
next
  case False
  have "route_member n d rt = map_sum_right (\<lambda>s. rt\<lparr>Target := s\<rparr>) (decode_string_ptr d (Target rt))"
    unfolding route_member_def by (simp only: assms(2) False if_False)
  with assms(1) have "map_sum_right (\<lambda>s. rt\<lparr>Target := s\<rparr>) (decode_string_ptr d (Target rt)) = Inr rt'" by simp
  then show ?thesis unfolding map_sum_right_Inr by (elim exE conjE) simp
qed

lemma route_members_handler:
  "route_members ms rt = Inr rt' \<Longrightarrow> list_all (\<lambda>(k, d). json_field route_names k \<noteq> Some ''handler'') ms \<Longrightarrow>
     Handler rt' = Handler rt"
proof (induction ms rt arbitrary: rt' rule: route_members.induct)
  case (2 k d ms rt)
  let ?step = "case json_field route_names k of None \<Rightarrow> Inr rt | Some n \<Rightarrow> route_member n d rt"
  from "2.prems"(1) obtain rt1 where rt1: "?step = Inr rt1" "route_members ms rt1 = Inr rt'"
    by (cases ?step) auto
  have "Handler rt' = Handler rt1"
    by (rule "2.IH" [OF rt1]) (use "2.prems"(2) in simp)
  also have "Handler rt1 = Handler rt"
    using rt1(1) "2.prems"(2) route_member_handler [of _ d rt rt1] by (cases "json_field route_names k") auto
  finally show ?case .
qed simp

lemma decode_routes_elems:
  "decode_routes (DArr ds) old = Inr sl \<Longrightarrow> decode_elems ds (elems old @ spare old) = Inr (elems sl)"
  by (auto simp: decode_routes_def map_sum_right_def Let_def split: sum.splits if_splits)

lemma decode_elems_nth:
  "decode_elems ds old = Inr rts \<Longrightarrow> length rts = length ds \<and>
     (\<forall>i < length ds. decode_route (ds ! i) (if i < length old then old ! i else zero_route) = Inr (rts ! i))"
proof (induction ds old arbitrary: rts rule: decode_elems.induct)
  case (2 d ds old)
  then obtain rt rts' where r: "decode_route d (case old of [] \<Rightarrow> zero_route | rt # _ \<Rightarrow> rt) = Inr rt"
    "decode_elems ds (tl old) = Inr rts'" "rts = rt # rts'"
    by (auto simp: map_sum_right_def split: sum.splits)
  from "2.IH" [OF r(1,2)] r show ?case
    by (cases old) (auto simp: nth_Cons split: nat.splits)
qed simp

lemma config_members_append:
  "config_members (ms @ ms') c = (case config_members ms c of Inl e \<Rightarrow> Inl e | Inr c' \<Rightarrow> config_members ms' c')"
  by (induction ms c rule: config_members.induct) (auto split: sum.splits)

lemma config_member_route: "config_member n d c = Inr c' \<Longrightarrow> n \<in> set config_names \<Longrightarrow> n \<noteq> ''route'' \<Longrightarrow> Route c' = Route c"
  by (auto simp: config_member_def config_names_def map_sum_right_Inr)

lemma json_field_known: "json_field names k = Some n \<Longrightarrow> n \<in> set names"
  by (auto simp: json_field_def find_Some_iff split: if_splits option.splits)

lemma config_members_route:
  "config_members ms c = Inr c' \<Longrightarrow> list_all (\<lambda>(k, d). json_field config_names k \<noteq> Some ''route'') ms \<Longrightarrow> Route c' = Route c"
proof (induction ms c arbitrary: c' rule: config_members.induct)
  case (2 k d ms c)
  let ?step = "case json_field config_names k of None \<Rightarrow> Inr c | Some n \<Rightarrow> config_member n d c"
  from "2.prems"(1) obtain c1 where c1: "?step = Inr c1" "config_members ms c1 = Inr c'" by (cases ?step) auto
  have "Route c' = Route c1" by (rule "2.IH" [OF c1]) (use "2.prems"(2) in simp)
  also have "Route c1 = Route c"
    using c1(1) "2.prems"(2) config_member_route [of _ d c c1] json_field_known [of config_names k]
    by (cases "json_field config_names k") auto
  finally show ?case .
qed simp

text \<open>
  C34. Routes of the file. A configuration file with one list of routes, among whatever
  other members, replaces the route table by as many routes; but the first is decoded
  over the built-in API route, so without a handler of its own it is an API route, while
  a later one without a handler has none.
\<close>

theorem config_routes_handlers:
  assumes dec: "decode_config (DObj (pre @ (key, DArr (map DObj mss)) # post)) default_config = Inr c"
    and key: "json_field config_names key = Some ''route''"
    and others: "list_all (\<lambda>(k, d). json_field config_names k \<noteq> Some ''route'') (pre @ post)"
  shows "length (elems (Route c)) = length mss \<and>
    (\<forall>i < length mss.
       list_all (\<lambda>(k, d). json_field route_names k \<noteq> Some ''handler'') (mss ! i) \<longrightarrow>
       Handler (elems (Route c) ! i) = (if i = 0 then ''api/v1'' else []))"
proof -
  let ?old = "[\<lparr>Handler = ''api/v1'', RoutePath = ''/api/v1'', Target = None\<rparr>]"
  from dec obtain c1 c2 where c: "config_members pre default_config = Inr c1"
    "config_member ''route'' (DArr (map DObj mss)) c1 = Inr c2" "config_members post c2 = Inr c"
    by (auto simp: decode_config_def config_members_append key split: sum.splits)
  have "Route c1 = Route default_config" "Route c = Route c2"
    using config_members_route [OF c(1)] config_members_route [OF c(3)] others by simp_all
  with c(2) obtain sl where sl: "decode_routes (DArr (map DObj mss)) (Route default_config) = Inr sl" "Route c = sl"
    by (auto simp: config_member_def map_sum_right_Inr)
  then obtain rts where rts: "decode_elems (map DObj mss) ?old = Inr rts" "elems sl = rts"
    using decode_routes_elems [OF sl(1)] by (simp add: default_config_def)
  from decode_elems_nth [OF rts(1)] have len: "length rts = length mss"
    and el: "\<And>i. i < length mss \<Longrightarrow>
      route_members (mss ! i) (if i < 1 then ?old ! i else zero_route) = Inr (rts ! i)"
    by (auto simp: decode_route_def)
  show ?thesis
  proof (intro conjI allI impI)
    fix i assume i: "i < length mss"
      and h: "list_all (\<lambda>(k, d). json_field route_names k \<noteq> Some ''handler'') (mss ! i)"
    from route_members_handler [OF el [OF i] h] rts(2) sl(2)
    show "Handler (elems (Route c) ! i) = (if i = 0 then ''api/v1'' else [])"
      by (auto simp: zero_route_def split: if_splits)
  qed (simp add: len rts(2) sl(2))
qed

theorem config_routes_handlers_witness:
  "\<exists>c. decode_config (DObj ([(''port'', DNum ''7630'')] @
         (''route'', DArr (map DObj [[(''path'', DStr ''/v2'')], [(''path'', DStr ''/'')]])) # [(''listen'', DStr ''::1'')]))
       default_config = Inr c \<and> length (elems (Route c)) = 2 \<and> Handler (elems (Route c) ! 0) = ''api/v1'' \<and>
     Handler (elems (Route c) ! 1) = []"
proof -
  let ?mss = "[[(''path'', DStr ''/v2'')], [(''path'', DStr ''/'')]]"
  let ?doc = "DObj ([(''port'', DNum ''7630'')] @ (''route'', DArr (map DObj ?mss)) # [(''listen'', DStr ''::1'')])"
  have k: "json_field route_names ''path'' = Some ''path''" "json_field config_names ''route'' = Some ''route''"
    "json_field config_names ''port'' = Some ''port''" "json_field config_names ''listen'' = Some ''listen''"
    by code_simp+
  have "\<not> isl (decode_config ?doc default_config)" by code_simp
  then obtain c where c: "decode_config ?doc default_config = Inr c" by (metis sum.disc(1) sumE)
  note r = config_routes_handlers [OF c k(2)]
  have "length (elems (Route c)) = 2" "Handler (elems (Route c) ! 0) = ''api/v1''" "Handler (elems (Route c) ! 1) = []"
    using r [THEN conjunct1] r [THEN conjunct2, rule_format, of 0] r [THEN conjunct2, rule_format, of 1] by (simp_all add: k)
  with c show ?thesis by blast
qed

end
