(* ===== verification/Go_Url.thy ===== *)
theory Go_Url
  imports Go_Strings Http
begin

text \<open>
  The part of package net/url the program uses: escaping and URL.String.
\<close>

datatype encoding_mode = EncodePath | EncodeHost | EncodeUserPassword | EncodeFragment

definition single_quote :: char where
  "single_quote = CHR 0x27"

definition shouldEscape :: "char \<Rightarrow> encoding_mode \<Rightarrow> bool" where
  "shouldEscape c mode =
     (if alnum_byte c then False
      else if mode = EncodeHost \<and> (c \<in> set ''!$&()*+,;=:[]<>'' \<or> c = single_quote \<or> c = dquote) then False
      else if c \<in> set ''-_.~'' then False
      else if c \<in> set ''$&+,/:;=?@'' then
        (case mode of
           EncodePath \<Rightarrow> c = CHR ''?''
         | EncodeUserPassword \<Rightarrow> c \<in> set ''@/?:''
         | EncodeFragment \<Rightarrow> False
         | EncodeHost \<Rightarrow> True)
      else if mode = EncodeFragment \<and> c \<in> set ''!()*'' then False
      else True)"

definition hex_upper :: "nat \<Rightarrow> char" where
  "hex_upper d = char_of (if d < 10 then 48 + d else 55 + d)"

definition percent_byte :: "char \<Rightarrow> string" where
  "percent_byte c = [CHR ''%'', hex_upper (of_char c div 16), hex_upper (of_char c mod 16)]"

definition escape :: "encoding_mode \<Rightarrow> string \<Rightarrow> string" where
  "escape mode s = concat (map (\<lambda>c. if shouldEscape c mode then percent_byte c else [c]) s)"

definition hex_value :: "char \<Rightarrow> nat option" where
  "hex_value c =
     (let n = of_char c in
      if 48 \<le> n \<and> n \<le> 57 then Some (n - 48)
      else if 97 \<le> n \<and> n \<le> 102 then Some (n - 87)
      else if 65 \<le> n \<and> n \<le> 70 then Some (n - 55)
      else None)"

fun unescape :: "string \<Rightarrow> string option" where
  "unescape [] = Some []"
| "unescape (c # s) =
     (if c = CHR ''%'' then
        (case s of
           a # b # t \<Rightarrow>
             (case (hex_value a, hex_value b) of
                (Some x, Some y) \<Rightarrow> map_option (\<lambda>r. char_of (16 * x + y) # r) (unescape t)
              | _ \<Rightarrow> None)
         | _ \<Rightarrow> None)
      else map_option (\<lambda>r. c # r) (unescape s))"

definition validEncodedPath :: "string \<Rightarrow> bool" where
  "validEncodedPath s =
     list_all (\<lambda>c. c \<in> set ''!$&()*+,;=:@[]%'' \<or> c = single_quote \<or> \<not> shouldEscape c EncodePath) s"

definition EscapedPath :: "url \<Rightarrow> string" where
  "EscapedPath u =
     (if RawPath u \<noteq> [] \<and> validEncodedPath (RawPath u) \<and> unescape (RawPath u) = Some (Path u) then RawPath u
      else if Path u = ''*'' then ''*''
      else escape EncodePath (Path u))"

definition userinfo_String :: "userinfo \<Rightarrow> string" where
  "userinfo_String ui =
     escape EncodeUserPassword (username ui) @
       (case password ui of None \<Rightarrow> [] | Some pw \<Rightarrow> '':'' @ escape EncodeUserPassword pw)"

definition url_String :: "url \<Rightarrow> string" where
  "url_String u =
     (let sch = (if Scheme u \<noteq> [] then Scheme u @ '':'' else []);
          rest =
            (if Opaque u \<noteq> [] then sch @ Opaque u
             else
               let auth = (if Scheme u \<noteq> [] \<or> Host u \<noteq> [] \<or> User u \<noteq> None
                           then ''//'' @ (case User u of None \<Rightarrow> [] | Some ui \<Rightarrow> userinfo_String ui @ ''@'')
                                @ escape EncodeHost (Host u)
                           else []);
                   path = EscapedPath u;
                   slash = (if path \<noteq> [] \<and> hd path \<noteq> CHR ''/'' \<and> Host u \<noteq> [] then ''/'' else []);
                   dot = (if sch @ auth @ slash = [] \<and> CHR '':'' \<in> set path \<and>
                             CHR ''/'' \<notin> set (takeWhile (\<lambda>c. c \<noteq> CHR '':'') path) then ''./'' else [])
               in sch @ auth @ slash @ dot @ path)
      in rest @ (if ForceQuery u \<or> RawQuery u \<noteq> [] then ''?'' @ RawQuery u else []) @
           (if Fragment u \<noteq> [] then ''#'' @ escape EncodeFragment (Fragment u) else []))"

section \<open>Escaping can be undone\<close>

lemma hex_value_upper [simp]:
  assumes "d < 16"
  shows "hex_value (hex_upper d) = Some d"
  using assms by (cases "d < 10") (simp_all add: hex_value_def hex_upper_def Let_def)

lemma percent_escaped: "shouldEscape CHR ''%'' mode"
proof -
  have "\<not> alnum_byte CHR ''%''" by code_simp
  then show ?thesis by (cases mode) (simp_all add: shouldEscape_def single_quote_def)
qed

lemma byte_nibbles: "of_char (c :: char) div 16 < (16 :: nat)" "16 * (of_char c div 16) + of_char c mod 16 = (of_char c :: nat)"
  by (simp_all add: div_less_iff_less_mult)

lemma unescape_escape_append: "unescape (escape mode s @ t) = map_option (\<lambda>r. s @ r) (unescape t)"
proof (induction s)
  case Nil
  then show ?case by (simp add: escape_def option.map_ident)
next
  case (Cons c s)
  show ?case
  proof (cases "shouldEscape c mode")
    case True
    then have "escape mode (c # s) @ t = CHR ''%'' # hex_upper (of_char c div 16) # hex_upper (of_char c mod 16) # (escape mode s @ t)"
      by (simp add: escape_def percent_byte_def)
    with Cons.IH show ?thesis by (simp add: byte_nibbles option.map_comp comp_def)
  next
    case False
    then have "c \<noteq> CHR ''%''" using percent_escaped by auto
    with False Cons.IH show ?thesis by (simp add: escape_def option.map_comp comp_def)
  qed
qed

lemma unescape_escape: "unescape (escape mode s) = Some s"
  using unescape_escape_append [of mode s "[]"] by simp

lemma shouldEscape_slash: "\<not> shouldEscape CHR ''/'' EncodePath"
  by code_simp

lemma EscapedPath_unescape: "unescape (EscapedPath u) = Some (Path u)"
proof -
  have "unescape ''*'' = Some ''*''" by code_simp
  then show ?thesis by (simp add: EscapedPath_def unescape_escape)
qed

lemma escape_plain: "list_all (\<lambda>c. \<not> shouldEscape c mode) s \<Longrightarrow> escape mode s = s"
  by (induction s) (simp_all add: escape_def)

text \<open>An encoding is no shorter than what it encodes, and has no slashes of its own.\<close>

lemma unescape_shape:
  "unescape e = Some q \<Longrightarrow> length q \<le> length e \<and> count_list e (CHR ''/'') \<le> count_list q (CHR ''/'')"
proof (induction e arbitrary: q rule: unescape.induct)
  case (2 c s)
  show ?case
  proof (cases "c = CHR ''%''")
    case True
    with "2.prems" obtain a b t x y r where s: "s = a # b # t" "hex_value a = Some x" "hex_value b = Some y"
        and r: "unescape t = Some r" "q = char_of (16 * x + y) # r"
      by (auto split: list.splits option.splits)
    have "hex_value CHR ''/'' = None" by (simp add: hex_value_def)
    with s(2,3) have "a \<noteq> CHR ''/''" "b \<noteq> CHR ''/''" by auto
    with "2.IH"(1) [OF True s(1) refl refl s(2,3) r(1)] True s(1) r(2) show ?thesis by auto
  next
    case False
    with "2.prems" obtain r where "unescape s = Some r" "q = c # r" by auto
    with "2.IH"(2) [OF False] show ?thesis by auto
  qed
qed simp

text \<open>So an encoding that differs from its path is no prefix of the path with more segments after it.\<close>

lemma encoding_no_prefix:
  assumes "unescape e = Some q" and "hasPrefix (q @ CHR ''/'' # t) e"
  shows "e = q"
proof -
  note shape = unescape_shape [OF assms(1)]
  obtain z where z: "q @ CHR ''/'' # t = e @ z" using assms(2) by (auto simp: hasPrefix_iff)
  then obtain d where d: "e = q @ d" using shape by (auto simp: append_eq_append_conv2)
  with z have "CHR ''/'' # t = d @ z" by simp
  with d shape show ?thesis by (cases d) auto
qed

end
