(* ===== verification/Redirect.thy ===== *)
theory Redirect
  imports Config Go_Url
begin

text \<open>
  redirect.go: one port for HTTP and HTTPS. A listener that looks at the first bytes of
  a connection to tell TLS from plain HTTP, the connection that gives those bytes back
  to its reader, the handler that redirects plain requests, and the start of the server.
\<close>

section \<open>Connections\<close>

text \<open>
  A network connection as its reader sees it: the chunks that will arrive, and what
  happens after the last: the peer goes silent with the connection open, or it closes.
\<close>

datatype conn_end = Silent | Closed

record Conn =
  buf :: bytes
  incoming :: "bytes list"
  ending_of :: conn_end

definition new_reader :: "bytes list \<Rightarrow> conn_end \<Rightarrow> Conn" where
  "new_reader cs e = \<lparr>buf = [], incoming = cs, ending_of = e\<rparr>"

text \<open>
  bufio.Reader.Peek: read until enough is buffered. No value when it waits for ever; an
  inner None when the connection ends first.
\<close>

fun peek_loop :: "nat \<Rightarrow> bytes \<Rightarrow> bytes list \<Rightarrow> conn_end \<Rightarrow> (bytes option \<times> Conn) option" where
  "peek_loop n b [] e =
     (if n \<le> length b then Some (Some (take n b), \<lparr>buf = b, incoming = [], ending_of = e\<rparr>)
      else case e of
        Silent \<Rightarrow> None
      | Closed \<Rightarrow> Some (None, \<lparr>buf = b, incoming = [], ending_of = e\<rparr>))"
| "peek_loop n b (c # cs) e =
     (if n \<le> length b then Some (Some (take n b), \<lparr>buf = b, incoming = c # cs, ending_of = e\<rparr>)
      else peek_loop n (b @ c) cs e)"

definition peek :: "nat \<Rightarrow> Conn \<Rightarrow> (bytes option \<times> Conn) option" where
  "peek n c = peek_loop n (buf c) (incoming c) (ending_of c)"

text \<open>Conn.Read: from the buffer while it has bytes, else one arrival. No value when it waits.\<close>

definition Conn_Read :: "nat \<Rightarrow> Conn \<Rightarrow> (bytes \<times> Conn) option" where
  "Conn_Read n c =
     (if n = 0 then Some ([], c)
      else if buf c \<noteq> [] then Some (take n (buf c), c\<lparr>buf := drop n (buf c)\<rparr>)
      else case incoming c of
        ch # cs \<Rightarrow> Some (take n ch, c\<lparr>buf := drop n ch, incoming := cs\<rparr>)
      | [] \<Rightarrow> (case ending_of c of Silent \<Rightarrow> None | Closed \<Rightarrow> Some ([], c)))"

definition stream :: "Conn \<Rightarrow> bytes" where
  "stream c = buf c @ concat (incoming c)"

section \<open>SplitListener.Accept\<close>

datatype accepted = TLSServer Conn | PlainConn Conn

definition looks_like_tls :: "bytes \<Rightarrow> bool" where
  "looks_like_tls hdr =
     (if hdr ! 0 = CHR 0x16 \<and> hdr ! 1 = CHR 0x03 \<and> hdr ! 5 = CHR 0x01 then True
      else if hdr ! 0 = CHR 0x80 then True
      else False)"

definition SplitListener_Accept :: "go_error + Conn \<Rightarrow> (go_error + accepted) option" where
  "SplitListener_Accept r =
     (case r of
        Inl e \<Rightarrow> Some (Inl e)
      | Inr c \<Rightarrow>
          (case peek 6 c of
             None \<Rightarrow> None
           | Some (None, c') \<Rightarrow> Some (Inr (TLSServer c'))
           | Some (Some hdr, c') \<Rightarrow>
               if looks_like_tls hdr then Some (Inr (TLSServer c')) else Some (Inr (PlainConn c'))))"

text \<open>
  The accept loop of http.Server: connections are accepted one after the other, and the
  next only when Accept has returned. A temporary error is retried, another ends the loop.
\<close>

fun accept_loop :: "(go_error \<Rightarrow> bool) \<Rightarrow> (go_error + Conn) list \<Rightarrow> accepted list" where
  "accept_loop temporary [] = []"
| "accept_loop temporary (r # rs) =
     (case SplitListener_Accept r of
        None \<Rightarrow> []
      | Some (Inl e) \<Rightarrow> if temporary e then accept_loop temporary rs else []
      | Some (Inr a) \<Rightarrow> a # accept_loop temporary rs)"

section \<open>HTTPRedirectHandler\<close>

definition hexEscapeNonASCII :: "string \<Rightarrow> string" where
  "hexEscapeNonASCII s =
     concat (map (\<lambda>c. if 128 \<le> (of_char c :: nat) then CHR ''%'' # radix_text 16 (of_char c) else [c]) s)"

definition htmlEscape :: "string \<Rightarrow> string" where
  "htmlEscape s =
     concat (map (\<lambda>c. if c = CHR ''&'' then ''&amp;'' else if c = CHR ''<'' then ''&lt;''
        else if c = CHR ''>'' then ''&gt;'' else if c = dquote then ''&#34;''
        else if c = single_quote then ''&#39;'' else [c]) s)"

text \<open>http.Redirect to an absolute URL, with the only status the program uses.\<close>

definition http_redirect :: "'w response_writer \<Rightarrow> request \<Rightarrow> string \<Rightarrow> 'w \<Rightarrow> 'w" where
  "http_redirect rw r url w =
     (let w1 = rw_write_header rw 301 (edit_header rw (\<lambda>h. hset h ''Location'' (hexEscapeNonASCII url)) w)
      in if Method r = ''GET'' then
           write_string rw (''<a href='' @ [dquote] @ htmlEscape url @ [dquote] @ ''>Moved Permanently</a>.'' @
             [newline, newline]) w1
         else w1)"

definition redirect_url :: "request \<Rightarrow> url" where
  "redirect_url r = \<lparr>Scheme = ''https'', Opaque = Opaque (URL r), User = User (URL r), Host = ReqHost r,
     Path = Path (URL r), RawPath = [], ForceQuery = False, RawQuery = RawQuery (URL r),
     Fragment = Fragment (URL r)\<rparr>"

definition HTTPRedirectHandler ::
  "('w response_writer \<Rightarrow> request \<Rightarrow> 'w \<Rightarrow> unit outcome \<times> 'w) \<Rightarrow> 'w response_writer \<Rightarrow> request \<Rightarrow> 'w
     \<Rightarrow> unit outcome \<times> 'w" where
  "HTTPRedirectHandler handler rw r w =
     (if \<not> TLS r then (Return (), http_redirect rw r (url_String (redirect_url r)) w)
      else handler rw r w)"

section \<open>ListenAndServeWithRedirect\<close>

record 'cert server =
  NextProtos :: "string list"
  Certificates :: "'cert list"
  Addr :: string
  Listener :: "(go_error + Conn) list"

text \<open>
  Loading the key pair and opening the port are parameters; a listener is the sequence
  of what its Accept will return.
\<close>

definition ListenAndServeWithRedirect ::
  "(string \<Rightarrow> string \<Rightarrow> go_error + 'cert) \<Rightarrow> (string \<Rightarrow> go_error + (go_error + Conn) list)
     \<Rightarrow> (go_error \<Rightarrow> bool) \<Rightarrow> string \<Rightarrow> string \<Rightarrow> string \<Rightarrow> ('cert server \<times> accepted list) ending" where
  "ListenAndServeWithRedirect load listen temporary addr cert key =
     (case load cert key of
        Inl e \<Rightarrow> Exit
      | Inr pair \<Rightarrow>
          (case listen addr of
             Inl e \<Rightarrow> Exit
           | Inr ln \<Rightarrow> Continue (\<lparr>NextProtos = [''http1/1''], Certificates = [pair], Addr = addr, Listener = ln\<rparr>,
                                accept_loop temporary ln)))"

section \<open>Lemmas\<close>

lemma peek_loop_stream:
  "peek_loop n b cs e = Some (r, c) \<Longrightarrow> stream c = b @ concat cs \<and> ending_of c = e \<and>
     (case r of Some h \<Rightarrow> n \<le> length (b @ concat cs) \<and> h = take n (b @ concat cs)
      | None \<Rightarrow> length (b @ concat cs) < n)"
  by (induction n b cs e rule: peek_loop.induct)
     (auto simp: stream_def split: if_splits conn_end.splits option.splits)


lemma peek_loop_short:
  "length (b @ concat cs) < n \<Longrightarrow>
     peek_loop n b cs Silent = None \<and> (\<exists>c. peek_loop n b cs Closed = Some (None, c))"
  by (induction n b cs Closed rule: peek_loop.induct) auto

lemma Conn_Read_stream:
  "Conn_Read n c = Some (b, c') \<Longrightarrow> stream c = b @ stream c'"
  by (auto simp: Conn_Read_def stream_def split: if_splits list.splits conn_end.splits)

lemma accepted_stream:
  assumes "SplitListener_Accept (Inr c) = Some (Inr a)"
  shows "\<exists>c'. (a = TLSServer c' \<or> a = PlainConn c') \<and> stream c' = stream c"
proof -
  from assms obtain r c' where "peek 6 c = Some (r, c')" "a = TLSServer c' \<or> a = PlainConn c'"
    by (auto simp: SplitListener_Accept_def split: option.splits if_splits)
  with peek_loop_stream [of 6 "buf c" "incoming c" "ending_of c" r c'] show ?thesis
    by (auto simp: peek_def stream_def)
qed

text \<open>A reader that asks for the given numbers of bytes, one after the other.\<close>

fun reads :: "nat list \<Rightarrow> Conn \<Rightarrow> (bytes \<times> Conn) option" where
  "reads [] c = Some ([], c)"
| "reads (n # ns) c =
     (case Conn_Read n c of
        None \<Rightarrow> None
      | Some (b, c') \<Rightarrow> map_option (\<lambda>(bs, c''). (b @ bs, c'')) (reads ns c'))"

lemma reads_stream: "reads ns c = Some (bs, c') \<Longrightarrow> stream c = bs @ stream c'"
  by (induction ns c arbitrary: bs rule: reads.induct) (auto dest!: Conn_Read_stream split: option.splits)

fun accepted_conn :: "accepted \<Rightarrow> Conn" where
  "accepted_conn (TLSServer c) = c"
| "accepted_conn (PlainConn c) = c"

section \<open>Properties\<close>

text \<open>
  C11. Looking at the first bytes loses nothing: whatever is read from an accepted
  connection, by reads of any sizes, is what the client sent, from the first byte on.
\<close>

theorem accept_loses_nothing:
  assumes "SplitListener_Accept (Inr c) = Some (Inr a)"
    and "reads ns (accepted_conn a) = Some (bs, c')"
  shows "bs @ stream c' = stream c"
  using accepted_stream [OF assms(1)] reads_stream [OF assms(2)] by auto

theorem accept_loses_nothing_witness:
  "\<exists>a c'. SplitListener_Accept (Inr (new_reader [''GE'', ''T / HTTP''] Silent)) = Some (Inr a) \<and>
     reads [3, 10] (accepted_conn a) = Some (''GET / HTTP'', c') \<and>
     ''GET / HTTP'' @ stream c' = stream (new_reader [''GE'', ''T / HTTP''] Silent)"
proof -
  let ?a = "PlainConn \<lparr>buf = ''GET / HTTP'', incoming = [], ending_of = Silent\<rparr>"
  have a: "SplitListener_Accept (Inr (new_reader [''GE'', ''T / HTTP''] Silent)) = Some (Inr ?a)"
    by (simp add: SplitListener_Accept_def new_reader_def peek_def looks_like_tls_def)
  obtain c' where c': "reads [3, 10] (accepted_conn ?a) = Some (''GET / HTTP'', c')"
    by (simp add: Conn_Read_def)
  from a c' accept_loses_nothing [OF a c'] show ?thesis by blast
qed










text \<open>
  C28. A client that connects and sends fewer than six bytes without closing stops the
  server: no connection that arrives after it is ever accepted.
\<close>

theorem silent_client_blocks_accept:
  assumes "length (stream c) < 6" and "ending_of c = Silent"
  shows "accept_loop temporary (rs @ Inr c # rs') = accept_loop temporary rs"
proof (induction rs)
  case Nil
  have "SplitListener_Accept (Inr c) = None"
    using assms peek_loop_short [of "buf c" "incoming c" 6] by (simp add: SplitListener_Accept_def peek_def stream_def)
  then show ?case by simp
next
  case (Cons r rs)
  then show ?case by (simp split: option.splits sum.splits)
qed

theorem silent_client_blocks_accept_witness:
  "accept_loop (\<lambda>_. True) ([] @ Inr (new_reader [''GET''] Silent) # [Inr (new_reader [''GET / HTTP/1.1''] Closed)]) =
     accept_loop (\<lambda>_. True) []"
  by (rule silent_client_blocks_accept) (simp_all add: stream_def new_reader_def)

text \<open>
  C29. A plain request is answered with 301 and the https URL of the same host, path and
  query; the path in that URL decodes to the path of the request.
\<close>

theorem redirect_location:
  assumes "\<not> TLS r" and "Opaque (URL r) = []" and "User (URL r) = None" and "Fragment (URL r) = []"
    and "Path (URL r) = CHR ''/'' # p" and "\<not> c_wrote c" and "\<not> c_hijacked c"
    and "hget (c_header c) ''Content-Length'' = []"
  shows "\<exists>q c'. HTTPRedirectHandler h conn_rw r c = (Return (), c') \<and> c_status c' = 301 \<and>
    unescape q = Some (Path (URL r)) \<and>
    hget (c_sent c') ''Location'' = hexEscapeNonASCII (''https://'' @ escape EncodeHost (ReqHost r) @ q @
      (if RawQuery (URL r) \<noteq> [] then ''?'' @ RawQuery (URL r) else []))"
proof -
  let ?q = "escape EncodePath (CHR ''/'' # p)"
  let ?loc = "hexEscapeNonASCII (url_String (redirect_url r))"
  let ?c1 = "conn_WriteHeader 301 (edit_header conn_rw (\<lambda>h. hset h ''Location'' ?loc) c)"
  have q: "?q = CHR ''/'' # escape EncodePath p" using shouldEscape_slash by (simp add: escape_def)
  have "url_String (redirect_url r) = ''https://'' @ escape EncodeHost (ReqHost r) @ ?q @
      (if RawQuery (URL r) \<noteq> [] then ''?'' @ RawQuery (URL r) else [])"
    using assms(2-5) q by (simp add: url_String_def redirect_url_def EscapedPath_def Let_def)
  moreover have "?c1 = c\<lparr>c_header := hset (c_header c) ''Location'' ?loc, c_wrote := True, c_status := 301,
      c_sent := hset (c_header c) ''Location'' ?loc\<rparr>"
    using assms(6-8) by (simp add: conn_WriteHeader_def edit_header_def header_simps)
  moreover obtain c' where "http_redirect conn_rw r (url_String (redirect_url r)) c = c'"
    "c_status c' = c_status ?c1" "c_sent c' = c_sent ?c1"
    using \<open>?c1 = _\<close> by (auto simp: http_redirect_def Let_def write_string_def conn_Write_def split: option.splits)
  ultimately show ?thesis
    using assms(1,5) unescape_escape [of EncodePath] by (auto simp: HTTPRedirectHandler_def header_simps)
qed

definition example_plain :: request where
  "example_plain = \<lparr>Method = ''GET'',
     URL = \<lparr>Scheme = [], Opaque = [], User = None, Host = [], Path = ''/a b'', RawPath = [],
            ForceQuery = False, RawQuery = ''x=1'', Fragment = []\<rparr>,
     Header = [], ReqHost = ''hawk:7630'', TLS = False\<rparr>"

theorem redirect_location_witness:
  "\<exists>q c'. HTTPRedirectHandler (\<lambda>rw r w. (Return (), w)) conn_rw example_plain new_conn = (Return (), c') \<and>
     c_status c' = 301 \<and> unescape q = Some ''/a b'' \<and>
     hget (c_sent c') ''Location'' = hexEscapeNonASCII (''https://'' @ escape EncodeHost ''hawk:7630'' @ q @ ''?x=1'')"
  using redirect_location [of example_plain "''a b''" new_conn "\<lambda>rw r w. (Return (), w)"]
  by (simp add: example_plain_def new_conn_def hget_def)

text \<open>
  The redirect forgets how the path was written: two plain requests that differ
  only in the encoded form of their path, such as an escaped slash, are sent to the same
  URL.
\<close>

lemma redirect_drops_raw_path:
  assumes "\<not> TLS r"
  shows "HTTPRedirectHandler h rw (r\<lparr>URL := (URL r)\<lparr>RawPath := raw\<rparr>\<rparr>) w = HTTPRedirectHandler h rw r w"
  using assms by (simp add: HTTPRedirectHandler_def http_redirect_def redirect_url_def)

lemma redirect_drops_raw_path_example:
  "HTTPRedirectHandler (\<lambda>rw r w. (Return (), w)) conn_rw
     (example_plain\<lparr>URL := (URL example_plain)\<lparr>RawPath := ''/a%20b''\<rparr>\<rparr>) new_conn =
   HTTPRedirectHandler (\<lambda>rw r w. (Return (), w)) conn_rw example_plain new_conn"
  by (rule redirect_drops_raw_path) (simp add: example_plain_def)

end
