(* ===== verification/Tls_Config.thy ===== *)
theory Tls_Config
  imports Prelude
begin

text \<open>
  tls.Config and the two versions of cloneTLSConfig (tls_clone_go18.go and
  tls_clone_legacy.go). Fields that hold functions, pools, writers or certificates are
  references, 0 being nil. The last four fields came with Go 1.8, after the older version
  of the clone was written; the fields are those of the Go 1.9 library.
\<close>

type_synonym ref = nat

record tls_config =
  tls_Rand :: ref
  tls_Time :: ref
  tls_Certificates :: "ref list"
  tls_NameToCertificate :: ref
  tls_GetCertificate :: ref
  tls_RootCAs :: ref
  tls_NextProtos :: "string list option"
  tls_ServerName :: string
  tls_ClientAuth :: nat
  tls_ClientCAs :: ref
  tls_InsecureSkipVerify :: bool
  tls_CipherSuites :: "nat list"
  tls_PreferServerCipherSuites :: bool
  tls_SessionTicketsDisabled :: bool
  tls_SessionTicketKey :: "nat list"
  tls_ClientSessionCache :: ref
  tls_MinVersion :: nat
  tls_MaxVersion :: nat
  tls_CurvePreferences :: "nat list"
  tls_DynamicRecordSizingDisabled :: bool
  tls_Renegotiation :: nat
  tls_GetClientCertificate :: ref
  tls_GetConfigForClient :: ref
  tls_VerifyPeerCertificate :: ref
  tls_KeyLogWriter :: ref

definition empty_tls_config :: tls_config where
  "empty_tls_config = \<lparr>tls_Rand = 0, tls_Time = 0, tls_Certificates = [], tls_NameToCertificate = 0,
     tls_GetCertificate = 0, tls_RootCAs = 0, tls_NextProtos = None, tls_ServerName = [], tls_ClientAuth = 0,
     tls_ClientCAs = 0, tls_InsecureSkipVerify = False, tls_CipherSuites = [], tls_PreferServerCipherSuites = False,
     tls_SessionTicketsDisabled = False, tls_SessionTicketKey = replicate 32 0, tls_ClientSessionCache = 0,
     tls_MinVersion = 0, tls_MaxVersion = 0, tls_CurvePreferences = [], tls_DynamicRecordSizingDisabled = False,
     tls_Renegotiation = 0, tls_GetClientCertificate = 0, tls_GetConfigForClient = 0,
     tls_VerifyPeerCertificate = 0, tls_KeyLogWriter = 0\<rparr>"

text \<open>With Go 1.8 and later: Config.Clone, a shallow copy of every field.\<close>

definition cloneTLSConfig :: "tls_config option \<Rightarrow> tls_config" where
  "cloneTLSConfig cfg = (case cfg of Some c \<Rightarrow> c | None \<Rightarrow> empty_tls_config)"

text \<open>Before Go 1.8: field by field, the fields not named left at their zero values.\<close>

definition cloneTLSConfig_legacy :: "tls_config option \<Rightarrow> tls_config" where
  "cloneTLSConfig_legacy cfg =
     (case cfg of
        Some c \<Rightarrow> empty_tls_config\<lparr>
          tls_Rand := tls_Rand c,
          tls_Time := tls_Time c,
          tls_Certificates := tls_Certificates c,
          tls_NameToCertificate := tls_NameToCertificate c,
          tls_GetCertificate := tls_GetCertificate c,
          tls_RootCAs := tls_RootCAs c,
          tls_NextProtos := tls_NextProtos c,
          tls_ServerName := tls_ServerName c,
          tls_ClientAuth := tls_ClientAuth c,
          tls_ClientCAs := tls_ClientCAs c,
          tls_InsecureSkipVerify := tls_InsecureSkipVerify c,
          tls_CipherSuites := tls_CipherSuites c,
          tls_PreferServerCipherSuites := tls_PreferServerCipherSuites c,
          tls_ClientSessionCache := tls_ClientSessionCache c,
          tls_MinVersion := tls_MinVersion c,
          tls_MaxVersion := tls_MaxVersion c,
          tls_CurvePreferences := tls_CurvePreferences c\<rparr>
      | None \<Rightarrow> empty_tls_config)"

text \<open>
  On a library that has all these fields, the older version loses the settings of session
  tickets, dynamic record sizing and renegotiation and the four that came with Go 1.8.
\<close>

lemma clone_versions_agree:
  "cloneTLSConfig_legacy (Some c) = cloneTLSConfig (Some c) \<longleftrightarrow>
    (tls_SessionTicketsDisabled c, tls_SessionTicketKey c, tls_DynamicRecordSizingDisabled c, tls_Renegotiation c) =
      (False, replicate 32 0, False, 0) \<and>
    (tls_GetClientCertificate c, tls_GetConfigForClient c, tls_VerifyPeerCertificate c, tls_KeyLogWriter c) = (0, 0, 0, 0)"
  by (cases c) (auto simp: cloneTLSConfig_legacy_def cloneTLSConfig_def empty_tls_config_def)

end
