(* ===== verification/Reverse_Proxy.thy ===== *)
theory Reverse_Proxy
  imports Go_Url Tls_Config
begin

text \<open>
  reverseproxy.go: the rewriting of a request for its target (the director), the choice
  and the wrapping of the transport, the copying of response headers, body and trailers,
  and the tunnel for websockets. The network is a parameter: what a round trip returns,
  what a dialled peer sends.
\<close>

section \<open>The director\<close>

definition singleJoiningSlash :: "string \<Rightarrow> string \<Rightarrow> string" where
  "singleJoiningSlash a b =
     (let aslash = hasSuffix a ''/''; bslash = hasPrefix b ''/''
      in if aslash \<and> bslash then a @ drop 1 b
         else if \<not> aslash \<and> \<not> bslash \<and> b \<noteq> [] then a @ ''/'' @ b
         else a @ b)"

definition prefer_val :: "string \<Rightarrow> string \<Rightarrow> string" where
  "prefer_val val dflt = (if val \<noteq> [] then val else dflt)"

definition director_address :: "url \<Rightarrow> url \<Rightarrow> url" where
  "director_address target u =
     (if Scheme target = ''unix'' then u\<lparr>Scheme := ''http'', Host := ''socket''\<rparr>
      else u\<lparr>Scheme := Scheme target, Host := Host target\<rparr>)"

text \<open>Cutting a prefix off the path and, where they are set, off its encoded forms.\<close>

definition trim_url :: "string \<Rightarrow> url \<Rightarrow> url" where
  "trim_url pre u =
     (let u1 = u\<lparr>Path := trimPrefix (Path u) pre\<rparr>;
          u2 = (if Opaque u1 \<noteq> [] then u1\<lparr>Opaque := trimPrefix (Opaque u1) pre\<rparr> else u1)
      in if RawPath u2 \<noteq> [] then u2\<lparr>RawPath := trimPrefix (RawPath u2) pre\<rparr> else u2)"

definition director_join :: "url \<Rightarrow> url \<Rightarrow> url" where
  "director_join target u =
     (let u1 = (if Opaque u \<noteq> [] \<or> Opaque target \<noteq> []
                then u\<lparr>Opaque := singleJoiningSlash (prefer_val (Opaque target) (Path target)) (prefer_val (Opaque u) (Path u))\<rparr>
                else u);
          u2 = (if RawPath u1 \<noteq> [] \<or> RawPath target \<noteq> []
                then u1\<lparr>RawPath := singleJoiningSlash (prefer_val (RawPath target) (Path target)) (prefer_val (RawPath u1) (Path u1))\<rparr>
                else u1)
      in u2\<lparr>Path := singleJoiningSlash (Path target) (Path u2)\<rparr>)"

text \<open>The name of the socket: slicing a shorter text panics.\<close>

definition socketPrefix :: "url \<Rightarrow> string outcome" where
  "socketPrefix target =
     (if length (url_String target) < 7 then Panic ''slice bounds out of range''
      else Return (drop 7 (url_String target)))"

definition director_query :: "url \<Rightarrow> url \<Rightarrow> url" where
  "director_query target u =
     (if RawQuery target = [] \<or> RawQuery u = [] then u\<lparr>RawQuery := RawQuery target @ RawQuery u\<rparr>
      else u\<lparr>RawQuery := RawQuery target @ ''&'' @ RawQuery u\<rparr>)"

definition director :: "url \<Rightarrow> string \<Rightarrow> request \<Rightarrow> request outcome" where
  "director target without req =
     (let u1 = director_address target (URL req);
          u2 = (if without \<noteq> [] then trim_url without u1 else u1);
          u3 = director_join target u2
      in bind_outcome
           (if Scheme target = ''unix'' then bind_outcome (socketPrefix target) (\<lambda>p. Return (trim_url p u3))
            else Return u3)
           (\<lambda>u4. Return (req\<lparr>URL := director_query target u4\<rparr>)))"

section \<open>Transports\<close>

datatype dialer = DefaultDial | SocketDial string | TLSDial dialer | HijackDial dialer

text \<open>http.Transport, as far as the program sets it. Times are in seconds.\<close>

record transport =
  ProxyFromEnv :: bool
  Dial :: "dialer option"
  DialTLS :: "dialer option"
  TLSHandshakeTimeout :: nat
  ExpectContinueTimeout :: nat
  DisableKeepAlives :: bool
  MaxIdleConnsPerHost :: int
  TLSClientConfig :: "tls_config option"

definition zero_transport :: transport where
  "zero_transport = \<lparr>ProxyFromEnv = False, Dial = None, DialTLS = None, TLSHandshakeTimeout = 0,
     ExpectContinueTimeout = 0, DisableKeepAlives = False, MaxIdleConnsPerHost = 0, TLSClientConfig = None\<rparr>"

datatype round_tripper = NilTransport | DefaultTransport | Transport transport | HijackerTransport transport

record ReverseProxy =
  Target_url :: url
  Without :: string
  Proxy_transport :: round_tripper
  FlushInterval :: nat \<comment> \<open>milliseconds\<close>

definition DefaultMaxIdleConnsPerHost :: int where
  "DefaultMaxIdleConnsPerHost = 2"

text \<open>The address a socket dialer connects to, computed when it is called.\<close>

definition socketDial :: "string \<Rightarrow> string outcome" where
  "socketDial hostName =
     (if length hostName < 7 then Panic ''slice bounds out of range'' else Return (drop 7 hostName))"

definition NewSingleHostReverseProxy :: "url \<Rightarrow> string \<Rightarrow> int \<Rightarrow> ReverseProxy" where
  "NewSingleHostReverseProxy target without keepalive =
     (let rp = \<lparr>Target_url = target, Without = without, Proxy_transport = NilTransport, FlushInterval = 250\<rparr>
      in if Scheme target = ''unix'' then
           rp\<lparr>Proxy_transport := Transport (zero_transport\<lparr>Dial := Some (SocketDial (url_String target))\<rparr>)\<rparr>
         else if keepalive \<noteq> DefaultMaxIdleConnsPerHost then
           (let t = zero_transport\<lparr>ProxyFromEnv := True, Dial := Some DefaultDial, TLSHandshakeTimeout := 10,
                      ExpectContinueTimeout := 1\<rparr>;
                t' = (if keepalive = 0 then t\<lparr>DisableKeepAlives := True\<rparr> else t\<lparr>MaxIdleConnsPerHost := keepalive\<rparr>)
            in rp\<lparr>Proxy_transport := Transport t'\<rparr>)
         else rp)"

definition UseInsecureTransport :: "ReverseProxy \<Rightarrow> ReverseProxy" where
  "UseInsecureTransport rp =
     (case Proxy_transport rp of
        NilTransport \<Rightarrow> rp\<lparr>Proxy_transport := Transport (zero_transport\<lparr>ProxyFromEnv := True, Dial := Some DefaultDial,
          TLSHandshakeTimeout := 10, TLSClientConfig := Some (empty_tls_config\<lparr>tls_InsecureSkipVerify := True\<rparr>)\<rparr>)\<rparr>
      | Transport t \<Rightarrow>
          (let cfg = (case TLSClientConfig t of None \<Rightarrow> empty_tls_config | Some c \<Rightarrow> c)
           in rp\<lparr>Proxy_transport := Transport (t\<lparr>TLSClientConfig := Some (cfg\<lparr>tls_InsecureSkipVerify := True\<rparr>)\<rparr>)\<rparr>)
      | _ \<Rightarrow> rp)"

definition getTransportDial :: "transport \<Rightarrow> dialer" where
  "getTransportDial t = (case Dial t of Some d \<Rightarrow> d | None \<Rightarrow> DefaultDial)"

definition getTransportDialTLS :: "transport \<Rightarrow> dialer" where
  "getTransportDialTLS t = (case DialTLS t of Some d \<Rightarrow> d | None \<Rightarrow> TLSDial (getTransportDial t))"

definition newConnHijackerTransport :: "round_tripper \<Rightarrow> round_tripper" where
  "newConnHijackerTransport base =
     (let t0 = zero_transport\<lparr>MaxIdleConnsPerHost := -1\<rparr>;
          t = (case base of
                 Transport b \<Rightarrow>
                   t0\<lparr>ProxyFromEnv := ProxyFromEnv b,
                      TLSClientConfig :=
                        (case TLSClientConfig b of
                           None \<Rightarrow> None
                         | Some c \<Rightarrow> Some (if tls_NextProtos c \<noteq> None
                                           then (cloneTLSConfig (Some c))\<lparr>tls_NextProtos := None\<rparr> else c)),
                      TLSHandshakeTimeout := TLSHandshakeTimeout b, Dial := Dial b, DialTLS := DialTLS b\<rparr>
               | _ \<Rightarrow> t0\<lparr>ProxyFromEnv := True, TLSHandshakeTimeout := 10\<rparr>)
      in HijackerTransport (t\<lparr>Dial := Some (HijackDial (getTransportDial t)),
           DialTLS := Some (HijackDial (getTransportDialTLS t))\<rparr>))"

definition stripPort :: "string \<Rightarrow> string" where
  "stripPort address =
     (let portIdx = last_index_byte address (CHR '':''); ipv6Idx = last_index_byte address (CHR '']'')
      in if portIdx > ipv6Idx then take (nat portIdx) address else address)"

text \<open>
  The TLS dialer built for a transport without one. \<open>timer_first\<close> says whether the
  timer fires before the handshake is done (possible only when a timeout is set);
  \<open>verify\<close> checks the peer's certificate for a host name. The result is the error or
  the open connection, whether the plain connection was closed, and the configuration,
  whose server name may have been filled in.
\<close>

datatype tls_dial_result = TLSFailed go_error | TLSOpen

definition tls_dial ::
  "(string \<Rightarrow> go_error option) \<Rightarrow> (tls_config \<Rightarrow> go_error option) \<Rightarrow> bool \<Rightarrow> (string \<Rightarrow> go_error option)
     \<Rightarrow> transport \<Rightarrow> string \<Rightarrow> tls_dial_result \<times> bool \<times> tls_config option" where
  "tls_dial plainDial handshake timer_first verify t addr =
     (case plainDial addr of
        Some e \<Rightarrow> (TLSFailed e, False, TLSClientConfig t)
      | None \<Rightarrow>
          (let c0 = (case TLSClientConfig t of None \<Rightarrow> empty_tls_config | Some c \<Rightarrow> c);
               c = (if \<not> tls_InsecureSkipVerify c0 \<and> tls_ServerName c0 = []
                    then c0\<lparr>tls_ServerName := stripPort addr\<rparr> else c0);
               shared = (case TLSClientConfig t of None \<Rightarrow> None | Some _ \<Rightarrow> Some c);
               first = (if TLSHandshakeTimeout t \<noteq> 0 \<and> timer_first
                        then Some (ErrText ''net/http: TLS handshake timeout'') else handshake c)
           in case first of
                Some e \<Rightarrow> (TLSFailed e, True, shared)
              | None \<Rightarrow>
                  if \<not> tls_InsecureSkipVerify c then
                    (case verify (if tls_ServerName c = [] then stripPort addr else tls_ServerName c) of
                       Some e \<Rightarrow> (TLSFailed e, True, shared)
                     | None \<Rightarrow> (TLSOpen, False, shared))
                  else (TLSOpen, False, shared)))"

section \<open>Headers\<close>

definition skipHeaders :: "string list" where
  "skipHeaders = [''Content-Type'', ''Content-Disposition'', ''Accept-Ranges'', ''Set-Cookie'', ''Cache-Control'', ''Expires'']"

definition hopHeaders :: "string list" where
  "hopHeaders = [''Alt-Svc'', ''Alternate-Protocol'', ''Connection'', ''Keep-Alive'', ''Proxy-Authenticate'',
     ''Proxy-Authorization'', ''Proxy-Connection'', ''Te'', ''Trailer'', ''Transfer-Encoding'', ''Upgrade'']"

definition requestIsWebsocket :: "request \<Rightarrow> bool" where
  "requestIsWebsocket req \<longleftrightarrow>
     toLower (hget (Header req) ''Upgrade'') = ''websocket'' \<and>
     contains (toLower (hget (Header req) ''Connection'')) ''upgrade''"

text \<open>Removing the hop-by-hop headers of a response: those its Connection header lists, then the fixed ones.\<close>

definition listed_hops :: "header \<Rightarrow> string list" where
  "listed_hops h =
     (let c = hget h ''Connection'' in
      if c = [] then [] else filter (\<lambda>f. f \<noteq> []) (map trimSpace (split_on (CHR '','') c)))"

definition strip_hop_headers :: "header \<Rightarrow> header" where
  "strip_hop_headers h = fold (\<lambda>k h'. hdel h' k) hopHeaders (fold (\<lambda>k h'. hdel h' k) (listed_hops h) h)"

definition copy_entry :: "string \<times> string list \<Rightarrow> header \<Rightarrow> header" where
  "copy_entry e dst =
     (case e of (k, vv) \<Rightarrow>
        if map_of dst k \<noteq> None \<and> k \<in> set skipHeaders then dst
        else fold (\<lambda>v d. hadd d k v) vv
               (if map_of dst k \<noteq> None \<and> k \<noteq> ''Server'' then hdel dst k else dst))"

definition copyHeader :: "header \<Rightarrow> header \<Rightarrow> header" where
  "copyHeader dst src = fold copy_entry src dst"

definition shallowCopyTrailers :: "header \<Rightarrow> header \<Rightarrow> bool \<Rightarrow> header" where
  "shallowCopyTrailers dst src forceSetTrailers =
     fold (\<lambda>(k, vv) d. AList.update (if forceSetTrailers then ''Trailer:'' @ k else k) vv d) src dst"

section \<open>ServeHTTP\<close>

text \<open>
  A response body as the copy loop meets it: the chunks its reads return, and between
  them the ticks of the periodic flush. \<open>Trailer_end\<close> is the trailer map once the
  body has been read.
\<close>

datatype copy_event = Chunk bytes | Tick

record response =
  StatusCode :: int
  RespHeader :: header
  Body :: "copy_event list"
  Trailer :: header
  Trailer_end :: header

definition flush_writer :: "'w response_writer \<Rightarrow> 'w \<Rightarrow> 'w" where
  "flush_writer rw w = (case rw_flush rw of Some f \<Rightarrow> f w | None \<Rightarrow> w)"

text \<open>Ticks that fall between the end of the copy and the end of the flush loop.\<close>

fun last_ticks :: "bool \<Rightarrow> 'w response_writer \<Rightarrow> copy_event list \<Rightarrow> 'w \<Rightarrow> 'w" where
  "last_ticks flushing rw (Tick # es) w = last_ticks flushing rw es (if flushing then flush_writer rw w else w)"
| "last_ticks flushing rw _ w = w"

text \<open>io.CopyBuffer with the flush loop beside it: an error or a short write ends the copy.\<close>

fun copy_loop :: "bool \<Rightarrow> 'w response_writer \<Rightarrow> copy_event list \<Rightarrow> 'w \<Rightarrow> 'w" where
  "copy_loop flushing rw [] w = w"
| "copy_loop flushing rw (Tick # es) w = copy_loop flushing rw es (if flushing then flush_writer rw w else w)"
| "copy_loop flushing rw (Chunk b # es) w =
     (if b = [] then copy_loop flushing rw es w
      else case rw_write rw b w of
        ((n, err), w') \<Rightarrow>
          if err \<noteq> None \<or> n \<noteq> length b then last_ticks flushing rw es w'
          else copy_loop flushing rw es w')"

definition copyResponse :: "ReverseProxy \<Rightarrow> 'w response_writer \<Rightarrow> copy_event list \<Rightarrow> 'w \<Rightarrow> 'w" where
  "copyResponse rp rw body w = copy_loop (FlushInterval rp \<noteq> 0 \<and> rw_flush rw \<noteq> None) rw body w"

definition isWebsocket :: "response \<Rightarrow> bool" where
  "isWebsocket res \<longleftrightarrow> StatusCode res = 101 \<and> toLower (hget (RespHeader res) ''Upgrade'') = ''websocket''"

text \<open>
  The tunnel. What was read from the backend during the round trip (Replay), what it
  sends later and how much of that is copied before the client's side ends, what the
  server had buffered of the client's bytes, and the rest of them; the errors the calls
  may report. The result is what the client and what the backend receive.
\<close>

record tunnel =
  Replay :: bytes
  Backend_rest :: bytes
  Copied :: nat
  Buffered :: bytes
  Client_rest :: bytes
  Write_error :: "go_error option"
  Dial_error :: "go_error option"
  Request_bytes :: bytes

definition websocket_tunnel :: "round_tripper \<Rightarrow> tunnel \<Rightarrow> go_error option \<times> bytes \<times> bytes" where
  "websocket_tunnel tr tn =
     (case tr of
        HijackerTransport _ \<Rightarrow>
          (case Write_error tn of
             Some e \<Rightarrow> (Some e, [], [])
           | None \<Rightarrow> (None, Replay tn @ take (Copied tn) (Backend_rest tn), Buffered tn @ Client_rest tn))
      | _ \<Rightarrow>
          (case Dial_error tn of
             Some e \<Rightarrow> (Some e, [], [])
           | None \<Rightarrow> (None, take (Copied tn) (Backend_rest tn), Request_bytes tn @ Buffered tn @ Client_rest tn)))"

definition choose_transport :: "ReverseProxy \<Rightarrow> request \<Rightarrow> round_tripper" where
  "choose_transport rp outreq =
     (if requestIsWebsocket outreq then newConnHijackerTransport (Proxy_transport rp)
      else if Proxy_transport rp = NilTransport then DefaultTransport
      else Proxy_transport rp)"

text \<open>Headers, status, body and trailers of an ordinary response.\<close>

definition send_response :: "ReverseProxy \<Rightarrow> 'w response_writer \<Rightarrow> response \<Rightarrow> 'w \<Rightarrow> 'w" where
  "send_response rp rw res w =
     (let announced = length (Trailer res);
          w1 = edit_header rw (\<lambda>h. copyHeader h (RespHeader res)) w;
          w2 = (if announced > 0 then edit_header rw (\<lambda>h. AList.update ''Trailer'' (map fst (Trailer res)) h) w1 else w1);
          w3 = rw_write_header rw (StatusCode res) w2;
          w4 = (if announced > 0 then flush_writer rw w3 else w3);
          w5 = copyResponse rp rw (Body res) w4
      in edit_header rw (\<lambda>h. shallowCopyTrailers h (Trailer_end res) (length (Trailer_end res) \<noteq> announced)) w5)"

definition ReverseProxy_ServeHTTP ::
  "(round_tripper \<Rightarrow> request \<Rightarrow> go_error + response) \<Rightarrow> tunnel \<Rightarrow> ReverseProxy \<Rightarrow> 'w response_writer
     \<Rightarrow> request \<Rightarrow> (response \<Rightarrow> response) option \<Rightarrow> 'w
     \<Rightarrow> (go_error option outcome \<times> (bytes \<times> bytes) option) \<times> 'w" where
  "ReverseProxy_ServeHTTP roundtrip tn rp rw req respUpdateFn w =
     (let tr = choose_transport rp req in
      case director (Target_url rp) (Without rp) req of
        Panic m \<Rightarrow> ((Panic m, None), w)
      | Return outreq \<Rightarrow>
          (case roundtrip tr outreq of
             Inl e \<Rightarrow> ((Return (Some e), None), w)
           | Inr res0 \<Rightarrow>
               (let ws = isWebsocket res0;
                    res1 = res0\<lparr>RespHeader := strip_hop_headers (RespHeader res0)\<rparr>;
                    res = (case respUpdateFn of Some f \<Rightarrow> f res1 | None \<Rightarrow> res1)
                in if ws then
                     (case rw_hijack rw of
                        None \<Rightarrow> ((Panic ''not a Hijacker'', None), w)
                      | Some hijack \<Rightarrow>
                          (case hijack w of
                             (Some e, w') \<Rightarrow> ((Return (Some e), None), w')
                           | (None, w') \<Rightarrow>
                               (case websocket_tunnel tr tn of
                                  (err, toClient, toBackend) \<Rightarrow> ((Return err, Some (toClient, toBackend)), w'))))
                   else ((Return None, None), send_response rp rw res w))))"

text \<open>The connection that records what the transport reads from it.\<close>

record hijackedConn =
  hc_stream :: bytes
  hc_replay :: bytes

definition hijackedConn_Read :: "nat \<Rightarrow> hijackedConn \<Rightarrow> bytes \<times> hijackedConn" where
  "hijackedConn_Read n c =
     (let b = take n (hc_stream c)
      in (b, c\<lparr>hc_stream := drop n (hc_stream c), hc_replay := hc_replay c @ b\<rparr>))"

section \<open>Lemmas\<close>

lemma singleJoiningSlash_form:
  "singleJoiningSlash a b =
     (if b = [] then a
      else (if hasSuffix a ''/'' then butlast a else a) @ ''/'' @ (if hasPrefix b ''/'' then tl b else b))"
proof (cases "hasSuffix a ''/''")
  case True
  then obtain a' where "a = a' @ ''/''" by (auto simp: hasSuffix_iff)
  then show ?thesis
    by (cases b) (auto simp: singleJoiningSlash_def Let_def hasSuffix_iff hasPrefix_single)
next
  case False
  then show ?thesis
    by (cases b) (auto simp: singleJoiningSlash_def Let_def hasPrefix_single)
qed

lemma fold_hdel: "map_of (fold (\<lambda>k h'. hdel h' k) ks h) x =
    (if x \<in> canonical_key ` set ks then None else map_of h x)"
  by (induction ks arbitrary: h) (auto simp: map_of_hdel)

lemma map_of_strip_hop:
  "map_of (strip_hop_headers h) x =
     (if x \<in> canonical_key ` set (listed_hops h @ hopHeaders) then None else map_of h x)"
  unfolding strip_hop_headers_def fold_hdel by auto

lemma fold_hadd:
  "canonical_key k = k \<Longrightarrow> map_of (fold (\<lambda>v d. hadd d k v) vv dst) x =
     (if x = k \<and> vv \<noteq> [] then Some ((case map_of dst k of Some vs \<Rightarrow> vs | None \<Rightarrow> []) @ vv) else map_of dst x)"
  by (induction vv arbitrary: dst) (auto simp: map_of_hadd split: option.splits)

text \<open>What one entry of the source header leaves under its key.\<close>

definition merged :: "string list option \<Rightarrow> string \<Rightarrow> string list \<Rightarrow> string list option" where
  "merged old k vv =
     (case old of
        None \<Rightarrow> if vv = [] then None else Some vv
      | Some vs \<Rightarrow> if k \<in> set skipHeaders then Some vs
                  else if k = ''Server'' then Some (vs @ vv)
                  else if vv = [] then None else Some vv)"

lemma map_of_copy_entry:
  assumes "canonical_key k = k"
  shows "map_of (copy_entry (k, vv) dst) x = (if x = k then merged (map_of dst k) k vv else map_of dst x)"
proof (cases "map_of dst k")
  case None
  then show ?thesis by (simp add: copy_entry_def merged_def fold_hadd [OF assms])
next
  case (Some vs)
  then show ?thesis
    by (simp add: copy_entry_def merged_def fold_hadd [OF assms] map_of_hdel assms) (cases vv, auto)
qed

lemma map_of_copyHeader:
  assumes "distinct (map fst src)" and "list_all (\<lambda>(k, vv). canonical_key k = k) src"
  shows "map_of (copyHeader dst src) x =
    (case map_of src x of None \<Rightarrow> map_of dst x | Some vv \<Rightarrow> merged (map_of dst x) x vv)"
  using assms unfolding copyHeader_def
proof (induction src arbitrary: dst)
  case (Cons e src)
  obtain k vv where e: "e = (k, vv)" by fastforce
  from Cons.prems e have k: "canonical_key k = k" "k \<notin> fst ` set src" by auto
  then have "map_of src k = None" by (simp add: map_of_eq_None_iff)
  with Cons e k show ?case by (auto simp: map_of_copy_entry split: option.splits)
qed simp

lemma hdel_keys: "set (map fst (hdel h k)) \<subseteq> set (map fst h)" "distinct (map fst h) \<Longrightarrow> distinct (map fst (hdel h k))"
  by (auto simp: hdel_def delete_keys distinct_removeAll)

lemma fold_hdel_keys:
  "set (map fst (fold (\<lambda>k h'. hdel h' k) ks h)) \<subseteq> set (map fst h)"
  "distinct (map fst h) \<Longrightarrow> distinct (map fst (fold (\<lambda>k h'. hdel h' k) ks h))"
proof (induction ks arbitrary: h)
  case (Cons k ks)
  {
    case 1
    show ?case using Cons(1) [of "hdel h k"] hdel_keys(1) [of h k] by auto
  next
    case 2
    then show ?case using Cons(2) [of "hdel h k"] hdel_keys(2) [of h k] by simp
  }
qed simp_all

lemma strip_hop_keys:
  "set (map fst (strip_hop_headers h)) \<subseteq> set (map fst h)"
  "distinct (map fst h) \<Longrightarrow> distinct (map fst (strip_hop_headers h))"
  unfolding strip_hop_headers_def
  by (rule subset_trans [OF fold_hdel_keys(1) fold_hdel_keys(1)]) (intro fold_hdel_keys(2))

lemma canonical_keys_iff:
  "list_all (\<lambda>(k, vv). canonical_key k = k) h \<longleftrightarrow> (\<forall>k \<in> set (map fst h). canonical_key k = k)"
  by (auto simp: list_all_iff)

lemma strip_hop_canonical:
  assumes "list_all (\<lambda>(k, vv). canonical_key k = k) h"
  shows "list_all (\<lambda>(k, vv). canonical_key k = k) (strip_hop_headers h)"
  using assms strip_hop_keys(1) unfolding canonical_keys_iff by blast

text \<open>The bytes of a body, whatever ticks fall between its chunks.\<close>

fun chunk_bytes :: "copy_event list \<Rightarrow> bytes" where
  "chunk_bytes [] = []"
| "chunk_bytes (Tick # es) = chunk_bytes es"
| "chunk_bytes (Chunk b # es) = b @ chunk_bytes es"

text \<open>The response writer takes n more bytes: no length declared, or one not reached before.\<close>

definition room :: "nat \<Rightarrow> conn \<Rightarrow> bool" where
  "room n c \<longleftrightarrow> c_wrote c \<and> \<not> c_hijacked c \<and> body_allowed (c_status c) \<and>
     (case c_length c of None \<Rightarrow> True | Some l \<Rightarrow> c_written c + int n \<le> l)"

lemma conn_Write_room:
  assumes "room (length b + n) c"
  shows "conn_Write b c = ((length b, None), c\<lparr>c_written := c_written c + int (length b), c_body := c_body c @ b\<rparr>)"
    and "room n (c\<lparr>c_written := c_written c + int (length b), c_body := c_body c @ b\<rparr>)"
  using assms by (cases "b = []"; auto simp: room_def conn_Write_def Let_def split: option.splits)+

lemma copy_loop_no_chunks:
  "chunk_bytes es = [] \<Longrightarrow> c_wrote c \<Longrightarrow> copy_loop flushing conn_rw es c = c"
  by (induction flushing "conn_rw" es c rule: copy_loop.induct) (auto simp: flush_writer_def conn_Flush_def)

lemma copy_loop_conn:
  "room (length (chunk_bytes es)) c \<Longrightarrow> \<exists>n. copy_loop flushing conn_rw es c =
     c\<lparr>c_written := n, c_body := c_body c @ chunk_bytes es\<rparr>"
proof (induction flushing "conn_rw" es c rule: copy_loop.induct)
  case (1 flushing w)
  show ?case by (intro exI [of _ "c_written w"]) simp
next
  case (2 flushing es w)
  then have "(if flushing then flush_writer conn_rw w else w) = w"
    by (simp add: flush_writer_def conn_Flush_def room_def)
  with 2 show ?case by simp
next
  case (3 flushing b es w)
  show ?case
  proof (cases "b = []")
    case True
    with 3 show ?thesis by simp
  next
    case False
    let ?w = "w\<lparr>c_written := c_written w + int (length b), c_body := c_body w @ b\<rparr>"
    from "3.prems" have r: "room (length b + length (chunk_bytes es)) w" by simp
    from "3.hyps"(2) [OF False _ refl, of "length b" None ?w] conn_Write_room [OF r] False
    show ?thesis by simp
  qed
qed

text \<open>
  An ordinary response on a connection whose status is not yet sent: the client gets the
  status, the headers and the bytes it is given, however the periodic flushes fall.
\<close>

lemma send_response_conn:
  assumes tr: "Trailer res = []" "Trailer_end res = []"
    and c: "c_wrote c = False" "c_hijacked c = False" "c_length c = None" "c_written c = 0"
    and body: "chunk_bytes (Body res) \<noteq> [] \<Longrightarrow> body_allowed (StatusCode res)"
      "length_fits (copyHeader (c_header c) (RespHeader res)) (chunk_bytes (Body res))"
  shows "let c' = send_response rp conn_rw res c in
    c_wrote c' \<and> c_status c' = StatusCode res \<and> c_sent c' = copyHeader (c_header c) (RespHeader res) \<and>
    c_body c' = c_body c @ chunk_bytes (Body res)"
proof -
  let ?h = "copyHeader (c_header c) (RespHeader res)"
  define c3 where "c3 = conn_WriteHeader (StatusCode res) (c\<lparr>c_header := ?h\<rparr>)"
  have c3: "c_wrote c3" "c_status c3 = StatusCode res" "c_sent c3 = ?h" "c_body c3 = c_body c" "\<not> c_hijacked c3"
    "c_written c3 = 0"
    using c by (auto simp: c3_def conn_WriteHeader_def Let_def split: option.splits)
  have "\<exists>c4. copyResponse rp conn_rw (Body res) c3 = c4 \<and> c_wrote c4 \<and> c_status c4 = StatusCode res \<and>
      c_sent c4 = ?h \<and> c_body c4 = c_body c @ chunk_bytes (Body res)"
  proof (cases "chunk_bytes (Body res) = []")
    case True
    with copy_loop_no_chunks [OF True c3(1)] c3 show ?thesis by (simp add: copyResponse_def)
  next
    case False
    with body(2) c have "c_length c3 \<in> {None, Some (int (length (chunk_bytes (Body res))))}"
      by (auto simp: c3_def length_fits_def conn_WriteHeader_def Let_def)
    with body(1) [OF False] c3 have "room (length (chunk_bytes (Body res))) c3" by (auto simp: room_def)
    then obtain n where "copyResponse rp conn_rw (Body res) c3 =
        c3\<lparr>c_written := n, c_body := c_body c3 @ chunk_bytes (Body res)\<rparr>"
      unfolding copyResponse_def using copy_loop_conn by blast
    with c3 show ?thesis by simp
  qed
  then show ?thesis
    using tr by (simp add: send_response_def edit_header_def shallowCopyTrailers_def c3_def [symmetric] Let_def)
qed

text \<open>A header of the backend that the writer had not set: the client gets its first value, or none of it.\<close>

lemma hget_proxied:
  assumes "distinct (map fst h)" "list_all (\<lambda>(k, vv). canonical_key k = k) h" and "map_of dst (canonical_key k) = None"
  shows "hget (copyHeader dst (strip_hop_headers h)) k \<in> {[], hget h k}"
  using map_of_copyHeader [OF strip_hop_keys(2) [OF assms(1)] strip_hop_canonical [OF assms(2)], of dst "canonical_key k"]
    assms(3)
  by (auto simp: hget_def map_of_strip_hop merged_def split: option.splits list.splits)

section \<open>Properties\<close>

definition example_target :: url where
  "example_target = \<lparr>Scheme = ''http'', Opaque = [], User = None, Host = ''127.0.0.1:7631'', Path = [], RawPath = [],
     ForceQuery = False, RawQuery = [], Fragment = []\<rparr>"

definition example_get :: request where
  "example_get = \<lparr>Method = ''GET'',
     URL = \<lparr>Scheme = [], Opaque = [], User = None, Host = [], Path = ''/main'', RawPath = [],
            ForceQuery = False, RawQuery = [], Fragment = []\<rparr>,
     Header = [], ReqHost = ''hawk'', TLS = True\<rparr>"

definition example_tunnel :: tunnel where
  "example_tunnel = \<lparr>Replay = [], Backend_rest = [], Copied = 0, Buffered = [], Client_rest = [], Write_error = None,
     Dial_error = None, Request_bytes = []\<rparr>"

text \<open>
  C31. The rewriting of a request for an ordinary target: its scheme and host are the
  target's, its path the target's base path followed by the request's path with one
  slash between them, its query the two queries joined; method, headers (the
  hop-by-hop ones included) and the Host of the request are left alone.
\<close>

theorem director_rewrites:
  assumes "Scheme target \<noteq> ''unix''" and "Opaque target = []" and "Opaque (URL r) = []"
    and "Path target = base \<or> Path target = base @ ''/''" and "hasSuffix base ''/'' = False"
    and "Path (URL r) = CHR ''/'' # p"
  shows "\<exists>u. director target [] r = Return (r\<lparr>URL := u\<rparr>) \<and> Scheme u = Scheme target \<and> Host u = Host target \<and>
    Path u = base @ CHR ''/'' # p \<and>
    RawQuery u = RawQuery target @ (if RawQuery target = [] \<or> RawQuery (URL r) = [] then [] else ''&'') @ RawQuery (URL r)"
proof -
  have "hasSuffix (base @ ''/'') ''/''" by (auto simp: hasSuffix_iff)
  with assms have "singleJoiningSlash (Path target) (CHR ''/'' # p) = base @ CHR ''/'' # p"
    by (auto simp: singleJoiningSlash_form hasPrefix_single)
  with assms show ?thesis
    by (auto simp: director_def director_address_def director_join_def director_query_def Let_def)
qed

theorem director_rewrites_witness:
  "\<exists>u. director example_target [] example_get = Return (example_get\<lparr>URL := u\<rparr>) \<and> Scheme u = ''http'' \<and>
     Host u = ''127.0.0.1:7631'' \<and> Path u = ''/main''"
  using director_rewrites [of example_target example_get "[]" "''main''"]
  by (auto simp: example_target_def example_get_def hasSuffix_def)

text \<open>What each step of the director does to the parts a dialer and a service look at.\<close>

lemma director_parts:
  "Path (director_query t u) = Path u" "Scheme (director_query t u) = Scheme u" "Host (director_query t u) = Host u"
  "Path (trim_url p u) = trimPrefix (Path u) p" "Scheme (trim_url p u) = Scheme u" "Host (trim_url p u) = Host u"
  "Path (director_join t u) = singleJoiningSlash (Path t) (Path u)"
  "Scheme (director_join t u) = Scheme u" "Host (director_join t u) = Host u"
  "Path (director_address t u) = Path u"
  "Scheme t = ''unix'' \<Longrightarrow> Scheme (director_address t u) = ''http''"
  "Scheme t = ''unix'' \<Longrightarrow> Host (director_address t u) = ''socket''"
  by (simp_all add: director_query_def trim_url_def director_join_def director_address_def Let_def)

text \<open>
  C32. A target that is a Unix socket, given by its path alone. The proxy's transport has a
  dialer of its own, whatever the keepalive setting, which connects to the encoded form
  of the socket's path; and a request reaches the service with its own path when that
  form is the path itself, and else with the socket's path left before it. So a socket
  works exactly when nothing in its path needs encoding.
\<close>

theorem director_unix_socket:
  assumes t: "Scheme target = ''unix''" "Opaque target = []" "User target = None" "Host target = []"
      "ForceQuery target = False" "RawQuery target = []" "Fragment target = []"
    and sock: "Path target = CHR ''/'' # s" "hasSuffix (Path target) ''/'' = False"
    and r: "Path (URL r) = CHR ''/'' # p"
  shows "\<exists>t a u. Proxy_transport (NewSingleHostReverseProxy target [] keepalive) = Transport t \<and>
    Dial t = Some (SocketDial a) \<and> socketDial a = Return (EscapedPath target) \<and>
    director target [] r = Return (r\<lparr>URL := u\<rparr>) \<and> Scheme u = ''http'' \<and> Host u = ''socket'' \<and>
    Path u = (if EscapedPath target = Path target then Path (URL r) else Path target @ Path (URL r))"
proof -
  let ?u = "director_query target (trim_url (EscapedPath target) (director_join target (director_address target (URL r))))"
  have "EscapedPath target \<noteq> []"
    using EscapedPath_unescape [of target] sock(1) by auto
  then have str: "url_String target = ''unix://'' @ EscapedPath target"
    using t by (simp add: url_String_def escape_def Let_def)
  then have pre: "socketPrefix target = Return (EscapedPath target)" by (simp add: socketPrefix_def)
  have j: "singleJoiningSlash (Path target) (CHR ''/'' # p) = Path target @ CHR ''/'' # p"
    using sock(2) by (simp add: singleJoiningSlash_form hasPrefix_single)
  have "trimPrefix (Path target @ CHR ''/'' # p) (EscapedPath target) =
      (if EscapedPath target = Path target then CHR ''/'' # p else Path target @ CHR ''/'' # p)"
    using encoding_no_prefix [OF EscapedPath_unescape] by (auto intro: trimPrefix_no_prefix)
  then have "Path ?u = (if EscapedPath target = Path target then Path (URL r) else Path target @ Path (URL r))"
    using j r t(1) by (simp add: director_parts)
  moreover have "director target [] r = Return (r\<lparr>URL := ?u\<rparr>)"
    using t(1) pre by (simp add: director_def Let_def)
  moreover have "Scheme ?u = ''http''" "Host ?u = ''socket''" using t(1) by (simp_all add: director_parts)
  moreover have "Proxy_transport (NewSingleHostReverseProxy target [] keepalive) =
      Transport (zero_transport\<lparr>Dial := Some (SocketDial (url_String target))\<rparr>)"
    using t(1) by (simp add: NewSingleHostReverseProxy_def)
  moreover have "socketDial (url_String target) = Return (EscapedPath target)" by (simp add: socketDial_def str)
  ultimately show ?thesis
    by (intro exI [of _ "zero_transport\<lparr>Dial := Some (SocketDial (url_String target))\<rparr>"]
        exI [of _ "url_String target"] exI [of _ ?u]) simp
qed

definition example_socket :: "string \<Rightarrow> url" where
  "example_socket path = example_target\<lparr>Scheme := ''unix'', Host := [], Path := path\<rparr>"

text \<open>The socket of README, and one with a space in its name, which is dialled at another path.\<close>

theorem director_unix_socket_witness:
  "(\<exists>t a u. Proxy_transport (NewSingleHostReverseProxy (example_socket ''/var/run/hawk/app.sock'') [] 2) = Transport t \<and>
      Dial t = Some (SocketDial a) \<and> socketDial a = Return ''/var/run/hawk/app.sock'' \<and>
      director (example_socket ''/var/run/hawk/app.sock'') [] example_get = Return (example_get\<lparr>URL := u\<rparr>) \<and>
      Path u = ''/main'') \<and>
   (\<exists>t a u. Proxy_transport (NewSingleHostReverseProxy (example_socket ''/run/my app'') [] 2) = Transport t \<and>
      Dial t = Some (SocketDial a) \<and> socketDial a = Return ''/run/my%20app'' \<and>
      director (example_socket ''/run/my app'') [] example_get = Return (example_get\<lparr>URL := u\<rparr>) \<and>
      Path u = ''/run/my app/main'')"
proof -
  have e: "EscapedPath (example_socket ''/var/run/hawk/app.sock'') = ''/var/run/hawk/app.sock''"
    "EscapedPath (example_socket ''/run/my app'') = ''/run/my%20app''"
    by code_simp+
  show ?thesis
    using director_unix_socket [of "example_socket ''/var/run/hawk/app.sock''" "''var/run/hawk/app.sock''" example_get "''main''" 2]
      director_unix_socket [of "example_socket ''/run/my app''" "''run/my app''" example_get "''main''" 2]
    unfolding e by (auto simp: example_socket_def example_target_def example_get_def hasSuffix_def)
qed

text \<open>
  C13. The headers a client sees of a proxied response: a hop-by-hop header, fixed or
  listed in the response's Connection header, is never copied; every other header of the
  upstream replaces what was there, except that a header of the skip list already set
  stays as it was and Server values are appended.
\<close>

theorem proxied_headers:
  assumes "distinct (map fst h)" and "list_all (\<lambda>(k, vv). canonical_key k = k) h"
  shows "map_of (copyHeader dst (strip_hop_headers h)) x =
    (if x \<in> canonical_key ` set (listed_hops h @ hopHeaders) then map_of dst x
     else case map_of h x of None \<Rightarrow> map_of dst x | Some vv \<Rightarrow> merged (map_of dst x) x vv)"
  using map_of_copyHeader [OF strip_hop_keys(2) [OF assms(1)] strip_hop_canonical [OF assms(2)]]
  by (simp add: map_of_strip_hop)

theorem proxied_headers_witness:
  "map_of (copyHeader [(''Vary'', [''Accept-Encoding''])] (strip_hop_headers [(''Vary'', [''Cookie'']), (''Upgrade'', [''h2c''])]))
     ''Vary'' = Some [''Cookie'']"
proof -
  have k: "canonical_key ''Vary'' = ''Vary''" "canonical_key ''Upgrade'' = ''Upgrade''" by simp_all
  have h: "''Vary'' \<notin> canonical_key ` set (listed_hops [(''Vary'', [''Cookie'']), (''Upgrade'', [''h2c''])] @ hopHeaders)"
    by code_simp
  show ?thesis
    using proxied_headers [of "[(''Vary'', [''Cookie'']), (''Upgrade'', [''h2c''])]" "[(''Vary'', [''Accept-Encoding''])]" "''Vary''"] h
    by (simp add: merged_def skipHeaders_def)
qed

text \<open>
  C14. A websocket upgrade loses nothing of the backend's bytes: however the transport
  read them during the round trip, the client receives the backend's stream from its
  first byte on, and the backend receives what the server had buffered of the client's
  bytes and the rest of them.
\<close>

theorem websocket_tunnel_lossless:
  assumes c: "fold (\<lambda>n c. snd (hijackedConn_Read n c)) ns \<lparr>hc_stream = stream, hc_replay = []\<rparr> = c"
    and tn: "Replay tn = hc_replay c" "Backend_rest tn = hc_stream c" "Write_error tn = None"
  shows "websocket_tunnel (newConnHijackerTransport base) tn =
    (None, take (length (Replay tn) + Copied tn) stream, Buffered tn @ Client_rest tn)"
proof -
  have "hc_replay (fold (\<lambda>n c. snd (hijackedConn_Read n c)) ns c0) @ hc_stream (fold (\<lambda>n c. snd (hijackedConn_Read n c)) ns c0)
      = hc_replay c0 @ hc_stream c0" for c0
    by (induction ns arbitrary: c0) (simp_all add: hijackedConn_Read_def Let_def)
  from this [of "\<lparr>hc_stream = stream, hc_replay = []\<rparr>"] c have "stream = hc_replay c @ hc_stream c" by simp
  with tn show ?thesis
    by (simp add: websocket_tunnel_def newConnHijackerTransport_def Let_def)
qed

theorem websocket_tunnel_lossless_witness:
  "websocket_tunnel (newConnHijackerTransport NilTransport)
     (example_tunnel\<lparr>Replay := ''HTTP'', Backend_rest := ''/1.1'', Copied := 4\<rparr>) = (None, ''HTTP/1.1'', [])"
  using websocket_tunnel_lossless [of "[3, 1]" "''HTTP/1.1''" "\<lparr>hc_stream = ''/1.1'', hc_replay = ''HTTP''\<rparr>"
      "example_tunnel\<lparr>Replay := ''HTTP'', Backend_rest := ''/1.1'', Copied := 4\<rparr>" NilTransport]
  by (simp add: hijackedConn_Read_def example_tunnel_def Let_def)

text \<open>
  The TLS dialer opens a connection exactly when the plain connection and the
  handshake succeed before any timeout, and, unless verification is switched off, the
  peer's certificate is good for the configured server name or else for the host of the
  address.
\<close>

lemma tls_dial_open_iff:
  "fst (tls_dial plainDial handshake timer_first verify t addr) = TLSOpen \<longleftrightarrow>
    (let c0 = (case TLSClientConfig t of None \<Rightarrow> empty_tls_config | Some c \<Rightarrow> c);
         name = (if tls_ServerName c0 = [] then stripPort addr else tls_ServerName c0)
     in plainDial addr = None \<and> (TLSHandshakeTimeout t = 0 \<or> timer_first = False) \<and>
        handshake (if tls_InsecureSkipVerify c0 then c0 else c0\<lparr>tls_ServerName := name\<rparr>) = None \<and>
        (tls_InsecureSkipVerify c0 \<or> verify name = None))"
  by (cases "plainDial addr"; cases "TLSClientConfig t")
     (auto simp: tls_dial_def Let_def empty_tls_config_def split: option.splits)

end
