(* ===== verification/Latency_Writer.thy ===== *)
theory Latency_Writer
  imports Reverse_Proxy
begin

text \<open>
  maxLatencyWriter (reverseproxy.go): the goroutine that flushes the client's writer
  every so often while the copy loop writes to it, as a step relation. The copy loop
  takes the lock for every write, the flush loop for every flush; stop hands a value to
  the flush loop and so waits until it is back at its select. \<open>events\<close> records what has
  reached the writer, in order.
\<close>

datatype party = Copier | Flusher

datatype flush_pc = Selecting | Ticked | Flushing | Exited

datatype copy_pc = Copying | Writing bytes | Stopping | Returned

record latency_writer =
  lk :: "party option"
  flush_loop :: flush_pc
  copy_side :: copy_pc
  pending :: "bytes list"
  failed :: bool
  events :: "copy_event list"

definition mlw_start :: "bytes list \<Rightarrow> latency_writer" where
  "mlw_start body = \<lparr>lk = None, flush_loop = Selecting, copy_side = Copying, pending = body, failed = False, events = []\<rparr>"

inductive mlw_step :: "latency_writer \<Rightarrow> latency_writer \<Rightarrow> bool" where
  write_lock: "copy_side s = Copying \<Longrightarrow> pending s = b # bs \<Longrightarrow> lk s = None \<Longrightarrow>
     mlw_step s (s\<lparr>lk := Some Copier, copy_side := Writing b, pending := bs\<rparr>)"
| write_ok: "copy_side s = Writing b \<Longrightarrow>
     mlw_step s (s\<lparr>lk := None, copy_side := Copying, events := events s @ [Chunk b]\<rparr>)"
| write_error: "copy_side s = Writing b \<Longrightarrow>
     mlw_step s (s\<lparr>lk := None, copy_side := Stopping, failed := True, events := events s @ [Chunk b]\<rparr>)"
| copied: "copy_side s = Copying \<Longrightarrow> pending s = [] \<Longrightarrow> mlw_step s (s\<lparr>copy_side := Stopping\<rparr>)"
| tick: "flush_loop s = Selecting \<Longrightarrow> mlw_step s (s\<lparr>flush_loop := Ticked\<rparr>)"
| flush_lock: "flush_loop s = Ticked \<Longrightarrow> lk s = None \<Longrightarrow>
     mlw_step s (s\<lparr>lk := Some Flusher, flush_loop := Flushing\<rparr>)"
| flush: "flush_loop s = Flushing \<Longrightarrow>
     mlw_step s (s\<lparr>lk := None, flush_loop := Selecting, events := events s @ [Tick]\<rparr>)"
| stop: "copy_side s = Stopping \<Longrightarrow> flush_loop s = Selecting \<Longrightarrow>
     mlw_step s (s\<lparr>copy_side := Returned, flush_loop := Exited\<rparr>)"

inductive_cases mlw_stepE: "mlw_step s t"

abbreviation mlw_reachable :: "bytes list \<Rightarrow> latency_writer \<Rightarrow> bool" where
  "mlw_reachable body \<equiv> reachable mlw_step (mlw_start body)"

fun is_writing :: "copy_pc \<Rightarrow> bool" where
  "is_writing (Writing b) = True"
| "is_writing _ = False"

fun in_flight :: "copy_pc \<Rightarrow> bytes list" where
  "in_flight (Writing b) = [b]"
| "in_flight _ = []"

fun chunks_of :: "copy_event list \<Rightarrow> bytes list" where
  "chunks_of [] = []"
| "chunks_of (Chunk b # es) = b # chunks_of es"
| "chunks_of (Tick # es) = chunks_of es"

lemma chunks_of_append [simp]: "chunks_of (es @ fs) = chunks_of es @ chunks_of fs"
  by (induction es rule: chunks_of.induct) auto

text \<open>
  The invariant: who holds the lock is who is writing or flushing, the flush loop has
  ended exactly when the copy has returned, and written, current and pending chunks make
  up the body.
\<close>

definition mlw_inv :: "bytes list \<Rightarrow> latency_writer \<Rightarrow> bool" where
  "mlw_inv body s \<longleftrightarrow>
     (lk s = Some Copier \<longleftrightarrow> is_writing (copy_side s)) \<and>
     (lk s = Some Flusher \<longleftrightarrow> flush_loop s = Flushing) \<and>
     (flush_loop s = Exited \<longleftrightarrow> copy_side s = Returned) \<and>
     chunks_of (events s) @ in_flight (copy_side s) @ pending s = body \<and>
     (copy_side s \<in> {Stopping, Returned} \<and> \<not> failed s \<longrightarrow> pending s = [])"

lemma mlw_inv_start: "mlw_inv body (mlw_start body)"
  by (simp add: mlw_inv_def mlw_start_def)

lemma mlw_inv_step: "mlw_step s t \<Longrightarrow> mlw_inv body s \<Longrightarrow> mlw_inv body t"
  by (induction rule: mlw_step.induct) (auto simp: mlw_inv_def)

interpretation mlw: invariant mlw_step "mlw_start body" "mlw_inv body" for body
  by unfold_locales (rule mlw_inv_start, rule mlw_inv_step)

section \<open>Properties\<close>

text \<open>
  C15. Writes and flushes never overlap, and once the copy has returned nothing touches
  the client's writer any more: the flush loop has ended and no step is left.
\<close>

theorem latency_writer_exclusive:
  assumes "mlw_reachable body s"
  shows "(is_writing (copy_side s) \<and> flush_loop s = Flushing) = False \<and>
    (copy_side s = Returned \<longrightarrow> (\<forall>t. \<not> mlw_step s t))"
  using mlw.always [OF assms] by (auto simp: mlw_inv_def elim!: mlw_stepE)

text \<open>
  Every run of the two goroutines that ends without a write error has written the
  chunks of the body in order, with flushes anywhere between them.
\<close>

lemma latency_writer_complete:
  assumes "mlw_reachable body s" and "copy_side s = Returned" and "failed s = False"
  shows "chunks_of (events s) = body"
  using mlw.always [OF assms(1)] assms(2,3) by (auto simp: mlw_inv_def)

text \<open>What is left to do: every step but a tick and a failing write makes it less.\<close>

definition mlw_rank :: "latency_writer \<Rightarrow> nat" where
  "mlw_rank s = 3 * length (pending s) +
     (case copy_side s of Copying \<Rightarrow> 2 | Writing b \<Rightarrow> 4 | Stopping \<Rightarrow> 1 | Returned \<Rightarrow> 0) +
     (case flush_loop s of Ticked \<Rightarrow> 2 | Flushing \<Rightarrow> 1 | _ \<Rightarrow> 0)"

lemma mlw_nearer:
  assumes inv: "mlw_inv body s" and run: "copy_side s \<noteq> Returned"
  shows "\<exists>t. mlw_step s t \<and> mlw_rank t < mlw_rank s \<and> failed t = failed s"
proof -
  note nearerI = exI [where P = "\<lambda>t. mlw_step s t \<and> mlw_rank t < mlw_rank s \<and> failed t = failed s", OF conjI, OF _ conjI]
  have writing: "?thesis" if "copy_side s = Writing b" for b
    by (rule nearerI [OF mlw_step.write_ok [OF that]]) (simp_all add: that mlw_rank_def)
  show ?thesis
  proof (cases "flush_loop s")
    case Selecting
    show ?thesis
    proof (cases "copy_side s")
      case Copying
      with Selecting inv have "lk s = None" by (cases "lk s"; cases "the (lk s)") (auto simp: mlw_inv_def)
      then show ?thesis
        using mlw_step.write_lock [OF Copying] mlw_step.copied [OF Copying] Copying Selecting
        by (cases "pending s") (fastforce simp: mlw_rank_def)+
    next
      case Stopping
      show ?thesis
        by (rule nearerI [OF mlw_step.stop [OF Stopping Selecting]]) (simp_all add: Stopping Selecting mlw_rank_def)
    qed (use writing run in auto)
  next
    case Ticked
    show ?thesis
    proof (cases "lk s")
      case None
      show ?thesis
        by (rule nearerI [OF mlw_step.flush_lock [OF Ticked None]]) (simp_all add: Ticked mlw_rank_def)
    next
      case (Some p)
      with inv Ticked have "is_writing (copy_side s)" by (cases p) (auto simp: mlw_inv_def)
      with writing show ?thesis by (cases "copy_side s") auto
    qed
  next
    case Flushing
    show ?thesis
      by (rule nearerI [OF mlw_step.flush [OF Flushing]]) (simp_all add: Flushing mlw_rank_def)
  qed (use inv run in \<open>simp add: mlw_inv_def\<close>)
qed

text \<open>
  C39. The copy can always end: from every state the two goroutines can reach, however
  the ticks have fallen, there is a way on to the state where the copy has returned, and
  without a write error on that way. Neither goroutine can block the other for good.
\<close>

theorem latency_writer_returns:
  assumes "mlw_reachable body s"
  shows "\<exists>t. reachable mlw_step s t \<and> copy_side t = Returned \<and> failed t = failed s"
proof -
  have "mlw_inv body s" by (rule mlw.always [OF assms])
  then show ?thesis
  proof (induction "mlw_rank s" arbitrary: s rule: less_induct)
    case less
    show ?case
    proof (cases "copy_side s = Returned")
      case True
      then show ?thesis by (blast intro: reachable.start)
    next
      case False
      with less.prems obtain t where t: "mlw_step s t" "mlw_rank t < mlw_rank s" "failed t = failed s"
        using mlw_nearer by blast
      with less.hyps [OF t(2) mlw_inv_step [OF t(1) less.prems]] show ?thesis
        by (metis reachable_after)
    qed
  qed
qed

text \<open>A run of one chunk with one flush.\<close>

lemma example_run:
  "\<exists>s. mlw_reachable [''ab''] s \<and> copy_side s = Returned \<and> failed s = False \<and> events s = [Tick, Chunk ''ab'']"
proof -
  let ?s0 = "mlw_start [''ab'']"
  let ?s1 = "?s0\<lparr>flush_loop := Ticked\<rparr>"
  let ?s2 = "?s1\<lparr>lk := Some Flusher, flush_loop := Flushing\<rparr>"
  let ?s3 = "?s2\<lparr>lk := None, flush_loop := Selecting, events := events ?s2 @ [Tick]\<rparr>"
  let ?s4 = "?s3\<lparr>lk := Some Copier, copy_side := Writing ''ab'', pending := []\<rparr>"
  let ?s5 = "?s4\<lparr>lk := None, copy_side := Copying, events := events ?s4 @ [Chunk ''ab'']\<rparr>"
  let ?s6 = "?s5\<lparr>copy_side := Stopping\<rparr>"
  let ?s7 = "?s6\<lparr>copy_side := Returned, flush_loop := Exited\<rparr>"
  note init = mlw_start_def
  have "mlw_reachable [''ab''] ?s0" by (rule reachable.start)
  then have "mlw_reachable [''ab''] ?s1" by (rule reachable.step) (rule mlw_step.tick, simp add: init)
  then have "mlw_reachable [''ab''] ?s2" by (rule reachable.step) (rule mlw_step.flush_lock, simp_all add: init)
  then have "mlw_reachable [''ab''] ?s3" by (rule reachable.step) (rule mlw_step.flush, simp)
  then have "mlw_reachable [''ab''] ?s4" by (rule reachable.step) (rule mlw_step.write_lock, simp_all add: init)
  then have "mlw_reachable [''ab''] ?s5" by (rule reachable.step) (rule mlw_step.write_ok, simp)
  then have "mlw_reachable [''ab''] ?s6" by (rule reachable.step) (rule mlw_step.copied, simp_all)
  then have "mlw_reachable [''ab''] ?s7" by (rule reachable.step) (rule mlw_step.stop, simp_all)
  moreover have "copy_side ?s7 = Returned \<and> failed ?s7 = False \<and> events ?s7 = [Tick, Chunk ''ab'']"
    by (simp add: init)
  ultimately show ?thesis by blast
qed

theorem latency_writer_exclusive_witness:
  "\<exists>s. copy_side s = Returned \<and> (\<forall>t. \<not> mlw_step s t)"
proof -
  obtain s where s: "mlw_reachable [''ab''] s" "copy_side s = Returned" using example_run by blast
  with latency_writer_exclusive [OF s(1)] show ?thesis by blast
qed

lemma latency_writer_complete_example:
  "\<exists>s. mlw_reachable [''ab''] s \<and> copy_side s = Returned \<and> chunks_of (events s) = [''ab'']"
proof -
  obtain s where s: "mlw_reachable [''ab''] s" "copy_side s = Returned" "failed s = False" using example_run by blast
  with latency_writer_complete [OF s] show ?thesis by (intro exI [of _ s]) simp
qed

theorem latency_writer_returns_witness:
  "\<exists>t. reachable mlw_step (mlw_start [''ab'']) t \<and> copy_side t = Returned \<and> failed t = False"
  using latency_writer_returns [OF reachable.start, of "[''ab'']"] by (simp add: mlw_start_def)

end
