(* ===== verification/Async_Cib.thy ===== *)
theory Async_Cib
  imports Prelude
begin

text \<open>
  AsyncCib (main.go): the one copy of the cluster information base, its lock, and the
  channel over which long-polling clients wait for the next version; with the fetcher
  that fills it. The clients are requests to the monitor handler, from the moment they
  read the version. Any number of goroutines may publish documents (the fetcher after a
  query, the library's main loop after an update event) and any number of clients wait.
\<close>

section \<open>State\<close>

text \<open>A document of go-pacemaker, as its text and the text of its version.\<close>

record document =
  doc_text :: string
  doc_version :: string

text \<open>A goroutine in notifyNewCib, statement by statement.\<close>

datatype notifier_pc =
    NIdle
  | NStart document      \<comment> \<open>before Lock\<close>
  | NStoreText document  \<comment> \<open>lock held\<close>
  | NStoreVersion document
  | NUnlock document
  | NLoop document       \<comment> \<open>at the select\<close>
  | NSend document nat   \<comment> \<open>sending to the channel of this client\<close>

text \<open>A monitor request: its epoch on arrival, then at Wait's select, answered on its channel, done.\<close>

datatype client_pc =
    CArrived string
  | CWillWait string
  | COffering string
  | CGranted nat
  | CAnswered string

record AsyncCib =
  xmldoc :: string
  version :: "string option"
  lock :: "nat option"
  notifiers :: "nat \<Rightarrow> notifier_pc"
  clients :: "nat \<Rightarrow> client_pc"
  published :: "document list" \<comment> \<open>documents whose notifier has released the lock, oldest first\<close>

definition cib_start :: "(nat \<Rightarrow> string) \<Rightarrow> AsyncCib" where
  "cib_start epochs = \<lparr>xmldoc = [], version = None, lock = None, notifiers = (\<lambda>_. NIdle),
     clients = (\<lambda>c. CArrived (epochs c)), published = []\<rparr>"

definition set_notifier :: "nat \<Rightarrow> notifier_pc \<Rightarrow> AsyncCib \<Rightarrow> AsyncCib" where
  "set_notifier i p s = s\<lparr>notifiers := (notifiers s)(i := p)\<rparr>"

definition set_client :: "nat \<Rightarrow> client_pc \<Rightarrow> AsyncCib \<Rightarrow> AsyncCib" where
  "set_client c p s = s\<lparr>clients := (clients s)(c := p)\<rparr>"

text \<open>The epoch a monitor request reads: the version's text, empty while there is none.\<close>

definition current_epoch :: "AsyncCib \<Rightarrow> string" where
  "current_epoch s = (case version s of Some v \<Rightarrow> v | None \<Rightarrow> [])"

definition offering :: "AsyncCib \<Rightarrow> nat \<Rightarrow> bool" where
  "offering s c \<longleftrightarrow> (case clients s c of COffering _ \<Rightarrow> True | _ \<Rightarrow> False)"

text \<open>
  What a monitor request does with the version it has read: it waits when there is none
  yet or when it is the one the client has already, and else answers with it at once.
\<close>

definition monitor_waits :: "string \<Rightarrow> string \<Rightarrow> bool" where
  "monitor_waits new_epoch epoch \<longleftrightarrow> new_epoch = [] \<or> new_epoch = epoch"

definition monitor_read :: "nat \<Rightarrow> string \<Rightarrow> AsyncCib \<Rightarrow> AsyncCib" where
  "monitor_read c epoch s =
     set_client c (if monitor_waits (current_epoch s) epoch then CWillWait (current_epoch s)
                   else CAnswered (current_epoch s)) s"

section \<open>Steps\<close>

text \<open>
  A select with a default takes the default only when no client is ready; a client's
  offer and a notifier's receive meet in one step, as do the answer's send and receive.
\<close>

inductive cib_step :: "AsyncCib \<Rightarrow> AsyncCib \<Rightarrow> bool" where
  arrive: "notifiers s i = NIdle \<Longrightarrow> cib_step s (set_notifier i (NStart d) s)"
| lock: "notifiers s i = NStart d \<Longrightarrow> lock s = None \<Longrightarrow>
     cib_step s (set_notifier i (NStoreText d) (s\<lparr>lock := Some i\<rparr>))"
| store_text: "notifiers s i = NStoreText d \<Longrightarrow>
     cib_step s (set_notifier i (NStoreVersion d) (s\<lparr>xmldoc := doc_text d\<rparr>))"
| store_version: "notifiers s i = NStoreVersion d \<Longrightarrow>
     cib_step s (set_notifier i (NUnlock d) (s\<lparr>version := Some (doc_version d)\<rparr>))"
| unlock: "notifiers s i = NUnlock d \<Longrightarrow>
     cib_step s (set_notifier i (NLoop d) (s\<lparr>lock := None, published := published s @ [d]\<rparr>))"
| receive: "notifiers s i = NLoop d \<Longrightarrow> offering s c \<Longrightarrow>
     cib_step s (set_client c (CGranted i) (set_notifier i (NSend d c) s))"
| leave: "notifiers s i = NLoop d \<Longrightarrow> (\<forall>c. \<not> offering s c) \<Longrightarrow> cib_step s (set_notifier i NIdle s)"
| answer: "notifiers s i = NSend d c \<Longrightarrow> clients s c = CGranted i \<Longrightarrow>
     cib_step s (set_client c (CAnswered (doc_version d)) (set_notifier i (NLoop d) s))"
| read_version: "clients s c = CArrived epoch \<Longrightarrow> lock s = None \<Longrightarrow>
     cib_step s (monitor_read c epoch s)"
| offer: "clients s c = CWillWait e \<Longrightarrow> cib_step s (set_client c (COffering e) s)"
| timeout: "clients s c = COffering e \<Longrightarrow> cib_step s (set_client c (CAnswered e) s)"

inductive_simps cib_step_iff: "cib_step s t"

abbreviation cib_reachable :: "(nat \<Rightarrow> string) \<Rightarrow> AsyncCib \<Rightarrow> bool" where
  "cib_reachable epochs \<equiv> reachable cib_step (cib_start epochs)"

text \<open>Get and Version, which hold the lock while they read.\<close>

definition AsyncCib_Get :: "AsyncCib \<Rightarrow> string option" where
  "AsyncCib_Get s = (if lock s = None then Some (xmldoc s) else None)"

definition AsyncCib_Version :: "AsyncCib \<Rightarrow> string option option" where
  "AsyncCib_Version s = (if lock s = None then Some (version s) else None)"

section \<open>The invariant\<close>

fun holds_lock :: "notifier_pc \<Rightarrow> bool" where
  "holds_lock (NStoreText d) = True"
| "holds_lock (NStoreVersion d) = True"
| "holds_lock (NUnlock d) = True"
| "holds_lock _ = False"

fun stored :: "AsyncCib \<Rightarrow> notifier_pc \<Rightarrow> bool" where
  "stored s (NStoreVersion d) = (xmldoc s = doc_text d)"
| "stored s (NUnlock d) = (xmldoc s = doc_text d \<and> version s = Some (doc_version d))"
| "stored s _ = True"

text \<open>Who holds the lock is who stores; what is stored belongs together whenever it is free.\<close>

definition lock_inv :: "AsyncCib \<Rightarrow> bool" where
  "lock_inv s \<longleftrightarrow>
     (\<forall>i. holds_lock (notifiers s i) \<longleftrightarrow> lock s = Some i) \<and> (\<forall>i. stored s (notifiers s i)) \<and>
     (lock s = None \<longrightarrow>
        (if published s = [] then xmldoc s = [] \<and> version s = None
         else xmldoc s = doc_text (last (published s)) \<and> version s = Some (doc_version (last (published s)))))"

text \<open>A client whose offer was taken is the one its notifier is sending to.\<close>

fun sending_to :: "notifier_pc \<Rightarrow> nat option" where
  "sending_to (NSend d c) = Some c"
| "sending_to _ = None"

definition channel_inv :: "AsyncCib \<Rightarrow> bool" where
  "channel_inv s \<longleftrightarrow> (\<forall>i c. clients s c = CGranted i \<longleftrightarrow> sending_to (notifiers s i) = Some c)"

fun carries :: "notifier_pc \<Rightarrow> document \<Rightarrow> bool" where
  "carries (NLoop d) d' = (d = d')"
| "carries (NSend d c) d' = (d = d')"
| "carries _ d' = False"

fun epoch_of :: "client_pc \<Rightarrow> string option" where
  "epoch_of (CWillWait e) = Some e"
| "epoch_of (COffering e) = Some e"
| "epoch_of (CAnswered e) = Some e"
| "epoch_of _ = None"

text \<open>Every epoch a client carries or was answered with is empty or that of a published document.\<close>

definition epoch_inv :: "AsyncCib \<Rightarrow> bool" where
  "epoch_inv s \<longleftrightarrow>
     (\<forall>i d. carries (notifiers s i) d \<longrightarrow> d \<in> set (published s)) \<and>
     (\<forall>c e. epoch_of (clients s c) = Some e \<longrightarrow> e = [] \<or> e \<in> doc_version ` set (published s))"

lemmas cib_upd = set_notifier_def set_client_def monitor_read_def

lemma cib_start_inv: "lock_inv (cib_start e)" "channel_inv (cib_start e)" "epoch_inv (cib_start e)"
  by (simp_all add: lock_inv_def channel_inv_def epoch_inv_def cib_start_def)

lemma stored_without_lock: "\<not> holds_lock p \<Longrightarrow> stored s p"
  by (cases p) auto

lemma stored_cong: "xmldoc t = xmldoc s \<Longrightarrow> version t = version s \<Longrightarrow> stored t p = stored s p"
  by (cases p) auto

text \<open>A step of one notifier that holds the lock leaves the others where they have nothing stored.\<close>

lemma lock_inv_holder: "lock_inv s \<Longrightarrow> holds_lock (notifiers s i) \<Longrightarrow> lock s = Some i"
  by (simp add: lock_inv_def)

lemma lock_inv_others: "lock_inv s \<Longrightarrow> holds_lock (notifiers s i) \<Longrightarrow> j \<noteq> i \<Longrightarrow> \<not> holds_lock (notifiers s j)"
  by (auto simp: lock_inv_def)

text \<open>Steps that neither touch the shared fields nor take or release the lock.\<close>

lemma lock_inv_frame:
  assumes inv: "lock_inv s" and same: "xmldoc t = xmldoc s" "version t = version s" "lock t = lock s" "published t = published s"
    and pcs: "\<And>j. notifiers t j = notifiers s j \<or> \<not> holds_lock (notifiers t j) \<and> \<not> holds_lock (notifiers s j)"
  shows "lock_inv t"
proof -
  have "holds_lock (notifiers t j) \<longleftrightarrow> lock t = Some j" for j
    using inv pcs [of j] same(3) by (auto simp: lock_inv_def)
  moreover have "stored t (notifiers t j)" for j
  proof (cases "holds_lock (notifiers t j)")
    case True
    with pcs [of j] have "notifiers t j = notifiers s j" by blast
    with inv stored_cong [OF same(1,2)] show ?thesis by (simp add: lock_inv_def)
  qed (rule stored_without_lock)
  ultimately show ?thesis using inv same unfolding lock_inv_def by simp
qed

lemma lock_inv_step: "cib_step s t \<Longrightarrow> lock_inv s \<Longrightarrow> lock_inv t"
proof (induction rule: cib_step.induct)
  case (lock s i d)
  then have "\<not> holds_lock (notifiers s j)" for j by (simp add: lock_inv_def)
  with lock show ?case by (auto simp: lock_inv_def cib_upd stored_without_lock)
next
  case (store_text s i d)
  then have "\<not> holds_lock (notifiers s j)" if "j \<noteq> i" for j
    using lock_inv_others that by fastforce
  moreover have "lock s = Some i" using store_text lock_inv_holder by simp
  ultimately show ?case using store_text by (auto simp: lock_inv_def cib_upd stored_without_lock)
next
  case (store_version s i d)
  then have "\<not> holds_lock (notifiers s j)" if "j \<noteq> i" for j
    using lock_inv_others that by fastforce
  moreover have "lock s = Some i" using store_version lock_inv_holder by simp
  moreover have "xmldoc s = doc_text d" using store_version by (auto simp: lock_inv_def dest: spec [of _ i])
  ultimately show ?case using store_version by (auto simp: lock_inv_def cib_upd stored_without_lock)
next
  case (unlock s i d)
  then have "\<not> holds_lock (notifiers s j)" if "j \<noteq> i" for j
    using lock_inv_others that by fastforce
  moreover have "xmldoc s = doc_text d" "version s = Some (doc_version d)"
    using unlock by (auto simp: lock_inv_def dest: spec [of _ i])
  ultimately show ?case using unlock by (auto simp: lock_inv_def cib_upd stored_without_lock)
qed (erule lock_inv_frame, auto simp: cib_upd)+

lemma channel_invD: "channel_inv s \<Longrightarrow> clients s c = CGranted i \<longleftrightarrow> sending_to (notifiers s i) = Some c"
  by (simp add: channel_inv_def)

lemma channel_inv_step: "cib_step s t \<Longrightarrow> channel_inv s \<Longrightarrow> channel_inv t"
proof (induction rule: cib_step.induct)
  case (receive s i d c)
  note D = channel_invD [OF receive.prems]
  from receive have "sending_to (notifiers s j) \<noteq> Some c" for j
    using D [of c j] by (auto simp: offering_def)
  moreover have "clients s c' \<noteq> CGranted i" for c' using D [of c' i] receive by simp
  ultimately show ?case using D by (auto simp: channel_inv_def cib_upd)
next
  case (answer s i d c)
  note D = channel_invD [OF answer.prems]
  have "sending_to (notifiers s j) \<noteq> Some c" if "j \<noteq> i" for j using D [of c j] answer that by auto
  moreover have "clients s c' \<noteq> CGranted i" if "c' \<noteq> c" for c' using D [of c' i] answer that by simp
  ultimately show ?case using D by (auto simp: channel_inv_def cib_upd)
next
  case (read_version s c epoch)
  note D = channel_invD [OF read_version.prems]
  have "sending_to (notifiers s j) \<noteq> Some c" for j using D [of c j] read_version by simp
  with D show ?case by (auto simp: channel_inv_def cib_upd)
next
  case (offer s c e)
  note D = channel_invD [OF offer.prems]
  have "sending_to (notifiers s j) \<noteq> Some c" for j using D [of c j] offer by simp
  with D show ?case by (auto simp: channel_inv_def cib_upd)
next
  case (timeout s c e)
  note D = channel_invD [OF timeout.prems]
  have "sending_to (notifiers s j) \<noteq> Some c" for j using D [of c j] timeout by simp
  with D show ?case by (auto simp: channel_inv_def cib_upd)
qed (auto simp: channel_inv_def cib_upd)

lemma epoch_inv_step:
  assumes "cib_step s t" and "lock_inv s" and "epoch_inv s"
  shows "epoch_inv t"
  using assms
proof (induction rule: cib_step.induct)
  case (read_version s c epoch)
  then have "current_epoch s = [] \<or> current_epoch s \<in> doc_version ` set (published s)"
    by (auto simp: lock_inv_def current_epoch_def split: if_splits)
  with read_version show ?case by (auto simp: epoch_inv_def cib_upd)
next
  case (unlock s i d)
  then show ?case by (auto simp: epoch_inv_def cib_upd)
next
  case (receive s i d c)
  then have "d \<in> set (published s)" unfolding epoch_inv_def by (metis carries.simps(1))
  with receive show ?case by (auto simp: epoch_inv_def cib_upd)
next
  case (answer s i d c)
  then have "d \<in> set (published s)" unfolding epoch_inv_def by (metis carries.simps(2))
  with answer show ?case by (auto simp: epoch_inv_def cib_upd)
next
  case (offer s c e)
  then have "e = [] \<or> e \<in> doc_version ` set (published s)" unfolding epoch_inv_def by (metis epoch_of.simps(1))
  with offer show ?case by (auto simp: epoch_inv_def cib_upd)
next
  case (timeout s c e)
  then have "e = [] \<or> e \<in> doc_version ` set (published s)" unfolding epoch_inv_def by (metis epoch_of.simps(2))
  with timeout show ?case by (auto simp: epoch_inv_def cib_upd)
qed (auto simp: epoch_inv_def cib_upd)

definition cib_inv :: "AsyncCib \<Rightarrow> bool" where
  "cib_inv s \<longleftrightarrow> lock_inv s \<and> channel_inv s \<and> epoch_inv s"

interpretation cib: invariant cib_step "cib_start epochs" cib_inv for epochs
  by unfold_locales (auto simp: cib_inv_def intro: cib_start_inv lock_inv_step channel_inv_step epoch_inv_step)

section \<open>The fetcher\<close>

text \<open>
  The goroutine of Start. What the library answers to its calls comes from outside; the
  calls it makes are recorded. \<open>cib\<close> is the handle OpenCib returned.
\<close>

datatype fetch_call = OpenCib | Query | Publish document | Subscribe | Sleep5 | WaitLost

datatype reply =
    Opened bool                  \<comment> \<open>whether OpenCib succeeded\<close>
  | Queried "document option"    \<comment> \<open>the document, or an error\<close>
  | Subscribed bool
  | Lost                         \<comment> \<open>a value arrives on the waiter channel\<close>

datatype fetch_pc = FOpen | FQuery | FSubscribe | FWait

fun fetch_step :: "fetch_pc \<Rightarrow> reply \<Rightarrow> (fetch_call list \<times> fetch_pc) option" where
  "fetch_step FOpen (Opened ok) = Some (if ok then ([OpenCib], FQuery) else ([OpenCib, Sleep5], FOpen))"
| "fetch_step FQuery (Queried (Some d)) = Some ([Query, Publish d], FSubscribe)"
| "fetch_step FQuery (Queried None) = Some ([Query], FSubscribe)"
| "fetch_step FSubscribe (Subscribed ok) = Some (if ok then ([Subscribe], FWait) else ([Subscribe, Sleep5], FQuery))"
| "fetch_step FWait Lost = Some ([WaitLost], FQuery)"
| "fetch_step _ _ = None"

fun fetch_run :: "fetch_pc \<Rightarrow> reply list \<Rightarrow> (fetch_call list \<times> fetch_pc) option" where
  "fetch_run pc [] = Some ([], pc)"
| "fetch_run pc (r # rs) =
     (case fetch_step pc r of
        None \<Rightarrow> None
      | Some (cs, pc') \<Rightarrow> map_option (\<lambda>(cs', pc''). (cs @ cs', pc'')) (fetch_run pc' rs))"

lemma fetch_step_connected:
  "fetch_step pc r = Some (cs, pc') \<Longrightarrow> pc \<noteq> FOpen \<Longrightarrow> pc' \<noteq> FOpen \<and> OpenCib \<notin> set cs"
  by (induction pc r rule: fetch_step.induct) (auto split: if_splits)

lemma fetch_run_connected:
  "fetch_run pc rs = Some (cs, pc') \<Longrightarrow> pc \<noteq> FOpen \<Longrightarrow> pc' \<noteq> FOpen \<and> OpenCib \<notin> set cs"
proof (induction pc rs arbitrary: cs rule: fetch_run.induct)
  case (2 pc r rs)
  then obtain cs1 pc1 cs2 where d: "fetch_step pc r = Some (cs1, pc1)" "fetch_run pc1 rs = Some (cs2, pc')" "cs = cs1 @ cs2"
    by (auto split: option.splits)
  with fetch_step_connected "2.prems"(2) "2.IH" show ?case by fastforce
qed auto

section \<open>Properties\<close>

text \<open>
  C6. Text and version always belong together: whenever the lock is free, what Get and
  Version return are the text and the version of one and the same published document,
  the last one (or nothing was published yet), whatever notifiers and clients run.
\<close>

theorem cib_consistent:
  assumes "cib_reachable epochs s" and "lock s = None"
  shows "(AsyncCib_Get s, AsyncCib_Version s) =
    (if published s = [] then (Some [], Some None)
     else (Some (doc_text (last (published s))), Some (Some (doc_version (last (published s))))))"
  using cib.always [OF assms(1)] assms(2)
  by (simp add: cib_inv_def lock_inv_def AsyncCib_Get_def AsyncCib_Version_def)

text \<open>A notifier that publishes a document while nobody offers, from start to end.\<close>

definition publish :: "document \<Rightarrow> AsyncCib \<Rightarrow> AsyncCib" where
  "publish d s = s\<lparr>xmldoc := doc_text d, version := Some (doc_version d), published := published s @ [d]\<rparr>"

lemma publish_run:
  assumes "notifiers s i = NIdle" and "lock s = None" and "\<forall>c. \<not> offering s c"
  shows "reachable cib_step s (publish d s)"
proof -
  note run = reachable.step
  let ?s1 = "set_notifier i (NStart d) s"
  let ?s2 = "set_notifier i (NStoreText d) (?s1\<lparr>lock := Some i\<rparr>)"
  let ?s3 = "set_notifier i (NStoreVersion d) (?s2\<lparr>xmldoc := doc_text d\<rparr>)"
  let ?s4 = "set_notifier i (NUnlock d) (?s3\<lparr>version := Some (doc_version d)\<rparr>)"
  let ?s5 = "set_notifier i (NLoop d) (?s4\<lparr>lock := None, published := published ?s4 @ [d]\<rparr>)"
  have "reachable cib_step s ?s1" by (rule run [OF reachable.start]) (rule cib_step.arrive [OF assms(1)])
  then have "reachable cib_step s ?s2" by (rule run) (rule cib_step.lock, simp_all add: cib_upd assms(2))
  then have "reachable cib_step s ?s3" by (rule run) (rule cib_step.store_text, simp add: cib_upd)
  then have "reachable cib_step s ?s4" by (rule run) (rule cib_step.store_version, simp add: cib_upd)
  then have "reachable cib_step s ?s5" by (rule run) (rule cib_step.unlock, simp add: cib_upd)
  then have "reachable cib_step s (set_notifier i NIdle ?s5)"
    by (rule run) (rule cib_step.leave, simp add: cib_upd, use assms(3) in \<open>simp add: offering_def cib_upd\<close>)
  moreover have "set_notifier i NIdle ?s5 = publish d s"
    using assms(1,2) by (simp add: cib_upd publish_def fun_upd_idem)
  ultimately show ?thesis by simp
qed

theorem cib_consistent_witness:
  "(AsyncCib_Get (publish \<lparr>doc_text = ''<cib/>'', doc_version = ''0:1:0''\<rparr> (cib_start (\<lambda>_. []))),
    AsyncCib_Version (publish \<lparr>doc_text = ''<cib/>'', doc_version = ''0:1:0''\<rparr> (cib_start (\<lambda>_. [])))) =
   (Some ''<cib/>'', Some (Some ''0:1:0''))"
proof -
  have "cib_reachable (\<lambda>_. []) (publish d (cib_start (\<lambda>_. [])))" for d
    by (rule publish_run [of _ 0]) (simp_all add: cib_start_def offering_def)
  from cib_consistent [OF this, of "\<lparr>doc_text = ''<cib/>'', doc_version = ''0:1:0''\<rparr>"]
  show ?thesis by (simp add: publish_def cib_start_def)
qed

text \<open>A client between its read of the version \<open>e\<close> and its answer; \<open>V\<close> are the published versions.\<close>

fun after_read :: "string \<Rightarrow> bool \<Rightarrow> string set \<Rightarrow> client_pc \<Rightarrow> bool" where
  "after_read e w V (CArrived x) = False"
| "after_read e w V (CWillWait x) = (w \<and> x = e)"
| "after_read e w V (COffering x) = (w \<and> x = e)"
| "after_read e w V (CGranted i) = w"
| "after_read e w V (CAnswered a) = (a = e \<or> w \<and> a \<in> V)"

lemma after_read_mono: "after_read e w V p \<Longrightarrow> V \<subseteq> V' \<Longrightarrow> after_read e w V' p"
  by (cases p) auto

lemma after_read_step:
  assumes "cib_step s t" and "epoch_inv s" and "after_read e w (doc_version ` set (published s)) (clients s c)"
  shows "after_read e w (doc_version ` set (published t)) (clients t c)"
  using assms
proof (induction rule: cib_step.induct)
  case (unlock s i d)
  then show ?case by (auto simp: cib_upd elim: after_read_mono)
next
  case (receive s i d c')
  then show ?case by (cases "clients s c'") (auto simp: cib_upd offering_def)
next
  case (answer s i d c')
  then have "d \<in> set (published s)" unfolding epoch_inv_def by (metis carries.simps(2))
  with answer show ?case by (auto simp: cib_upd)
qed (auto simp: cib_upd)

text \<open>
  C16. What a monitor request is told. Take the state in which the request reads the
  version. When that is neither empty nor what the client has, the answer is that
  version. Otherwise the request waits, and however the other goroutines run on, its
  answer is the version it read (its timeout has come) or the version of a document that
  has been published.
\<close>

theorem monitor_answers:
  assumes "cib_reachable epochs s" and "clients s c = CArrived epoch" and "lock s = None"
    and "reachable cib_step (monitor_read c epoch s) t" and "clients t c = CAnswered a"
  shows "a = current_epoch s \<or> (monitor_waits (current_epoch s) epoch \<and> a \<in> doc_version ` set (published t))"
proof -
  let ?s = "monitor_read c epoch s" and ?w = "monitor_waits (current_epoch s) epoch"
  have s: "cib_reachable epochs ?s" by (rule reachable.step [OF assms(1) cib_step.read_version [OF assms(2,3)]])
  from assms(4) have "after_read (current_epoch s) ?w (doc_version ` set (published t)) (clients t c)"
  proof (induction rule: reachable.induct)
    case start
    then show ?case by (simp add: cib_upd)
  next
    case (step t u)
    have "cib_inv t" by (rule cib.always [OF reachable_trans [OF s step.hyps(1)]])
    with after_read_step [OF step.hyps(2) _ step.IH] show ?case by (simp add: cib_inv_def)
  qed
  with assms(5) show ?thesis by simp
qed

theorem monitor_answers_witness:
  "\<exists>t. reachable cib_step (monitor_read 0 ''0:1:0'' (publish \<lparr>doc_text = ''<cib/>'', doc_version = ''0:1:0''\<rparr> (cib_start (\<lambda>_. ''0:1:0'')))) t \<and>
     clients t 0 = CAnswered ''0:1:0'' \<and>
     (''0:1:0'' = current_epoch (publish \<lparr>doc_text = ''<cib/>'', doc_version = ''0:1:0''\<rparr> (cib_start (\<lambda>_. ''0:1:0''))) \<or>
      ''0:1:0'' \<in> doc_version ` set (published t))"
proof -
  let ?s = "publish \<lparr>doc_text = ''<cib/>'', doc_version = ''0:1:0''\<rparr> (cib_start (\<lambda>_. ''0:1:0''))"
  let ?u = "set_client 0 (COffering ''0:1:0'') (monitor_read 0 ''0:1:0'' ?s)"
  let ?t = "set_client 0 (CAnswered ''0:1:0'') ?u"
  note ev = publish_def cib_start_def cib_upd current_epoch_def monitor_waits_def
  have s: "cib_reachable (\<lambda>_. ''0:1:0'') ?s" "clients ?s 0 = CArrived ''0:1:0''" "lock ?s = None"
    by (rule publish_run [of _ 0]) (simp_all add: ev offering_def)
  have "reachable cib_step (monitor_read 0 ''0:1:0'' ?s) ?u"
    by (rule reachable.step [OF reachable.start]) (rule cib_step.offer, simp add: ev)
  then have t: "reachable cib_step (monitor_read 0 ''0:1:0'' ?s) ?t"
    by (rule reachable.step) (rule cib_step.timeout, simp add: cib_upd)
  have a: "clients ?t 0 = CAnswered ''0:1:0''" by (simp add: cib_upd)
  from monitor_answers [OF s t a] t a show ?thesis by blast
qed







text \<open>
  C18. Once connected, the fetcher never opens a connection again, whatever happens: a
  lost connection is followed by queries and subscriptions on the old handle only.
\<close>

theorem fetcher_never_reopens:
  assumes "fetch_run FOpen (Opened True # rs) = Some (cs, pc)"
  shows "count_list cs OpenCib = 1"
proof -
  from assms obtain cs' where "fetch_run FQuery rs = Some (cs', pc)" "cs = OpenCib # cs'" by auto
  moreover from fetch_run_connected [OF this(1)] have "count_list cs' OpenCib = 0"
    by (simp add: count_list_0_iff)
  ultimately show ?thesis by simp
qed

theorem fetcher_never_reopens_witness:
  "\<exists>cs pc. fetch_run FOpen [Opened True, Queried None, Subscribed True, Lost, Queried None, Subscribed False] = Some (cs, pc) \<and>
     count_list cs OpenCib = 1"
proof -
  obtain cs pc where r: "fetch_run FOpen (Opened True # [Queried None, Subscribed True, Lost, Queried None, Subscribed False]) = Some (cs, pc)"
    by simp
  with fetcher_never_reopens [OF r] show ?thesis by blast
qed

end
