(* ===== verification/Go_Encoding.thy ===== *)
theory Go_Encoding
  imports Go_Strings Http
begin

text \<open>
  The reflective packages encoding/xml and encoding/json, as far as the structs of
  api_structs.go use them. Both packages read a struct through its type descriptor
  (field names, field types, tags), so struct types are data here: a list of fields
  with their tags as written. Values are Go values of those types. The text layer of
  XML (the tokenizer) and of JSON (the printer) is outside: documents are element
  trees, marshalled values are JSON trees.
\<close>

section \<open>Types, values, documents\<close>

datatype gotype =
    TString | TInt | TXmlName
  | TPtr string    \<comment> \<open>pointer to the named struct\<close>
  | TSlice string  \<comment> \<open>slice of pointers to the named struct\<close>

record field =
  f_name :: string
  f_type :: gotype
  f_xml :: string
  f_json :: string

type_synonym schema = "(string \<times> field list) list"

definition fld :: "string \<Rightarrow> gotype \<Rightarrow> string \<Rightarrow> string \<Rightarrow> field" where
  "fld n t x j = \<lparr>f_name = n, f_type = t, f_xml = x, f_json = j\<rparr>"

text \<open>A nil slice and an empty slice differ in Go; decoding only makes the nil one empty.\<close>

datatype goval =
    VString string | VInt int | VName string string
  | VPtr "goval option"
  | VSlice "goval list"
  | VStruct string "(string \<times> goval) list"

datatype xml =
    XText string
  | XElem string string "(string \<times> string \<times> string) list" "xml list"
    \<comment> \<open>name space, local name, attributes (space, local name, value), content\<close>

datatype json = JNull | JStr string | JNum int | JArr "json list" | JObj "(string \<times> json) list"

section \<open>encoding/xml: type information\<close>

datatype xml_error =
    NamespaceWithoutName string   \<comment> \<open>xml: namespace without name in field\<close>
  | TagPathConflict string string \<comment> \<open>TagPathError: two fields with one name\<close>
  | BadInt string
  | UnknownType string
  | SyntaxErr

record finfo =
  fi_field :: string
  fi_type :: gotype
  fi_ns :: string
  fi_name :: string
  fi_attr :: bool

text \<open>
  structFieldInfo: text before a space is a name space; after that, the name and the
  flags are separated by commas. attr is the only flag the structs use; without it
  the field is an element. An empty name defaults to the field's.
\<close>

definition structFieldInfo :: "field \<Rightarrow> xml_error + finfo" where
  "structFieldInfo f =
     (let i = index_byte (f_xml f) (CHR '' '');
          ns = (if 0 \<le> i then take (nat i) (f_xml f) else []);
          tag = (if 0 \<le> i then drop (nat i + 1) (f_xml f) else f_xml f);
          tokens = split_on (CHR '','') tag;
          name = hd tokens
      in if ns \<noteq> [] \<and> name = [] then Inl (NamespaceWithoutName (f_name f))
         else Inr \<lparr>fi_field = f_name f, fi_type = f_type f, fi_ns = ns,
                   fi_name = (if name = [] then f_name f else name),
                   fi_attr = (''attr'' \<in> set (tl tokens))\<rparr>)"

text \<open>addFieldInfo: two fields of one depth, mode, name space and name are an error.\<close>

definition conflicts :: "finfo \<Rightarrow> finfo \<Rightarrow> bool" where
  "conflicts old new \<longleftrightarrow>
     fi_attr old = fi_attr new \<and> fi_name old = fi_name new \<and> fi_ns old = fi_ns new"

definition addFieldInfo :: "finfo list \<Rightarrow> finfo \<Rightarrow> xml_error + finfo list" where
  "addFieldInfo fis new =
     (case find (\<lambda>old. conflicts old new) fis of
        Some old \<Rightarrow> Inl (TagPathConflict (fi_field old) (fi_field new))
      | None \<Rightarrow> Inr (fis @ [new]))"

text \<open>
  getTypeInfo. A field named exactly XMLName would give the element's name and not be
  a field; a tag of a single dash leaves the field out.
\<close>

fun getTypeInfo_from :: "finfo list \<Rightarrow> field list \<Rightarrow> xml_error + finfo list" where
  "getTypeInfo_from fis [] = Inr fis"
| "getTypeInfo_from fis (f # fs) =
     (if f_xml f = ''-'' then getTypeInfo_from fis fs
      else case structFieldInfo f of
        Inl e \<Rightarrow> Inl e
      | Inr fi \<Rightarrow>
          if f_name f = ''XMLName'' then getTypeInfo_from fis fs
          else case addFieldInfo fis fi of
            Inl e \<Rightarrow> Inl e
          | Inr fis' \<Rightarrow> getTypeInfo_from fis' fs)"

abbreviation getTypeInfo :: "field list \<Rightarrow> xml_error + finfo list" where
  "getTypeInfo \<equiv> getTypeInfo_from []"

section \<open>encoding/xml: decoding\<close>

fun zero_value :: "gotype \<Rightarrow> goval" where
  "zero_value TString = VString []"
| "zero_value TInt = VInt 0"
| "zero_value TXmlName = VName [] []"
| "zero_value (TPtr s) = VPtr None"
| "zero_value (TSlice s) = VSlice []"

definition zero_fields :: "field list \<Rightarrow> (string \<times> goval) list" where
  "zero_fields fs = map (\<lambda>f. (f_name f, zero_value (f_type f))) fs"

fun set_field :: "string \<Rightarrow> goval \<Rightarrow> (string \<times> goval) list \<Rightarrow> (string \<times> goval) list" where
  "set_field n v [] = []"
| "set_field n v ((m, x) # fs) = (if m = n then (m, v) # fs else (m, x) # set_field n v fs)"

text \<open>Each attribute goes to every attribute field of its name (there is one at most).\<close>

definition set_attr :: "finfo list \<Rightarrow> string \<times> string \<times> string \<Rightarrow> (string \<times> goval) list \<Rightarrow> (string \<times> goval) list" where
  "set_attr fis a fv =
     (case a of (sp, loc, val) \<Rightarrow>
        fold (\<lambda>fi fv'. if fi_attr fi \<and> fi_name fi = loc \<and> (fi_ns fi = [] \<or> fi_ns fi = sp)
                       then set_field (fi_field fi) (VString val) fv' else fv') fis fv)"

definition matching_field :: "finfo list \<Rightarrow> string \<Rightarrow> string \<Rightarrow> finfo option" where
  "matching_field fis sp loc =
     find (\<lambda>fi. \<not> fi_attr fi \<and> fi_name fi = loc \<and> (fi_ns fi = [] \<or> fi_ns fi = sp)) fis"

fun own_text :: "xml list \<Rightarrow> string" where
  "own_text [] = []"
| "own_text (XText t # ks) = t @ own_text ks"
| "own_text (XElem _ _ _ _ # ks) = own_text ks"

fun old_fields :: "field list \<Rightarrow> goval \<Rightarrow> (string \<times> goval) list" where
  "old_fields fs (VPtr (Some (VStruct s fv))) = fv"
| "old_fields fs _ = zero_fields fs"

fun slice_elems :: "goval \<Rightarrow> goval list" where
  "slice_elems (VSlice vs) = vs"
| "slice_elems _ = []"

text \<open>
  Unmarshalling an element into a field that holds a value: a nil pointer is allocated,
  a set one decoded into again; a slice grows by one fresh element.
\<close>

fun unmarshal_into :: "schema \<Rightarrow> xml \<Rightarrow> gotype \<Rightarrow> goval \<Rightarrow> xml_error + goval"
  and unmarshal_children ::
    "schema \<Rightarrow> finfo list \<Rightarrow> xml list \<Rightarrow> (string \<times> goval) list \<Rightarrow> xml_error + (string \<times> goval) list"
where
  "unmarshal_into sch (XText t) ty v = Inr v"
| "unmarshal_into sch (XElem sp loc as ks) ty v =
     (case ty of
        TString \<Rightarrow> Inr (VString (own_text ks))
      | TInt \<Rightarrow>
          (if own_text ks = [] then Inr (VInt 0)
           else case parse_int64 (trimSpace (own_text ks)) of
             Some i \<Rightarrow> Inr (VInt i) | None \<Rightarrow> Inl (BadInt (own_text ks)))
      | TXmlName \<Rightarrow> Inr (VName sp loc)
      | TPtr s \<Rightarrow>
          (case map_of sch s of
             None \<Rightarrow> Inl (UnknownType s)
           | Some fs \<Rightarrow>
               (case getTypeInfo fs of
                  Inl e \<Rightarrow> Inl e
                | Inr fis \<Rightarrow>
                    (case unmarshal_children sch fis ks (fold (set_attr fis) as (old_fields fs v)) of
                       Inl e \<Rightarrow> Inl e
                     | Inr fv \<Rightarrow> Inr (VPtr (Some (VStruct s fv))))))
      | TSlice s \<Rightarrow>
          (case map_of sch s of
             None \<Rightarrow> Inl (UnknownType s)
           | Some fs \<Rightarrow>
               (case getTypeInfo fs of
                  Inl e \<Rightarrow> Inl e
                | Inr fis \<Rightarrow>
                    (case unmarshal_children sch fis ks (fold (set_attr fis) as (zero_fields fs)) of
                       Inl e \<Rightarrow> Inl e
                     | Inr fv \<Rightarrow> Inr (VSlice (slice_elems v @ [VPtr (Some (VStruct s fv))]))))))"
| "unmarshal_children sch fis [] fv = Inr fv"
| "unmarshal_children sch fis (XText t # ks) fv = unmarshal_children sch fis ks fv"
| "unmarshal_children sch fis (XElem sp loc as es # ks) fv =
     (case matching_field fis sp loc of
        None \<Rightarrow> unmarshal_children sch fis ks fv
      | Some fi \<Rightarrow>
          (case unmarshal_into sch (XElem sp loc as es) (fi_type fi)
                  (case map_of fv (fi_field fi) of Some v \<Rightarrow> v | None \<Rightarrow> zero_value (fi_type fi)) of
             Inl e \<Rightarrow> Inl e
           | Inr v' \<Rightarrow> unmarshal_children sch fis ks (set_field (fi_field fi) v' fv)))"

text \<open>xml.Unmarshal of a document's root element into a fresh struct of the named type.\<close>

definition unmarshal_root :: "schema \<Rightarrow> string \<Rightarrow> xml \<Rightarrow> xml_error + goval" where
  "unmarshal_root sch s root =
     (case unmarshal_into sch root (TPtr s) (VPtr None) of
        Inl e \<Rightarrow> Inl e
      | Inr (VPtr (Some v)) \<Rightarrow> Inr v
      | Inr _ \<Rightarrow> Inl SyntaxErr)"

section \<open>encoding/json\<close>

text \<open>
  typeFields: a tag of a single dash leaves the field out; an empty name in the tag
  defaults to the field's; two tagged fields of one name hide each other.
\<close>

definition json_name :: "field \<Rightarrow> string" where
  "json_name f = (let n = hd (split_on (CHR '','') (f_json f)) in if n = [] then f_name f else n)"

definition json_omitempty :: "field \<Rightarrow> bool" where
  "json_omitempty f \<longleftrightarrow> ''omitempty'' \<in> set (tl (split_on (CHR '','') (f_json f)))"

definition json_fields :: "field list \<Rightarrow> field list" where
  "json_fields fs =
     (let vis = filter (\<lambda>f. f_json f \<noteq> ''-'') fs
      in filter (\<lambda>f. count_list (map json_name vis) (json_name f) = 1) vis)"

fun empty_value :: "goval \<Rightarrow> bool" where
  "empty_value (VString s) \<longleftrightarrow> s = []"
| "empty_value (VInt i) \<longleftrightarrow> i = 0"
| "empty_value (VPtr p) \<longleftrightarrow> p = None"
| "empty_value (VSlice vs) \<longleftrightarrow> vs = []"
| "empty_value _ \<longleftrightarrow> False"

fun json_of :: "schema \<Rightarrow> goval \<Rightarrow> json" where
  "json_of sch (VString s) = JStr s"
| "json_of sch (VInt i) = JNum i"
| "json_of sch (VName sp loc) = JObj [(''Space'', JStr sp), (''Local'', JStr loc)]"
| "json_of sch (VPtr None) = JNull"
| "json_of sch (VPtr (Some v)) = json_of sch v"
| "json_of sch (VSlice vs) = (if vs = [] then JNull else JArr (map (json_of sch) vs))"
| "json_of sch (VStruct s fv) =
     (let js = map (\<lambda>(n, v). (n, empty_value v, json_of sch v)) fv;
          fs = (case map_of sch s of None \<Rightarrow> [] | Some fs \<Rightarrow> json_fields fs)
      in JObj (concat (map (\<lambda>f.
           case map_of js (f_name f) of
             None \<Rightarrow> []
           | Some (e, j) \<Rightarrow> if json_omitempty f \<and> e then [] else [(json_name f, j)]) fs)))"

section \<open>Access through struct pointers\<close>

text \<open>Selecting a field dereferences pointers on the way; a nil pointer panics.\<close>

fun select :: "string \<Rightarrow> goval \<Rightarrow> goval outcome" where
  "select n (VPtr None) = Panic ''invalid memory address or nil pointer dereference''"
| "select n (VPtr (Some v)) = select n v"
| "select n (VStruct s fv) =
     (case map_of fv n of Some v \<Rightarrow> Return v | None \<Rightarrow> Panic ''no such field'')"
| "select n _ = Panic ''not a struct''"

fun get_path :: "string list \<Rightarrow> goval \<Rightarrow> goval outcome" where
  "get_path [] v = Return v"
| "get_path (n # p) v = bind_outcome (select n v) (get_path p)"

fun update_field :: "string \<Rightarrow> (goval \<Rightarrow> goval outcome) \<Rightarrow> goval \<Rightarrow> goval outcome" where
  "update_field n f (VPtr None) = Panic ''invalid memory address or nil pointer dereference''"
| "update_field n f (VPtr (Some v)) = bind_outcome (update_field n f v) (\<lambda>v'. Return (VPtr (Some v')))"
| "update_field n f (VStruct s fv) =
     (case map_of fv n of
        Some v \<Rightarrow> bind_outcome (f v) (\<lambda>v'. Return (VStruct s (set_field n v' fv)))
      | None \<Rightarrow> Panic ''no such field'')"
| "update_field n f _ = Panic ''not a struct''"

fun set_path :: "string list \<Rightarrow> goval \<Rightarrow> goval \<Rightarrow> goval outcome" where
  "set_path [] x v = Return x"
| "set_path (n # p) x v = update_field n (set_path p x) v"

fun as_string :: "goval \<Rightarrow> string" where
  "as_string (VString s) = s"
| "as_string _ = []"

fun as_int :: "goval \<Rightarrow> int" where
  "as_int (VInt i) = i"
| "as_int _ = 0"

section \<open>Well-typed values\<close>

text \<open>A value of a type: every struct has the fields of its type in order, slices hold no nil.\<close>

function (sequential) wt :: "schema \<Rightarrow> gotype \<Rightarrow> goval \<Rightarrow> bool"
  and wt_fields :: "schema \<Rightarrow> field list \<Rightarrow> (string \<times> goval) list \<Rightarrow> bool"
  and wt_elems :: "schema \<Rightarrow> string \<Rightarrow> goval list \<Rightarrow> bool" where
  "wt sch TString (VString s) = True"
| "wt sch TInt (VInt i) = True"
| "wt sch TXmlName (VName sp loc) = True"
| "wt sch (TPtr s) (VPtr None) = True"
| "wt sch (TPtr s) (VPtr (Some (VStruct s' fv))) =
     (s' = s \<and> (case map_of sch s of None \<Rightarrow> False | Some fs \<Rightarrow> wt_fields sch fs fv))"
| "wt sch (TSlice s) (VSlice vs) = wt_elems sch s vs"
| "wt sch _ _ = False"
| "wt_fields sch [] [] = True"
| "wt_fields sch (f # fs) ((n, v) # fv) = (n = f_name f \<and> wt sch (f_type f) v \<and> wt_fields sch fs fv)"
| "wt_fields sch _ _ = False"
| "wt_elems sch s [] = True"
| "wt_elems sch s (v # vs) = (v \<noteq> VPtr None \<and> wt sch (TPtr s) v \<and> wt_elems sch s vs)"
  by pat_completeness auto
termination
  by (relation "measure (\<lambda>x. case x of
        Inl (sch, ty, v) \<Rightarrow> size v
      | Inr (Inl (sch, fs, fv)) \<Rightarrow> size_list (size_prod (\<lambda>_. 0) size) fv
      | Inr (Inr (sch, s, vs)) \<Rightarrow> size_list size vs)") auto

definition ftype :: "field list \<Rightarrow> string \<Rightarrow> gotype option" where
  "ftype fs n = map_of (map (\<lambda>f. (f_name f, f_type f)) fs) n"

text \<open>What decoding needs of a schema: field names differ, attributes go to strings.\<close>

definition struct_ok :: "field list \<Rightarrow> bool" where
  "struct_ok fs \<longleftrightarrow> distinct (map f_name fs) \<and>
     (case getTypeInfo fs of Inl e \<Rightarrow> True
      | Inr fis \<Rightarrow> list_all (\<lambda>fi. ftype fs (fi_field fi) = Some (fi_type fi) \<and>
                                 (fi_attr fi \<longrightarrow> fi_type fi = TString)) fis)"

definition schema_ok :: "schema \<Rightarrow> bool" where
  "schema_ok sch \<longleftrightarrow> list_all (\<lambda>(n, fs). struct_ok fs) sch"

lemma schema_ok_struct: "schema_ok sch \<Longrightarrow> map_of sch s = Some fs \<Longrightarrow> struct_ok fs"
  by (auto simp: schema_ok_def list_all_iff dest: map_of_SomeD)

lemma wt_zero: "wt sch ty (zero_value ty)"
  by (cases ty) simp_all

lemma wt_zero_fields: "wt_fields sch fs (zero_fields fs)"
  by (induction fs) (simp_all add: zero_fields_def wt_zero)

lemma wt_fields_lookup:
  "wt_fields sch fs fv \<Longrightarrow> ftype fs n = Some ty \<Longrightarrow> \<exists>v. map_of fv n = Some v \<and> wt sch ty v"
  by (induction sch fs fv rule: wt_wt_fields_wt_elems.induct(2) [where P = "\<lambda>_ _ _. True" and R = "\<lambda>_ _ _. True"])
     (auto simp: ftype_def split: if_splits)

lemma wt_fields_set:
  "wt_fields sch fs fv \<Longrightarrow> ftype fs n = Some ty \<Longrightarrow> wt sch ty v \<Longrightarrow> wt_fields sch fs (set_field n v fv)"
  by (induction sch fs fv rule: wt_wt_fields_wt_elems.induct(2) [where P = "\<lambda>_ _ _. True" and R = "\<lambda>_ _ _. True"])
     (auto simp: ftype_def split: if_splits)

lemma wt_elems_append: "wt_elems sch s (vs @ us) \<longleftrightarrow> wt_elems sch s vs \<and> wt_elems sch s us"
  by (induction vs) auto

lemma wt_old_fields:
  assumes "wt sch (TPtr s) v" and "map_of sch s = Some fs"
  shows "wt_fields sch fs (old_fields fs v)"
proof (cases "\<exists>s' fv. v = VPtr (Some (VStruct s' fv))")
  case True
  with assms show ?thesis by auto
next
  case False
  then have "old_fields fs v = zero_fields fs"
    by (induction fs v rule: old_fields.induct) auto
  then show ?thesis by (simp add: wt_zero_fields)
qed

lemma wt_set_attr:
  assumes "list_all (\<lambda>fi. ftype fs (fi_field fi) = Some (fi_type fi) \<and> (fi_attr fi \<longrightarrow> fi_type fi = TString)) fis"
    and "wt_fields sch fs fv"
  shows "wt_fields sch fs (set_attr fis a fv)"
proof -
  obtain sp loc val where a: "a = (sp, loc, val)" by (metis prod_cases3)
  have "wt_fields sch fs (fold (\<lambda>fi fv'. if fi_attr fi \<and> fi_name fi = loc \<and> (fi_ns fi = [] \<or> fi_ns fi = sp)
          then set_field (fi_field fi) (VString val) fv' else fv') fis fv)"
    using assms by (induction fis arbitrary: fv) (simp_all add: wt_fields_set)
  then show ?thesis by (simp add: set_attr_def a)
qed

lemma wt_set_attrs:
  assumes "list_all (\<lambda>fi. ftype fs (fi_field fi) = Some (fi_type fi) \<and> (fi_attr fi \<longrightarrow> fi_type fi = TString)) fis"
    and "wt_fields sch fs fv"
  shows "wt_fields sch fs (fold (set_attr fis) as fv)"
  using assms by (induction as arbitrary: fv) (simp_all add: wt_set_attr)

lemma matching_field_mem: "matching_field fis sp loc = Some fi \<Longrightarrow> fi \<in> set fis"
  by (auto simp: matching_field_def find_Some_iff)

text \<open>Decoding keeps values well-typed.\<close>

lemma unmarshal_wt:
  assumes ok: "schema_ok sch"
  shows "wt sch ty v \<Longrightarrow> unmarshal_into sch x ty v = Inr v' \<Longrightarrow> wt sch ty v'"
    and "list_all (\<lambda>fi. ftype fs (fi_field fi) = Some (fi_type fi) \<and> (fi_attr fi \<longrightarrow> fi_type fi = TString)) fis \<Longrightarrow>
      wt_fields sch fs fv \<Longrightarrow> unmarshal_children sch fis ks fv = Inr fv' \<Longrightarrow> wt_fields sch fs fv'"
  using ok
proof (induction sch x ty v and sch fis ks fv arbitrary: v' and fs fv' rule: unmarshal_into_unmarshal_children.induct)
  case (1 sch t ty v)
  then show ?case by simp
next
  case (2 sch sp loc as ks ty v)
  show ?case
  proof (cases ty)
    case (TPtr s)
    with "2.prems" obtain fs fis fv where d: "map_of sch s = Some fs" "getTypeInfo fs = Inr fis"
      "unmarshal_children sch fis ks (fold (set_attr fis) as (old_fields fs v)) = Inr fv"
      "v' = VPtr (Some (VStruct s fv))"
      by (auto split: option.splits sum.splits)
    have st: "list_all (\<lambda>fi. ftype fs (fi_field fi) = Some (fi_type fi) \<and> (fi_attr fi \<longrightarrow> fi_type fi = TString)) fis"
      using schema_ok_struct [OF "2.prems"(3) d(1)] d(2) by (simp add: struct_ok_def)
    have "wt_fields sch fs (fold (set_attr fis) as (old_fields fs v))"
      using wt_old_fields "2.prems"(1) TPtr d(1) st by (simp add: wt_set_attrs)
    then have "wt_fields sch fs fv"
      using "2.IH"(1) [OF TPtr d(1,2) st _ d(3) "2.prems"(3)] by simp
    then show ?thesis by (simp add: TPtr d(1,4))
  next
    case (TSlice s)
    with "2.prems" obtain fs fis fv where d: "map_of sch s = Some fs" "getTypeInfo fs = Inr fis"
      "unmarshal_children sch fis ks (fold (set_attr fis) as (zero_fields fs)) = Inr fv"
      "v' = VSlice (slice_elems v @ [VPtr (Some (VStruct s fv))])"
      by (auto split: option.splits sum.splits)
    have st: "list_all (\<lambda>fi. ftype fs (fi_field fi) = Some (fi_type fi) \<and> (fi_attr fi \<longrightarrow> fi_type fi = TString)) fis"
      using schema_ok_struct [OF "2.prems"(3) d(1)] d(2) by (simp add: struct_ok_def)
    have "wt_fields sch fs fv"
      using "2.IH"(2) [OF TSlice d(1,2) st _ d(3) "2.prems"(3)] st
      by (simp add: wt_set_attrs wt_zero_fields)
    moreover have "wt_elems sch s (slice_elems v)"
      using "2.prems"(1) TSlice by (cases v) simp_all
    ultimately show ?thesis by (simp add: TSlice d(1,4) wt_elems_append)
  qed (use "2.prems" in \<open>auto split: if_splits option.splits\<close>)
next
  case (3 sch fis fv)
  then show ?case by simp
next
  case (4 sch fis t ks fv)
  then show ?case by simp
next
  case (5 sch fis sp loc as es ks fv)
  show ?case
  proof (cases "matching_field fis sp loc")
    case None
    with "5.prems"(3) have "unmarshal_children sch fis ks fv = Inr fv'" by simp
    with "5.IH"(1) [OF None "5.prems"(1,2)] "5.prems"(4) show ?thesis by blast
  next
    case (Some fi)
    then have ft: "ftype fs (fi_field fi) = Some (fi_type fi)"
      using "5.prems"(1) matching_field_mem by (fastforce simp: list_all_iff)
    then obtain u where u: "map_of fv (fi_field fi) = Some u" "wt sch (fi_type fi) u"
      using wt_fields_lookup "5.prems"(2) by blast
    let ?u = "case map_of fv (fi_field fi) of Some v \<Rightarrow> v | None \<Rightarrow> zero_value (fi_type fi)"
    have wu: "wt sch (fi_type fi) ?u" using u by simp
    from "5.prems"(3) Some obtain v'' where
      v'': "unmarshal_into sch (XElem sp loc as es) (fi_type fi) ?u = Inr v''"
      "unmarshal_children sch fis ks (set_field (fi_field fi) v'' fv) = Inr fv'"
      by (simp split: sum.splits)
    have "wt sch (fi_type fi) v''"
      by (rule "5.IH"(2) [OF Some wu v''(1) "5.prems"(4)])
    then have "wt_fields sch fs (set_field (fi_field fi) v'' fv)"
      using "5.prems"(2) ft by (simp add: wt_fields_set)
    with "5.IH"(3) [OF Some v''(1) "5.prems"(1) _ v''(2) "5.prems"(4)] show ?thesis by blast
  qed
qed

text \<open>A struct type without type information makes every element decoded into it fail.\<close>

lemma unmarshal_bad_type:
  assumes "map_of sch s = Some fs" and "getTypeInfo fs = Inl e" and "ty = TPtr s \<or> ty = TSlice s"
  shows "unmarshal_into sch (XElem sp loc as ks) ty v = Inl e"
  using assms by auto

text \<open>One child that cannot be decoded makes its parent fail, whatever comes before it.\<close>

lemma unmarshal_child_fails:
  assumes "XElem sp loc as es \<in> set ks" and "matching_field fis sp loc = Some fi"
    and "\<And>v. isl (unmarshal_into sch (XElem sp loc as es) (fi_type fi) v)"
  shows "isl (unmarshal_children sch fis ks fv)"
  using assms(1)
proof (induction ks arbitrary: fv)
  case Nil
  then show ?case by simp
next
  case (Cons k ks)
  show ?case
  proof (cases k)
    case (XText t)
    with Cons show ?thesis by auto
  next
    case (XElem sp' loc' as' es')
    show ?thesis
    proof (cases "k = XElem sp loc as es")
      case True
      with assms(2,3) show ?thesis by (auto split: sum.splits simp del: unmarshal_into.simps) (metis sum.disc(2))+
    next
      case False
      with Cons.prems have "XElem sp loc as es \<in> set ks" by auto
      then have "\<And>fv. isl (unmarshal_children sch fis ks fv)" by (rule Cons.IH)
      then show ?thesis using XElem by (simp split: option.splits sum.splits del: unmarshal_into.simps)
    qed
  qed
qed

lemma unmarshal_struct_fails:
  assumes "map_of sch s = Some fs" and "getTypeInfo fs = Inr fis" and "ty = TPtr s \<or> ty = TSlice s"
    and "XElem sp loc as es \<in> set ks" and "matching_field fis sp loc = Some fi"
    and "\<And>v. isl (unmarshal_into sch (XElem sp loc as es) (fi_type fi) v)"
  shows "isl (unmarshal_into sch (XElem sp' loc' as' ks) ty v)"
  using assms(1-3) unmarshal_child_fails [OF assms(4-6)]
  by (auto split: sum.splits) (metis sum.disc(2))+

text \<open>
  A chain of element names that leads the decoder from a type to a struct without type
  information, and a document that has such a chain of elements.
\<close>

fun struct_of :: "gotype \<Rightarrow> string option" where
  "struct_of (TPtr s) = Some s"
| "struct_of (TSlice s) = Some s"
| "struct_of _ = None"

fun bad_path :: "schema \<Rightarrow> gotype \<Rightarrow> string list \<Rightarrow> bool" where
  "bad_path sch ty p =
     (case struct_of ty of None \<Rightarrow> False
      | Some s \<Rightarrow>
          (case map_of sch s of None \<Rightarrow> False
           | Some fs \<Rightarrow>
               (case getTypeInfo fs of
                  Inl e \<Rightarrow> p = []
                | Inr fis \<Rightarrow>
                    (case p of [] \<Rightarrow> False
                     | n # q \<Rightarrow>
                         list_all (\<lambda>fi. fi_ns fi = []) fis \<and>
                         (case matching_field fis [] n of None \<Rightarrow> False
                          | Some fi \<Rightarrow> bad_path sch (fi_type fi) q)))))"

fun has_path :: "xml \<Rightarrow> string list \<Rightarrow> bool" where
  "has_path (XText t) p = False"
| "has_path (XElem sp loc as ks) [] = True"
| "has_path (XElem sp loc as ks) (n # p) =
     list_ex (\<lambda>k. (case k of XElem _ l _ _ \<Rightarrow> l = n | XText _ \<Rightarrow> False) \<and> has_path k p) ks"

declare bad_path.simps [simp del]

text \<open>One step of such a chain: the type a child element of this name is decoded into.\<close>

definition leads_to :: "field list \<Rightarrow> string \<Rightarrow> gotype \<Rightarrow> bool" where
  "leads_to fs n ty =
     (case getTypeInfo fs of Inl _ \<Rightarrow> False
      | Inr fis \<Rightarrow> list_all (\<lambda>fi. fi_ns fi = []) fis \<and>
          map_option fi_type (matching_field fis [] n) = Some ty)"

lemma bad_path_step:
  "struct_of ty = Some s \<Longrightarrow> map_of sch s = Some fs \<Longrightarrow> leads_to fs n ty' \<Longrightarrow> bad_path sch ty' q \<Longrightarrow>
     bad_path sch ty (n # q)"
  by (subst bad_path.simps) (auto simp: leads_to_def split: sum.splits)

lemma bad_path_end:
  "struct_of ty = Some s \<Longrightarrow> map_of sch s = Some fs \<Longrightarrow> isl (getTypeInfo fs) \<Longrightarrow> bad_path sch ty []"
  by (subst bad_path.simps) (auto simp: isl_def)

lemma matching_field_no_ns:
  "list_all (\<lambda>fi. fi_ns fi = []) fis \<Longrightarrow> matching_field fis sp n = matching_field fis [] n"
  by (induction fis) (simp_all add: matching_field_def)

lemma struct_of_Some: "struct_of ty = Some s \<longleftrightarrow> ty = TPtr s \<or> ty = TSlice s"
  by (cases ty) auto

lemma unmarshal_bad_path:
  "bad_path sch ty p \<Longrightarrow> has_path x p \<Longrightarrow> isl (unmarshal_into sch x ty v)"
proof (induction x p arbitrary: ty v rule: has_path.induct)
  case (1 t p)
  then show ?case by simp
next
  case (2 sp loc as ks)
  then obtain s fs e where d: "struct_of ty = Some s" "map_of sch s = Some fs" "getTypeInfo fs = Inl e"
    by (subst (asm) bad_path.simps) (auto split: option.splits sum.splits)
  then have "unmarshal_into sch (XElem sp loc as ks) ty v = Inl e"
    by (intro unmarshal_bad_type) (simp_all add: struct_of_Some)
  then show ?case by (simp del: unmarshal_into.simps)
next
  case (3 sp loc as ks n p)
  from "3.prems"(1) obtain s fs fis fi where d: "struct_of ty = Some s" "map_of sch s = Some fs"
    "getTypeInfo fs = Inr fis" "list_all (\<lambda>fi. fi_ns fi = []) fis" "matching_field fis [] n = Some fi"
    "bad_path sch (fi_type fi) p"
    by (subst (asm) bad_path.simps) (auto split: option.splits sum.splits)
  from "3.prems"(2) obtain k where "k \<in> set ks" "has_path k p"
    "case k of XElem _ l _ _ \<Rightarrow> l = n | XText _ \<Rightarrow> False"
    by (auto simp: list_ex_iff)
  then obtain sp' as' es where k: "XElem sp' n as' es \<in> set ks" "has_path (XElem sp' n as' es) p"
    by (auto split: xml.split_asm)
  have "isl (unmarshal_into sch (XElem sp' n as' es) (fi_type fi) u)" for u
    using "3.IH" [OF k(1) d(6) k(2)] .
  then show ?case
    using unmarshal_struct_fails [OF d(2,3) _ k(1)] d(1,5) matching_field_no_ns [OF d(4)]
    by (metis struct_of_Some)
qed

section \<open>Laws of field access\<close>

lemma map_of_set_field:
  "map_of fv n \<noteq> None \<Longrightarrow> map_of (set_field n v fv) = (map_of fv)(n \<mapsto> v)"
  by (induction n v fv rule: set_field.induct) (auto simp: fun_eq_iff)

lemma update_field_select:
  "update_field n f v = Return v' \<Longrightarrow>
     \<exists>x y. select n v = Return x \<and> f x = Return y \<and> select n v' = Return y \<and>
       (\<forall>m. m \<noteq> n \<longrightarrow> select m v' = select m v)"
  by (induction n f v arbitrary: v' rule: update_field.induct)
     (fastforce simp: map_of_set_field split: option.splits)+

lemma get_set_path: "set_path p x v = Return v' \<Longrightarrow> get_path p v' = Return x"
proof (induction p arbitrary: v v')
  case Nil
  then show ?case by simp
next
  case (Cons n p)
  then obtain u u' where "select n v = Return u" "set_path p x u = Return u'" "select n v' = Return u'"
    using update_field_select [of n "set_path p x" v v'] by auto
  with Cons.IH show ?case by simp
qed

fun diverge :: "string list \<Rightarrow> string list \<Rightarrow> bool" where
  "diverge (n # p) (m # q) \<longleftrightarrow> n \<noteq> m \<or> diverge p q"
| "diverge _ _ \<longleftrightarrow> False"

lemma get_set_other:
  "set_path p x v = Return v' \<Longrightarrow> diverge p q \<Longrightarrow> get_path q v' = get_path q v"
proof (induction p q arbitrary: v v' rule: diverge.induct)
  case (1 n p m q)
  then obtain u u' where "select n v = Return u" "set_path p x u = Return u'" "select n v' = Return u'"
    "\<And>k. k \<noteq> n \<Longrightarrow> select k v' = select k v"
    using update_field_select [of n "set_path p x" v v'] by auto
  with 1 show ?case by (cases "n = m") auto
qed simp_all

lemma update_field_returns:
  "select n v = Return x \<Longrightarrow> f x = Return y \<Longrightarrow> \<exists>v'. update_field n f v = Return v'"
  by (induction n f v rule: update_field.induct) (auto split: option.splits)

lemma set_path_returns: "get_path p v = Return u \<Longrightarrow> \<exists>v'. set_path p x v = Return v'"
proof (induction p arbitrary: v)
  case Nil
  then show ?case by simp
next
  case (Cons n p)
  then obtain w where "select n v = Return w" and "get_path p w = Return u" by auto
  with Cons.IH update_field_returns show ?case by fastforce
qed

lemma get_path_append:
  "get_path (p @ q) v = bind_outcome (get_path p v) (get_path q)"
proof (induction p arbitrary: v)
  case (Cons n p)
  then show ?case by (cases "select n v") simp_all
qed simp

text \<open>Setting a field below a path, seen from the end of the path.\<close>

lemma set_path_below:
  "set_path (p @ q) x v = Return v' \<Longrightarrow> get_path p v = Return u \<Longrightarrow>
     \<exists>u'. set_path q x u = Return u' \<and> get_path p v' = Return u'"
proof (induction p arbitrary: v v')
  case (Cons n p)
  then obtain w w' where "select n v = Return w" "set_path (p @ q) x w = Return w'" "select n v' = Return w'"
    using update_field_select [of n "set_path (p @ q) x" v v'] by auto
  with Cons show ?case by auto
qed auto

text \<open>A field that is left out of the JSON form does not change it.\<close>

lemma json_of_hidden:
  assumes fs: "map_of sch s = Some fs" and hid: "list_all (\<lambda>f. f_name f \<noteq> n) (json_fields fs)"
  shows "json_of sch (VStruct s (set_field n x fv)) = json_of sch (VStruct s fv)"
proof -
  have other: "map_of (set_field n x fv) k = map_of fv k" if "k \<noteq> n" for k
    using that by (induction n x fv rule: set_field.induct) auto
  have "map_of (map (\<lambda>(m, v). (m, empty_value v, json_of sch v)) (set_field n x fv)) (f_name f) =
      map_of (map (\<lambda>(m, v). (m, empty_value v, json_of sch v)) fv) (f_name f)" if "f \<in> set (json_fields fs)" for f
    using other hid that by (simp add: map_of_map list_all_iff)
  then show ?thesis by (simp add: fs Let_def cong: map_cong)
qed

text \<open>The static type of a path, and what it says of a well-typed value.\<close>

fun path_type :: "schema \<Rightarrow> gotype \<Rightarrow> string list \<Rightarrow> gotype option" where
  "path_type sch ty [] = Some ty"
| "path_type sch (TPtr s) (n # p) =
     (case map_of sch s of None \<Rightarrow> None
      | Some fs \<Rightarrow> (case ftype fs n of None \<Rightarrow> None | Some ty \<Rightarrow> path_type sch ty p))"
| "path_type sch _ (n # p) = None"

lemma path_type_append:
  "path_type sch ty (p @ q) = (case path_type sch ty p of None \<Rightarrow> None | Some t \<Rightarrow> path_type sch t q)"
  by (induction sch ty p rule: path_type.induct) (auto split: option.splits)

lemma wt_select:
  assumes "wt sch (TPtr s) v" and "v \<noteq> VPtr None" and "map_of sch s = Some fs" and "ftype fs n = Some ty"
  shows "\<exists>u. select n v = Return u \<and> wt sch ty u"
proof -
  obtain fv where v: "v = VPtr (Some (VStruct s fv))" and f: "wt_fields sch fs fv"
    using assms(1-3) by (cases v) (auto elim!: wt.elims(2))
  with wt_fields_lookup [OF f assms(4)] show ?thesis by auto
qed

lemma wt_get_path:
  "wt sch ty v \<Longrightarrow> path_type sch ty p = Some ty' \<Longrightarrow> get_path p v = Return u \<Longrightarrow> wt sch ty' u"
proof (induction sch ty p arbitrary: v rule: path_type.induct)
  case (2 sch s n p)
  then obtain fs ty1 where d: "map_of sch s = Some fs" "ftype fs n = Some ty1" "path_type sch ty1 p = Some ty'"
    by (auto split: option.splits)
  from "2.prems"(3) have "v \<noteq> VPtr None" by auto
  with wt_select "2.prems"(1) d obtain w where w: "select n v = Return w" "wt sch ty1 w" by blast
  with "2.prems"(3) have "get_path p w = Return u" by simp
  with "2.IH" d w show ?case by blast
qed simp_all

text \<open>A sibling of a field that can be reached can be reached.\<close>

lemma wt_sibling:
  assumes "wt sch ty v" and "get_path (p @ [n]) v = Return u" and "path_type sch ty (p @ [m]) = Some ty'"
    and "path_type sch ty p = Some (TPtr s)"
  shows "\<exists>u'. get_path (p @ [m]) v = Return u' \<and> wt sch ty' u'"
proof -
  have tp: "path_type sch (TPtr s) [m] = Some ty'"
    using assms(3,4) by (simp add: path_type_append)
  from assms(2) obtain w where w: "get_path p v = Return w" "select n w = Return u"
    by (auto simp: get_path_append)
  then have "wt sch (TPtr s) w" using assms(1,4) wt_get_path by blast
  moreover have "w \<noteq> VPtr None" using w(2) by auto
  moreover from tp obtain fs where "map_of sch s = Some fs" "ftype fs m = Some ty'"
    by (auto split: option.splits)
  ultimately obtain u' where "select m w = Return u'" "wt sch ty' u'"
    using wt_select by blast
  with w(1) show ?thesis by (simp add: get_path_append)
qed

end
