(* ===== verification/Api_Structs.thy ===== *)
theory Api_Structs
  imports Go_Encoding
begin

text \<open>
  The struct types of api_structs.go, which its generator makes from the Pacemaker
  schema: one type descriptor per struct, fields in order, tags as written, and the
  table of them all.
\<close>

definition Cib_type :: "field list" where
  "Cib_type =
    [fld ''XMLNAME'' TXmlName ''cib'' ''-'',
     fld ''ValidateWith'' TString ''validate-with,attr'' ''validate-with,omitempty'',
     fld ''AdminEpoch'' TString ''admin_epoch,attr'' ''admin_epoch'',
     fld ''Epoch'' TString ''epoch,attr'' ''epoch'',
     fld ''NumUpdates'' TString ''num_updates,attr'' ''num_updates'',
     fld ''CrmFeatureSet'' TString ''crm_feature_set,attr'' ''crm_feature_set,omitempty'',
     fld ''RemoteTlsPort'' TString ''remote-tls-port,attr'' ''remote-tls-port,omitempty'',
     fld ''RemoteClearPort'' TString ''remote-clear-port,attr'' ''remote-clear-port,omitempty'',
     fld ''HaveQuorum'' TString ''have-quorum,attr'' ''have-quorum,omitempty'',
     fld ''DcUuid'' TString ''dc-uuid,attr'' ''dc-uuid,omitempty'',
     fld ''CibLastWritten'' TString ''cib-last-written,attr'' ''cib-last-written,omitempty'',
     fld ''NoQuorumPanic'' TString ''no-quorum-panic,attr'' ''no-quorum-panic,omitempty'',
     fld ''UpdateOrigin'' TString ''update-origin,attr'' ''update-origin,omitempty'',
     fld ''UpdateClient'' TString ''update-client,attr'' ''update-client,omitempty'',
     fld ''UpdateUser'' TString ''update-user,attr'' ''update-user,omitempty'',
     fld ''ExecutionDate'' TString ''execution-date,attr'' ''execution-date,omitempty'',
     fld ''Configuration'' (TPtr ''Configuration'') ''configuration'' ''configuration'',
     fld ''Status'' (TPtr ''Status'') ''status'' ''status,omitempty'']"

definition Configuration_type :: "field list" where
  "Configuration_type =
    [fld ''XMLNAME'' TXmlName ''configuration'' ''-'',
     fld ''CrmConfig'' (TPtr ''CrmConfig'') ''crm_config'' ''crm_config'',
     fld ''RscDefaults'' (TPtr ''RscDefaults'') ''rsc_defaults'' ''rsc_defaults,omitempty'',
     fld ''OpDefaults'' (TPtr ''OpDefaults'') ''op_defaults'' ''op_defaults,omitempty'',
     fld ''Nodes'' (TPtr ''Nodes'') ''nodes'' ''nodes'',
     fld ''Resources'' (TPtr ''Resources'') ''resources'' ''resources'',
     fld ''Constraints'' (TPtr ''Constraints'') ''constraints'' ''constraints'',
     fld ''FencingTopology'' (TPtr ''FencingTopology'') ''fencing-topology'' ''fencing-topology,omitempty'',
     fld ''Acls'' (TPtr ''Acls'') ''acls'' ''acls,omitempty'',
     fld ''Tags'' (TPtr ''Tags'') ''tags'' ''tags,omitempty'',
     fld ''Alerts'' (TPtr ''Alerts'') ''alerts'' ''alerts,omitempty'',
     fld ''URLType'' TString [] ''-'']"

definition CrmConfig_type :: "field list" where
  "CrmConfig_type =
    [fld ''XMLNAME'' TXmlName ''crm_config'' ''-'',
     fld ''ClusterPropertySet'' (TSlice ''ClusterPropertySet'') ''cluster_property_set'' ''cluster_property_set,omitempty'']"

definition ClusterPropertySet_type :: "field list" where
  "ClusterPropertySet_type =
    [fld ''XMLNAME'' TXmlName ''cluster_property_set'' ''-'',
     fld ''IdRef'' TString ''id-ref,attr'' ''id-ref,omitempty'',
     fld ''Id'' TString ''id,attr'' ''id,omitempty'',
     fld ''Rule'' (TPtr ''Rule'') ''rule'' ''rule,omitempty'',
     fld ''Nvpair'' (TSlice ''Nvpair'') ''nvpair'' ''nvpair,omitempty'',
     fld ''Score'' TString ''score,attr'' ''score,omitempty'']"

definition Rule_type :: "field list" where
  "Rule_type =
    [fld ''XMLNAME'' TXmlName ''rule'' ''-'',
     fld ''IdRef'' TString ''id-ref,attr'' ''id-ref,omitempty'',
     fld ''Id'' TString ''id,attr'' ''id,omitempty'',
     fld ''Score'' TString ''score,attr'' ''score,omitempty'',
     fld ''ScoreAttribute'' TString ''score-attribute,attr'' ''score-attribute,omitempty'',
     fld ''BooleanOp'' TString ''boolean-op,attr'' ''boolean-op,omitempty'',
     fld ''Role'' TString ''role,attr'' ''role,omitempty'',
     fld ''Expression'' (TSlice ''Expression'') ''expression'' ''expression,omitempty'',
     fld ''DateExpression'' (TSlice ''DateExpression'') ''date_expression'' ''date_expression,omitempty'',
     fld ''Rule'' (TSlice ''Rule'') ''rule'' ''rule,omitempty'']"

definition Expression_type :: "field list" where
  "Expression_type =
    [fld ''XMLNAME'' TXmlName ''expression'' ''-'',
     fld ''Id'' TString ''id,attr'' ''id'',
     fld ''Attribute'' TString ''attribute,attr'' ''attribute'',
     fld ''Operation'' TString ''operation,attr'' ''operation'',
     fld ''Value'' TString ''value,attr'' ''value,omitempty'',
     fld ''Type'' TString ''type,attr'' ''type,omitempty'',
     fld ''ValueSource'' TString ''value-source,attr'' ''value-source,omitempty'']"

definition DateExpression_type :: "field list" where
  "DateExpression_type =
    [fld ''XMLNAME'' TXmlName ''date_expression'' ''-'',
     fld ''Id'' TString ''id,attr'' ''id'',
     fld ''Operation'' TString ''operation,attr'' ''operation,omitempty'',
     fld ''Start'' TString ''start,attr'' ''start,omitempty'',
     fld ''End'' TString ''end,attr'' ''end,omitempty'',
     fld ''Duration'' (TPtr ''Duration'') ''duration'' ''duration,omitempty'',
     fld ''DateSpec'' (TPtr ''DateSpec'') ''date_spec'' ''date_spec,omitempty'']"

definition Duration_type :: "field list" where
  "Duration_type =
    [fld ''XMLNAME'' TXmlName ''duration'' ''-'',
     fld ''Id'' TString ''id,attr'' ''id'',
     fld ''Hours'' TString ''hours,attr'' ''hours,omitempty'',
     fld ''Monthdays'' TString ''monthdays,attr'' ''monthdays,omitempty'',
     fld ''Weekdays'' TString ''weekdays,attr'' ''weekdays,omitempty'',
     fld ''Yearsdays'' TString ''yearsdays,attr'' ''yearsdays,omitempty'',
     fld ''Months'' TString ''months,attr'' ''months,omitempty'',
     fld ''Weeks'' TString ''weeks,attr'' ''weeks,omitempty'',
     fld ''Years'' TString ''years,attr'' ''years,omitempty'',
     fld ''Weekyears'' TString ''weekyears,attr'' ''weekyears,omitempty'',
     fld ''Moon'' TString ''moon,attr'' ''moon,omitempty'']"

definition DateSpec_type :: "field list" where
  "DateSpec_type =
    [fld ''XMLNAME'' TXmlName ''date_spec'' ''-'',
     fld ''Id'' TString ''id,attr'' ''id'',
     fld ''Hours'' TString ''hours,attr'' ''hours,omitempty'',
     fld ''Monthdays'' TString ''monthdays,attr'' ''monthdays,omitempty'',
     fld ''Weekdays'' TString ''weekdays,attr'' ''weekdays,omitempty'',
     fld ''Yearsdays'' TString ''yearsdays,attr'' ''yearsdays,omitempty'',
     fld ''Months'' TString ''months,attr'' ''months,omitempty'',
     fld ''Weeks'' TString ''weeks,attr'' ''weeks,omitempty'',
     fld ''Years'' TString ''years,attr'' ''years,omitempty'',
     fld ''Weekyears'' TString ''weekyears,attr'' ''weekyears,omitempty'',
     fld ''Moon'' TString ''moon,attr'' ''moon,omitempty'']"

definition Nvpair_type :: "field list" where
  "Nvpair_type =
    [fld ''XMLNAME'' TXmlName ''nvpair'' ''-'',
     fld ''IdRef'' TString ''id-ref,attr'' ''id-ref,omitempty'',
     fld ''Name'' TString ''name,attr'' ''name,omitempty'',
     fld ''Id'' TString ''id,attr'' ''id,omitempty'',
     fld ''Value'' TString ''value,attr'' ''value,omitempty'']"

definition RscDefaults_type :: "field list" where
  "RscDefaults_type =
    [fld ''XMLNAME'' TXmlName ''rsc_defaults'' ''-'',
     fld ''MetaAttributes'' (TSlice ''MetaAttributes'') ''meta_attributes'' ''meta_attributes,omitempty'']"

definition MetaAttributes_type :: "field list" where
  "MetaAttributes_type =
    [fld ''XMLNAME'' TXmlName ''meta_attributes'' ''-'',
     fld ''IdRef'' TString ''id-ref,attr'' ''id-ref,omitempty'',
     fld ''Id'' TString ''id,attr'' ''id,omitempty'',
     fld ''Rule'' (TPtr ''Rule'') ''rule'' ''rule,omitempty'',
     fld ''Nvpair'' (TSlice ''Nvpair'') ''nvpair'' ''nvpair,omitempty'',
     fld ''Score'' TString ''score,attr'' ''score,omitempty'']"

definition OpDefaults_type :: "field list" where
  "OpDefaults_type =
    [fld ''XMLNAME'' TXmlName ''op_defaults'' ''-'',
     fld ''MetaAttributes'' (TSlice ''MetaAttributes'') ''meta_attributes'' ''meta_attributes,omitempty'']"

definition Nodes_type :: "field list" where
  "Nodes_type =
    [fld ''XMLNAME'' TXmlName ''nodes'' ''-'',
     fld ''Node'' (TSlice ''Node'') ''node'' ''node,omitempty'',
     fld ''URLType'' TString [] ''-'',
     fld ''URLIndex'' TInt [] ''-'']"

definition Node_type :: "field list" where
  "Node_type =
    [fld ''XMLNAME'' TXmlName ''node'' ''-'',
     fld ''Id'' TString ''id,attr'' ''id'',
     fld ''Uname'' TString ''uname,attr'' ''uname'',
     fld ''Type'' TString ''type,attr'' ''type,omitempty'',
     fld ''Description'' TString ''description,attr'' ''description,omitempty'',
     fld ''Score'' TString ''score,attr'' ''score,omitempty'',
     fld ''InstanceAttributes'' (TSlice ''InstanceAttributes'') ''instance_attributes'' ''instance_attributes,omitempty'',
     fld ''Utilization'' (TSlice ''Utilization'') ''utilization'' ''utilization,omitempty'']"

definition InstanceAttributes_type :: "field list" where
  "InstanceAttributes_type =
    [fld ''XMLNAME'' TXmlName ''instance_attributes'' ''-'',
     fld ''IdRef'' TString ''id-ref,attr'' ''id-ref,omitempty'',
     fld ''Id'' TString ''id,attr'' ''id,omitempty'',
     fld ''Rule'' (TPtr ''Rule'') ''rule'' ''rule,omitempty'',
     fld ''Nvpair'' (TSlice ''Nvpair'') ''nvpair'' ''nvpair,omitempty'',
     fld ''Score'' TString ''score,attr'' ''score,omitempty'']"

definition Utilization_type :: "field list" where
  "Utilization_type =
    [fld ''XMLNAME'' TXmlName ''utilization'' ''-'',
     fld ''IdRef'' TString ''id-ref,attr'' ''id-ref,omitempty'',
     fld ''Id'' TString ''id,attr'' ''id,omitempty'',
     fld ''Rule'' (TPtr ''Rule'') ''rule'' ''rule,omitempty'',
     fld ''Nvpair'' (TSlice ''Nvpair'') ''nvpair'' ''nvpair,omitempty'',
     fld ''Score'' TString ''score,attr'' ''score,omitempty'']"

definition Resources_type :: "field list" where
  "Resources_type =
    [fld ''XMLNAME'' TXmlName ''resources'' ''-'',
     fld ''Primitive'' (TSlice ''Primitive'') ''primitive'' ''primitive,omitempty'',
     fld ''Template'' (TSlice ''Template'') ''template'' ''template,omitempty'',
     fld ''Group'' (TSlice ''Group'') ''group'' ''group,omitempty'',
     fld ''Clone'' (TSlice ''Clone'') ''clone'' ''clone,omitempty'',
     fld ''Master'' (TSlice ''Master'') ''master'' ''master,omitempty'',
     fld ''Bundle'' (TSlice ''Bundle'') ''bundle'' ''bundle,omitempty'',
     fld ''URLType'' TString [] ''-'',
     fld ''URLIndex'' TInt [] ''-'']"

definition Primitive_type :: "field list" where
  "Primitive_type =
    [fld ''XMLNAME'' TXmlName ''primitive'' ''-'',
     fld ''Id'' TString ''id,attr'' ''id'',
     fld ''Class'' TString ''class,attr'' ''class,omitempty'',
     fld ''Provider'' TString ''provider,attr'' ''provider,omitempty'',
     fld ''Type'' TString ''type,attr'' ''type,omitempty'',
     fld ''Template'' TString ''template,attr'' ''template,omitempty'',
     fld ''Description'' TString ''description,attr'' ''description,omitempty'',
     fld ''MetaAttributes'' (TSlice ''MetaAttributes'') ''meta_attributes'' ''meta_attributes,omitempty'',
     fld ''InstanceAttributes'' (TSlice ''InstanceAttributes'') ''instance_attributes'' ''instance_attributes,omitempty'',
     fld ''Operations'' (TPtr ''Operations'') ''operations'' ''operations,omitempty'',
     fld ''Utilization'' (TSlice ''Utilization'') ''utilization'' ''utilization,omitempty'']"

definition Operations_type :: "field list" where
  "Operations_type =
    [fld ''XMLNAME'' TXmlName ''operations'' ''-'',
     fld ''Id'' TString ''id,attr'' ''id,omitempty'',
     fld ''IdRef'' TString ''id-ref,attr'' ''id-ref,omitempty'',
     fld ''Op'' (TSlice ''Op'') ''op'' ''op,omitempty'']"

definition Op_type :: "field list" where
  "Op_type =
    [fld ''XMLNAME'' TXmlName ''op'' ''-'',
     fld ''Id'' TString ''id,attr'' ''id'',
     fld ''Name'' TString ''name,attr'' ''name'',
     fld ''Interval'' TString ''interval,attr'' ''interval'',
     fld ''Description'' TString ''description,attr'' ''description,omitempty'',
     fld ''StartDelay'' TString ''start-delay,attr'' ''start-delay,omitempty'',
     fld ''IntervalOrigin'' TString ''interval-origin,attr'' ''interval-origin,omitempty'',
     fld ''Timeout'' TString ''timeout,attr'' ''timeout,omitempty'',
     fld ''Enabled'' TString ''enabled,attr'' ''enabled,omitempty'',
     fld ''RecordPending'' TString ''record-pending,attr'' ''record-pending,omitempty'',
     fld ''Role'' TString ''role,attr'' ''role,omitempty'',
     fld ''OnFail'' TString ''on-fail,attr'' ''on-fail,omitempty'',
     fld ''MetaAttributes'' (TSlice ''MetaAttributes'') ''meta_attributes'' ''meta_attributes,omitempty'',
     fld ''InstanceAttributes'' (TSlice ''InstanceAttributes'') ''instance_attributes'' ''instance_attributes,omitempty'']"

definition Template_type :: "field list" where
  "Template_type =
    [fld ''XMLNAME'' TXmlName ''template'' ''-'',
     fld ''Id'' TString ''id,attr'' ''id'',
     fld ''Class'' TString ''class,attr'' ''class,omitempty'',
     fld ''Provider'' TString ''provider,attr'' ''provider,omitempty'',
     fld ''Type'' TString ''type,attr'' ''type'',
     fld ''Description'' TString ''description,attr'' ''description,omitempty'',
     fld ''MetaAttributes'' (TSlice ''MetaAttributes'') ''meta_attributes'' ''meta_attributes,omitempty'',
     fld ''InstanceAttributes'' (TSlice ''InstanceAttributes'') ''instance_attributes'' ''instance_attributes,omitempty'',
     fld ''Operations'' (TPtr ''Operations'') ''operations'' ''operations,omitempty'',
     fld ''Utilization'' (TSlice ''Utilization'') ''utilization'' ''utilization,omitempty'']"

definition Group_type :: "field list" where
  "Group_type =
    [fld ''XMLNAME'' TXmlName ''group'' ''-'',
     fld ''Id'' TString ''id,attr'' ''id'',
     fld ''Description'' TString ''description,attr'' ''description,omitempty'',
     fld ''MetaAttributes'' (TSlice ''MetaAttributes'') ''meta_attributes'' ''meta_attributes,omitempty'',
     fld ''InstanceAttributes'' (TSlice ''InstanceAttributes'') ''instance_attributes'' ''instance_attributes,omitempty'',
     fld ''Primitive'' (TSlice ''Primitive'') ''primitive'' ''primitive'']"

definition Clone_type :: "field list" where
  "Clone_type =
    [fld ''XMLNAME'' TXmlName ''clone'' ''-'',
     fld ''Id'' TString ''id,attr'' ''id'',
     fld ''Description'' TString ''description,attr'' ''description,omitempty'',
     fld ''MetaAttributes'' (TSlice ''MetaAttributes'') ''meta_attributes'' ''meta_attributes,omitempty'',
     fld ''InstanceAttributes'' (TSlice ''InstanceAttributes'') ''instance_attributes'' ''instance_attributes,omitempty'',
     fld ''Primitive'' (TPtr ''Primitive'') ''primitive'' ''primitive,omitempty'',
     fld ''Group'' (TPtr ''Group'') ''group'' ''group,omitempty'']"

definition Master_type :: "field list" where
  "Master_type =
    [fld ''XMLNAME'' TXmlName ''master'' ''-'',
     fld ''Id'' TString ''id,attr'' ''id'',
     fld ''Description'' TString ''description,attr'' ''description,omitempty'',
     fld ''MetaAttributes'' (TSlice ''MetaAttributes'') ''meta_attributes'' ''meta_attributes,omitempty'',
     fld ''InstanceAttributes'' (TSlice ''InstanceAttributes'') ''instance_attributes'' ''instance_attributes,omitempty'',
     fld ''Primitive'' (TPtr ''Primitive'') ''primitive'' ''primitive,omitempty'',
     fld ''Group'' (TPtr ''Group'') ''group'' ''group,omitempty'']"

definition Bundle_type :: "field list" where
  "Bundle_type =
    [fld ''XMLNAME'' TXmlName ''bundle'' ''-'',
     fld ''Id'' TString ''id,attr'' ''id'',
     fld ''Description'' TString ''description,attr'' ''description,omitempty'',
     fld ''MetaAttributes'' (TSlice ''MetaAttributes'') ''meta_attributes'' ''meta_attributes,omitempty'',
     fld ''InstanceAttributes'' (TSlice ''InstanceAttributes'') ''instance_attributes'' ''instance_attributes,omitempty'',
     fld ''Docker'' (TPtr ''Docker'') ''docker'' ''docker,omitempty'',
     fld ''Rkt'' (TPtr ''Rkt'') ''rkt'' ''rkt,omitempty'',
     fld ''Network'' (TPtr ''Network'') ''network'' ''network,omitempty'',
     fld ''Storage'' (TPtr ''Storage'') ''storage'' ''storage,omitempty'',
     fld ''Primitive'' (TPtr ''Primitive'') ''primitive'' ''primitive,omitempty'']"

definition Docker_type :: "field list" where
  "Docker_type =
    [fld ''XMLNAME'' TXmlName ''docker'' ''-'',
     fld ''Image'' TString ''image,attr'' ''image'',
     fld ''Replicas'' TString ''replicas,attr'' ''replicas,omitempty'',
     fld ''ReplicasPerHost'' TString ''replicas-per-host,attr'' ''replicas-per-host,omitempty'',
     fld ''Masters'' TString ''masters,attr'' ''masters,omitempty'',
     fld ''PromotedMax'' TString ''promoted-max,attr'' ''promoted-max,omitempty'',
     fld ''RunCommand'' TString ''run-command,attr'' ''run-command,omitempty'',
     fld ''Network'' TString ''network,attr'' ''network,omitempty'',
     fld ''Options'' TString ''options,attr'' ''options,omitempty'']"

definition Rkt_type :: "field list" where
  "Rkt_type =
    [fld ''XMLNAME'' TXmlName ''rkt'' ''-'',
     fld ''Image'' TString ''image,attr'' ''image'',
     fld ''Replicas'' TString ''replicas,attr'' ''replicas,omitempty'',
     fld ''ReplicasPerHost'' TString ''replicas-per-host,attr'' ''replicas-per-host,omitempty'',
     fld ''Masters'' TString ''masters,attr'' ''masters,omitempty'',
     fld ''PromotedMax'' TString ''promoted-max,attr'' ''promoted-max,omitempty'',
     fld ''RunCommand'' TString ''run-command,attr'' ''run-command,omitempty'',
     fld ''Network'' TString ''network,attr'' ''network,omitempty'',
     fld ''Options'' TString ''options,attr'' ''options,omitempty'']"

definition Network_type :: "field list" where
  "Network_type =
    [fld ''XMLNAME'' TXmlName ''network'' ''-'',
     fld ''IpRangeStart'' TString ''ip-range-start,attr'' ''ip-range-start,omitempty'',
     fld ''ControlPort'' TString ''control-port,attr'' ''control-port,omitempty'',
     fld ''HostInterface'' TString ''host-interface,attr'' ''host-interface,omitempty'',
     fld ''HostNetmask'' TString ''host-netmask,attr'' ''host-netmask,omitempty'',
     fld ''AddHost'' TString ''add-host,attr'' ''add-host,omitempty'',
     fld ''PortMapping'' (TSlice ''PortMapping'') ''port-mapping'' ''port-mapping,omitempty'']"

definition PortMapping_type :: "field list" where
  "PortMapping_type =
    [fld ''XMLNAME'' TXmlName ''port-mapping'' ''-'',
     fld ''Id'' TString ''id,attr'' ''id'',
     fld ''Port'' TString ''port,attr'' ''port,omitempty'',
     fld ''InternalPort'' TString ''internal-port,attr'' ''internal-port,omitempty'',
     fld ''Range'' TString ''range,attr'' ''range,omitempty'']"

definition Storage_type :: "field list" where
  "Storage_type =
    [fld ''XMLNAME'' TXmlName ''storage'' ''-'',
     fld ''StorageMapping'' (TSlice ''StorageMapping'') ''storage-mapping'' ''storage-mapping,omitempty'']"

definition StorageMapping_type :: "field list" where
  "StorageMapping_type =
    [fld ''XMLNAME'' TXmlName ''storage-mapping'' ''-'',
     fld ''Id'' TString ''id,attr'' ''id'',
     fld ''SourceDir'' TString ''source-dir,attr'' ''source-dir,omitempty'',
     fld ''SourceDirRoot'' TString ''source-dir-root,attr'' ''source-dir-root,omitempty'',
     fld ''TargetDir'' TString ''target-dir,attr'' ''target-dir'',
     fld ''Options'' TString ''options,attr'' ''options,omitempty'']"

definition Constraints_type :: "field list" where
  "Constraints_type =
    [fld ''XMLNAME'' TXmlName ''constraints'' ''-'',
     fld ''RscLocation'' (TSlice ''RscLocation'') ''rsc_location'' ''rsc_location,omitempty'',
     fld ''RscColocation'' (TSlice ''RscColocation'') ''rsc_colocation'' ''rsc_colocation,omitempty'',
     fld ''RscOrder'' (TSlice ''RscOrder'') ''rsc_order'' ''rsc_order,omitempty'',
     fld ''RscTicket'' (TSlice ''RscTicket'') ''rsc_ticket'' ''rsc_ticket,omitempty'',
     fld ''URLType'' TString [] ''-'',
     fld ''URLIndex'' TInt [] ''-'']"

definition RscLocation_type :: "field list" where
  "RscLocation_type =
    [fld ''XMLNAME'' TXmlName ''rsc_location'' ''-'',
     fld ''Id'' TString ''id,attr'' ''id'',
     fld ''Rsc'' TString ''rsc,attr'' ''rsc,omitempty'',
     fld ''RscPattern'' TString ''rsc-pattern,attr'' ''rsc-pattern,omitempty'',
     fld ''Role'' TString ''role,attr'' ''role,omitempty'',
     fld ''ResourceSet'' (TSlice ''ResourceSet'') ''resource_set'' ''resource_set,omitempty'',
     fld ''Score'' TString ''score,attr'' ''score,omitempty'',
     fld ''Node'' TString ''node,attr'' ''node,omitempty'',
     fld ''Rule'' (TSlice ''Rule'') ''rule'' ''rule,omitempty'',
     fld ''Lifetime'' (TPtr ''Lifetime'') ''lifetime'' ''lifetime,omitempty'',
     fld ''ResourceDiscovery'' TString ''resource-discovery,attr'' ''resource-discovery,omitempty'']"

definition ResourceSet_type :: "field list" where
  "ResourceSet_type =
    [fld ''XMLNAME'' TXmlName ''resource_set'' ''-'',
     fld ''IdRef'' TString ''id-ref,attr'' ''id-ref,omitempty'',
     fld ''Id'' TString ''id,attr'' ''id,omitempty'',
     fld ''Sequential'' TString ''sequential,attr'' ''sequential,omitempty'',
     fld ''RequireAll'' TString ''require-all,attr'' ''require-all,omitempty'',
     fld ''Ordering'' TString ''ordering,attr'' ''ordering,omitempty'',
     fld ''Action'' TString ''action,attr'' ''action,omitempty'',
     fld ''Role'' TString ''role,attr'' ''role,omitempty'',
     fld ''Score'' TString ''score,attr'' ''score,omitempty'',
     fld ''Kind'' TString ''kind,attr'' ''kind,omitempty'',
     fld ''ResourceRef'' (TSlice ''ResourceRef'') ''resource_ref'' ''resource_ref,omitempty'']"

definition ResourceRef_type :: "field list" where
  "ResourceRef_type =
    [fld ''XMLNAME'' TXmlName ''resource_ref'' ''-'',
     fld ''Id'' TString ''id,attr'' ''id'']"

definition Lifetime_type :: "field list" where
  "Lifetime_type =
    [fld ''XMLNAME'' TXmlName ''lifetime'' ''-'',
     fld ''Rule'' (TSlice ''Rule'') ''rule'' ''rule'']"

definition RscColocation_type :: "field list" where
  "RscColocation_type =
    [fld ''XMLNAME'' TXmlName ''rsc_colocation'' ''-'',
     fld ''Id'' TString ''id,attr'' ''id'',
     fld ''Score'' TString ''score,attr'' ''score,omitempty'',
     fld ''Lifetime'' (TPtr ''Lifetime'') ''lifetime'' ''lifetime,omitempty'',
     fld ''ResourceSet'' (TSlice ''ResourceSet'') ''resource_set'' ''resource_set,omitempty'',
     fld ''Rsc'' TString ''rsc,attr'' ''rsc,omitempty'',
     fld ''WithRsc'' TString ''with-rsc,attr'' ''with-rsc,omitempty'',
     fld ''NodeAttribute'' TString ''node-attribute,attr'' ''node-attribute,omitempty'',
     fld ''RscRole'' TString ''rsc-role,attr'' ''rsc-role,omitempty'',
     fld ''WithRscRole'' TString ''with-rsc-role,attr'' ''with-rsc-role,omitempty'']"

definition RscOrder_type :: "field list" where
  "RscOrder_type =
    [fld ''XMLNAME'' TXmlName ''rsc_order'' ''-'',
     fld ''Id'' TString ''id,attr'' ''id'',
     fld ''Lifetime'' (TPtr ''Lifetime'') ''lifetime'' ''lifetime,omitempty'',
     fld ''Symmetrical'' TString ''symmetrical,attr'' ''symmetrical,omitempty'',
     fld ''RequireAll'' TString ''require-all,attr'' ''require-all,omitempty'',
     fld ''Score'' TString ''score,attr'' ''score,omitempty'',
     fld ''Kind'' TString ''kind,attr'' ''kind,omitempty'',
     fld ''ResourceSet'' (TSlice ''ResourceSet'') ''resource_set'' ''resource_set,omitempty'',
     fld ''First'' TString ''first,attr'' ''first,omitempty'',
     fld ''Then'' TString ''then,attr'' ''then,omitempty'',
     fld ''FirstAction'' TString ''first-action,attr'' ''first-action,omitempty'',
     fld ''ThenAction'' TString ''then-action,attr'' ''then-action,omitempty'']"

definition RscTicket_type :: "field list" where
  "RscTicket_type =
    [fld ''XMLNAME'' TXmlName ''rsc_ticket'' ''-'',
     fld ''Id'' TString ''id,attr'' ''id'',
     fld ''ResourceSet'' (TSlice ''ResourceSet'') ''resource_set'' ''resource_set,omitempty'',
     fld ''Rsc'' TString ''rsc,attr'' ''rsc,omitempty'',
     fld ''RscRole'' TString ''rsc-role,attr'' ''rsc-role,omitempty'',
     fld ''Ticket'' TString ''ticket,attr'' ''ticket'',
     fld ''LossPolicy'' TString ''loss-policy,attr'' ''loss-policy,omitempty'']"

definition FencingTopology_type :: "field list" where
  "FencingTopology_type =
    [fld ''XMLNAME'' TXmlName ''fencing-topology'' ''-'',
     fld ''FencingLevel'' (TSlice ''FencingLevel'') ''fencing-level'' ''fencing-level,omitempty'']"

definition FencingLevel_type :: "field list" where
  "FencingLevel_type =
    [fld ''XMLNAME'' TXmlName ''fencing-level'' ''-'',
     fld ''Id'' TString ''id,attr'' ''id'',
     fld ''Target'' TString ''target,attr'' ''target,omitempty'',
     fld ''TargetPattern'' TString ''target-pattern,attr'' ''target-pattern,omitempty'',
     fld ''TargetAttribute'' TString ''target-attribute,attr'' ''target-attribute,omitempty'',
     fld ''TargetValue'' TString ''target-value,attr'' ''target-value,omitempty'',
     fld ''Index'' TString ''index,attr'' ''index'',
     fld ''Devices'' TString ''devices,attr'' ''devices'']"

definition Acls_type :: "field list" where
  "Acls_type =
    [fld ''XMLNAME'' TXmlName ''acls'' ''-'',
     fld ''AclTarget'' (TSlice ''AclTarget'') ''acl_target'' ''acl_target,omitempty'',
     fld ''AclGroup'' (TSlice ''AclGroup'') ''acl_group'' ''acl_group,omitempty'',
     fld ''AclRole'' (TSlice ''AclRole'') ''acl_role'' ''acl_role,omitempty'']"

definition AclTarget_type :: "field list" where
  "AclTarget_type =
    [fld ''XMLNAME'' TXmlName ''acl_target'' ''-'',
     fld ''Id'' TString ''id,attr'' ''id'',
     fld ''Role'' (TSlice ''Role'') ''role'' ''role,omitempty'']"

definition Role_type :: "field list" where
  "Role_type =
    [fld ''XMLNAME'' TXmlName ''role'' ''-'',
     fld ''Id'' TString ''id,attr'' ''id'']"

definition AclGroup_type :: "field list" where
  "AclGroup_type =
    [fld ''XMLNAME'' TXmlName ''acl_group'' ''-'',
     fld ''Id'' TString ''id,attr'' ''id'',
     fld ''Role'' (TSlice ''Role'') ''role'' ''role,omitempty'']"

definition AclRole_type :: "field list" where
  "AclRole_type =
    [fld ''XMLNAME'' TXmlName ''acl_role'' ''-'',
     fld ''Id'' TString ''id,attr'' ''id'',
     fld ''Description'' TString ''description,attr'' ''description,omitempty'',
     fld ''AclPermission'' (TSlice ''AclPermission'') ''acl_permission'' ''acl_permission,omitempty'']"

definition AclPermission_type :: "field list" where
  "AclPermission_type =
    [fld ''XMLNAME'' TXmlName ''acl_permission'' ''-'',
     fld ''Id'' TString ''id,attr'' ''id'',
     fld ''Kind'' TString ''kind,attr'' ''kind'',
     fld ''Xpath'' TString ''xpath,attr'' ''xpath,omitempty'',
     fld ''Reference'' TString ''reference,attr'' ''reference,omitempty'',
     fld ''ObjectType'' TString ''object-type,attr'' ''object-type,omitempty'',
     fld ''Attribute'' TString ''attribute,attr'' ''attribute,omitempty'',
     fld ''Description'' TString ''description,attr'' ''description,omitempty'']"

definition Tags_type :: "field list" where
  "Tags_type =
    [fld ''XMLNAME'' TXmlName ''tags'' ''-'',
     fld ''Tag'' (TSlice ''Tag'') ''tag'' ''tag,omitempty'']"

definition Tag_type :: "field list" where
  "Tag_type =
    [fld ''XMLNAME'' TXmlName ''tag'' ''-'',
     fld ''Id'' TString ''id,attr'' ''id'',
     fld ''ObjRef'' (TSlice ''ObjRef'') ''obj_ref'' ''obj_ref'']"

definition ObjRef_type :: "field list" where
  "ObjRef_type =
    [fld ''XMLNAME'' TXmlName ''obj_ref'' ''-'',
     fld ''Id'' TString ''id ,attr'' ''id '']"

definition Alerts_type :: "field list" where
  "Alerts_type =
    [fld ''XMLNAME'' TXmlName ''alerts'' ''-'',
     fld ''Alert'' (TSlice ''Alert'') ''alert'' ''alert,omitempty'']"

definition Alert_type :: "field list" where
  "Alert_type =
    [fld ''XMLNAME'' TXmlName ''alert'' ''-'',
     fld ''Id'' TString ''id,attr'' ''id'',
     fld ''Description'' TString ''description,attr'' ''description,omitempty'',
     fld ''Path'' TString ''path,attr'' ''path'',
     fld ''MetaAttributes'' (TSlice ''MetaAttributes'') ''meta_attributes'' ''meta_attributes,omitempty'',
     fld ''InstanceAttributes'' (TSlice ''InstanceAttributes'') ''instance_attributes'' ''instance_attributes,omitempty'',
     fld ''Select'' (TPtr ''Select'') ''select'' ''select,omitempty'',
     fld ''Recipient'' (TSlice ''Recipient'') ''recipient'' ''recipient,omitempty'']"

definition Select_type :: "field list" where
  "Select_type =
    [fld ''XMLNAME'' TXmlName ''select'' ''-'',
     fld ''SelectAttributes'' (TPtr ''SelectAttributes'') ''select_attributes'' ''select_attributes,omitempty'',
     fld ''SelectFencing'' (TPtr ''SelectFencing'') ''select_fencing'' ''select_fencing,omitempty'',
     fld ''SelectNodes'' (TPtr ''SelectNodes'') ''select_nodes'' ''select_nodes,omitempty'',
     fld ''SelectResources'' (TPtr ''SelectResources'') ''select_resources'' ''select_resources,omitempty'']"

definition SelectAttributes_type :: "field list" where
  "SelectAttributes_type =
    [fld ''XMLNAME'' TXmlName ''select_attributes'' ''-'',
     fld ''Attribute'' (TSlice ''Attribute'') ''attribute'' ''attribute,omitempty'']"

definition Attribute_type :: "field list" where
  "Attribute_type =
    [fld ''XMLNAME'' TXmlName ''attribute'' ''-'',
     fld ''Id'' TString ''id,attr'' ''id'',
     fld ''Name'' TString ''name,attr'' ''name'']"

definition SelectFencing_type :: "field list" where
  "SelectFencing_type =
    [fld ''XMLNAME'' TXmlName ''select_fencing'' ''-'']"

definition SelectNodes_type :: "field list" where
  "SelectNodes_type =
    [fld ''XMLNAME'' TXmlName ''select_nodes'' ''-'']"

definition SelectResources_type :: "field list" where
  "SelectResources_type =
    [fld ''XMLNAME'' TXmlName ''select_resources'' ''-'']"

definition Recipient_type :: "field list" where
  "Recipient_type =
    [fld ''XMLNAME'' TXmlName ''recipient'' ''-'',
     fld ''Id'' TString ''id,attr'' ''id'',
     fld ''Description'' TString ''description,attr'' ''description,omitempty'',
     fld ''Value'' TString ''value,attr'' ''value'',
     fld ''MetaAttributes'' (TSlice ''MetaAttributes'') ''meta_attributes'' ''meta_attributes,omitempty'',
     fld ''InstanceAttributes'' (TSlice ''InstanceAttributes'') ''instance_attributes'' ''instance_attributes,omitempty'']"

definition Status_type :: "field list" where
  "Status_type =
    [fld ''XMLNAME'' TXmlName ''status'' ''-'']"

record TypeIndex =
  Type :: string
  Index :: nat

text \<open>The table the reflective packages look struct types up in.\<close>

definition api_schema :: schema where
  "api_schema =
    [(''Cib'', Cib_type),
     (''Configuration'', Configuration_type),
     (''CrmConfig'', CrmConfig_type),
     (''ClusterPropertySet'', ClusterPropertySet_type),
     (''Rule'', Rule_type),
     (''Expression'', Expression_type),
     (''DateExpression'', DateExpression_type),
     (''Duration'', Duration_type),
     (''DateSpec'', DateSpec_type),
     (''Nvpair'', Nvpair_type),
     (''RscDefaults'', RscDefaults_type),
     (''MetaAttributes'', MetaAttributes_type),
     (''OpDefaults'', OpDefaults_type),
     (''Nodes'', Nodes_type),
     (''Node'', Node_type),
     (''InstanceAttributes'', InstanceAttributes_type),
     (''Utilization'', Utilization_type),
     (''Resources'', Resources_type),
     (''Primitive'', Primitive_type),
     (''Operations'', Operations_type),
     (''Op'', Op_type),
     (''Template'', Template_type),
     (''Group'', Group_type),
     (''Clone'', Clone_type),
     (''Master'', Master_type),
     (''Bundle'', Bundle_type),
     (''Docker'', Docker_type),
     (''Rkt'', Rkt_type),
     (''Network'', Network_type),
     (''PortMapping'', PortMapping_type),
     (''Storage'', Storage_type),
     (''StorageMapping'', StorageMapping_type),
     (''Constraints'', Constraints_type),
     (''RscLocation'', RscLocation_type),
     (''ResourceSet'', ResourceSet_type),
     (''ResourceRef'', ResourceRef_type),
     (''Lifetime'', Lifetime_type),
     (''RscColocation'', RscColocation_type),
     (''RscOrder'', RscOrder_type),
     (''RscTicket'', RscTicket_type),
     (''FencingTopology'', FencingTopology_type),
     (''FencingLevel'', FencingLevel_type),
     (''Acls'', Acls_type),
     (''AclTarget'', AclTarget_type),
     (''Role'', Role_type),
     (''AclGroup'', AclGroup_type),
     (''AclRole'', AclRole_type),
     (''AclPermission'', AclPermission_type),
     (''Tags'', Tags_type),
     (''Tag'', Tag_type),
     (''ObjRef'', ObjRef_type),
     (''Alerts'', Alerts_type),
     (''Alert'', Alert_type),
     (''Select'', Select_type),
     (''SelectAttributes'', SelectAttributes_type),
     (''Attribute'', Attribute_type),
     (''SelectFencing'', SelectFencing_type),
     (''SelectNodes'', SelectNodes_type),
     (''SelectResources'', SelectResources_type),
     (''Recipient'', Recipient_type),
     (''Status'', Status_type)]"

lemmas api_types =
  Cib_type_def
  Configuration_type_def
  CrmConfig_type_def
  ClusterPropertySet_type_def
  Rule_type_def
  Expression_type_def
  DateExpression_type_def
  Duration_type_def
  DateSpec_type_def
  Nvpair_type_def
  RscDefaults_type_def
  MetaAttributes_type_def
  OpDefaults_type_def
  Nodes_type_def
  Node_type_def
  InstanceAttributes_type_def
  Utilization_type_def
  Resources_type_def
  Primitive_type_def
  Operations_type_def
  Op_type_def
  Template_type_def
  Group_type_def
  Clone_type_def
  Master_type_def
  Bundle_type_def
  Docker_type_def
  Rkt_type_def
  Network_type_def
  PortMapping_type_def
  Storage_type_def
  StorageMapping_type_def
  Constraints_type_def
  RscLocation_type_def
  ResourceSet_type_def
  ResourceRef_type_def
  Lifetime_type_def
  RscColocation_type_def
  RscOrder_type_def
  RscTicket_type_def
  FencingTopology_type_def
  FencingLevel_type_def
  Acls_type_def
  AclTarget_type_def
  Role_type_def
  AclGroup_type_def
  AclRole_type_def
  AclPermission_type_def
  Tags_type_def
  Tag_type_def
  ObjRef_type_def
  Alerts_type_def
  Alert_type_def
  Select_type_def
  SelectAttributes_type_def
  Attribute_type_def
  SelectFencing_type_def
  SelectNodes_type_def
  SelectResources_type_def
  Recipient_type_def
  Status_type_def

end
