(* ===== verification/Api_Example.thy ===== *)
theory Api_Example
  imports Api_Structs
begin

text \<open>
  A small cluster information base, its decoded form, and the evaluation that leads
  from one to the other: the instance at which the theorems about the handlers are
  applied.
\<close>

text \<open>What reflection computes from the struct tags, tabulated for the structs of the example.\<close>

definition fi :: "string \<Rightarrow> gotype \<Rightarrow> string \<Rightarrow> bool \<Rightarrow> finfo" where
  "fi n t name attr = \<lparr>fi_field = n, fi_type = t, fi_ns = [], fi_name = name, fi_attr = attr\<rparr>"

lemma fi_simps [simp]:
  "fi_field (fi n t m a) = n" "fi_type (fi n t m a) = t" "fi_name (fi n t m a) = m" "fi_ns (fi n t m a) = []"
  "fi_attr (fi n t m a) = a"
  by (simp_all add: fi_def)

definition info_of :: "field list \<Rightarrow> finfo list" where
  "info_of fs = (case getTypeInfo fs of Inr fis \<Rightarrow> fis | Inl _ \<Rightarrow> [])"

lemma info_of: "\<not> isl (getTypeInfo fs) \<Longrightarrow> getTypeInfo fs = Inr (info_of fs)"
  by (cases "getTypeInfo fs") (simp_all add: info_of_def)

lemma example_infos:
  "getTypeInfo Cib_type = Inr (info_of Cib_type)"
  "getTypeInfo Configuration_type = Inr (info_of Configuration_type)"
  "getTypeInfo CrmConfig_type = Inr (info_of CrmConfig_type)"
  "getTypeInfo Nodes_type = Inr (info_of Nodes_type)"
  "getTypeInfo Node_type = Inr (info_of Node_type)"
  "getTypeInfo Resources_type = Inr (info_of Resources_type)"
  "getTypeInfo Primitive_type = Inr (info_of Primitive_type)"
  "getTypeInfo Group_type = Inr (info_of Group_type)"
  "getTypeInfo Constraints_type = Inr (info_of Constraints_type)"
  "getTypeInfo RscOrder_type = Inr (info_of RscOrder_type)"
  by (rule info_of, code_simp)+

lemma example_matching:
  "matching_field (info_of Cib_type) [] ''configuration'' = Some (fi ''Configuration'' (TPtr ''Configuration'') ''configuration'' False)"
  "matching_field (info_of Configuration_type) [] ''crm_config'' = Some (fi ''CrmConfig'' (TPtr ''CrmConfig'') ''crm_config'' False)"
  "matching_field (info_of Configuration_type) [] ''nodes'' = Some (fi ''Nodes'' (TPtr ''Nodes'') ''nodes'' False)"
  "matching_field (info_of Configuration_type) [] ''resources'' = Some (fi ''Resources'' (TPtr ''Resources'') ''resources'' False)"
  "matching_field (info_of Configuration_type) [] ''constraints'' = Some (fi ''Constraints'' (TPtr ''Constraints'') ''constraints'' False)"
  "matching_field (info_of Nodes_type) [] ''node'' = Some (fi ''Node'' (TSlice ''Node'') ''node'' False)"
  "matching_field (info_of Resources_type) [] ''primitive'' = Some (fi ''Primitive'' (TSlice ''Primitive'') ''primitive'' False)"
  "matching_field (info_of Resources_type) [] ''group'' = Some (fi ''Group'' (TSlice ''Group'') ''group'' False)"
  "matching_field (info_of Group_type) [] ''primitive'' = Some (fi ''Primitive'' (TSlice ''Primitive'') ''primitive'' False)"
  "matching_field (info_of Constraints_type) [] ''rsc_order'' = Some (fi ''RscOrder'' (TSlice ''RscOrder'') ''rsc_order'' False)"
  by code_simp+

lemma example_attrs:
  "set_attr (info_of Cib_type) ([], ''epoch'', v) fv = set_field ''Epoch'' (VString v) fv"
  "set_attr (info_of Node_type) ([], ''id'', v) fv = set_field ''Id'' (VString v) fv"
  "set_attr (info_of Node_type) ([], ''uname'', v) fv = set_field ''Uname'' (VString v) fv"
  "set_attr (info_of Primitive_type) ([], ''id'', v) fv = set_field ''Id'' (VString v) fv"
  "set_attr (info_of Group_type) ([], ''id'', v) fv = set_field ''Id'' (VString v) fv"
  "set_attr (info_of RscOrder_type) ([], ''id'', v) fv = set_field ''Id'' (VString v) fv"
  by code_simp+

lemma example_lookups:
  "map_of api_schema ''Cib'' = Some Cib_type"
  "map_of api_schema ''Configuration'' = Some Configuration_type"
  "map_of api_schema ''CrmConfig'' = Some CrmConfig_type"
  "map_of api_schema ''Nodes'' = Some Nodes_type"
  "map_of api_schema ''Node'' = Some Node_type"
  "map_of api_schema ''Resources'' = Some Resources_type"
  "map_of api_schema ''Primitive'' = Some Primitive_type"
  "map_of api_schema ''Group'' = Some Group_type"
  "map_of api_schema ''Constraints'' = Some Constraints_type"
  "map_of api_schema ''RscOrder'' = Some RscOrder_type"
  by (simp_all add: api_schema_def)

lemma example_zeros:
  "zero_fields Cib_type =
    [(''XMLNAME'', VName [] []),
     (''ValidateWith'', VString []),
     (''AdminEpoch'', VString []),
     (''Epoch'', VString []),
     (''NumUpdates'', VString []),
     (''CrmFeatureSet'', VString []),
     (''RemoteTlsPort'', VString []),
     (''RemoteClearPort'', VString []),
     (''HaveQuorum'', VString []),
     (''DcUuid'', VString []),
     (''CibLastWritten'', VString []),
     (''NoQuorumPanic'', VString []),
     (''UpdateOrigin'', VString []),
     (''UpdateClient'', VString []),
     (''UpdateUser'', VString []),
     (''ExecutionDate'', VString []),
     (''Configuration'', VPtr None),
     (''Status'', VPtr None)]"
  "zero_fields Configuration_type =
    [(''XMLNAME'', VName [] []),
     (''CrmConfig'', VPtr None),
     (''RscDefaults'', VPtr None),
     (''OpDefaults'', VPtr None),
     (''Nodes'', VPtr None),
     (''Resources'', VPtr None),
     (''Constraints'', VPtr None),
     (''FencingTopology'', VPtr None),
     (''Acls'', VPtr None),
     (''Tags'', VPtr None),
     (''Alerts'', VPtr None),
     (''URLType'', VString [])]"
  "zero_fields CrmConfig_type =
    [(''XMLNAME'', VName [] []),
     (''ClusterPropertySet'', VSlice [])]"
  "zero_fields Nodes_type =
    [(''XMLNAME'', VName [] []),
     (''Node'', VSlice []),
     (''URLType'', VString []),
     (''URLIndex'', VInt 0)]"
  "zero_fields Node_type =
    [(''XMLNAME'', VName [] []),
     (''Id'', VString []),
     (''Uname'', VString []),
     (''Type'', VString []),
     (''Description'', VString []),
     (''Score'', VString []),
     (''InstanceAttributes'', VSlice []),
     (''Utilization'', VSlice [])]"
  "zero_fields Resources_type =
    [(''XMLNAME'', VName [] []),
     (''Primitive'', VSlice []),
     (''Template'', VSlice []),
     (''Group'', VSlice []),
     (''Clone'', VSlice []),
     (''Master'', VSlice []),
     (''Bundle'', VSlice []),
     (''URLType'', VString []),
     (''URLIndex'', VInt 0)]"
  "zero_fields Primitive_type =
    [(''XMLNAME'', VName [] []),
     (''Id'', VString []),
     (''Class'', VString []),
     (''Provider'', VString []),
     (''Type'', VString []),
     (''Template'', VString []),
     (''Description'', VString []),
     (''MetaAttributes'', VSlice []),
     (''InstanceAttributes'', VSlice []),
     (''Operations'', VPtr None),
     (''Utilization'', VSlice [])]"
  "zero_fields Group_type =
    [(''XMLNAME'', VName [] []),
     (''Id'', VString []),
     (''Description'', VString []),
     (''MetaAttributes'', VSlice []),
     (''InstanceAttributes'', VSlice []),
     (''Primitive'', VSlice [])]"
  "zero_fields Constraints_type =
    [(''XMLNAME'', VName [] []),
     (''RscLocation'', VSlice []),
     (''RscColocation'', VSlice []),
     (''RscOrder'', VSlice []),
     (''RscTicket'', VSlice []),
     (''URLType'', VString []),
     (''URLIndex'', VInt 0)]"
  "zero_fields RscOrder_type =
    [(''XMLNAME'', VName [] []),
     (''Id'', VString []),
     (''Lifetime'', VPtr None),
     (''Symmetrical'', VString []),
     (''RequireAll'', VString []),
     (''Score'', VString []),
     (''Kind'', VString []),
     (''ResourceSet'', VSlice []),
     (''First'', VString []),
     (''Then'', VString []),
     (''FirstAction'', VString []),
     (''ThenAction'', VString [])]"
  by code_simp+

lemmas example_eval = example_infos example_lookups example_zeros example_matching example_attrs

definition example_node :: "string \<Rightarrow> string \<Rightarrow> goval" where
  "example_node i u = VPtr (Some (VStruct ''Node''
     [(''XMLNAME'', VName [] []), (''Id'', VString i), (''Uname'', VString u),
      (''Type'', VString []), (''Description'', VString []), (''Score'', VString []),
      (''InstanceAttributes'', VSlice []), (''Utilization'', VSlice [])]))"

definition example_nodes :: "goval" where
  "example_nodes = VPtr (Some (VStruct ''Nodes''
     [(''XMLNAME'', VName [] []),
      (''Node'', VSlice [example_node ''1'' ''alice'', example_node ''2'' ''bob'']),
      (''URLType'', VString []), (''URLIndex'', VInt 0)]))"

definition example_primitive :: "string \<Rightarrow> goval" where
  "example_primitive i = VPtr (Some (VStruct ''Primitive''
     [(''XMLNAME'', VName [] []), (''Id'', VString i), (''Class'', VString []),
      (''Provider'', VString []), (''Type'', VString []), (''Template'', VString []),
      (''Description'', VString []), (''MetaAttributes'', VSlice []),
      (''InstanceAttributes'', VSlice []), (''Operations'', VPtr None),
      (''Utilization'', VSlice [])]))"

definition example_group :: "goval" where
  "example_group = VPtr (Some (VStruct ''Group''
     [(''XMLNAME'', VName [] []), (''Id'', VString ''web''), (''Description'', VString []),
      (''MetaAttributes'', VSlice []), (''InstanceAttributes'', VSlice []),
      (''Primitive'', VSlice [example_primitive ''httpd''])]))"

definition example_resources :: "goval" where
  "example_resources = VPtr (Some (VStruct ''Resources''
     [(''XMLNAME'', VName [] []), (''Primitive'', VSlice [example_primitive ''vip'']),
      (''Template'', VSlice []), (''Group'', VSlice [example_group]), (''Clone'', VSlice []),
      (''Master'', VSlice []), (''Bundle'', VSlice []), (''URLType'', VString []),
      (''URLIndex'', VInt 0)]))"

definition example_order :: "goval" where
  "example_order = VPtr (Some (VStruct ''RscOrder''
     [(''XMLNAME'', VName [] []), (''Id'', VString ''first''), (''Lifetime'', VPtr None),
      (''Symmetrical'', VString []), (''RequireAll'', VString []), (''Score'', VString []),
      (''Kind'', VString []), (''ResourceSet'', VSlice []), (''First'', VString []),
      (''Then'', VString []), (''FirstAction'', VString []), (''ThenAction'', VString [])]))"

definition example_constraints :: "goval" where
  "example_constraints = VPtr (Some (VStruct ''Constraints''
     [(''XMLNAME'', VName [] []), (''RscLocation'', VSlice []), (''RscColocation'', VSlice []),
      (''RscOrder'', VSlice [example_order]), (''RscTicket'', VSlice []),
      (''URLType'', VString []), (''URLIndex'', VInt 0)]))"

definition example_crm_config :: "goval" where
  "example_crm_config = VPtr (Some (VStruct ''CrmConfig''
     [(''XMLNAME'', VName [] []), (''ClusterPropertySet'', VSlice [])]))"

definition example_configuration :: "goval" where
  "example_configuration = VPtr (Some (VStruct ''Configuration''
     [(''XMLNAME'', VName [] []), (''CrmConfig'', example_crm_config),
      (''RscDefaults'', VPtr None), (''OpDefaults'', VPtr None), (''Nodes'', example_nodes),
      (''Resources'', example_resources), (''Constraints'', example_constraints),
      (''FencingTopology'', VPtr None), (''Acls'', VPtr None), (''Tags'', VPtr None),
      (''Alerts'', VPtr None), (''URLType'', VString [])]))"

definition example_value :: "goval" where
  "example_value = VStruct ''Cib''
     [(''XMLNAME'', VName [] []), (''ValidateWith'', VString []), (''AdminEpoch'', VString []),
      (''Epoch'', VString ''5''), (''NumUpdates'', VString []),
      (''CrmFeatureSet'', VString []), (''RemoteTlsPort'', VString []),
      (''RemoteClearPort'', VString []), (''HaveQuorum'', VString []),
      (''DcUuid'', VString []), (''CibLastWritten'', VString []),
      (''NoQuorumPanic'', VString []), (''UpdateOrigin'', VString []),
      (''UpdateClient'', VString []), (''UpdateUser'', VString []),
      (''ExecutionDate'', VString []), (''Configuration'', example_configuration),
      (''Status'', VPtr None)]"

lemma unmarshal_node:
  "unmarshal_into api_schema (XElem [] ''node'' [([], ''id'', i), ([], ''uname'', u)] []) (TSlice ''Node'') v = Inr (VSlice (slice_elems v @ [example_node i u]))"
  by (subst unmarshal_into.simps(2)) (simp add: example_eval example_node_def del: unmarshal_into.simps(2))

lemma unmarshal_primitive:
  "unmarshal_into api_schema (XElem [] ''primitive'' [([], ''id'', i)] []) (TSlice ''Primitive'') v = Inr (VSlice (slice_elems v @ [example_primitive i]))"
  by (subst unmarshal_into.simps(2)) (simp add: example_eval example_primitive_def del: unmarshal_into.simps(2))

lemma unmarshal_group:
  "unmarshal_into api_schema (XElem [] ''group'' [([], ''id'', ''web'')] [XElem [] ''primitive'' [([], ''id'', ''httpd'')] []]) (TSlice ''Group'') v = Inr (VSlice (slice_elems v @ [example_group]))"
  by (subst unmarshal_into.simps(2)) (simp add: example_eval unmarshal_primitive example_group_def del: unmarshal_into.simps(2))

lemma unmarshal_order:
  "unmarshal_into api_schema (XElem [] ''rsc_order'' [([], ''id'', ''first'')] []) (TSlice ''RscOrder'') v = Inr (VSlice (slice_elems v @ [example_order]))"
  by (subst unmarshal_into.simps(2)) (simp add: example_eval example_order_def del: unmarshal_into.simps(2))

lemma unmarshal_nodes:
  "unmarshal_into api_schema (XElem [] ''nodes'' [] [XElem [] ''node'' [([], ''id'', ''1''), ([], ''uname'', ''alice'')] [], XElem [] ''node'' [([], ''id'', ''2''), ([], ''uname'', ''bob'')] []]) (TPtr ''Nodes'') (VPtr None) = Inr (example_nodes)"
  by (subst unmarshal_into.simps(2)) (simp add: example_eval unmarshal_node example_nodes_def del: unmarshal_into.simps(2))

lemma unmarshal_resources:
  "unmarshal_into api_schema (XElem [] ''resources'' [] [XElem [] ''primitive'' [([], ''id'', ''vip'')] [], XElem [] ''group'' [([], ''id'', ''web'')] [XElem [] ''primitive'' [([], ''id'', ''httpd'')] []]]) (TPtr ''Resources'') (VPtr None) = Inr (example_resources)"
  by (subst unmarshal_into.simps(2)) (simp add: example_eval unmarshal_primitive unmarshal_group example_resources_def del: unmarshal_into.simps(2))

lemma unmarshal_constraints:
  "unmarshal_into api_schema (XElem [] ''constraints'' [] [XElem [] ''rsc_order'' [([], ''id'', ''first'')] []]) (TPtr ''Constraints'') (VPtr None) = Inr (example_constraints)"
  by (subst unmarshal_into.simps(2)) (simp add: example_eval unmarshal_order example_constraints_def del: unmarshal_into.simps(2))

lemma unmarshal_crm_config:
  "unmarshal_into api_schema (XElem [] ''crm_config'' [] []) (TPtr ''CrmConfig'') (VPtr None) = Inr (example_crm_config)"
  by (subst unmarshal_into.simps(2)) (simp add: example_eval example_crm_config_def del: unmarshal_into.simps(2))

lemma unmarshal_configuration:
  "unmarshal_into api_schema (XElem [] ''configuration'' [] [XElem [] ''crm_config'' [] [], XElem [] ''nodes'' [] [XElem [] ''node'' [([], ''id'', ''1''), ([], ''uname'', ''alice'')] [], XElem [] ''node'' [([], ''id'', ''2''), ([], ''uname'', ''bob'')] []],
      XElem [] ''resources'' [] [XElem [] ''primitive'' [([], ''id'', ''vip'')] [], XElem [] ''group'' [([], ''id'', ''web'')] [XElem [] ''primitive'' [([], ''id'', ''httpd'')] []]],
      XElem [] ''constraints'' [] [XElem [] ''rsc_order'' [([], ''id'', ''first'')] []]]) (TPtr ''Configuration'') (VPtr None) = Inr (example_configuration)"
  by (subst unmarshal_into.simps(2)) (simp add: example_eval unmarshal_nodes unmarshal_resources unmarshal_constraints unmarshal_crm_config example_configuration_def del: unmarshal_into.simps(2))

definition example_cib :: xml where
  "example_cib = XElem [] ''cib'' [([], ''epoch'', ''5'')]
    [XElem [] ''configuration'' [] [XElem [] ''crm_config'' [] [], XElem [] ''nodes'' [] [XElem [] ''node'' [([], ''id'', ''1''), ([], ''uname'', ''alice'')] [], XElem [] ''node'' [([], ''id'', ''2''), ([], ''uname'', ''bob'')] []],
      XElem [] ''resources'' [] [XElem [] ''primitive'' [([], ''id'', ''vip'')] [], XElem [] ''group'' [([], ''id'', ''web'')] [XElem [] ''primitive'' [([], ''id'', ''httpd'')] []]],
      XElem [] ''constraints'' [] [XElem [] ''rsc_order'' [([], ''id'', ''first'')] []]]]"

lemma unmarshal_example:
  "unmarshal_into api_schema example_cib (TPtr ''Cib'') (VPtr None) = Inr (VPtr (Some example_value))"
  unfolding example_cib_def
  by (subst unmarshal_into.simps(2)) (simp add: example_eval unmarshal_configuration example_value_def del: unmarshal_into.simps(2))

definition example_request :: "string \<Rightarrow> request" where
  "example_request path = \<lparr>Method = ''GET'',
     URL = \<lparr>Scheme = [], Opaque = [], User = None, Host = [], Path = path, RawPath = [],
            ForceQuery = False, RawQuery = [], Fragment = []\<rparr>,
     Header = [], ReqHost = ''cluster'', TLS = True\<rparr>"

end
