(* ===== verification/Api.thy ===== *)
theory Api
  imports Api_Example
begin

text \<open>
  The API handlers of api_nodes.go, api_resources.go, api_constraints.go and
  api_cluster.go and the custom marshalling of api_common.go. Parameters:
  \<open>parse\<close> is the tokenizer of encoding/xml (the root element of a text, or no
  value for text that is not XML), \<open>render\<close> the text form of a JSON tree.
\<close>

section \<open>Marshalling (api_common.go)\<close>

definition index_outcome :: "'a list \<Rightarrow> int \<Rightarrow> 'a outcome" where
  "index_outcome xs i =
     (if 0 \<le> i \<and> i < int (length xs) then Return (xs ! nat i) else Panic ''index out of range'')"

definition get_string :: "string list \<Rightarrow> goval \<Rightarrow> string outcome" where
  "get_string p v = bind_outcome (get_path p v) (\<lambda>x. Return (as_string x))"

text \<open>The element of a slice that an index field of the same struct names.\<close>

definition indexed :: "string list \<Rightarrow> string \<Rightarrow> goval \<Rightarrow> goval outcome" where
  "indexed p n c =
     bind_outcome (get_path (p @ [''URLIndex'']) c) (\<lambda>i.
       bind_outcome (get_path (p @ [n]) c) (\<lambda>s. index_outcome (slice_elems s) (as_int i)))"

text \<open>struct_interface: the part of the struct to marshal; no value for a nil interface.\<close>

definition struct_interface :: "goval \<Rightarrow> goval option outcome" where
  "struct_interface c =
     bind_outcome (get_string [''Configuration'', ''URLType''] c) (\<lambda>t.
       if t = ''nodes'' then
         bind_outcome (get_string [''Configuration'', ''Nodes'', ''URLType''] c) (\<lambda>u.
           if u = ''all'' then
             bind_outcome (get_path [''Configuration'', ''Nodes'', ''Node''] c) (\<lambda>x. Return (Some x))
           else if u = ''node'' then
             bind_outcome (indexed [''Configuration'', ''Nodes''] ''Node'' c) (\<lambda>x. Return (Some x))
           else Return None)
       else if t = ''cluster'' then
         bind_outcome (get_path [''Configuration'', ''CrmConfig''] c) (\<lambda>x. Return (Some x))
       else if t = ''resources'' then
         bind_outcome (get_string [''Configuration'', ''Resources'', ''URLType''] c) (\<lambda>u.
           if u = ''all'' then
             bind_outcome (get_path [''Configuration'', ''Resources''] c) (\<lambda>x. Return (Some x))
           else if u = ''primitive'' then
             bind_outcome (indexed [''Configuration'', ''Resources''] ''Primitive'' c) (\<lambda>x. Return (Some x))
           else if u = ''group'' then
             bind_outcome (indexed [''Configuration'', ''Resources''] ''Group'' c) (\<lambda>x. Return (Some x))
           else if u = ''clone'' then
             bind_outcome (indexed [''Configuration'', ''Resources''] ''Clone'' c) (\<lambda>x. Return (Some x))
           else if u = ''master'' then
             bind_outcome (indexed [''Configuration'', ''Resources''] ''Master'' c) (\<lambda>x. Return (Some x))
           else Return None)
       else if t = ''constraints'' then
         bind_outcome (get_string [''Configuration'', ''Constraints'', ''URLType''] c) (\<lambda>u.
           if u = ''all'' then
             bind_outcome (get_path [''Configuration'', ''Constraints''] c) (\<lambda>x. Return (Some x))
           else if u = ''location'' then
             bind_outcome (indexed [''Configuration'', ''Constraints''] ''RscLocation'' c) (\<lambda>x. Return (Some x))
           else if u = ''colocation'' then
             bind_outcome (indexed [''Configuration'', ''Constraints''] ''RscColocation'' c) (\<lambda>x. Return (Some x))
           else if u = ''order'' then
             bind_outcome (indexed [''Configuration'', ''Constraints''] ''RscOrder'' c) (\<lambda>x. Return (Some x))
           else Return None)
       else Return None)"

definition Cib_MarshalJSON :: "goval \<Rightarrow> json outcome" where
  "Cib_MarshalJSON c =
     bind_outcome (struct_interface c) (\<lambda>x.
       Return (case x of None \<Rightarrow> JNull | Some v \<Rightarrow> json_of api_schema v))"

section \<open>The handlers\<close>

definition with_outcome ::
  "'a outcome \<Rightarrow> 'w \<Rightarrow> ('a \<Rightarrow> 'b outcome \<times> 'w) \<Rightarrow> 'b outcome \<times> 'w" where
  "with_outcome r w k = (case r of Panic m \<Rightarrow> (Panic m, w) | Return a \<Rightarrow> k a)"

definition unmarshal_cib :: "(string \<Rightarrow> xml option) \<Rightarrow> string \<Rightarrow> xml_error + goval" where
  "unmarshal_cib parse s =
     (case parse s of None \<Rightarrow> Inl SyntaxErr | Some root \<Rightarrow> unmarshal_root api_schema ''Cib'' root)"

definition url_list :: "request \<Rightarrow> string list" where
  "url_list r = split_on (CHR ''/'') (trim_byte (CHR ''/'') (Path (URL r)))"

text \<open>
  The common end of the handlers: marshal and write. Marshalling strings, integers,
  pointers, slices and structs reports no error, so the source's error branch after
  json.Marshal has no case here.
\<close>

definition respond_json :: "(json \<Rightarrow> string) \<Rightarrow> 'w response_writer \<Rightarrow> goval \<Rightarrow> 'w \<Rightarrow> bool outcome \<times> 'w" where
  "respond_json render rw cib w =
     with_outcome (Cib_MarshalJSON cib) w (\<lambda>j.
       (Return True, write_string rw (render j @ [newline]) w))"

definition no_route :: "'w response_writer \<Rightarrow> request \<Rightarrow> 'w \<Rightarrow> bool outcome \<times> 'w" where
  "no_route rw r w = (Return False, http_error rw (''No route for '' @ Path (URL r) @ ''.'') 500 w)"

definition json_header :: "'w response_writer \<Rightarrow> 'w \<Rightarrow> 'w" where
  "json_header rw w = edit_header rw (\<lambda>h. hset h ''Content-Type'' ''application/json'') w"

text \<open>The loop over the nodes, with its break; a nil element would panic.\<close>

fun find_node :: "nat \<Rightarrow> string \<Rightarrow> goval list \<Rightarrow> nat option outcome" where
  "find_node i key [] = Return None"
| "find_node i key (item # items) =
     bind_outcome (get_string [''Uname''] item) (\<lambda>uname.
       bind_outcome (get_string [''Id''] item) (\<lambda>id.
         if key = uname \<or> key = id then Return (Some i) else find_node (Suc i) key items))"

definition handleApiNodes ::
  "(string \<Rightarrow> xml option) \<Rightarrow> (json \<Rightarrow> string) \<Rightarrow> 'w response_writer \<Rightarrow> request \<Rightarrow> string \<Rightarrow> 'w
     \<Rightarrow> bool outcome \<times> 'w" where
  "handleApiNodes parse render rw r cib_data w0 =
     (case unmarshal_cib parse cib_data of
        Inl e \<Rightarrow> (Return False, w0)
      | Inr cib0 \<Rightarrow>
          with_outcome (set_path [''Configuration'', ''URLType''] (VString ''nodes'') cib0) w0 (\<lambda>cib1.
            let w = json_header rw w0; urllist = url_list r in
            if length urllist = 3 then
              with_outcome (set_path [''Configuration'', ''Nodes'', ''URLType''] (VString ''all'') cib1) w
                (\<lambda>cib. respond_json render rw cib w)
            else
              with_outcome (set_path [''Configuration'', ''Nodes'', ''URLType''] (VString ''node'') cib1) w (\<lambda>cib2.
                with_outcome (index_outcome urllist 3) w (\<lambda>nodeIndex.
                  with_outcome (bind_outcome (get_path [''Configuration'', ''Nodes'', ''Node''] cib2)
                                  (\<lambda>ns. find_node 0 nodeIndex (slice_elems ns))) w (\<lambda>index.
                    case index of
                      None \<Rightarrow> no_route rw r w
                    | Some i \<Rightarrow>
                        with_outcome (set_path [''Configuration'', ''Nodes'', ''URLIndex''] (VInt (int i)) cib2) w
                          (\<lambda>cib. respond_json render rw cib w))))))"

definition handleApiCluster ::
  "(string \<Rightarrow> xml option) \<Rightarrow> (json \<Rightarrow> string) \<Rightarrow> 'w response_writer \<Rightarrow> request \<Rightarrow> string \<Rightarrow> 'w
     \<Rightarrow> bool outcome \<times> 'w" where
  "handleApiCluster parse render rw r cib_data w0 =
     (case unmarshal_cib parse cib_data of
        Inl e \<Rightarrow> (Return False, w0)
      | Inr cib0 \<Rightarrow>
          with_outcome (set_path [''Configuration'', ''URLType''] (VString ''cluster'') cib0) w0 (\<lambda>cib.
            respond_json render rw cib (json_header rw w0)))"

text \<open>One of the loops that fill mapIdType; later entries replace earlier ones.\<close>

type_synonym id_map = "string \<rightharpoonup> TypeIndex"

fun index_ids :: "string \<Rightarrow> nat \<Rightarrow> goval list \<Rightarrow> id_map \<Rightarrow> id_map outcome" where
  "index_ids t i [] m = Return m"
| "index_ids t i (item # items) m =
     bind_outcome (get_string [''Id''] item) (\<lambda>id.
       index_ids t (Suc i) items (m(id \<mapsto> \<lparr>Type = t, Index = i\<rparr>)))"

text \<open>The loops in sequence, each over one slice of the struct at a path.\<close>

fun index_slices :: "string list \<Rightarrow> (string \<times> string) list \<Rightarrow> goval \<Rightarrow> id_map \<Rightarrow> id_map outcome" where
  "index_slices p [] c m = Return m"
| "index_slices p ((n, t) # rest) c m =
     bind_outcome (get_path (p @ [n]) c) (\<lambda>s.
       bind_outcome (index_ids t 0 (slice_elems s) m) (\<lambda>m'. index_slices p rest c m'))"

definition resource_slices :: "(string \<times> string) list" where
  "resource_slices =
     [(''Primitive'', ''primitive''), (''Group'', ''group''), (''Clone'', ''clone''), (''Master'', ''master'')]"

definition constraint_slices :: "(string \<times> string) list" where
  "constraint_slices =
     [(''RscLocation'', ''location''), (''RscColocation'', ''colocation''), (''RscOrder'', ''order'')]"

definition handleApiResources ::
  "(string \<Rightarrow> xml option) \<Rightarrow> (json \<Rightarrow> string) \<Rightarrow> 'w response_writer \<Rightarrow> request \<Rightarrow> string \<Rightarrow> 'w
     \<Rightarrow> bool outcome \<times> 'w" where
  "handleApiResources parse render rw r cib_data w0 =
     (case unmarshal_cib parse cib_data of
        Inl e \<Rightarrow> (Return False, w0)
      | Inr cib0 \<Rightarrow>
          with_outcome (set_path [''Configuration'', ''URLType''] (VString ''resources'') cib0) w0 (\<lambda>cib1.
            let w = json_header rw w0; urllist = url_list r in
            if length urllist = 3 then
              with_outcome (set_path [''Configuration'', ''Resources'', ''URLType''] (VString ''all'') cib1) w
                (\<lambda>cib. respond_json render rw cib w)
            else
              with_outcome (index_outcome urllist 3) w (\<lambda>resId.
                with_outcome (index_slices [''Configuration'', ''Resources''] resource_slices cib1 Map.empty) w (\<lambda>m.
                  case m resId of
                    Some val \<Rightarrow>
                      with_outcome (set_path [''Configuration'', ''Resources'', ''URLType''] (VString (Type val)) cib1) w
                        (\<lambda>cib2. with_outcome
                           (set_path [''Configuration'', ''Resources'', ''URLIndex''] (VInt (int (Index val))) cib2) w
                           (\<lambda>cib. respond_json render rw cib w))
                  | None \<Rightarrow> no_route rw r w))))"

definition handleApiConstraints ::
  "(string \<Rightarrow> xml option) \<Rightarrow> (json \<Rightarrow> string) \<Rightarrow> 'w response_writer \<Rightarrow> request \<Rightarrow> string \<Rightarrow> 'w
     \<Rightarrow> bool outcome \<times> 'w" where
  "handleApiConstraints parse render rw r cib_data w0 =
     (case unmarshal_cib parse cib_data of
        Inl e \<Rightarrow> (Return False, w0)
      | Inr cib0 \<Rightarrow>
          with_outcome (set_path [''Configuration'', ''URLType''] (VString ''constraints'') cib0) w0 (\<lambda>cib1.
            let w = json_header rw w0; urllist = url_list r in
            if length urllist = 3 then
              with_outcome (set_path [''Configuration'', ''Constraints'', ''URLType''] (VString ''all'') cib1) w
                (\<lambda>cib. respond_json render rw cib w)
            else
              with_outcome (index_outcome urllist 3) w (\<lambda>consId.
                with_outcome (index_slices [''Configuration'', ''Constraints''] constraint_slices cib1 Map.empty) w (\<lambda>m.
                  case m consId of
                    Some val \<Rightarrow>
                      with_outcome (set_path [''Configuration'', ''Constraints'', ''URLType''] (VString (Type val)) cib1) w
                        (\<lambda>cib2. with_outcome
                           (set_path [''Configuration'', ''Constraints'', ''URLIndex''] (VInt (int (Index val))) cib2) w
                           (\<lambda>cib. respond_json render rw cib w))
                  | None \<Rightarrow> no_route rw r w))))"

section \<open>The decoded document\<close>

declare get_path.simps(2) [simp del] set_path.simps(2) [simp del] path_type.simps [simp del]

lemma api_schema_ok: "schema_ok api_schema"
  by code_simp

text \<open>Types of the paths the handlers use.\<close>

lemma cib_paths:
  "path_type api_schema (TPtr ''Cib'') [''Configuration''] = Some (TPtr ''Configuration'')"
  "path_type api_schema (TPtr ''Cib'') [''Configuration'', ''URLType''] = Some TString"
  "path_type api_schema (TPtr ''Cib'') [''Configuration'', ''CrmConfig''] = Some (TPtr ''CrmConfig'')"
  "path_type api_schema (TPtr ''Cib'') [''Configuration'', ''Nodes''] = Some (TPtr ''Nodes'')"
  "path_type api_schema (TPtr ''Cib'') [''Configuration'', ''Nodes'', ''URLType''] = Some TString"
  "path_type api_schema (TPtr ''Cib'') [''Configuration'', ''Nodes'', ''URLIndex''] = Some TInt"
  "path_type api_schema (TPtr ''Cib'') [''Configuration'', ''Nodes'', ''Node''] = Some (TSlice ''Node'')"
  "path_type api_schema (TPtr ''Node'') [''Id''] = Some TString"
  "path_type api_schema (TPtr ''Node'') [''Uname''] = Some TString"
  by code_simp+

lemma get_path_root: "p \<noteq> [] \<Longrightarrow> get_path p (VPtr (Some v)) = get_path p v"
  by (cases p) (simp_all add: get_path.simps)

lemma unmarshal_cib_wt:
  assumes "unmarshal_cib parse d = Inr cib"
  shows "wt api_schema (TPtr ''Cib'') (VPtr (Some cib))"
proof -
  from assms obtain root where "unmarshal_into api_schema root (TPtr ''Cib'') (VPtr None) = Inr (VPtr (Some cib))"
    by (auto simp: unmarshal_cib_def unmarshal_root_def split: option.splits sum.splits goval.splits)
  then show ?thesis by (rule unmarshal_wt(1) [OF api_schema_ok, rotated]) simp
qed

lemma cib_sibling:
  assumes "unmarshal_cib parse d = Inr cib" and "get_path (p @ [n]) cib = Return u"
    and "path_type api_schema (TPtr ''Cib'') (p @ [m]) = Some ty'"
    and "path_type api_schema (TPtr ''Cib'') p = Some (TPtr s)"
  shows "\<exists>u'. get_path (p @ [m]) cib = Return u'"
  using wt_sibling [OF unmarshal_cib_wt [OF assms(1)], of p n u m ty' s] assms(2-4)
  by (auto simp: get_path_root)

lemma get_path_prefix: "get_path (p @ q) v = Return u \<Longrightarrow> \<exists>w. get_path p v = Return w"
  by (auto simp: get_path_append)

text \<open>When one field of a part of the configuration can be reached, so can the selector fields.\<close>

lemma cib_selectors:
  assumes dec: "unmarshal_cib parse d = Inr cib"
    and u: "get_path [''Configuration'', P, n] cib = Return u"
    and ty: "path_type api_schema (TPtr ''Cib'') [''Configuration'', P] = Some (TPtr s)"
  shows "\<exists>u. get_path [''Configuration'', ''URLType''] cib = Return u"
    and "path_type api_schema (TPtr ''Cib'') [''Configuration'', P, m] = Some ty' \<Longrightarrow>
      \<exists>u. get_path [''Configuration'', P, m] cib = Return u"
proof -
  obtain w where "get_path ([''Configuration''] @ [P]) cib = Return w"
    using get_path_prefix [of "[''Configuration'', P]" "[n]"] u by auto
  from cib_sibling [OF dec this, of "''URLType''"]
  show "\<exists>u. get_path [''Configuration'', ''URLType''] cib = Return u"
    by (simp add: cib_paths)
  show "path_type api_schema (TPtr ''Cib'') [''Configuration'', P, m] = Some ty' \<Longrightarrow>
      \<exists>u. get_path [''Configuration'', P, m] cib = Return u"
    using cib_sibling [OF dec, of "[''Configuration'', P]" n u m ty' s] u ty by simp
qed

lemma wt_elems_mem: "wt_elems sch s vs \<Longrightarrow> v \<in> set vs \<Longrightarrow> v \<noteq> VPtr None \<and> wt sch (TPtr s) v"
  by (induction vs) auto

lemma wt_string_field:
  assumes "wt sch (TPtr s) v" and "v \<noteq> VPtr None" and "path_type sch (TPtr s) [n] = Some TString"
  shows "\<exists>x. get_string [n] v = Return x"
proof -
  from assms(3) obtain fs where "map_of sch s = Some fs" "ftype fs n = Some TString"
    by (auto simp: path_type.simps split: option.splits)
  with wt_select [OF assms(1,2)] show ?thesis by (fastforce simp: get_string_def get_path.simps)
qed

text \<open>The elements of a slice of the decoded document, and the name an element goes by.\<close>

lemma slice_elem_wt:
  assumes "unmarshal_cib parse d = Inr cib" and "get_path p cib = Return (VSlice vs)" and "p \<noteq> []"
    and "path_type api_schema (TPtr ''Cib'') p = Some (TSlice s)" and "v \<in> set vs"
  shows "v \<noteq> VPtr None \<and> wt api_schema (TPtr s) v"
proof -
  have "wt api_schema (TSlice s) (VSlice vs)"
    using wt_get_path [OF unmarshal_cib_wt [OF assms(1)] assms(4)] assms(2,3) by (simp add: get_path_root)
  with assms(5) wt_elems_mem show ?thesis by auto
qed

definition string_of :: "string \<Rightarrow> goval \<Rightarrow> string" where
  "string_of n v = (case get_string [n] v of Return s \<Rightarrow> s | Panic _ \<Rightarrow> [])"

section \<open>Nodes\<close>

lemma find_node_correct:
  assumes "\<And>v. v \<in> set vs \<Longrightarrow> get_string [''Uname''] v = Return (string_of ''Uname'' v) \<and>
                               get_string [''Id''] v = Return (string_of ''Id'' v)"
  shows "find_node i key vs =
    Return (find_index_from i (\<lambda>v. key = string_of ''Uname'' v \<or> key = string_of ''Id'' v) vs)"
  using assms by (induction vs arbitrary: i) auto

lemma respond_json_Return:
  "struct_interface c = Return (Some v) \<Longrightarrow> respond_json render rw c w =
     (Return True, write_string rw (render (json_of api_schema v) @ [newline]) w)"
  by (simp add: respond_json_def Cib_MarshalJSON_def with_outcome_def)

text \<open>Setting two fields of one document: what the marshaller then reads.\<close>

lemma get_string_set:
  "set_path p (VString x) c = Return c' \<Longrightarrow> get_string p c' = Return x"
  by (drule get_set_path) (simp add: get_string_def)

lemma get_string_other:
  "set_path p x c = Return c' \<Longrightarrow> diverge p q \<Longrightarrow> get_string q c' = get_string q c"
  by (simp add: get_string_def get_set_other)

section \<open>Resources and constraints\<close>

text \<open>The entries of several slices of one part of the configuration, in the order of the loops.\<close>

definition entries :: "string \<Rightarrow> (string \<times> string) list \<Rightarrow> goval \<Rightarrow> goval list" where
  "entries P slices cib =
     concat (map (\<lambda>(n, t). case get_path [''Configuration'', P, n] cib of
                            Return s \<Rightarrow> slice_elems s | Panic _ \<Rightarrow> []) slices)"

text \<open>
  What the resource and the constraint handler have in common: a part \<open>P\<close> of the
  configuration, its slices with their type names, the marshaller's choice among them,
  and the handler's shape. The lookup of an entry by id is proved once.
\<close>

locale id_lookup =
  fixes kind P s :: string and slices :: "(string \<times> string) list"
    and handler :: "(string \<Rightarrow> xml option) \<Rightarrow> (json \<Rightarrow> string) \<Rightarrow> 'w response_writer \<Rightarrow> request \<Rightarrow> string \<Rightarrow> 'w
       \<Rightarrow> bool outcome \<times> 'w"
  assumes part_type: "path_type api_schema (TPtr ''Cib'') [''Configuration'', P] = Some (TPtr s)"
    and selector_type: "path_type api_schema (TPtr ''Cib'') [''Configuration'', P, ''URLType''] = Some TString"
      "path_type api_schema (TPtr ''Cib'') [''Configuration'', P, ''URLIndex''] = Some TInt"
    and slice_type: "(n, t) \<in> set slices \<Longrightarrow> \<exists>e.
      path_type api_schema (TPtr ''Cib'') [''Configuration'', P, n] = Some (TSlice e) \<and>
      path_type api_schema (TPtr e) [''Id''] = Some TString"
    and hidden: "\<exists>fs. map_of api_schema s = Some fs \<and> list_all (\<lambda>f. f_name f \<noteq> ''URLType'') (json_fields fs)"
    and names: "P \<noteq> ''URLType''" "(n, t) \<in> set slices \<Longrightarrow> n \<noteq> ''URLType'' \<and> n \<noteq> ''URLIndex''"
    and pick: "(n, t) \<in> set slices \<Longrightarrow> get_string [''Configuration'', ''URLType''] c = Return kind \<Longrightarrow>
      get_string [''Configuration'', P, ''URLType''] c = Return t \<Longrightarrow>
      struct_interface c = bind_outcome (indexed [''Configuration'', P] n c) (\<lambda>x. Return (Some x))"
    and pick_all: "get_string [''Configuration'', ''URLType''] c = Return kind \<Longrightarrow>
      get_string [''Configuration'', P, ''URLType''] c = Return ''all'' \<Longrightarrow>
      struct_interface c = bind_outcome (get_path [''Configuration'', P] c) (\<lambda>x. Return (Some x))"
    and shape: "unmarshal_cib parse d = Inr cib0 \<Longrightarrow> handler parse render rw r d w0 =
      with_outcome (set_path [''Configuration'', ''URLType''] (VString kind) cib0) w0 (\<lambda>cib1.
        let w = json_header rw w0; urllist = url_list r in
        if length urllist = 3 then
          with_outcome (set_path [''Configuration'', P, ''URLType''] (VString ''all'') cib1) w
            (\<lambda>cib. respond_json render rw cib w)
        else
          with_outcome (index_outcome urllist 3) w (\<lambda>key.
            with_outcome (index_slices [''Configuration'', P] slices cib1 Map.empty) w (\<lambda>m.
              case m key of
                Some val \<Rightarrow>
                  with_outcome (set_path [''Configuration'', P, ''URLType''] (VString (Type val)) cib1) w
                    (\<lambda>cib2. with_outcome
                       (set_path [''Configuration'', P, ''URLIndex''] (VInt (int (Index val))) cib2) w
                       (\<lambda>cib. respond_json render rw cib w))
              | None \<Rightarrow> no_route rw r w)))"
begin

text \<open>What the map of ids says after the loops have gone over the entries \<open>done\<close>.\<close>

definition id_map_for :: "goval \<Rightarrow> goval list \<Rightarrow> id_map \<Rightarrow> bool" where
  "id_map_for c done m \<longleftrightarrow>
     (\<forall>k. case m k of
        None \<Rightarrow> find (\<lambda>v. string_of ''Id'' v = k) (rev done) = None
      | Some ti \<Rightarrow> \<exists>n vs. (n, Type ti) \<in> set slices \<and>
            get_path [''Configuration'', P, n] c = Return (VSlice vs) \<and> Index ti < length vs \<and>
            find (\<lambda>v. string_of ''Id'' v = k) (rev done) = Some (vs ! Index ti))"

lemma index_ids_correct:
  assumes "(n, t) \<in> set slices" and "get_path [''Configuration'', P, n] c = Return (VSlice (pre @ vs))"
    and "\<And>v. v \<in> set vs \<Longrightarrow> get_string [''Id''] v = Return (string_of ''Id'' v)"
    and "id_map_for c done m"
  shows "\<exists>m'. index_ids t (length pre) vs m = Return m' \<and> id_map_for c (done @ vs) m'"
  using assms(2-)
proof (induction vs arbitrary: pre m "done")
  case Nil
  then show ?case by simp
next
  case (Cons v vs)
  let ?m = "m(string_of ''Id'' v \<mapsto> \<lparr>Type = t, Index = length pre\<rparr>)"
  have "id_map_for c (done @ [v]) ?m"
    unfolding id_map_for_def
  proof
    fix k
    show "case ?m k of
        None \<Rightarrow> find (\<lambda>v. string_of ''Id'' v = k) (rev (done @ [v])) = None
      | Some ti \<Rightarrow> \<exists>n vs. (n, Type ti) \<in> set slices \<and>
            get_path [''Configuration'', P, n] c = Return (VSlice vs) \<and> Index ti < length vs \<and>
            find (\<lambda>v. string_of ''Id'' v = k) (rev (done @ [v])) = Some (vs ! Index ti)"
    proof (cases "k = string_of ''Id'' v")
      case True
      with assms(1) Cons.prems(1) show ?thesis by (auto intro!: exI [of _ n])
    next
      case False
      with Cons.prems(3) [unfolded id_map_for_def, rule_format, of k] show ?thesis
        by (simp split: option.splits)
    qed
  qed
  from Cons.IH [of "pre @ [v]", OF _ _ this] Cons.prems(1,2) show ?case
    by (simp add: fun_upd_def)
qed

lemma slice_entry:
  assumes "unmarshal_cib parse d = Inr cib" and "(n, t) \<in> set slices"
    and "get_path [''Configuration'', P, n] cib = Return (VSlice vs)" and "v \<in> set vs"
  shows "get_string [''Id''] v = Return (string_of ''Id'' v)"
proof -
  obtain e where e: "path_type api_schema (TPtr ''Cib'') [''Configuration'', P, n] = Some (TSlice e)"
    "path_type api_schema (TPtr e) [''Id''] = Some TString"
    using slice_type assms(2) by blast
  have "v \<noteq> VPtr None \<and> wt api_schema (TPtr e) v"
    by (rule slice_elem_wt [OF assms(1,3) _ e(1) assms(4)]) simp
  with wt_string_field e(2) show ?thesis by (fastforce simp: string_of_def)
qed

text \<open>Every slice of the part can be read once one can.\<close>

lemma slice_reachable:
  assumes dec: "unmarshal_cib parse d = Inr cib" and "(n, t) \<in> set slices"
    and "get_path [''Configuration'', P, n'] cib = Return u"
  shows "\<exists>vs. get_path [''Configuration'', P, n] cib = Return (VSlice vs)"
proof -
  obtain e where e: "path_type api_schema (TPtr ''Cib'') [''Configuration'', P, n] = Some (TSlice e)"
    using slice_type assms(2) by blast
  obtain x where x: "get_path [''Configuration'', P, n] cib = Return x"
    using cib_selectors(2) [OF dec assms(3) part_type e] by blast
  then have "wt api_schema (TSlice e) x"
    using wt_get_path [OF unmarshal_cib_wt [OF dec] e] by (simp add: get_path_root)
  with x show ?thesis by (cases x) auto
qed

lemma index_slices_correct:
  assumes dec: "unmarshal_cib parse d = Inr cib" and sub: "set ss \<subseteq> set slices"
    and reach: "get_path [''Configuration'', P, n'] cib = Return u"
    and same: "\<And>n t. (n, t) \<in> set slices \<Longrightarrow>
      get_path [''Configuration'', P, n] c = get_path [''Configuration'', P, n] cib"
    and m: "id_map_for c done m"
  shows "\<exists>m'. index_slices [''Configuration'', P] ss c m = Return m' \<and> id_map_for c (done @ entries P ss cib) m'"
  using sub m
proof (induction ss arbitrary: m "done")
  case Nil
  then show ?case by (simp add: entries_def)
next
  case (Cons a ss)
  obtain n t where a: "a = (n, t)" by fastforce
  with Cons.prems have mem: "(n, t) \<in> set slices" by simp
  obtain vs where vs: "get_path [''Configuration'', P, n] cib = Return (VSlice vs)"
    using slice_reachable [OF dec mem reach] by blast
  obtain m1 where m1: "index_ids t 0 vs m = Return m1" "id_map_for c (done @ vs) m1"
    using index_ids_correct [OF mem, of c "[]" vs "done" m] same [OF mem] vs slice_entry [OF dec mem vs] Cons.prems(2)
    by (auto simp del: get_path.simps)
  with Cons.IH [OF _ m1(2)] Cons.prems(1) show ?case
    by (simp add: a same [OF mem] vs m1 entries_def)
qed

lemma lookup:
  assumes dec: "unmarshal_cib parse d = Inr cib"
    and reach: "get_path [''Configuration'', P, n'] cib = Return u"
    and segs: "3 < length (url_list r)"
  shows "handler parse render rw r d w =
    (case find (\<lambda>v. string_of ''Id'' v = url_list r ! 3) (rev (entries P slices cib)) of
       None \<Rightarrow> no_route rw r (json_header rw w)
     | Some v \<Rightarrow> (Return True,
         write_string rw (render (json_of api_schema v) @ [newline]) (json_header rw w)))"
proof -
  let ?key = "url_list r ! 3"
  note paths = cib_selectors [OF dec reach part_type]
  obtain c1 where c1: "set_path [''Configuration'', ''URLType''] (VString kind) cib = Return c1"
    using paths(1) set_path_returns by blast
  have same: "get_path [''Configuration'', P, n] c1 = get_path [''Configuration'', P, n] cib" for n
    using get_set_other [OF c1] names(1) by simp
  have "id_map_for c1 [] Map.empty" by (simp add: id_map_for_def)
  then obtain m where m: "index_slices [''Configuration'', P] slices c1 Map.empty = Return m"
    and im: "id_map_for c1 (entries P slices cib) m"
    using index_slices_correct [OF dec subset_refl reach same] by fastforce
  have ix: "index_outcome (url_list r) 3 = Return ?key"
    using segs by (simp add: index_outcome_def)
  have start: "handler parse render rw r d w =
      (case m ?key of
         Some val \<Rightarrow>
           with_outcome (set_path [''Configuration'', P, ''URLType''] (VString (Type val)) c1) (json_header rw w)
             (\<lambda>cib2. with_outcome
                (set_path [''Configuration'', P, ''URLIndex''] (VInt (int (Index val))) cib2) (json_header rw w)
                (\<lambda>cib. respond_json render rw cib (json_header rw w)))
       | None \<Rightarrow> no_route rw r (json_header rw w))"
    using segs by (simp add: shape [OF dec] with_outcome_def c1 m ix Let_def)
  show ?thesis
  proof (cases "m ?key")
    case None
    then have "find (\<lambda>v. string_of ''Id'' v = ?key) (rev (entries P slices cib)) = None"
      using im [unfolded id_map_for_def, rule_format, of ?key] by simp
    with start None show ?thesis by simp
  next
    case (Some ti)
    then obtain n vs where n: "(n, Type ti) \<in> set slices"
      "get_path [''Configuration'', P, n] c1 = Return (VSlice vs)" "Index ti < length vs"
      "find (\<lambda>v. string_of ''Id'' v = ?key) (rev (entries P slices cib)) = Some (vs ! Index ti)"
      using im [unfolded id_map_for_def, rule_format, of ?key] by auto
    note nn = names(2) [OF n(1)]
    have "\<exists>u. get_path [''Configuration'', P, ''URLType''] c1 = Return u"
      using paths(2) [OF selector_type(1)] same by simp
    then obtain c2 where c2: "set_path [''Configuration'', P, ''URLType''] (VString (Type ti)) c1 = Return c2"
      using set_path_returns by blast
    have "\<exists>u. get_path [''Configuration'', P, ''URLIndex''] c2 = Return u"
      using paths(2) [OF selector_type(2)] same get_set_other [OF c2] by simp
    then obtain c3 where c3: "set_path [''Configuration'', P, ''URLIndex''] (VInt (int (Index ti))) c2 = Return c3"
      using set_path_returns by blast
    have "get_string [''Configuration'', ''URLType''] c3 = Return kind"
      using get_string_set [OF c1] get_string_other [OF c2] get_string_other [OF c3] names(1) by simp
    moreover have "get_string [''Configuration'', P, ''URLType''] c3 = Return (Type ti)"
      using get_string_set [OF c2] get_string_other [OF c3] by simp
    moreover have "get_path [''Configuration'', P, n] c3 = Return (VSlice vs)"
      using get_set_other [OF c3, of "[''Configuration'', P, n]"] get_set_other [OF c2, of "[''Configuration'', P, n]"]
        n(2) nn by auto
    then have "indexed [''Configuration'', P] n c3 = Return (vs ! Index ti)"
      using get_set_path [OF c3] n(3) by (simp add: indexed_def index_outcome_def)
    ultimately have "struct_interface c3 = Return (Some (vs ! Index ti))"
      using pick [OF n(1)] by simp
    with start Some c2 c3 n(4) show ?thesis by (simp add: with_outcome_def respond_json_Return)
  qed
qed

lemma list_all_entries:
  assumes dec: "unmarshal_cib parse d = Inr cib"
    and reach: "get_path [''Configuration'', P, n'] cib = Return u"
    and part: "get_path [''Configuration'', P] cib = Return v"
    and segs: "length (url_list r) = 3"
  shows "handler parse render rw r d w =
    (Return True, write_string rw (render (json_of api_schema v) @ [newline]) (json_header rw w))"
proof -
  note paths = cib_selectors [OF dec reach part_type]
  obtain c1 where c1: "set_path [''Configuration'', ''URLType''] (VString kind) cib = Return c1"
    using paths(1) set_path_returns by blast
  have same: "get_path [''Configuration'', P] c1 = get_path [''Configuration'', P] cib"
    "get_path [''Configuration'', P, ''URLType''] c1 = get_path [''Configuration'', P, ''URLType''] cib"
    using get_set_other [OF c1] names(1) by simp_all
  have "\<exists>u. get_path [''Configuration'', P, ''URLType''] c1 = Return u"
    using paths(2) [OF selector_type(1)] same(2) by simp
  then obtain c2 where c2: "set_path [''Configuration'', P, ''URLType''] (VString ''all'') c1 = Return c2"
    using set_path_returns by blast
  obtain v' where v': "set_path [''URLType''] (VString ''all'') v = Return v'"
      "get_path [''Configuration'', P] c2 = Return v'"
    using set_path_below [of "[''Configuration'', P]" "[''URLType'']" "VString ''all''" c1 c2 v] c2 part same(1) by auto
  have "wt api_schema (TPtr s) v"
    using wt_get_path [OF unmarshal_cib_wt [OF dec] part_type] part by (simp add: get_path_root)
  then have json: "json_of api_schema v' = json_of api_schema v"
    using v'(1) hidden json_of_hidden
    by (cases v) (fastforce simp: set_path.simps elim!: wt.elims(2) split: option.splits)+
  have "struct_interface c2 = Return (Some v')"
    using pick_all [of c2] get_string_set [OF c1] get_string_set [OF c2] get_string_other [OF c2] names(1) v'(2)
    by simp
  then show ?thesis
    using segs json by (simp add: shape [OF dec] with_outcome_def c1 c2 respond_json_Return Let_def)
qed

end

lemma resource_paths:
  "path_type api_schema (TPtr ''Cib'') [''Configuration'', ''Resources''] = Some (TPtr ''Resources'')"
  "path_type api_schema (TPtr ''Cib'') [''Configuration'', ''Resources'', ''URLType''] = Some TString"
  "path_type api_schema (TPtr ''Cib'') [''Configuration'', ''Resources'', ''URLIndex''] = Some TInt"
  "list_all (\<lambda>(n, t). path_type api_schema (TPtr ''Cib'') [''Configuration'', ''Resources'', n] = Some (TSlice n) \<and>
     path_type api_schema (TPtr n) [''Id''] = Some TString) resource_slices"
  "map_of api_schema ''Resources'' = Some Resources_type"
  "list_all (\<lambda>f. f_name f \<noteq> ''URLType'') (json_fields Resources_type)"
  by code_simp+

lemma constraint_paths:
  "path_type api_schema (TPtr ''Cib'') [''Configuration'', ''Constraints''] = Some (TPtr ''Constraints'')"
  "path_type api_schema (TPtr ''Cib'') [''Configuration'', ''Constraints'', ''URLType''] = Some TString"
  "path_type api_schema (TPtr ''Cib'') [''Configuration'', ''Constraints'', ''URLIndex''] = Some TInt"
  "list_all (\<lambda>(n, t). path_type api_schema (TPtr ''Cib'') [''Configuration'', ''Constraints'', n] = Some (TSlice n) \<and>
     path_type api_schema (TPtr n) [''Id''] = Some TString) constraint_slices"
  "map_of api_schema ''Constraints'' = Some Constraints_type"
  "list_all (\<lambda>f. f_name f \<noteq> ''URLType'') (json_fields Constraints_type)"
  by code_simp+

interpretation resources: id_lookup "''resources''" "''Resources''" "''Resources''" resource_slices handleApiResources
proof
  fix n t assume "(n, t) \<in> set resource_slices"
  then show "\<exists>e. path_type api_schema (TPtr ''Cib'') [''Configuration'', ''Resources'', n] = Some (TSlice e) \<and>
      path_type api_schema (TPtr e) [''Id''] = Some TString"
    using resource_paths(4) by (auto simp: list_all_iff)
qed (auto simp: resource_paths resource_slices_def struct_interface_def handleApiResources_def)

interpretation constraints: id_lookup "''constraints''" "''Constraints''" "''Constraints''" constraint_slices
  handleApiConstraints
proof
  fix n t assume "(n, t) \<in> set constraint_slices"
  then show "\<exists>e. path_type api_schema (TPtr ''Cib'') [''Configuration'', ''Constraints'', n] = Some (TSlice e) \<and>
      path_type api_schema (TPtr e) [''Id''] = Some TString"
    using constraint_paths(4) by (auto simp: list_all_iff)
qed (auto simp: constraint_paths constraint_slices_def struct_interface_def handleApiConstraints_def)

section \<open>Properties of the handlers\<close>

lemma example_decodes: "unmarshal_cib (\<lambda>_. Some example_cib) d = Inr example_value"
  by (simp add: unmarshal_cib_def unmarshal_root_def unmarshal_example)

lemma example_paths:
  "get_path [''Configuration'', ''Nodes'', ''Node''] example_value =
     Return (VSlice [example_node ''1'' ''alice'', example_node ''2'' ''bob''])"
  "get_path [''Configuration'', ''Resources''] example_value = Return example_resources"
  "get_path [''Configuration'', ''Resources'', ''Primitive''] example_value = Return (VSlice [example_primitive ''vip''])"
  "get_path [''Configuration'', ''Resources'', ''Group''] example_value = Return (VSlice [example_group])"
  "get_path [''Configuration'', ''Resources'', ''Clone''] example_value = Return (VSlice [])"
  "get_path [''Configuration'', ''Resources'', ''Master''] example_value = Return (VSlice [])"
  "get_path [''Configuration'', ''Constraints''] example_value = Return example_constraints"
  "get_path [''Configuration'', ''Constraints'', ''RscLocation''] example_value = Return (VSlice [])"
  "get_path [''Configuration'', ''Constraints'', ''RscColocation''] example_value = Return (VSlice [])"
  "get_path [''Configuration'', ''Constraints'', ''RscOrder''] example_value = Return (VSlice [example_order])"
  "get_path [''Configuration'', ''CrmConfig''] example_value = Return example_crm_config"
  by (simp_all add: get_path.simps example_value_def example_configuration_def example_nodes_def
      example_resources_def example_constraints_def)

lemma example_names:
  "string_of ''Id'' (example_node i u) = i" "string_of ''Uname'' (example_node i u) = u"
  "string_of ''Id'' (example_primitive i) = i" "string_of ''Id'' example_group = ''web''"
  "string_of ''Id'' example_order = ''first''"
  by (simp_all add: string_of_def get_string_def get_path.simps example_node_def example_primitive_def
      example_group_def example_order_def)

lemma example_urls:
  "url_list (example_request ''/api/v1/nodes'') = [''api'', ''v1'', ''nodes'']"
  "url_list (example_request ''/api/v1/nodes/bob'') = [''api'', ''v1'', ''nodes'', ''bob'']"
  "url_list (example_request ''/api/v1/resources'') = [''api'', ''v1'', ''resources'']"
  "url_list (example_request ''/api/v1/resources/web'') = [''api'', ''v1'', ''resources'', ''web'']"
  "url_list (example_request ''/api/v1/constraints'') = [''api'', ''v1'', ''constraints'']"
  "url_list (example_request ''/api/v1/constraints/first/'') = [''api'', ''v1'', ''constraints'', ''first'']"
  by code_simp+

definition example_render :: "goval \<Rightarrow> json \<Rightarrow> string" where
  "example_render v j = (if j = json_of api_schema v then ''found'' else ''other'')"

lemma example_reply: "c_body (write_string conn_rw b (json_header conn_rw new_conn)) = b"
  by (simp add: write_string_def json_header_def edit_header_def conn_Write_def conn_WriteHeader_def new_conn_def
      header_simps body_allowed_def hget_def Let_def)

text \<open>
  The node list. On a path of three segments the handler answers with the JSON
  array of all nodes of the document (null when there are none).
\<close>

lemma handleApiNodes_all:
  assumes dec: "unmarshal_cib parse d = Inr cib"
    and nodes: "get_path [''Configuration'', ''Nodes'', ''Node''] cib = Return (VSlice ns)"
    and segs: "length (url_list r) = 3"
  shows "handleApiNodes parse render rw r d w =
    (Return True, write_string rw (render (json_of api_schema (VSlice ns)) @ [newline]) (json_header rw w))"
proof -
  obtain c1 where c1: "set_path [''Configuration'', ''URLType''] (VString ''nodes'') cib = Return c1"
    using cib_selectors(1) [OF dec nodes] set_path_returns cib_paths by blast
  have "\<exists>u. get_path [''Configuration'', ''Nodes'', ''URLType''] c1 = Return u"
    using cib_selectors(2) [OF dec nodes] get_set_other [OF c1] cib_paths by simp
  then obtain c2 where c2: "set_path [''Configuration'', ''Nodes'', ''URLType''] (VString ''all'') c1 = Return c2"
    using set_path_returns by blast
  have "get_string [''Configuration'', ''URLType''] c2 = Return ''nodes''"
    using get_string_set [OF c1] get_string_other [OF c2] by simp
  moreover have "get_string [''Configuration'', ''Nodes'', ''URLType''] c2 = Return ''all''"
    by (rule get_string_set [OF c2])
  moreover have "get_path [''Configuration'', ''Nodes'', ''Node''] c2 = Return (VSlice ns)"
    using nodes get_set_other [OF c1] get_set_other [OF c2] by simp
  ultimately have "struct_interface c2 = Return (Some (VSlice ns))"
    by (simp add: struct_interface_def)
  with dec segs c1 c2 show ?thesis
    by (simp add: handleApiNodes_def with_outcome_def respond_json_Return del: set_path.simps)
qed

lemma handleApiNodes_all_example:
  "c_body (snd (handleApiNodes (\<lambda>_. Some example_cib)
     (example_render (VSlice [example_node ''1'' ''alice'', example_node ''2'' ''bob''])) conn_rw
     (example_request ''/api/v1/nodes'') [] new_conn)) = ''found'' @ [newline]"
  using handleApiNodes_all [OF example_decodes example_paths(1), where
      r = "example_request ''/api/v1/nodes''" and rw = conn_rw and w = new_conn and d = "[]" and
      render = "example_render (VSlice [example_node ''1'' ''alice'', example_node ''2'' ''bob''])"]
  by (simp add: example_urls example_reply example_render_def)

lemma node_lookup:
  assumes dec: "unmarshal_cib parse d = Inr cib"
    and nodes: "get_path [''Configuration'', ''Nodes'', ''Node''] cib = Return (VSlice ns)"
    and segs: "3 < length (url_list r)"
  shows "handleApiNodes parse render rw r d w =
    (case find_index (\<lambda>v. url_list r ! 3 = string_of ''Uname'' v \<or> url_list r ! 3 = string_of ''Id'' v) ns of
       None \<Rightarrow> no_route rw r (json_header rw w)
     | Some i \<Rightarrow> (Return True,
         write_string rw (render (json_of api_schema (ns ! i)) @ [newline]) (json_header rw w)))"
proof -
  let ?P = "\<lambda>v. url_list r ! 3 = string_of ''Uname'' v \<or> url_list r ! 3 = string_of ''Id'' v"
  note paths = cib_selectors(2) [OF dec nodes cib_paths(4)]
  obtain c1 where c1: "set_path [''Configuration'', ''URLType''] (VString ''nodes'') cib = Return c1"
    using cib_selectors(1) [OF dec nodes] set_path_returns cib_paths by blast
  have "\<exists>u. get_path [''Configuration'', ''Nodes'', ''URLType''] c1 = Return u"
    using paths get_set_other [OF c1] cib_paths by simp
  then obtain c2 where c2: "set_path [''Configuration'', ''Nodes'', ''URLType''] (VString ''node'') c1 = Return c2"
    using set_path_returns by blast
  have n2: "get_path [''Configuration'', ''Nodes'', ''Node''] c2 = Return (VSlice ns)"
    using nodes get_set_other [OF c1] get_set_other [OF c2] by simp
  have "get_string [''Uname''] v = Return (string_of ''Uname'' v) \<and> get_string [''Id''] v = Return (string_of ''Id'' v)"
    if "v \<in> set ns" for v
    using slice_elem_wt [OF dec nodes _ cib_paths(7) that] wt_string_field cib_paths(8,9)
    by (fastforce simp: string_of_def)
  then have fn: "find_node 0 (url_list r ! 3) ns = Return (find_index ?P ns)"
    by (rule find_node_correct)
  have ix: "index_outcome (url_list r) 3 = Return (url_list r ! 3)"
    using segs by (simp add: index_outcome_def)
  have start: "handleApiNodes parse render rw r d w =
      (case find_index ?P ns of None \<Rightarrow> no_route rw r (json_header rw w)
       | Some i \<Rightarrow> with_outcome (set_path [''Configuration'', ''Nodes'', ''URLIndex''] (VInt (int i)) c2) (json_header rw w)
            (\<lambda>cib. respond_json render rw cib (json_header rw w)))"
    using segs by (cases "find_index ?P ns") (simp_all add: handleApiNodes_def dec with_outcome_def c1 c2 n2 fn ix Let_def)
  show ?thesis
  proof (cases "find_index ?P ns")
    case None
    with start show ?thesis by simp
  next
    case (Some i)
    then have i: "i < length ns" by (simp add: find_index_Some)
    have "\<exists>u. get_path [''Configuration'', ''Nodes'', ''URLIndex''] c2 = Return u"
      using paths get_set_other [OF c1] get_set_other [OF c2] cib_paths by simp
    then obtain c3 where c3: "set_path [''Configuration'', ''Nodes'', ''URLIndex''] (VInt (int i)) c2 = Return c3"
      using set_path_returns by blast
    have "get_string [''Configuration'', ''URLType''] c3 = Return ''nodes''"
      using get_string_set [OF c1] get_string_other [OF c2] get_string_other [OF c3] by simp
    moreover have "get_string [''Configuration'', ''Nodes'', ''URLType''] c3 = Return ''node''"
      using get_string_set [OF c2] get_string_other [OF c3] by simp
    moreover have "indexed [''Configuration'', ''Nodes''] ''Node'' c3 = Return (ns ! i)"
      using get_set_path [OF c3] get_set_other [OF c3] n2 i by (simp add: indexed_def index_outcome_def)
    ultimately have "struct_interface c3 = Return (Some (ns ! i))"
      by (simp add: struct_interface_def)
    with start Some c3 show ?thesis by (simp add: with_outcome_def respond_json_Return)
  qed
qed

text \<open>
  C19. A single node. On a path of four or more segments the handler looks for the
  first node whose name or id is the fourth segment and answers with the JSON object
  of that node; when there is none it answers 500 and reports the request as not
  handled.
\<close>

theorem handleApiNodes_one:
  assumes dec: "unmarshal_cib parse d = Inr cib"
    and nodes: "get_path [''Configuration'', ''Nodes'', ''Node''] cib = Return (VSlice ns)"
    and segs: "3 < length (url_list r)"
  shows "handleApiNodes parse render rw r d w =
    (case find_index (\<lambda>v. url_list r ! 3 = string_of ''Uname'' v \<or> url_list r ! 3 = string_of ''Id'' v) ns of
       None \<Rightarrow> no_route rw r (json_header rw w)
     | Some i \<Rightarrow> (Return True,
         write_string rw (render (json_of api_schema (ns ! i)) @ [newline]) (json_header rw w)))"
  by (rule node_lookup [OF assms])

theorem handleApiNodes_one_witness:
  "c_body (snd (handleApiNodes (\<lambda>_. Some example_cib) (example_render (example_node ''2'' ''bob'')) conn_rw
     (example_request ''/api/v1/nodes/bob'') [] new_conn)) = ''found'' @ [newline]"
  using handleApiNodes_one [OF example_decodes example_paths(1), where
      r = "example_request ''/api/v1/nodes/bob''" and render = "example_render (example_node ''2'' ''bob'')" and
      rw = conn_rw and w = new_conn and d = "[]"]
  by (simp add: example_urls example_names example_reply example_render_def)

text \<open>
  C7. A resource by id. On a path of four or more segments the handler answers with the
  JSON object of the last entry, over primitives, groups, clones and masters in this
  order, whose id is the fourth segment: later entries shadow earlier ones. When there
  is none it answers 500 and reports the request as not handled.
\<close>

theorem handleApiResources_lookup:
  assumes "unmarshal_cib parse d = Inr cib"
    and "get_path [''Configuration'', ''Resources'', n] cib = Return u"
    and "3 < length (url_list r)"
  shows "handleApiResources parse render rw r d w =
    (case find (\<lambda>v. string_of ''Id'' v = url_list r ! 3) (rev (entries ''Resources'' resource_slices cib)) of
       None \<Rightarrow> no_route rw r (json_header rw w)
     | Some v \<Rightarrow> (Return True,
         write_string rw (render (json_of api_schema v) @ [newline]) (json_header rw w)))"
  by (rule resources.lookup [OF assms])

theorem handleApiResources_lookup_witness:
  "c_body (snd (handleApiResources (\<lambda>_. Some example_cib) (example_render example_group) conn_rw
     (example_request ''/api/v1/resources/web'') [] new_conn)) = ''found'' @ [newline]"
  using handleApiResources_lookup [OF example_decodes example_paths(3), where
      r = "example_request ''/api/v1/resources/web''" and render = "example_render example_group" and
      rw = conn_rw and w = new_conn and d = "[]"]
  by (simp add: example_urls entries_def resource_slices_def example_paths example_names example_reply
      example_render_def)

text \<open>
  C21. A constraint by id. The same lookup over location, colocation and order
  constraints, in this order.
\<close>

theorem handleApiConstraints_lookup:
  assumes "unmarshal_cib parse d = Inr cib"
    and "get_path [''Configuration'', ''Constraints'', n] cib = Return u"
    and "3 < length (url_list r)"
  shows "handleApiConstraints parse render rw r d w =
    (case find (\<lambda>v. string_of ''Id'' v = url_list r ! 3) (rev (entries ''Constraints'' constraint_slices cib)) of
       None \<Rightarrow> no_route rw r (json_header rw w)
     | Some v \<Rightarrow> (Return True,
         write_string rw (render (json_of api_schema v) @ [newline]) (json_header rw w)))"
  by (rule constraints.lookup [OF assms])

theorem handleApiConstraints_lookup_witness:
  "c_body (snd (handleApiConstraints (\<lambda>_. Some example_cib) (example_render example_order) conn_rw
     (example_request ''/api/v1/constraints/first/'') [] new_conn)) = ''found'' @ [newline]"
  using handleApiConstraints_lookup [OF example_decodes example_paths(10), where
      r = "example_request ''/api/v1/constraints/first/''" and render = "example_render example_order" and
      rw = conn_rw and w = new_conn and d = "[]"]
  by (simp add: example_urls entries_def constraint_slices_def example_paths example_names example_reply
      example_render_def)

text \<open>
  The resource section. On a path of three segments the handler answers with the
  JSON object of the whole section as it was decoded: the selector fields it sets on
  the way do not show.
\<close>

lemma handleApiResources_all:
  assumes "unmarshal_cib parse d = Inr cib"
    and "get_path [''Configuration'', ''Resources'', n] cib = Return u"
    and "get_path [''Configuration'', ''Resources''] cib = Return v"
    and "length (url_list r) = 3"
  shows "handleApiResources parse render rw r d w =
    (Return True, write_string rw (render (json_of api_schema v) @ [newline]) (json_header rw w))"
  by (rule resources.list_all_entries [OF assms])

lemma handleApiResources_all_example:
  "c_body (snd (handleApiResources (\<lambda>_. Some example_cib) (example_render example_resources) conn_rw
     (example_request ''/api/v1/resources'') [] new_conn)) = ''found'' @ [newline]"
  using handleApiResources_all [OF example_decodes example_paths(3,2), where
      r = "example_request ''/api/v1/resources''" and render = "example_render example_resources" and
      rw = conn_rw and w = new_conn and d = "[]"]
  by (simp add: example_urls example_reply example_render_def)

text \<open>The constraint section, in the same way.\<close>

lemma handleApiConstraints_all:
  assumes "unmarshal_cib parse d = Inr cib"
    and "get_path [''Configuration'', ''Constraints'', n] cib = Return u"
    and "get_path [''Configuration'', ''Constraints''] cib = Return v"
    and "length (url_list r) = 3"
  shows "handleApiConstraints parse render rw r d w =
    (Return True, write_string rw (render (json_of api_schema v) @ [newline]) (json_header rw w))"
  by (rule constraints.list_all_entries [OF assms])

lemma handleApiConstraints_all_example:
  "c_body (snd (handleApiConstraints (\<lambda>_. Some example_cib) (example_render example_constraints) conn_rw
     (example_request ''/api/v1/constraints'') [] new_conn)) = ''found'' @ [newline]"
  using handleApiConstraints_all [OF example_decodes example_paths(10,7), where
      r = "example_request ''/api/v1/constraints''" and render = "example_render example_constraints" and
      rw = conn_rw and w = new_conn and d = "[]"]
  by (simp add: example_urls example_reply example_render_def)

text \<open>
  The cluster section: whatever the path, the handler answers with the JSON form of
  crm_config (null when the document has none).
\<close>

lemma handleApiCluster_section:
  assumes dec: "unmarshal_cib parse d = Inr cib"
    and crm: "get_path [''Configuration'', ''CrmConfig''] cib = Return v"
  shows "handleApiCluster parse render rw r d w =
    (Return True, write_string rw (render (json_of api_schema v) @ [newline]) (json_header rw w))"
proof -
  obtain u where "get_path [''Configuration'', ''URLType''] cib = Return u"
    using cib_sibling [OF dec, of "[''Configuration'']" "''CrmConfig''" v "''URLType''"] crm cib_paths by auto
  then obtain c1 where c1: "set_path [''Configuration'', ''URLType''] (VString ''cluster'') cib = Return c1"
    using set_path_returns by blast
  have "get_path [''Configuration'', ''CrmConfig''] c1 = Return v"
    using get_set_other [OF c1] crm by simp
  then have "struct_interface c1 = Return (Some v)"
    using get_string_set [OF c1] by (simp add: struct_interface_def)
  then show ?thesis by (simp add: handleApiCluster_def dec with_outcome_def c1 respond_json_Return)
qed

lemma handleApiCluster_section_example:
  "c_body (snd (handleApiCluster (\<lambda>_. Some example_cib) (example_render example_crm_config) conn_rw
     (example_request ''/'') [] new_conn)) = ''found'' @ [newline]"
  using handleApiCluster_section [OF example_decodes example_paths(11), where
      r = "example_request ''/''" and render = "example_render example_crm_config" and
      rw = conn_rw and w = new_conn and d = "[]"]
  by (simp add: example_reply example_render_def)

section \<open>Documents that cannot be decoded\<close>

text \<open>Chains of elements of the Pacemaker schema that end in a rule or an obj_ref.\<close>

definition undecodable_paths :: "string list list" where
  "undecodable_paths =
     [[''configuration'', ''crm_config'', ''cluster_property_set'', ''rule''],
      [''configuration'', ''rsc_defaults'', ''meta_attributes'', ''rule''],
      [''configuration'', ''op_defaults'', ''meta_attributes'', ''rule''],
      [''configuration'', ''nodes'', ''node'', ''instance_attributes'', ''rule''],
      [''configuration'', ''nodes'', ''node'', ''utilization'', ''rule''],
      [''configuration'', ''resources'', ''primitive'', ''meta_attributes'', ''rule''],
      [''configuration'', ''resources'', ''primitive'', ''instance_attributes'', ''rule''],
      [''configuration'', ''constraints'', ''rsc_location'', ''rule''],
      [''configuration'', ''constraints'', ''rsc_location'', ''lifetime'', ''rule''],
      [''configuration'', ''tags'', ''tag'', ''obj_ref'']]"

lemma undecodable_lookups:
  "map_of api_schema ''Cib'' = Some Cib_type"
  "map_of api_schema ''Configuration'' = Some Configuration_type"
  "map_of api_schema ''CrmConfig'' = Some CrmConfig_type"
  "map_of api_schema ''ClusterPropertySet'' = Some ClusterPropertySet_type"
  "map_of api_schema ''Rule'' = Some Rule_type"
  "map_of api_schema ''RscDefaults'' = Some RscDefaults_type"
  "map_of api_schema ''MetaAttributes'' = Some MetaAttributes_type"
  "map_of api_schema ''OpDefaults'' = Some OpDefaults_type"
  "map_of api_schema ''Nodes'' = Some Nodes_type"
  "map_of api_schema ''Node'' = Some Node_type"
  "map_of api_schema ''InstanceAttributes'' = Some InstanceAttributes_type"
  "map_of api_schema ''Utilization'' = Some Utilization_type"
  "map_of api_schema ''Resources'' = Some Resources_type"
  "map_of api_schema ''Primitive'' = Some Primitive_type"
  "map_of api_schema ''Constraints'' = Some Constraints_type"
  "map_of api_schema ''RscLocation'' = Some RscLocation_type"
  "map_of api_schema ''Lifetime'' = Some Lifetime_type"
  "map_of api_schema ''Tags'' = Some Tags_type"
  "map_of api_schema ''Tag'' = Some Tag_type"
  "map_of api_schema ''ObjRef'' = Some ObjRef_type"
  by (simp_all add: api_schema_def)

lemma undecodable_edges:
  "leads_to Cib_type ''configuration'' (TPtr ''Configuration'')"
  "leads_to Configuration_type ''crm_config'' (TPtr ''CrmConfig'')"
  "leads_to CrmConfig_type ''cluster_property_set'' (TSlice ''ClusterPropertySet'')"
  "leads_to ClusterPropertySet_type ''rule'' (TPtr ''Rule'')"
  "leads_to Configuration_type ''rsc_defaults'' (TPtr ''RscDefaults'')"
  "leads_to RscDefaults_type ''meta_attributes'' (TSlice ''MetaAttributes'')"
  "leads_to MetaAttributes_type ''rule'' (TPtr ''Rule'')"
  "leads_to Configuration_type ''op_defaults'' (TPtr ''OpDefaults'')"
  "leads_to OpDefaults_type ''meta_attributes'' (TSlice ''MetaAttributes'')"
  "leads_to Configuration_type ''nodes'' (TPtr ''Nodes'')"
  "leads_to Nodes_type ''node'' (TSlice ''Node'')"
  "leads_to Node_type ''instance_attributes'' (TSlice ''InstanceAttributes'')"
  "leads_to InstanceAttributes_type ''rule'' (TPtr ''Rule'')"
  "leads_to Node_type ''utilization'' (TSlice ''Utilization'')"
  "leads_to Utilization_type ''rule'' (TPtr ''Rule'')"
  "leads_to Configuration_type ''resources'' (TPtr ''Resources'')"
  "leads_to Resources_type ''primitive'' (TSlice ''Primitive'')"
  "leads_to Primitive_type ''meta_attributes'' (TSlice ''MetaAttributes'')"
  "leads_to Primitive_type ''instance_attributes'' (TSlice ''InstanceAttributes'')"
  "leads_to Configuration_type ''constraints'' (TPtr ''Constraints'')"
  "leads_to Constraints_type ''rsc_location'' (TSlice ''RscLocation'')"
  "leads_to RscLocation_type ''rule'' (TSlice ''Rule'')"
  "leads_to RscLocation_type ''lifetime'' (TPtr ''Lifetime'')"
  "leads_to Lifetime_type ''rule'' (TSlice ''Rule'')"
  "leads_to Configuration_type ''tags'' (TPtr ''Tags'')"
  "leads_to Tags_type ''tag'' (TSlice ''Tag'')"
  "leads_to Tag_type ''obj_ref'' (TSlice ''ObjRef'')"
  by code_simp+

lemma untyped: "isl (getTypeInfo Rule_type)" "isl (getTypeInfo ObjRef_type)"
  by code_simp+

lemma undecodable_paths_bad: "list_all (bad_path api_schema (TPtr ''Cib'')) undecodable_paths"
  unfolding undecodable_paths_def list.pred_inject
  by (intro conjI list.pred_inject(1))
     (rule bad_path_step bad_path_end, rule struct_of.simps, rule undecodable_lookups, rule undecodable_edges untyped)+

lemma undecodable:
  assumes "p \<in> set undecodable_paths" and "has_path root p"
  shows "isl (unmarshal_root api_schema ''Cib'' root)"
proof -
  have "bad_path api_schema (TPtr ''Cib'') p"
    using undecodable_paths_bad assms(1) by (simp add: list_all_iff)
  from unmarshal_bad_path [OF this assms(2), of "VPtr None"] show ?thesis
    by (auto simp: unmarshal_root_def isl_def)
qed

text \<open>
  C20. The struct tags of Rule (two fields named rule) and of ObjRef (a blank in the
  tag) leave these structs without type information, so a document that has a rule or a
  tag with a reference anywhere on the listed chains is not decoded at all, and all four
  handlers answer nothing and report the request as not handled.
\<close>

theorem undecodable_documents:
  assumes "parse d = Some root" and "p \<in> set undecodable_paths" and "has_path root p"
  shows "handleApiNodes parse render rw r d w = (Return False, w) \<and>
    handleApiResources parse render rw r d w = (Return False, w) \<and>
    handleApiConstraints parse render rw r d w = (Return False, w) \<and>
    handleApiCluster parse render rw r d w = (Return False, w)"
proof -
  obtain e where "unmarshal_cib parse d = Inl e"
    using undecodable [OF assms(2,3)] assms(1) by (auto simp: unmarshal_cib_def isl_def)
  then show ?thesis
    by (simp add: handleApiNodes_def handleApiResources_def handleApiConstraints_def handleApiCluster_def)
qed

theorem undecodable_documents_witness:
  "handleApiNodes (\<lambda>_. Some (XElem [] ''cib'' [] [XElem [] ''configuration'' [] [XElem [] ''constraints'' []
       [XElem [] ''rsc_location'' [] [XElem [] ''rule'' [] []]]]])) (\<lambda>_. []) conn_rw
     (example_request ''/api/v1/nodes'') [] new_conn = (Return False, new_conn)"
  by (rule undecodable_documents [where
        p = "[''configuration'', ''constraints'', ''rsc_location'', ''rule'']", THEN conjunct1])
     (rule refl, simp_all add: undecodable_paths_def)

text \<open>
  Of all structs of api_structs.go these two are the only ones whose tags
  encoding/xml rejects.
\<close>

lemma untyped_structs:
  "map fst (filter (\<lambda>(n, fs). isl (getTypeInfo fs)) api_schema) = [''Rule'', ''ObjRef'']"
  by code_simp

text \<open>
  Decoding is type safe: whatever the document, every field of the decoded value
  that can be reached holds a value of its declared type.
\<close>

lemma decoded_fields_typed:
  assumes "unmarshal_cib parse d = Inr cib" and "p \<noteq> []"
    and "path_type api_schema (TPtr ''Cib'') p = Some ty" and "get_path p cib = Return v"
  shows "wt api_schema ty v"
  using wt_get_path [OF unmarshal_cib_wt [OF assms(1)] assms(3)] assms(2,4) by (simp add: get_path_root)

lemma decoded_fields_typed_example:
  "wt api_schema (TPtr ''Resources'') example_resources"
  by (rule decoded_fields_typed [OF example_decodes _ resource_paths(1) example_paths(2)]) simp

end
