(* ===== verification/Auth.thy ===== *)
theory Auth
  imports Go_Strings Http
begin

text \<open>
  Authentication (util.go): the attrd session cookie and HTTP basic authentication,
  with what net/http, encoding/base64 and bufio do for them. The two helper programs
  are parameters: what attrd_updater prints for an attribute, and whether hawk_chkpwd
  accepts a user and a password.
\<close>

section \<open>Request.Cookies\<close>

definition valid_cookie_byte :: "char \<Rightarrow> bool" where
  "valid_cookie_byte c \<longleftrightarrow>
     (let n = of_char c :: nat in 0x20 \<le> n \<and> n < 0x7F \<and> c \<noteq> dquote \<and> c \<noteq> CHR '';'' \<and> n \<noteq> 0x5C)"

definition parseCookieValue :: "string \<Rightarrow> string option" where
  "parseCookieValue raw =
     (let v = (if 1 < length raw \<and> hd raw = dquote \<and> last raw = dquote then butlast (tl raw) else raw)
      in if list_all valid_cookie_byte v then Some v else None)"

definition cookie_part :: "string \<Rightarrow> (string \<times> string) option" where
  "cookie_part part =
     (let p = trimSpace part; j = index_byte p (CHR ''='');
          name = (if 0 \<le> j then take (nat j) p else p);
          val = (if 0 \<le> j then drop (nat j + 1) p else [])
      in if p = [] \<or> name = [] \<or> \<not> list_all token_byte name then None
         else map_option (\<lambda>v. (name, v)) (parseCookieValue val))"

definition readCookies :: "header \<Rightarrow> (string \<times> string) list" where
  "readCookies h =
     List.map_filter cookie_part
       (concat (map (\<lambda>line. split_on (CHR '';'') (trimSpace line))
         (case map_of h ''Cookie'' of Some lines \<Rightarrow> lines | None \<Rightarrow> [])))"

section \<open>Request.BasicAuth\<close>

definition b64_alphabet :: string where
  "b64_alphabet = ''ABCDEFGHIJKLMNOPQRSTUVWXYZabcdefghijklmnopqrstuvwxyz0123456789+/''"

definition b64_char :: "nat \<Rightarrow> char" where
  "b64_char n = b64_alphabet ! n"

definition b64_val :: "char \<Rightarrow> nat option" where
  "b64_val c = find_index (\<lambda>x. x = c) b64_alphabet"

fun b64_quads :: "string \<Rightarrow> string option" where
  "b64_quads [] = Some []"
| "b64_quads (a # b # c # d # rest) =
     (case (b64_val a, b64_val b) of
        (Some x, Some y) \<Rightarrow>
          if c = CHR ''='' then
            (if d = CHR ''='' \<and> rest = [] then Some [char_of (x * 4 + y div 16)] else None)
          else (case b64_val c of
            None \<Rightarrow> None
          | Some z \<Rightarrow>
              if d = CHR ''='' then
                (if rest = [] then Some [char_of (x * 4 + y div 16), char_of (y mod 16 * 16 + z div 4)] else None)
              else (case b64_val d of
                None \<Rightarrow> None
              | Some u \<Rightarrow> map_option
                  (\<lambda>s. char_of (x * 4 + y div 16) # char_of (y mod 16 * 16 + z div 4) # char_of (z mod 4 * 64 + u) # s)
                  (b64_quads rest)))
      | _ \<Rightarrow> None)"
| "b64_quads _ = None"

text \<open>StdEncoding.DecodeString skips line breaks wherever they stand.\<close>

definition b64_decode :: "string \<Rightarrow> string option" where
  "b64_decode s = b64_quads (filter (\<lambda>c. c \<noteq> newline \<and> c \<noteq> carriage_return) s)"

definition BasicAuth :: "request \<Rightarrow> (string \<times> string) option" where
  "BasicAuth r =
     (let auth = hget (Header r) ''Authorization'' in
      if auth = [] \<or> \<not> hasPrefix auth ''Basic '' then None
      else case b64_decode (drop 6 auth) of
        None \<Rightarrow> None
      | Some cs \<Rightarrow>
          (let s = index_byte cs (CHR '':'') in
           if s < 0 then None else Some (take (nat s) cs, drop (nat s + 1) cs)))"

section \<open>bufio.Scanner\<close>

text \<open>
  The lines a Scanner yields: a final carriage return is dropped, a last line without a
  line break counts unless it is empty, and a line of 64 KB ends the scan.
\<close>

definition scan_limit :: nat where
  "scan_limit = 65536"

definition drop_cr :: "string \<Rightarrow> string" where
  "drop_cr l = (if l \<noteq> [] \<and> last l = carriage_return then butlast l else l)"

definition scan_lines :: "string \<Rightarrow> string list" where
  "scan_lines out =
     (let ls = split_on newline out; ls' = (if last ls = [] then butlast ls else ls)
      in map drop_cr (takeWhile (\<lambda>l. length l < scan_limit) ls'))"

section \<open>The two methods\<close>

text \<open>
  A run of attrd_updater: no pipe for its output (the process is started all the same,
  which may fail too), no process, or its output. The second component of a result
  counts child processes started and never waited for.
\<close>

datatype attrd_run = PipeError bool | StartError | Started string

definition session_step :: "string \<times> string \<Rightarrow> string \<times> string \<Rightarrow> string \<times> string" where
  "session_step p c =
     (if fst c = ''hawk_remember_me_id'' then snd c else fst p,
      if fst c = ''hawk_remember_me_key'' then snd c else snd p)"

definition session_cookies :: "(string \<times> string) list \<Rightarrow> string \<times> string" where
  "session_cookies cs = foldl session_step ([], []) cs"

definition tomatch :: "string \<Rightarrow> string" where
  "tomatch session = ''value='' @ [dquote] @ session @ [dquote]"

definition checkBasicAuth :: "(string \<Rightarrow> string \<Rightarrow> bool) \<Rightarrow> string \<Rightarrow> string \<Rightarrow> bool" where
  "checkBasicAuth chkpwd user pass = (if \<not> chkpwd user pass then False else True)"

definition basic_method :: "(string \<Rightarrow> string \<Rightarrow> bool) \<Rightarrow> request \<Rightarrow> bool" where
  "basic_method chkpwd r =
     (case BasicAuth r of
        None \<Rightarrow> False
      | Some (user, pass) \<Rightarrow> if \<not> checkBasicAuth chkpwd user pass then False else True)"

definition checkHawkAuthMethods ::
  "(string \<Rightarrow> attrd_run) \<Rightarrow> (string \<Rightarrow> string \<Rightarrow> bool) \<Rightarrow> request \<Rightarrow> bool outcome \<times> nat" where
  "checkHawkAuthMethods attrd chkpwd r =
     (case session_cookies (readCookies (Header r)) of (user, session) \<Rightarrow>
        if user \<noteq> [] \<and> session \<noteq> [] then
          (case attrd (''hawk_session_'' @ user) of
             PipeError up \<Rightarrow> (Panic ''invalid memory address or nil pointer dereference'', if up then 1 else 0)
           | StartError \<Rightarrow> (Return (basic_method chkpwd r), 0)
           | Started out \<Rightarrow>
               if list_ex (\<lambda>l. contains l (tomatch session)) (scan_lines out) then (Return True, 1)
               else (Return (basic_method chkpwd r), 0))
        else (Return (basic_method chkpwd r), 0))"

section \<open>Base64 round trip\<close>

text \<open>What a client sends: the standard encoding with padding.\<close>

fun b64_encode :: "string \<Rightarrow> string" where
  "b64_encode [] = []"
| "b64_encode [a] =
     (let x = of_char a in [b64_char (x div 4), b64_char (x mod 4 * 16), CHR ''='', CHR ''=''])"
| "b64_encode [a, b] =
     (let x = of_char a; y = of_char b in
      [b64_char (x div 4), b64_char (x mod 4 * 16 + y div 16), b64_char (y mod 16 * 4), CHR ''=''])"
| "b64_encode (a # b # c # s) =
     (let x = of_char a; y = of_char b; z = of_char c in
      b64_char (x div 4) # b64_char (x mod 4 * 16 + y div 16) # b64_char (y mod 16 * 4 + z div 64) #
        b64_char (z mod 64) # b64_encode s)"

lemma b64_table:
  "list_all (\<lambda>n. b64_val (b64_char n) = Some n \<and> b64_char n \<noteq> CHR ''='' \<and> b64_char n \<noteq> newline \<and>
     b64_char n \<noteq> carriage_return) [0..<64]"
  by code_simp

lemma b64_val_char [simp]:
  assumes "n < 64"
  shows "b64_val (b64_char n) = Some n" and "b64_char n \<noteq> CHR ''=''"
    and "b64_char n \<noteq> newline" and "b64_char n \<noteq> carriage_return"
  using b64_table assms by (simp_all add: list_all_iff)

text \<open>Bytes in groups of six bits.\<close>

lemma byte_groups [simp]:
  "of_char (c :: char) div 4 < (64 :: nat)" "of_char (c :: char) div 16 < (16 :: nat)"
  "of_char (c :: char) div 64 < (4 :: nat)"
  by (simp_all add: div_less_iff_less_mult)

lemma byte_sextets [simp]:
  fixes a b :: char
  shows "of_char a mod 4 * 16 < (64 :: nat)" and "of_char a mod 4 * 16 + of_char b div 16 < (64 :: nat)"
    and "of_char a mod 16 * 4 < (64 :: nat)" and "of_char a mod 16 * 4 + of_char b div 64 < (64 :: nat)"
    and "of_char a mod 64 < (64 :: nat)"
proof -
  have m: "of_char a mod 4 < (4 :: nat)" "of_char a mod 16 < (16 :: nat)" by simp_all
  show "of_char a mod 4 * 16 < (64 :: nat)" "of_char a mod 16 * 4 < (64 :: nat)" "of_char a mod 64 < (64 :: nat)"
    by simp_all
  show "of_char a mod 4 * 16 + of_char b div 16 < (64 :: nat)" using m(1) byte_groups(2) [of b] by linarith
  show "of_char a mod 16 * 4 + of_char b div 64 < (64 :: nat)" using m(2) byte_groups(3) [of b] by linarith
qed

lemma b64_encode_chars:
  "filter (\<lambda>c. c \<noteq> newline \<and> c \<noteq> carriage_return) (b64_encode s) = b64_encode s"
  by (induction s rule: b64_encode.induct) (simp_all add: Let_def)

lemma b64_quads_encode: "b64_quads (b64_encode s) = Some s"
  by (induction s rule: b64_encode.induct) (simp_all add: Let_def)

lemma b64_round_trip: "b64_decode (b64_encode s) = Some s"
  by (simp add: b64_decode_def b64_encode_chars b64_quads_encode)

section \<open>Session cookies\<close>

text \<open>
  Every byte of a cookie value is printable and no double quote, so a session key can
  neither close the pattern it is put into nor contain a line break.
\<close>

lemma parseCookieValue_valid: "parseCookieValue raw = Some v \<Longrightarrow> list_all valid_cookie_byte v"
  by (simp add: parseCookieValue_def Let_def split: if_splits)

lemma cookie_part_valid: "cookie_part p = Some (n, v) \<Longrightarrow> list_all valid_cookie_byte v"
  using parseCookieValue_valid by (simp add: cookie_part_def Let_def split: if_splits) blast+

lemma readCookies_valid: "(n, v) \<in> set (readCookies h) \<Longrightarrow> list_all valid_cookie_byte v"
  using cookie_part_valid by (auto simp: readCookies_def map_filter_def)

lemma session_fold_valid:
  assumes "\<And>c. c \<in> set cs \<Longrightarrow> P (snd c)" and "P (fst p)" and "P (snd p)"
  shows "P (fst (foldl session_step p cs)) \<and> P (snd (foldl session_step p cs))"
  using assms
proof (induction cs arbitrary: p)
  case (Cons c cs)
  then have "P (fst (session_step p c))" "P (snd (session_step p c))" by (simp_all add: session_step_def)
  with Cons.IH Cons.prems(1) show ?case by simp
qed simp

lemma session_valid:
  "session_cookies (readCookies h) = (user, key) \<Longrightarrow> list_all valid_cookie_byte user \<and> list_all valid_cookie_byte key"
  using session_fold_valid [of "readCookies h" "list_all valid_cookie_byte" "([], [])"] readCookies_valid [of _ _ h]
  by (fastforce simp: session_cookies_def)

lemma valid_bytes_plain: "list_all valid_cookie_byte v \<Longrightarrow> dquote \<notin> set v \<and> newline \<notin> set v"
proof -
  have "\<not> valid_cookie_byte dquote" "\<not> valid_cookie_byte newline" by code_simp+
  then show "list_all valid_cookie_byte v \<Longrightarrow> ?thesis" by (auto simp: list_all_iff)
qed

lemma split_on_append_plain:
  assumes "c \<notin> set t"
  shows "split_on c (s @ t) = butlast (split_on c s) @ [last (split_on c s) @ t]"
proof (induction s)
  case Nil
  then show ?case using split_on_plain [OF assms] by simp
next
  case (Cons x s)
  then show ?case
  proof (cases "split_on c s")
    case (Cons q qs)
    with \<open>split_on c (s @ t) = _\<close> show ?thesis by (cases qs) (auto split: list.splits)
  qed simp
qed

text \<open>A match of the pattern lies between two quotes, after a field that ends in value=.\<close>

lemma contains_tomatch:
  assumes "dquote \<notin> set S" and "contains l (tomatch S)"
  shows "\<exists>pre x post. split_on dquote l = pre @ x # S # post \<and> post \<noteq> [] \<and> hasSuffix x ''value=''"
proof -
  from assms(2) obtain v w where l: "l = v @ tomatch S @ w" by (auto simp: contains_iff)
  let ?x = "last (split_on dquote v) @ ''value=''"
  have "split_on dquote l = split_on dquote (v @ ''value='') @ S # split_on dquote w"
    using split_on_append [of dquote "v @ ''value=''" "S @ dquote # w"] split_on_append_sep [OF assms(1)]
    by (simp add: l tomatch_def)
  also have "split_on dquote (v @ ''value='') = butlast (split_on dquote v) @ [?x]"
    by (rule split_on_append_plain) simp
  finally have "split_on dquote l = butlast (split_on dquote v) @ ?x # S # split_on dquote w" by simp
  moreover have "hasSuffix ?x ''value=''" by (auto simp: hasSuffix_iff)
  ultimately show ?thesis using split_on_not_Nil by blast
qed

text \<open>The form of a line of attrd_updater's answer to a query.\<close>

definition attrd_line :: "string \<Rightarrow> string \<Rightarrow> string \<Rightarrow> string" where
  "attrd_line name host value =
     join_with [dquote] [''name='', name, '' host='', host, '' value='', value, []]"

definition quote_free :: "string \<Rightarrow> bool" where
  "quote_free s \<longleftrightarrow> dquote \<notin> set s"

lemma attrd_line_fields:
  assumes "quote_free n" and "quote_free h" and "quote_free v"
  shows "split_on dquote (attrd_line n h v) = [''name='', n, '' host='', h, '' value='', v, []]"
  unfolding attrd_line_def by (rule split_join) (use assms in \<open>auto simp: quote_free_def\<close>)

lemma key_on_line:
  assumes "quote_free n" and "quote_free h" and "quote_free v" and "quote_free key"
    and "\<not> hasSuffix n ''value=''" and "\<not> hasSuffix h ''value=''"
  shows "contains (attrd_line n h v) (tomatch key) \<longleftrightarrow> key = v"
proof
  assume "contains (attrd_line n h v) (tomatch key)"
  with assms(4) obtain pre x post where
    "[''name='', n, '' host='', h, '' value='', v, []] = pre @ x # key # post" "post \<noteq> []" "hasSuffix x ''value=''"
    using contains_tomatch [of key "attrd_line n h v"] attrd_line_fields [OF assms(1-3)] by (auto simp: quote_free_def)
  moreover have "\<not> hasSuffix ''name='' ''value=''" "\<not> hasSuffix '' host='' ''value=''"
    by (simp_all add: hasSuffix_def)
  ultimately show "key = v" using assms(5,6) by (auto simp: Cons_eq_append_conv)
next
  assume "key = v"
  moreover have "attrd_line n h v = (''name='' @ dquote # n @ dquote # '' host='' @ dquote # h @ dquote # '' '') @ tomatch v @ []"
    by (simp add: attrd_line_def tomatch_def)
  ultimately show "contains (attrd_line n h v) (tomatch key)" unfolding contains_iff by blast
qed

text \<open>A whole answer: one line per host that has the attribute.\<close>

definition attrd_answer :: "string \<Rightarrow> (string \<times> string) list \<Rightarrow> string" where
  "attrd_answer name hosts = concat (map (\<lambda>(host, v). attrd_line name host v @ [newline]) hosts)"

definition host_entry :: "string \<Rightarrow> string \<times> string \<Rightarrow> bool" where
  "host_entry name e \<longleftrightarrow>
     (case e of (host, v) \<Rightarrow> quote_free host \<and> quote_free v \<and> newline \<notin> set host \<and> newline \<notin> set v \<and>
        \<not> hasSuffix host ''value='' \<and> length (attrd_line name host v) < scan_limit)"

lemma split_lines: "list_all (\<lambda>l. c \<notin> set l) ls \<Longrightarrow> split_on c (concat (map (\<lambda>l. l @ [c]) ls)) = ls @ [[]]"
  by (induction ls) (simp_all add: split_on_append_sep)

lemma scan_answer:
  assumes "newline \<notin> set name" and "list_all (host_entry name) hosts"
  shows "scan_lines (attrd_answer name hosts) = map (\<lambda>(host, v). attrd_line name host v) hosts"
proof -
  define ls where "ls = map (\<lambda>(host, v). attrd_line name host v) hosts"
  have "attrd_answer name hosts = concat (map (\<lambda>l. l @ [newline]) ls)"
    by (simp add: attrd_answer_def ls_def comp_def split_def)
  moreover have "list_all (\<lambda>l. newline \<notin> set l) ls"
    using assms by (auto simp: ls_def list_all_iff host_entry_def attrd_line_def)
  ultimately have "split_on newline (attrd_answer name hosts) = ls @ [[]]"
    using split_lines [of newline ls] by simp
  moreover have "\<forall>l\<in>set ls. length l < scan_limit"
    using assms(2) by (auto simp: ls_def list_all_iff host_entry_def)
  moreover have "map drop_cr ls = ls"
    by (auto simp: ls_def map_idI drop_cr_def attrd_line_def)
  ultimately show ?thesis by (simp add: scan_lines_def Let_def ls_def [symmetric] takeWhile_eq_all_conv [THEN iffD2])
qed

section \<open>Properties\<close>

text \<open>
  C8. A session key is accepted on a line of attrd's answer exactly when it is the whole
  value the line reports: quotes cannot occur in a cookie, so neither a part of the value
  nor another field of the line can match, unless the attribute or the host name itself
  ends in the text value=.
\<close>

theorem session_key_exact:
  assumes "quote_free n" and "quote_free h" and "quote_free v"
    and "\<not> hasSuffix n ''value=''" and "\<not> hasSuffix h ''value=''"
  shows "contains (attrd_line n h v) (tomatch (snd (session_cookies (readCookies hdr)))) \<longleftrightarrow>
    snd (session_cookies (readCookies hdr)) = v"
proof -
  have "quote_free (snd (session_cookies (readCookies hdr)))"
    using session_valid [of hdr] valid_bytes_plain by (auto simp: quote_free_def prod_eq_iff)
  then show ?thesis by (intro key_on_line assms)
qed

theorem session_key_exact_witness:
  "contains (attrd_line ''hawk_session_root'' ''node1'' ''4711'') (tomatch (snd (session_cookies (readCookies
     [(''Cookie'', [''hawk_remember_me_id=root; hawk_remember_me_key=471''])])))) = False"
proof -
  have "snd (session_cookies (readCookies [(''Cookie'', [''hawk_remember_me_id=root; hawk_remember_me_key=471''])])) = ''471''"
    by code_simp
  with session_key_exact [of "''hawk_session_root''" "''node1''" "''4711''"
      "[(''Cookie'', [''hawk_remember_me_id=root; hawk_remember_me_key=471''])]"]
  show ?thesis by (simp add: quote_free_def hasSuffix_def)
qed

text \<open>
  C9. Logging in with cookies. When the helper answers in its documented form, one line
  per host, a request with the cookies of a user and a key is let in exactly when that
  key is one of the values stored for that user, or when the request carries basic
  credentials that pass. A user name that ends in the text value= is left out. When the
  key is accepted, and only then, the helper's process is never waited for.
\<close>

theorem session_login_exact:
  assumes cookies: "session_cookies (readCookies (Header r)) = (user, key)" "user \<noteq> []" "key \<noteq> []"
    and answer: "attrd (''hawk_session_'' @ user) = Started (attrd_answer (''hawk_session_'' @ user) hosts)"
      "list_all (host_entry (''hawk_session_'' @ user)) hosts"
    and name: "\<not> hasSuffix (''hawk_session_'' @ user) ''value=''"
  shows "checkHawkAuthMethods attrd chkpwd r =
    (Return (key \<in> snd ` set hosts \<or> basic_method chkpwd r), if key \<in> snd ` set hosts then 1 else 0)"
proof -
  let ?name = "''hawk_session_'' @ user"
  have v: "list_all valid_cookie_byte user" "list_all valid_cookie_byte key" using session_valid [OF cookies(1)] by simp_all
  have "quote_free ?name" "newline \<notin> set ?name" "quote_free key"
    using valid_bytes_plain [OF v(1)] valid_bytes_plain [OF v(2)] by (auto simp: quote_free_def)
  then have "contains (attrd_line ?name host v) (tomatch key) \<longleftrightarrow> key = v" if "(host, v) \<in> set hosts" for host v
    using answer(2) name that by (intro key_on_line) (auto simp: list_all_iff host_entry_def)
  then have "list_ex (\<lambda>l. contains l (tomatch key)) (scan_lines (attrd_answer ?name hosts)) \<longleftrightarrow> key \<in> snd ` set hosts"
    using scan_answer [OF \<open>newline \<notin> set ?name\<close> answer(2)] by (force simp: list_ex_iff)
  with cookies answer(1) show ?thesis by (simp add: checkHawkAuthMethods_def)
qed

definition example_session :: "string \<Rightarrow> request" where
  "example_session key = \<lparr>Method = ''GET'',
     URL = \<lparr>Scheme = [], Opaque = [], User = None, Host = [], Path = ''/'', RawPath = [],
            ForceQuery = False, RawQuery = [], Fragment = []\<rparr>,
     Header = [(''Cookie'', [''hawk_remember_me_id=root; hawk_remember_me_key='' @ key])], ReqHost = [], TLS = True\<rparr>"

theorem session_login_exact_witness:
  "checkHawkAuthMethods (\<lambda>_. Started (attrd_answer ''hawk_session_root'' [(''node1'', ''4711''), (''node2'', ''4712'')]))
     (\<lambda>_ _. False) (example_session ''4712'') = (Return True, 1)"
proof -
  have "session_cookies (readCookies (Header (example_session ''4712''))) = (''root'', ''4712'')"
    "\<not> hasSuffix ''hawk_session_root'' ''value=''"
    by code_simp+
  moreover have "list_all (host_entry ''hawk_session_root'') [(''node1'', ''4711''), (''node2'', ''4712'')]"
    by (simp add: host_entry_def quote_free_def hasSuffix_def attrd_line_def scan_limit_def)
  ultimately show ?thesis
    using session_login_exact [of "example_session ''4712''" "''root''" "''4712''"
        "\<lambda>_. Started (attrd_answer ''hawk_session_root'' [(''node1'', ''4711''), (''node2'', ''4712'')])"
        "[(''node1'', ''4711''), (''node2'', ''4712'')]" "\<lambda>_ _. False"]
    by simp
qed

text \<open>
  C10. Basic authentication reads back what a client sends: the password helper is asked
  about exactly the user name and the password the client encoded, for every user name
  without a colon.
\<close>

theorem BasicAuth_round_trip:
  assumes "CHR '':'' \<notin> set user"
    and "hget (Header r) ''Authorization'' = ''Basic '' @ b64_encode (user @ CHR '':'' # pass)"
  shows "basic_method chkpwd r = chkpwd user pass"
proof -
  have "hasPrefix (''Basic '' @ b64_encode (user @ CHR '':'' # pass)) ''Basic ''" by (rule hasPrefix_append)
  with assms show ?thesis
    by (simp add: basic_method_def checkBasicAuth_def BasicAuth_def b64_round_trip index_byte_first Let_def)
qed

definition example_login :: request where
  "example_login = \<lparr>Method = ''GET'',
     URL = \<lparr>Scheme = [], Opaque = [], User = None, Host = [], Path = ''/'', RawPath = [],
            ForceQuery = False, RawQuery = [], Fragment = []\<rparr>,
     Header = [(''Authorization'', [''Basic aGFjbHVzdGVyOnNlY3JldA==''])], ReqHost = [], TLS = True\<rparr>"

theorem BasicAuth_round_trip_witness:
  "basic_method (\<lambda>user pass. user = ''hacluster'' \<and> pass = ''secret'') example_login"
proof -
  have "b64_encode (''hacluster'' @ CHR '':'' # ''secret'') = ''aGFjbHVzdGVyOnNlY3JldA==''" by code_simp
  moreover have "hget (Header example_login) ''Authorization'' = ''Basic aGFjbHVzdGVyOnNlY3JldA==''" by code_simp
  ultimately show ?thesis
    using BasicAuth_round_trip [of "''hacluster''" example_login "''secret''"] by simp
qed

end
