(* ===== verification/Routes.thy ===== *)
theory Routes
  imports Api Auth Config Reverse_Proxy Async_Cib
begin

text \<open>
  The request router (main.go): the handlers for API, monitor, file and proxy routes and
  the loop over the route table. What lies outside the program is the record of
  parameters \<open>environment\<close>: the regular expression matcher, the XML tokenizer and the
  JSON printer, the helper programs, the file system, URL parsing, the upstream server,
  and the documents of the cluster information base (Async_Cib) that a request meets: the
  one published last when its handler reads it, and the one whose publication answers a
  monitor request that waits, if any does before the timeout.
\<close>

datatype stat_result = NotExist | StatError | FileInfo bool int int
  \<comment> \<open>directory, time of change, size\<close>

record 'w environment =
  match_string :: "string \<Rightarrow> string \<Rightarrow> bool"
  parse_xml :: "string \<Rightarrow> xml option"
  render_json :: "json \<Rightarrow> string"
  attrd :: "string \<Rightarrow> attrd_run"
  chkpwd :: "string \<Rightarrow> string \<Rightarrow> bool"
  cib_now :: "document option"
  cib_next :: "document option"
  os_Stat :: "string \<Rightarrow> stat_result"
  http_ServeFile :: "'w response_writer \<Rightarrow> request \<Rightarrow> string \<Rightarrow> 'w \<Rightarrow> 'w"
  parse_url :: "string \<Rightarrow> url option"
  round_trip :: "round_tripper \<Rightarrow> request \<Rightarrow> go_error + response"
  tunnel_env :: tunnel

text \<open>What Get, Version and Wait answer: text and version of one document, or of the next one.\<close>

definition cib_Get :: "'w environment \<Rightarrow> string" where
  "cib_Get env = (case cib_now env of Some d \<Rightarrow> doc_text d | None \<Rightarrow> [])"

definition cib_Version :: "'w environment \<Rightarrow> string option" where
  "cib_Version env = map_option doc_version (cib_now env)"

definition cib_Wait :: "'w environment \<Rightarrow> string \<Rightarrow> string" where
  "cib_Wait env defval = (case cib_next env of Some d \<Rightarrow> doc_version d | None \<Rightarrow> defval)"

text \<open>
  The handler's state: the proxies by the address of the route they were made for, the
  addresses already used, and the child processes never waited for. The loop variable of
  ServeHTTP is allocated once per call, so all routes of one request have one address
  and no two requests share one.
\<close>

record routeHandler =
  routes :: "ConfigRoute list"
  proxies :: "(nat \<times> ReverseProxy) list"
  next_addr :: nat
  children :: nat

definition NewRouteHandler :: "Config \<Rightarrow> routeHandler" where
  "NewRouteHandler config = \<lparr>routes = elems (Route config), proxies = [], next_addr = 0, children = 0\<rparr>"

section \<open>API routes\<close>

definition nodes_pattern :: string where "nodes_pattern = ''nodes(/?|/[a-zA-Z0-9]+/?)$''"
definition resources_pattern :: string where "resources_pattern = ''resources(/?|/[a-zA-Z0-9]+/?)$''"
definition cluster_pattern :: string where "cluster_pattern = ''cluster/?$''"
definition constraints_pattern :: string where "constraints_pattern = ''constraints(/?|/[a-zA-Z0-9]+/?)$''"

definition api_prefix :: "ConfigRoute \<Rightarrow> string" where
  "api_prefix route = RoutePath route @ ''/configuration/''"

definition serveAPI ::
  "'w environment \<Rightarrow> 'w response_writer \<Rightarrow> request \<Rightarrow> ConfigRoute \<Rightarrow> 'w \<Rightarrow> (bool outcome \<times> nat) \<times> 'w" where
  "serveAPI env rw r route w =
     (case checkHawkAuthMethods (attrd env) (chkpwd env) r of
        (Panic m, n) \<Rightarrow> ((Panic m, n), w)
      | (Return ok, n) \<Rightarrow>
          if \<not> ok then ((Return True, n), http_error rw ''Unauthorized request.'' 401 w)
          else
            let path = Path (URL r); prefix = api_prefix route;
                fail = ((Return True, n), http_error rw (''[api/v1]: No route for '' @ path @ ''.'') 500 w);
                run = (\<lambda>h. case h (parse_xml env) (render_json env) rw r (cib_Get env) w of (res, w') \<Rightarrow> ((res, n), w'))
            in if Method r = ''GET'' then
                 if match_string env (prefix @ nodes_pattern) path then run handleApiNodes
                 else if match_string env (prefix @ resources_pattern) path then run handleApiResources
                 else if match_string env (prefix @ cluster_pattern) path then run handleApiCluster
                 else if match_string env (prefix @ constraints_pattern) path then run handleApiConstraints
                 else if hasPrefix path (prefix @ ''cib.xml'') then
                   ((Return True, n),
                    write_string rw (cib_Get env) (edit_header rw (\<lambda>h. hset h ''Content-Type'' ''application/xml'') w))
                 else fail
               else fail)"

section \<open>Monitor routes\<close>

definition cors_headers :: "string \<Rightarrow> header \<Rightarrow> header" where
  "cors_headers origin h =
     hset (hset (hset (hset (hset h
       ''Access-Control-Allow-Origin'' origin)
       ''Access-Control-Allow-Credentials'' ''true'')
       ''Access-Control-Allow-Methods'' ''POST, GET, PUT, DELETE, OPTIONS'')
       ''Access-Control-Allow-Headers'' ''Origin, Content-Type, Accept, Authorization, X-CSRF-Token, Token'')
       ''Access-Control-Max-Age'' ''1728000''"

definition monitor_epoch :: "'w environment \<Rightarrow> request \<Rightarrow> string" where
  "monitor_epoch env r =
     (let epoch = hd (split_on (CHR ''&'') (RawQuery (URL r)));
          new_epoch = (case cib_Version env of Some v \<Rightarrow> v | None \<Rightarrow> [])
      in if monitor_waits new_epoch epoch then cib_Wait env new_epoch else new_epoch)"

definition serveMonitor ::
  "'w environment \<Rightarrow> 'w response_writer \<Rightarrow> request \<Rightarrow> ConfigRoute \<Rightarrow> 'w \<Rightarrow> bool \<times> 'w" where
  "serveMonitor env rw r route w =
     (if Path (URL r) \<noteq> RoutePath route \<and> Path (URL r) \<noteq> RoutePath route @ ''.json'' then (False, w)
      else
        let origin = hget (Header r) ''Origin'';
            w1 = edit_header rw (\<lambda>h. hset (hset (hset h ''Content-Type'' ''application/json'')
                   ''Cache-Control'' ''no-cache'') ''Connection'' ''keep-alive'') w;
            w2 = (if origin \<noteq> [] then edit_header rw (cors_headers origin) w1 else w1);
            w3 = flush_writer rw w2
        in (True, write_string rw (''{'' @ [dquote] @ ''epoch'' @ [dquote] @ '':'' @ [dquote] @ monitor_epoch env r @
             [dquote] @ ''}'' @ [newline]) w3))"

section \<open>File routes\<close>

definition etag :: "int \<Rightarrow> int \<Rightarrow> string" where
  "etag mtime sz = ''W/'' @ [dquote] @ fmt_x mtime @ ''-'' @ fmt_x sz @ [dquote]"

definition file_name :: "string \<Rightarrow> request \<Rightarrow> string" where
  "file_name target r = path_clean (target @ Path (URL r))"

text \<open>An error of os.Stat other than a missing file leaves no file info, and reading it panics.\<close>

definition serveFile ::
  "'w environment \<Rightarrow> 'w response_writer \<Rightarrow> request \<Rightarrow> string \<Rightarrow> 'w \<Rightarrow> bool outcome \<times> 'w" where
  "serveFile env rw r target w =
     (case os_Stat env (file_name target r) of
        NotExist \<Rightarrow> (Return False, w)
      | StatError \<Rightarrow> (Panic ''invalid memory address or nil pointer dereference'', w)
      | FileInfo dir mtime sz \<Rightarrow>
          if dir then (Return False, w)
          else
            let e = etag mtime sz; match = hget (Header r) ''If-None-Match''
            in if match \<noteq> [] \<and> contains match e then (Return True, rw_write_header rw 304 w)
               else (Return True, http_ServeFile env rw r (file_name target r)
                 (edit_header rw (\<lambda>h. hset (hset h ''Cache-Control'' ''public, max-age=2592000'') ''ETag'' e) w)))"

section \<open>Proxy routes\<close>

definition proxyForRoute ::
  "'w environment \<Rightarrow> nat \<Rightarrow> string \<Rightarrow> routeHandler \<Rightarrow> ReverseProxy option \<times> routeHandler" where
  "proxyForRoute env addr target h =
     (case map_of (proxies h) addr of
        Some rp \<Rightarrow> (Some rp, h)
      | None \<Rightarrow>
          (case parse_url env target of
             None \<Rightarrow> (None, h)
           | Some u \<Rightarrow>
               let rp = NewSingleHostReverseProxy u [] DefaultMaxIdleConnsPerHost
               in (Some rp, h\<lparr>proxies := AList.update addr rp (proxies h)\<rparr>)))"

definition serveProxy ::
  "'w environment \<Rightarrow> 'w response_writer \<Rightarrow> request \<Rightarrow> nat \<Rightarrow> string \<Rightarrow> routeHandler \<Rightarrow> 'w
     \<Rightarrow> (bool outcome \<times> routeHandler) \<times> 'w" where
  "serveProxy env rw r addr target h w =
     (case proxyForRoute env addr target h of
        (None, h') \<Rightarrow> ((Return True, h'), http_error rw ''Bad web server configuration.'' 500 w)
      | (Some rp, h') \<Rightarrow>
          (case ReverseProxy_ServeHTTP (round_trip env) (tunnel_env env) rp rw r None w of
             ((Panic m, _), w') \<Rightarrow> ((Panic m, h'), w')
           | ((Return _, _), w') \<Rightarrow> ((Return True, h'), w')))"

section \<open>The loop\<close>

text \<open>One route of the table; no answer means that the loop goes on.\<close>

definition serve_route ::
  "'w environment \<Rightarrow> 'w response_writer \<Rightarrow> request \<Rightarrow> nat \<Rightarrow> ConfigRoute \<Rightarrow> routeHandler \<Rightarrow> 'w
     \<Rightarrow> (bool outcome \<times> routeHandler) \<times> 'w" where
  "serve_route env rw r addr route h w =
     (if \<not> hasPrefix (Path (URL r)) (RoutePath route) then ((Return False, h), w)
      else if Handler route = ''api/v1'' then
        (case serveAPI env rw r route w of
           ((res, n), w') \<Rightarrow> ((res, h\<lparr>children := children h + n\<rparr>), w'))
      else if Handler route = ''monitor'' then
        (case serveMonitor env rw r route w of (b, w') \<Rightarrow> ((Return b, h), w'))
      else
        (case Target route of
           None \<Rightarrow> ((Return False, h), w)
         | Some target \<Rightarrow>
             if Handler route = ''file'' then
               (case serveFile env rw r target w of (res, w') \<Rightarrow> ((res, h), w'))
             else if Handler route = ''proxy'' then serveProxy env rw r addr target h w
             else ((Return False, h), w)))"

fun serve_routes ::
  "'w environment \<Rightarrow> 'w response_writer \<Rightarrow> request \<Rightarrow> nat \<Rightarrow> ConfigRoute list \<Rightarrow> routeHandler \<Rightarrow> 'w
     \<Rightarrow> (unit outcome \<times> routeHandler) \<times> 'w" where
  "serve_routes env rw r addr [] h w =
     ((Return (), h), http_error rw (''Unmatched request: '' @ Path (URL r) @ ''.'') 500 w)"
| "serve_routes env rw r addr (route # rts) h w =
     (case serve_route env rw r addr route h w of
        ((Panic m, h'), w') \<Rightarrow> ((Panic m, h'), w')
      | ((Return True, h'), w') \<Rightarrow> ((Return (), h'), w')
      | ((Return False, h'), w') \<Rightarrow> serve_routes env rw r addr rts h' w')"

definition routeHandler_ServeHTTP ::
  "'w environment \<Rightarrow> 'w response_writer \<Rightarrow> request \<Rightarrow> routeHandler \<Rightarrow> 'w \<Rightarrow> (unit outcome \<times> routeHandler) \<times> 'w" where
  "routeHandler_ServeHTTP env rw r h w =
     serve_routes env rw r (next_addr h) (routes h) (h\<lparr>next_addr := next_addr h + 1\<rparr>) w"


section \<open>Regular expressions\<close>

text \<open>
  The documented meaning of the patterns for a route path without special characters: the
  literal text anywhere in the path, followed up to its end by nothing, a slash, or a
  slash, letters and digits, and perhaps another slash.
\<close>

definition id_tail :: "string \<Rightarrow> bool" where
  "id_tail t =
     (case t of [] \<Rightarrow> True
      | c # s \<Rightarrow> c = CHR ''/'' \<and>
          (s = [] \<or> (let i = (if last s = CHR ''/'' then butlast s else s) in i \<noteq> [] \<and> list_all alnum_byte i)))"

definition slash_tail :: "string \<Rightarrow> bool" where
  "slash_tail t \<longleftrightarrow> t = [] \<or> t = ''/''"

fun suffix_match :: "string \<Rightarrow> (string \<Rightarrow> bool) \<Rightarrow> string \<Rightarrow> bool" where
  "suffix_match lit ok [] = (lit = [] \<and> ok [])"
| "suffix_match lit ok (c # s) = ((hasPrefix (c # s) lit \<and> ok (drop (length lit) (c # s))) \<or> suffix_match lit ok s)"

definition plain_pattern :: "string \<Rightarrow> bool" where
  "plain_pattern p \<longleftrightarrow> list_all (\<lambda>c. alnum_byte c \<or> c \<in> set ''/-_'') p"

definition regexp_documented :: "(string \<Rightarrow> string \<Rightarrow> bool) \<Rightarrow> bool" where
  "regexp_documented ms \<longleftrightarrow>
     (\<forall>p s. plain_pattern p \<longrightarrow>
        ms (p @ nodes_pattern) s = suffix_match (p @ ''nodes'') id_tail s \<and>
        ms (p @ resources_pattern) s = suffix_match (p @ ''resources'') id_tail s \<and>
        ms (p @ cluster_pattern) s = suffix_match (p @ ''cluster'') slash_tail s \<and>
        ms (p @ constraints_pattern) s = suffix_match (p @ ''constraints'') id_tail s)"

text \<open>A matcher with this meaning.\<close>

definition cut_suffix :: "string \<Rightarrow> string \<Rightarrow> string" where
  "cut_suffix pat suf = take (length pat - length suf) pat"

definition literal_match :: "string \<Rightarrow> string \<Rightarrow> bool" where
  "literal_match pat s =
     (if hasSuffix pat nodes_pattern then suffix_match (cut_suffix pat nodes_pattern @ ''nodes'') id_tail s
      else if hasSuffix pat resources_pattern then suffix_match (cut_suffix pat resources_pattern @ ''resources'') id_tail s
      else if hasSuffix pat cluster_pattern then suffix_match (cut_suffix pat cluster_pattern @ ''cluster'') slash_tail s
      else if hasSuffix pat constraints_pattern then suffix_match (cut_suffix pat constraints_pattern @ ''constraints'') id_tail s
      else False)"

lemma hasSuffix_append_iff: "length q \<le> length b \<Longrightarrow> hasSuffix (a @ b) q \<longleftrightarrow> hasSuffix b q"
  by (simp add: hasSuffix_def)

lemma hasSuffix_last2: "hasSuffix s q \<Longrightarrow> 1 < length q \<Longrightarrow> last (butlast s) = last (butlast q)"
  by (cases q rule: rev_cases) (auto simp: hasSuffix_iff butlast_append)

lemma patterns_apart:
  "\<not> hasSuffix (p @ resources_pattern) nodes_pattern"
  "\<not> hasSuffix (p @ constraints_pattern) nodes_pattern"
  "\<not> hasSuffix (p @ constraints_pattern) resources_pattern"
  "\<not> hasSuffix (p @ constraints_pattern) cluster_pattern"
  "\<not> hasSuffix (p @ cluster_pattern) nodes_pattern"
  "\<not> hasSuffix (p @ cluster_pattern) resources_pattern"
  using hasSuffix_last2 [of "p @ cluster_pattern" nodes_pattern]
    hasSuffix_last2 [of "p @ cluster_pattern" resources_pattern]
  by (auto simp: hasSuffix_append_iff nodes_pattern_def resources_pattern_def constraints_pattern_def
      cluster_pattern_def hasSuffix_def butlast_append)

lemma own_suffix: "hasSuffix (p @ q) q" "cut_suffix (p @ q) q = p"
  by (auto simp: hasSuffix_iff cut_suffix_def)

lemma literal_match_documented: "regexp_documented literal_match"
  unfolding regexp_documented_def literal_match_def by (simp add: own_suffix patterns_apart)

lemma suffix_match_here: "ok t \<Longrightarrow> suffix_match lit ok (lit @ t)"
proof (cases "lit @ t")
  case (Cons c s)
  have "hasPrefix (lit @ t) lit \<and> drop (length lit) (lit @ t) = t" by (simp add: hasPrefix_append)
  then show "ok t \<Longrightarrow> ?thesis" unfolding Cons by simp
qed simp

section \<open>Paths\<close>

lemma trim_byte_drop: "trim_byte c (c # s) = trim_byte c s"
  by (simp add: trim_byte_def)

lemma trim_byte_plain:
  "p \<noteq> [] \<Longrightarrow> hd p \<noteq> c \<Longrightarrow> last p \<noteq> c \<Longrightarrow> trim_byte c p = p"
  using dropWhile_eq_self_iff [of "\<lambda>x. x = c" p] dropWhile_eq_self_iff [of "\<lambda>x. x = c" "rev p"]
  by (simp add: trim_byte_def hd_rev)

lemma trim_byte_last:
  "p \<noteq> [] \<Longrightarrow> hd p \<noteq> c \<Longrightarrow> trim_byte c (p @ [c]) = trim_byte c p"
  by (cases p) (auto simp: trim_byte_def dropWhile_append)

text \<open>The path of an id below a literal path, without its slashes at both ends.\<close>

lemma url_list_tail:
  assumes path: "Path (URL r) = CHR ''/'' # p @ t" and tail: "id_tail t"
    and p: "p \<noteq> []" "hd p \<noteq> CHR ''/''" "last p \<noteq> CHR ''/''"
  shows "\<exists>more. url_list r = split_on (CHR ''/'') p @ more"
proof -
  have plain: "s \<noteq> [] \<Longrightarrow> list_all alnum_byte s \<Longrightarrow> last s \<noteq> CHR ''/''" for s
    by (auto simp: list_all_iff alnum_byte_def dest!: last_in_set)
  consider "t = []" | "t = ''/''" | s where "t = CHR ''/'' # s" "s \<noteq> []" "last s \<noteq> CHR ''/''"
    | s where "t = CHR ''/'' # s @ ''/''" "s \<noteq> []" "last s \<noteq> CHR ''/''"
  proof (cases t)
    case (Cons c u)
    then have "c = CHR ''/''" and "u = [] \<or> (let i = (if last u = CHR ''/'' then butlast u else u) in i \<noteq> [] \<and> list_all alnum_byte i)"
      using tail by (auto simp: id_tail_def)
    moreover have "u \<noteq> [] \<Longrightarrow> last u = CHR ''/'' \<Longrightarrow> u = butlast u @ ''/''"
      by (metis append_butlast_last_id)
    ultimately show ?thesis
      using Cons that(1,2) that(3) [of u] that(4) [of "butlast u"] plain [of "butlast u"]
      by (auto simp: Let_def split: if_splits)
  qed (use that in simp)
  then show ?thesis
  proof cases
    case 3
    with p show ?thesis by (auto simp: url_list_def path trim_byte_drop trim_byte_plain split_on_append)
  next
    case 4
    then have "trim_byte (CHR ''/'') (p @ t) = p @ CHR ''/'' # s"
      using p trim_byte_last [of "p @ CHR ''/'' # s" "CHR ''/''"] by (simp add: trim_byte_plain)
    then show ?thesis by (simp add: url_list_def path trim_byte_drop split_on_append)
  qed (use p in \<open>simp_all add: url_list_def path trim_byte_drop trim_byte_plain trim_byte_last\<close>)
qed

section \<open>API requests\<close>

lemma serve_first:
  "hasPrefix (Path (URL r)) (RoutePath route) \<Longrightarrow> routes h = route # rest \<Longrightarrow>
   routeHandler_ServeHTTP env rw r h w =
     (case serve_route env rw r (next_addr h) route (h\<lparr>next_addr := next_addr h + 1\<rparr>) w of
        ((Panic m, h'), w') \<Rightarrow> ((Panic m, h'), w')
      | ((Return True, h'), w') \<Rightarrow> ((Return (), h'), w')
      | ((Return False, h'), w') \<Rightarrow> serve_routes env rw r (next_addr h) rest h' w')"
  by (simp add: routeHandler_ServeHTTP_def)

lemma serveAPI_nodes:
  assumes re: "regexp_documented (match_string env)"
    and auth: "checkHawkAuthMethods (attrd env) (chkpwd env) r = (Return True, n)"
    and get: "Method r = ''GET''"
    and path: "Path (URL r) = api_prefix route @ ''nodes'' @ t" "id_tail t" "plain_pattern (RoutePath route)"
  shows "serveAPI env rw r route w =
    (case handleApiNodes (parse_xml env) (render_json env) rw r (cib_Get env) w of (res, w') \<Rightarrow> ((res, n), w'))"
proof -
  have "plain_pattern (api_prefix route)"
    using path(3) by (simp add: plain_pattern_def api_prefix_def alnum_byte_def)
  then have "match_string env (api_prefix route @ nodes_pattern) (Path (URL r))"
    using re path(1,2) suffix_match_here [of id_tail t "api_prefix route @ ''nodes''"]
    by (simp add: regexp_documented_def)
  then show ?thesis by (simp add: serveAPI_def auth get)
qed

lemma conn_plain_new [simp]: "conn_plain new_conn" "conn_fresh new_conn" "c_header new_conn = []"
  by (simp_all add: conn_plain_def conn_fresh_def new_conn_def)

text \<open>http.Error on a response already begun adds its message to the body.\<close>

lemma error_again:
  "conn_plain c \<Longrightarrow> c_wrote c \<Longrightarrow>
   c_status (http_error conn_rw msg code c) = c_status c \<and>
   c_body (http_error conn_rw msg code c) = c_body c @ msg @ [newline]"
  by (simp add: http_error_def write_string_def edit_header_def conn_Write_def conn_WriteHeader_def conn_plain_def Let_def)

lemma conn_Write_wrote: "c_wrote c \<Longrightarrow> c_wrote (snd (conn_Write b c))"
  by (simp add: conn_Write_def Let_def split: option.split)

lemma error_wrote: "conn_plain c \<Longrightarrow> c_wrote (http_error conn_rw msg code c)"
  by (simp add: http_error_def write_string_def edit_header_def conn_Write_wrote conn_plain_def)

text \<open>
  The documents of the environment are those of AsyncCib: in a reachable state whose lock
  is free, Get and Version answer what they answer here when the document is the one
  published last.
\<close>

definition cib_document :: "AsyncCib \<Rightarrow> document option" where
  "cib_document s = (if published s = [] then None else Some (last (published s)))"

lemma environment_of_state:
  assumes "cib_reachable epochs s" and "lock s = None" and "cib_now env = cib_document s"
  shows "AsyncCib_Get s = Some (cib_Get env)" "AsyncCib_Version s = Some (cib_Version env)"
proof -
  from cib.always [OF assms(1)] have "lock_inv s" by (simp add: cib_inv_def)
  with assms(2,3) show "AsyncCib_Get s = Some (cib_Get env)" "AsyncCib_Version s = Some (cib_Version env)"
    by (auto simp: lock_inv_def cib_document_def AsyncCib_Get_def AsyncCib_Version_def cib_Get_def cib_Version_def
        split: if_splits)
qed

text \<open>
  For every route table: when neither method of authentication accepts a request, the
  whole answer, and all that happens to the handler, is the same whatever the text of the
  documents; their versions make a difference to monitor routes alone.
\<close>

definition same_versions :: "'w environment \<Rightarrow> 'w environment \<Rightarrow> bool" where
  "same_versions env env' \<longleftrightarrow> cib_Version env = cib_Version env' \<and>
     map_option doc_version (cib_next env) = map_option doc_version (cib_next env')"

lemma serveAPI_unauthorized:
  "fst (checkHawkAuthMethods (attrd env) (chkpwd env) r) \<noteq> Return True \<Longrightarrow>
   serveAPI (env\<lparr>cib_now := d, cib_next := e\<rparr>) rw r route w = serveAPI env rw r route w"
  by (cases "checkHawkAuthMethods (attrd env) (chkpwd env) r") (auto simp: serveAPI_def split: outcome.splits)

lemma monitor_sees_versions:
  assumes "same_versions env' env"
  shows "serveMonitor env' = serveMonitor env"
proof -
  have "cib_Wait env' x = cib_Wait env x" for x
    using assms by (auto simp: same_versions_def cib_Wait_def split: option.splits)
  then have "monitor_epoch env' r = monitor_epoch env r" for r
    using assms by (simp add: same_versions_def monitor_epoch_def Let_def)
  then show ?thesis by (simp add: fun_eq_iff serveMonitor_def Let_def)
qed

lemma other_routes_ignore_documents:
  "serveFile (env\<lparr>cib_now := d, cib_next := e\<rparr>) = serveFile env"
  "proxyForRoute (env\<lparr>cib_now := d, cib_next := e\<rparr>) = proxyForRoute env"
  "serveProxy (env\<lparr>cib_now := d, cib_next := e\<rparr>) = serveProxy env"
proof -
  show "serveFile (env\<lparr>cib_now := d, cib_next := e\<rparr>) = serveFile env"
    by (simp add: fun_eq_iff serveFile_def Let_def split: stat_result.split)
  show proxy: "proxyForRoute (env\<lparr>cib_now := d, cib_next := e\<rparr>) = proxyForRoute env"
    by (simp add: fun_eq_iff proxyForRoute_def split: option.split)
  show "serveProxy (env\<lparr>cib_now := d, cib_next := e\<rparr>) = serveProxy env"
    by (simp add: fun_eq_iff serveProxy_def proxy split: option.split prod.split)
qed

lemma unauthenticated_sees_nothing:
  assumes auth: "fst (checkHawkAuthMethods (attrd env) (chkpwd env) r) \<noteq> Return True"
    and vs: "same_versions (env\<lparr>cib_now := d, cib_next := e\<rparr>) env \<or> ''monitor'' \<notin> Handler ` set (routes h)"
  shows "routeHandler_ServeHTTP (env\<lparr>cib_now := d, cib_next := e\<rparr>) rw r h w = routeHandler_ServeHTTP env rw r h w"
proof -
  let ?env = "env\<lparr>cib_now := d, cib_next := e\<rparr>"
  have step: "serve_route ?env rw r a route h' w = serve_route env rw r a route h' w"
    if "same_versions ?env env \<or> Handler route \<noteq> ''monitor''" for a route h' w
    using auth that monitor_sees_versions [of ?env env]
    by (auto simp: serve_route_def serveAPI_unauthorized other_routes_ignore_documents split: option.split)
  have "serve_routes ?env rw r a rts h' w = serve_routes env rw r a rts h' w"
    if "same_versions ?env env \<or> ''monitor'' \<notin> Handler ` set rts" for a rts h' w
    using that
  proof (induction rts arbitrary: h' w)
    case (Cons route rts)
    then have "serve_route ?env rw r a route h' w = serve_route env rw r a route h' w" for h' w
      by (intro step) auto
    with Cons show ?case by (auto split: prod.split outcome.split bool.split)
  qed simp
  with vs show ?thesis by (simp add: routeHandler_ServeHTTP_def)
qed

text \<open>An environment for the examples: one pair of credentials and one document.\<close>

definition example_env :: "(json \<Rightarrow> string) \<Rightarrow> conn environment" where
  "example_env render = \<lparr>match_string = literal_match, parse_xml = (\<lambda>_. Some example_cib), render_json = render,
     attrd = (\<lambda>_. StartError), chkpwd = (\<lambda>user pass. user = ''hacluster'' \<and> pass = ''secret''),
     cib_now = Some \<lparr>doc_text = ''<cib/>'', doc_version = ''0:5:1''\<rparr>,
     cib_next = Some \<lparr>doc_text = ''<cib/>'', doc_version = ''0:6:0''\<rparr>,
     os_Stat = (\<lambda>_. FileInfo False 1500000000 42),
     http_ServeFile = (\<lambda>rw r name w. write_string rw name w),
     parse_url = (\<lambda>_. Some example_target), round_trip = (\<lambda>_ _. Inl (ErrText ''connection refused'')),
     tunnel_env = example_tunnel\<rparr>"

definition login_request :: "string \<Rightarrow> request" where
  "login_request path = example_login\<lparr>URL := (URL example_login)\<lparr>Path := path\<rparr>\<rparr>"

lemma login_request_simps [simp]:
  "Method (login_request p) = ''GET''" "Path (URL (login_request p)) = p"
  by (simp_all add: login_request_def example_login_def)

lemma example_auth:
  "checkHawkAuthMethods (attrd (example_env render)) (chkpwd (example_env render)) (login_request p) = (Return True, 0)"
proof -
  have h: "Header (login_request p) = Header example_login" by (simp add: login_request_def)
  then have "session_cookies (readCookies (Header (login_request p))) = ([], [])"
    unfolding h by code_simp
  moreover have "BasicAuth (login_request p) = BasicAuth example_login" unfolding BasicAuth_def h ..
  moreover have "BasicAuth example_login = Some (''hacluster'', ''secret'')" by code_simp
  ultimately show ?thesis
    by (simp add: checkHawkAuthMethods_def basic_method_def checkBasicAuth_def example_env_def)
qed

lemma no_credentials: "fst (checkHawkAuthMethods a k (example_request p)) = Return False"
proof -
  have "readCookies [] = []" "BasicAuth (example_request p) = None"
    by (simp_all add: readCookies_def BasicAuth_def example_request_def hget_def)
  then show ?thesis
    by (simp add: checkHawkAuthMethods_def basic_method_def session_cookies_def example_request_def)
qed

text \<open>
  Behind a route whose path is one segment, an authenticated GET of
  /segment/configuration/nodes is answered with the JSON array of the nodes of the
  current document.
\<close>

lemma node_list_served:
  assumes re: "regexp_documented (match_string env)"
    and auth: "checkHawkAuthMethods (attrd env) (chkpwd env) r = (Return True, n)"
    and get: "Method r = ''GET''"
    and route: "routes h = \<lparr>Handler = ''api/v1'', RoutePath = CHR ''/'' # seg, Target = tgt\<rparr> # rest"
    and seg: "seg \<noteq> []" "plain_pattern seg" "CHR ''/'' \<notin> set seg"
    and path: "Path (URL r) = CHR ''/'' # seg @ ''/configuration/nodes'' @ t" "slash_tail t"
    and dec: "unmarshal_cib (parse_xml env) (cib_Get env) = Inr cib"
    and nodes: "get_path [''Configuration'', ''Nodes'', ''Node''] cib = Return (VSlice ns)"
  shows "\<exists>h'. routeHandler_ServeHTTP env rw r h w = ((Return (), h'),
    write_string rw (render_json env (json_of api_schema (VSlice ns)) @ [newline]) (json_header rw w))"
proof -
  let ?p = "seg @ ''/configuration/nodes''" and ?route = "\<lparr>Handler = ''api/v1'', RoutePath = CHR ''/'' # seg, Target = tgt\<rparr>"
  have "hd ?p \<noteq> CHR ''/''" using seg(1,3) by (cases seg) auto
  then have "trim_byte (CHR ''/'') (?p @ t) = ?p"
    using path(2) trim_byte_plain [of ?p] trim_byte_last [of ?p] by (auto simp: slash_tail_def)
  moreover have "split_on (CHR ''/'') ?p = [seg, ''configuration'', ''nodes'']"
    using split_on_append_sep [OF seg(3), of "''configuration/nodes''"] by simp
  ultimately have segs: "length (url_list r) = 3"
    by (simp add: url_list_def path(1) trim_byte_drop)
  have "hasPrefix (Path (URL r)) (RoutePath ?route)" by (simp add: hasPrefix_iff path(1))
  moreover have "plain_pattern (RoutePath ?route)" using seg(2) by (simp add: plain_pattern_def)
  moreover have "Path (URL r) = api_prefix ?route @ ''nodes'' @ t" by (simp add: path(1) api_prefix_def)
  moreover have "id_tail t" using path(2) by (auto simp: slash_tail_def id_tail_def)
  ultimately show ?thesis
    by (simp add: serve_first [OF _ route] serve_route_def serveAPI_nodes [OF re auth get]
        handleApiNodes_all [OF dec nodes segs])
qed

text \<open>
  C4. Behind the built-in route /api/v1 no node can be read. The handlers count path
  segments as if the route were one segment long, so every authenticated GET of
  /api/v1/configuration/nodes, with or without an id, looks for a node called nodes. When
  there is none the client gets status 500 and two error messages, the second because
  the handler reports the request as not handled.
\<close>

theorem default_route_misses_nodes:
  assumes re: "regexp_documented (match_string env)"
    and auth: "checkHawkAuthMethods (attrd env) (chkpwd env) r = (Return True, n)"
    and get: "Method r = ''GET''"
    and path: "Path (URL r) = ''/api/v1/configuration/nodes'' @ t" "id_tail t"
    and dec: "unmarshal_cib (parse_xml env) (cib_Get env) = Inr cib"
    and nodes: "get_path [''Configuration'', ''Nodes'', ''Node''] cib = Return (VSlice ns)"
    and names: "\<forall>v\<in>set ns. string_of ''Uname'' v \<noteq> ''nodes'' \<and> string_of ''Id'' v \<noteq> ''nodes''"
  shows "(let c = snd (routeHandler_ServeHTTP env conn_rw r (NewRouteHandler default_config) new_conn)
          in (c_status c, c_body c)) =
    (500, ''No route for '' @ Path (URL r) @ ''.'' @ [newline] @ ''Unmatched request: '' @ Path (URL r) @ ''.'' @ [newline])"
proof -
  let ?route = "\<lparr>Handler = ''api/v1'', RoutePath = ''/api/v1'', Target = None\<rparr>"
  obtain more where "url_list r = [''api'', ''v1'', ''configuration'', ''nodes''] @ more"
    using url_list_tail [of r "''api/v1/configuration/nodes''" t] path by auto
  then have segs: "3 < length (url_list r)" and key: "url_list r ! 3 = ''nodes''" by simp_all
  have miss: "find_index (\<lambda>v. ''nodes'' = string_of ''Uname'' v \<or> ''nodes'' = string_of ''Id'' v) ns = None"
    using names by (auto simp: find_index_from_None)
  have "Path (URL r) = api_prefix ?route @ ''nodes'' @ t" "plain_pattern (RoutePath ?route)"
    by (simp_all add: path(1) api_prefix_def plain_pattern_def alnum_byte_def)
  note api = serveAPI_nodes [OF re auth get this(1) path(2) this(2)]
  let ?msg = "''No route for '' @ Path (URL r) @ ''.''" and ?c = "json_header conn_rw new_conn"
  have c: "conn_plain ?c" "conn_fresh ?c" "undeclared (c_header ?c)" "c_body ?c = []"
    by (simp_all add: json_header_def edit_header_def conn_plain_def conn_fresh_def new_conn_def undeclared_def header_simps hget_def)
  let ?e = "http_error conn_rw ?msg 500 ?c"
  have e: "conn_status ?e = 500" "c_body ?e = ?msg @ [newline]" "conn_plain ?e" "c_wrote ?e"
    using server.error_response [of ?c 500 ?msg] error_wrote [of ?c] c by (simp_all add: body_allowed_def)
  have "snd (routeHandler_ServeHTTP env conn_rw r (NewRouteHandler default_config) new_conn) =
      http_error conn_rw (''Unmatched request: '' @ Path (URL r) @ ''.'') 500 ?e"
    using path(1) by (simp add: routeHandler_ServeHTTP_def NewRouteHandler_def default_config_def serve_route_def api
        node_lookup [OF dec nodes segs] key miss no_route_def hasPrefix_iff)
  then show ?thesis
    using e error_again [OF e(3,4)] by (simp add: conn_status_def)
qed

theorem default_route_misses_nodes_witness:
  "(let c = snd (routeHandler_ServeHTTP (example_env (\<lambda>_. [])) conn_rw
        (login_request ''/api/v1/configuration/nodes/bob'') (NewRouteHandler default_config) new_conn)
    in (c_status c, c_body c)) =
   (500, ''No route for /api/v1/configuration/nodes/bob.'' @ [newline] @
         ''Unmatched request: /api/v1/configuration/nodes/bob.'' @ [newline])"
proof -
  have "regexp_documented (match_string (example_env (\<lambda>_. [])))"
    "unmarshal_cib (parse_xml (example_env (\<lambda>_. []))) (cib_Get (example_env (\<lambda>_. []))) = Inr example_value"
    by (simp_all add: example_env_def literal_match_documented example_decodes)
  then show ?thesis
    using default_route_misses_nodes [where env = "example_env (\<lambda>_. [])" and t = "''/bob''" and n = 0
        and r = "login_request ''/api/v1/configuration/nodes/bob''" and cib = example_value
        and ns = "[example_node ''1'' ''alice'', example_node ''2'' ''bob'']"] example_auth
    by (simp add: example_paths example_names id_tail_def alnum_byte_def)
qed

section \<open>Files\<close>

lemma join_with_append:
  "as \<noteq> [] \<Longrightarrow> bs \<noteq> [] \<Longrightarrow> join_with sep (as @ bs) = join_with sep as @ sep @ join_with sep bs"
  by (induction as rule: induct_list012) (simp_all add: join_with_Cons)

text \<open>
  C24. A path without a double dot element stays inside the target: the file looked up is
  the target directory itself or lies below it.
\<close>

theorem file_name_inside:
  assumes target: "hasPrefix target ''/''" and path: "Path (URL r) = CHR ''/'' # p"
    and dots: "''..'' \<notin> set (split_on (CHR ''/'') p)" and root: "path_clean target \<noteq> ''/''"
  shows "file_name target r = path_clean target \<or> hasPrefix (file_name target r) (path_clean target @ ''/'')"
proof -
  let ?es = "clean_elems True [] (split_on (CHR ''/'') target)"
  let ?fs = "filter (\<lambda>e. e \<noteq> [] \<and> e \<noteq> ''.'') (split_on (CHR ''/'') p)"
  have t: "target \<noteq> []" "hd target = CHR ''/''" using target by (simp_all add: hasPrefix_single)
  then have clean: "path_clean target = CHR ''/'' # join_with ''/'' ?es"
    by (simp add: path_clean_def)
  have "clean_elems True [] (split_on (CHR ''/'') (target @ CHR ''/'' # p)) = ?es @ ?fs"
    using dots by (simp add: split_on_append clean_elems_append, subst clean_elems_append_plain) auto
  then have name: "file_name target r = CHR ''/'' # join_with ''/'' (?es @ ?fs)"
    using t by (simp add: file_name_def path path_clean_def)
  have "?es \<noteq> []" using root clean by auto
  then show ?thesis
    using clean name by (cases "?fs = []") (simp_all add: join_with_append hasPrefix_iff)
qed

theorem file_name_inside_witness:
  "hasPrefix (file_name ''/usr/share/hawk/public/'' (example_request ''/css/./main.css'')) ''/usr/share/hawk/public/''"
proof -
  have "path_clean ''/usr/share/hawk/public/'' = ''/usr/share/hawk/public''"
    "file_name ''/usr/share/hawk/public/'' (example_request ''/css/./main.css'') \<noteq> ''/usr/share/hawk/public''"
    "''..'' \<notin> set (split_on (CHR ''/'') ''css/./main.css'')" "hasPrefix ''/usr/share/hawk/public/'' ''/''"
    by code_simp+
  then show ?thesis
    using file_name_inside [of "''/usr/share/hawk/public/''" "example_request ''/css/./main.css''" "''css/./main.css''"]
    by (simp add: example_request_def)
qed

lemma radix_text_nonempty: "radix_text b n \<noteq> []"
  by (simp add: radix_text.simps [of b n])

lemma digit_not_quote: "d < 16 \<Longrightarrow> digit_char d \<noteq> dquote \<and> digit_char d \<noteq> CHR ''W''"
proof -
  assume "d < 16"
  then have "of_char (digit_char d) \<noteq> (34::nat) \<and> of_char (digit_char d) \<noteq> (87::nat)" by (simp add: digit_char_def)
  moreover have "of_char dquote = (34::nat)" "of_char (CHR ''W'') = (87::nat)" by simp_all
  ultimately show ?thesis by metis
qed

lemma fmt_x_plain: "dquote \<notin> set (fmt_x i)" "CHR ''W'' \<notin> set (fmt_x i)"
proof -
  have "c \<noteq> dquote \<and> c \<noteq> CHR ''W''" if "c \<in> set (radix_text 16 n)" for c n
  proof -
    have "c \<in> digit_char ` {..<16}" using that radix_text_digits [of 16 n] by auto
    then show ?thesis by (elim imageE) (simp add: digit_not_quote)
  qed
  then show "dquote \<notin> set (fmt_x i)" "CHR ''W'' \<notin> set (fmt_x i)" by (auto simp: fmt_x_def)
qed

lemma append_first_eq:
  "x \<notin> set as \<Longrightarrow> x \<notin> set bs \<Longrightarrow> as @ x # cs = bs @ x # ds \<longleftrightarrow> as = bs \<and> cs = ds"
proof (induction as arbitrary: bs)
  case Nil then show ?case by (cases bs) auto
next
  case (Cons a as) then show ?case by (cases bs) auto
qed

lemma fmt_x_dash_inject: "fmt_x i @ CHR ''-'' # s = fmt_x j @ CHR ''-'' # t \<longleftrightarrow> i = j \<and> s = t"
proof -
  have plain: "CHR ''-'' \<notin> set (radix_text 16 n)" for n by (rule radix_text_no_dash) simp_all
  then have mixed: "CHR ''-'' # u \<noteq> radix_text 16 n @ v" for u v n
    using radix_text_nonempty [of 16 n] plain [of n] by (cases "radix_text 16 n") auto
  show ?thesis
    using mixed mixed [symmetric]
    by (auto simp: fmt_x_def append_first_eq plain radix_text_inject)
qed

lemma contains_etag: "contains (etag m s) (etag m' s') \<longleftrightarrow> m = m' \<and> s = s'"
proof
  assume "contains (etag m s) (etag m' s')"
  then obtain v w where eq: "etag m s = v @ etag m' s' @ w" by (auto simp: contains_iff)
  have "v = []"
  proof (cases v)
    case (Cons c v')
    with eq have "CHR ''W'' \<in> set (tl (etag m s))" by (simp add: etag_def)
    with fmt_x_plain show ?thesis by (auto simp: etag_def)
  qed simp
  then have "(fmt_x m @ CHR ''-'' # fmt_x s) @ dquote # [] = (fmt_x m' @ CHR ''-'' # fmt_x s') @ dquote # w"
    using eq by (simp add: etag_def)
  then have "fmt_x m @ CHR ''-'' # fmt_x s = fmt_x m' @ CHR ''-'' # fmt_x s'"
    using append_first_eq [of dquote "fmt_x m @ CHR ''-'' # fmt_x s" "fmt_x m' @ CHR ''-'' # fmt_x s'" "[]" w] fmt_x_plain(1)
    by simp
  then show "m = m' \<and> s = s'" by (simp add: fmt_x_dash_inject fmt_x_inject)
qed (simp add: contains_iff exI [of _ "[]"])

text \<open>
  C25. Revalidation. A client that sends back the tag of the version it has gets a 304
  without a body exactly when the file still has the same time and size; else the file
  is sent with its new tag.
\<close>

theorem serveFile_revalidates:
  assumes "os_Stat env (file_name target r) = FileInfo False mtime sz"
    and "hget (Header r) ''If-None-Match'' = etag mtime' sz'"
  shows "serveFile env rw r target w =
    (if mtime' = mtime \<and> sz' = sz then (Return True, rw_write_header rw 304 w)
     else (Return True, http_ServeFile env rw r (file_name target r)
       (edit_header rw (\<lambda>h. hset (hset h ''Cache-Control'' ''public, max-age=2592000'') ''ETag'' (etag mtime sz)) w)))"
  using assms by (simp add: serveFile_def contains_etag, simp add: etag_def)

theorem serveFile_revalidates_witness:
  "c_status (snd (serveFile (example_env (\<lambda>_. [])) conn_rw
     ((example_request ''/main.css'')\<lparr>Header := [(''If-None-Match'', [etag 1500000000 42])]\<rparr>) ''/srv'' new_conn)) = 304"
proof -
  have "canonical_key ''If-None-Match'' = ''If-None-Match''" by code_simp
  then show ?thesis
    using serveFile_revalidates [of "example_env (\<lambda>_. [])" "''/srv''"
        "(example_request ''/main.css'')\<lparr>Header := [(''If-None-Match'', [etag 1500000000 42])]\<rparr>" 1500000000 42
        1500000000 42 conn_rw new_conn]
    by (simp add: example_env_def hget_def conn_WriteHeader_def new_conn_def)
qed

text \<open>No handler looks at the route table: it only passes it on.\<close>

definition with_routes :: "ConfigRoute list \<Rightarrow> ('r outcome \<times> routeHandler) \<times> 'w \<Rightarrow> ('r outcome \<times> routeHandler) \<times> 'w" where
  "with_routes rts = (\<lambda>((res, h), w). ((res, h\<lparr>routes := rts\<rparr>), w))"

lemma serveProxy_routes:
  "serveProxy env rw r addr target (h\<lparr>routes := rts\<rparr>) w = with_routes rts (serveProxy env rw r addr target h w)"
  by (auto simp: serveProxy_def proxyForRoute_def with_routes_def Let_def split: option.split prod.split outcome.split)

lemma serve_route_routes:
  "serve_route env rw r addr route (h\<lparr>routes := rts\<rparr>) w = with_routes rts (serve_route env rw r addr route h w)"
  by (auto simp: serve_route_def serveProxy_routes with_routes_def split: option.split prod.split)

lemma serve_routes_routes:
  "serve_routes env rw r addr todo (h\<lparr>routes := rts\<rparr>) w = with_routes rts (serve_routes env rw r addr todo h w)"
  by (induction env rw r addr todo h w rule: serve_routes.induct)
     (auto simp: serve_route_routes with_routes_def split: prod.split outcome.split bool.split)

text \<open>
  C27. A file route steps aside. When the file does not exist or is a directory, nothing
  is written, and the request is served exactly as if the file route were not in the
  table: by the next route that matches, such as the proxy in the documented setup.
\<close>

theorem missing_file_falls_through:
  assumes route: "routes h = \<lparr>Handler = ''file'', RoutePath = p, Target = Some target\<rparr> # rest"
    and miss: "case os_Stat env (file_name target r) of NotExist \<Rightarrow> True | StatError \<Rightarrow> False | FileInfo dir _ _ \<Rightarrow> dir"
  shows "routeHandler_ServeHTTP env rw r h w =
    with_routes (routes h) (routeHandler_ServeHTTP env rw r (h\<lparr>routes := rest\<rparr>) w)"
proof -
  have "serveFile env rw r target w = (Return False, w)"
    using miss by (simp add: serveFile_def split: stat_result.splits)
  then have "serve_route env rw r a \<lparr>Handler = ''file'', RoutePath = p, Target = Some target\<rparr> h' w = ((Return False, h'), w)" for a h'
    by (simp add: serve_route_def)
  then show ?thesis
    using serve_routes_routes [of env rw r "next_addr h" rest "routes h" "h\<lparr>routes := rest, next_addr := next_addr h + 1\<rparr>" w]
    by (simp add: routeHandler_ServeHTTP_def route [symmetric], simp add: route)
qed

section \<open>Monitor\<close>

lemma cors_keys [simp]:
  "canonical_key ''Access-Control-Allow-Origin'' = ''Access-Control-Allow-Origin''"
  "canonical_key ''Access-Control-Allow-Credentials'' = ''Access-Control-Allow-Credentials''"
  "canonical_key ''Access-Control-Allow-Methods'' = ''Access-Control-Allow-Methods''"
  "canonical_key ''Access-Control-Allow-Headers'' = ''Access-Control-Allow-Headers''"
  "canonical_key ''Access-Control-Max-Age'' = ''Access-Control-Max-Age''"
  by code_simp+

lemma hget_cors_headers:
  "hget (cors_headers origin h) ''Access-Control-Allow-Origin'' = origin"
  "hget (cors_headers origin h) ''Access-Control-Allow-Credentials'' = ''true''"
  "hget (cors_headers origin h) ''Content-Length'' = hget h ''Content-Length''"
  by (simp_all add: cors_headers_def hget_hset)

lemma flush_then_write:
  assumes "hget hdr ''Content-Length'' = []" and "b \<noteq> []"
  shows "write_string conn_rw b (flush_writer conn_rw (new_conn\<lparr>c_header := hdr\<rparr>)) =
    \<lparr>c_header = hdr, c_wrote = True, c_status = 200, c_sent = hdr, c_length = None,
      c_written = int (length b), c_body = b, c_hijacked = False\<rparr>"
  using assms by (simp add: write_string_def flush_writer_def conn_Flush_def conn_WriteHeader_def conn_Write_def
      new_conn_def body_allowed_def Let_def)

text \<open>
  C26. The monitor's answer: status 200 with one JSON object that holds the epoch. Every
  origin is allowed, with credentials: the client reads its own Origin header back.
\<close>

theorem monitor_reply:
  assumes route: "routes h = \<lparr>Handler = ''monitor'', RoutePath = p, Target = tgt\<rparr> # rest"
    and path: "Path (URL r) = p \<or> Path (URL r) = p @ ''.json''"
  shows "(let c = snd (routeHandler_ServeHTTP env conn_rw r h new_conn)
          in (c_status c, hget (c_sent c) ''Access-Control-Allow-Origin'',
              hget (c_sent c) ''Access-Control-Allow-Credentials'', c_body c)) =
    (200, hget (Header r) ''Origin'', if hget (Header r) ''Origin'' = [] then [] else ''true'',
     ''{'' @ [dquote] @ ''epoch'' @ [dquote] @ '':'' @ [dquote] @ monitor_epoch env r @ [dquote] @ ''}'' @ [newline])"
proof -
  let ?o = "hget (Header r) ''Origin''" and ?h0 = "hset (hset (hset [] ''Content-Type'' ''application/json'')
    ''Cache-Control'' ''no-cache'') ''Connection'' ''keep-alive''"
  let ?hd = "if ?o \<noteq> [] then cors_headers ?o ?h0 else ?h0"
  have "hasPrefix (Path (URL r)) p" using path by (auto simp: hasPrefix_iff)
  let ?route = "\<lparr>Handler = ''monitor'', RoutePath = p, Target = tgt\<rparr>"
  let ?b = "''{'' @ [dquote] @ ''epoch'' @ [dquote] @ '':'' @ [dquote] @ monitor_epoch env r @ [dquote] @ ''}'' @ [newline]"
  let ?c = "write_string conn_rw ?b (flush_writer conn_rw (new_conn\<lparr>c_header := ?hd\<rparr>))"
  have "serveMonitor env conn_rw r ?route new_conn = (True, ?c)"
    using path by (auto simp: serveMonitor_def Let_def edit_header_def)
  then have "snd (routeHandler_ServeHTTP env conn_rw r h new_conn) = ?c"
    using \<open>hasPrefix (Path (URL r)) p\<close> by (simp add: serve_first [OF _ route] serve_route_def)
  moreover have "hget ?hd ''Content-Length'' = []"
    by (simp add: hget_cors_headers hget_hset) (simp add: hget_def)
  ultimately have c: "snd (routeHandler_ServeHTTP env conn_rw r h new_conn) =
    \<lparr>c_header = ?hd, c_wrote = True, c_status = 200, c_sent = ?hd, c_length = None,
      c_written = int (length ?b), c_body = ?b, c_hijacked = False\<rparr>"
    using flush_then_write [of ?hd ?b] by (metis (no_types, lifting) append_is_Nil_conv not_Cons_self2)
  show ?thesis unfolding c by (simp add: hget_cors_headers hget_hset) (simp add: hget_def)
qed

theorem monitor_reply_witness:
  "c_body (snd (routeHandler_ServeHTTP (example_env (\<lambda>_. [])) conn_rw (example_request ''/monitor.json'')
     \<lparr>routes = [\<lparr>Handler = ''monitor'', RoutePath = ''/monitor'', Target = None\<rparr>], proxies = [], next_addr = 0, children = 0\<rparr>
     new_conn)) = ''{'' @ [dquote] @ ''epoch'' @ [dquote] @ '':'' @ [dquote] @ ''0:5:1'' @ [dquote] @ ''}'' @ [newline]"
  using monitor_reply [of "\<lparr>routes = [\<lparr>Handler = ''monitor'', RoutePath = ''/monitor'', Target = None\<rparr>],
       proxies = [], next_addr = 0, children = 0\<rparr>" "''/monitor''" None "[]" "example_request ''/monitor.json''"
      "example_env (\<lambda>_. [])"]
  by (simp add: Let_def monitor_epoch_def monitor_waits_def cib_Version_def example_env_def example_request_def)

section \<open>Proxies\<close>

text \<open>The addresses under which proxies are stored have all been used.\<close>

definition addresses_used :: "routeHandler \<Rightarrow> bool" where
  "addresses_used h \<longleftrightarrow> list_all (\<lambda>a. a < next_addr h) (map fst (proxies h))"

text \<open>A sequence of requests, each with what the outside world does meanwhile.\<close>

definition serve_all :: "'w response_writer \<Rightarrow> ('w environment \<times> request \<times> 'w) list \<Rightarrow> routeHandler \<Rightarrow> routeHandler" where
  "serve_all rw reqs h = fold (\<lambda>(env, r, w) h. snd (fst (routeHandler_ServeHTTP env rw r h w))) reqs h"

lemma update_fresh: "map_of al k = None \<Longrightarrow> AList.update k v al = al @ [(k, v)]"
  by (induction al) auto

lemma proxyForRoute_fresh:
  assumes used: "addresses_used h" and url: "parse_url env target = Some u"
  shows "proxyForRoute env (next_addr h) target (h\<lparr>next_addr := Suc (next_addr h)\<rparr>) =
    (Some (NewSingleHostReverseProxy u [] DefaultMaxIdleConnsPerHost),
     h\<lparr>next_addr := Suc (next_addr h),
       proxies := proxies h @ [(next_addr h, NewSingleHostReverseProxy u [] DefaultMaxIdleConnsPerHost)]\<rparr>)"
proof -
  have "map_of (proxies h) (next_addr h) = None"
    using used by (auto simp: addresses_used_def list_all_iff map_of_eq_None_iff)
  then show ?thesis by (simp add: proxyForRoute_def url Let_def update_fresh)
qed

lemma serve_proxy_route:
  assumes route: "routes h = \<lparr>Handler = ''proxy'', RoutePath = p, Target = Some target\<rparr> # rest"
    and path: "hasPrefix (Path (URL r)) p" and used: "addresses_used h" and url: "parse_url env target = Some u"
  shows "routeHandler_ServeHTTP env rw r h w =
    (case ReverseProxy_ServeHTTP (round_trip env) (tunnel_env env)
        (NewSingleHostReverseProxy u [] DefaultMaxIdleConnsPerHost) rw r None w of
       ((res, _), w') \<Rightarrow>
         ((case res of Panic m \<Rightarrow> Panic m | Return _ \<Rightarrow> Return (),
           h\<lparr>next_addr := Suc (next_addr h),
             proxies := proxies h @ [(next_addr h, NewSingleHostReverseProxy u [] DefaultMaxIdleConnsPerHost)]\<rparr>), w'))"
  using path
  by (cases "ReverseProxy_ServeHTTP (round_trip env) (tunnel_env env)
        (NewSingleHostReverseProxy u [] DefaultMaxIdleConnsPerHost) rw r None w")
     (simp add: serve_first [OF _ route] serve_route_def serveProxy_def proxyForRoute_fresh [OF used url]
        split: prod.split outcome.split)

lemma serve_all_proxies:
  assumes "routes h = \<lparr>Handler = ''proxy'', RoutePath = p, Target = Some target\<rparr> # rest" and "addresses_used h"
    and "list_all (\<lambda>(env, r, w). hasPrefix (Path (URL r)) p \<and> parse_url env target \<noteq> None) reqs"
  shows "length (proxies (serve_all rw reqs h)) = length (proxies h) + length reqs"
  using assms
proof (induction reqs arbitrary: h)
  case (Cons q reqs)
  obtain env r w where q: "q = (env, r, w)" by (cases q)
  with Cons.prems(3) obtain u where u: "hasPrefix (Path (URL r)) p" "parse_url env target = Some u" by auto
  let ?h = "snd (fst (routeHandler_ServeHTTP env rw r h w))"
  have h: "?h = h\<lparr>next_addr := Suc (next_addr h),
      proxies := proxies h @ [(next_addr h, NewSingleHostReverseProxy u [] DefaultMaxIdleConnsPerHost)]\<rparr>"
    by (simp add: serve_proxy_route [OF Cons.prems(1) u(1) Cons.prems(2) u(2)] split: prod.split)
  have "routes ?h = \<lparr>Handler = ''proxy'', RoutePath = p, Target = Some target\<rparr> # rest" and "addresses_used ?h"
    using Cons.prems by (auto simp: h addresses_used_def list_all_iff less_Suc_eq)
  from Cons.IH [OF this] Cons.prems(3) show ?case by (simp add: serve_all_def q h)
qed (simp add: serve_all_def)

text \<open>
  C22. The proxy cache is never hit. It is keyed by the address of a loop variable, which
  is new in each request, so after any number of requests for a proxy route the handler
  holds that many proxies.
\<close>

theorem proxy_cache_never_hit:
  assumes "elems (Route config) = \<lparr>Handler = ''proxy'', RoutePath = p, Target = Some target\<rparr> # rest"
    and "list_all (\<lambda>(env, r, w). hasPrefix (Path (URL r)) p \<and> parse_url env target \<noteq> None) reqs"
  shows "length (proxies (serve_all rw reqs (NewRouteHandler config))) = length reqs"
  using serve_all_proxies [of "NewRouteHandler config" p target rest reqs rw] assms
  by (simp add: NewRouteHandler_def addresses_used_def)

definition proxy_config :: Config where
  "proxy_config = default_config\<lparr>Route :=
     \<lparr>elems = [\<lparr>Handler = ''proxy'', RoutePath = ''/'', Target = Some ''http://backend''\<rparr>], spare = []\<rparr>\<rparr>"

theorem proxy_cache_never_hit_witness:
  "length (proxies (serve_all conn_rw (replicate 1000 (example_env (\<lambda>_. []), example_request ''/a'', new_conn))
     (NewRouteHandler proxy_config))) = 1000"
  using proxy_cache_never_hit [of proxy_config "''/''" "''http://backend''" "[]"
      "replicate 1000 (example_env (\<lambda>_. []), example_request ''/a'', new_conn)" conn_rw]
  by (simp add: proxy_config_def default_config_def list_all_iff set_replicate_conv_if example_request_def
      example_env_def hasPrefix_def)

text \<open>
  C23. An upstream failure looks like success. When the backend cannot be reached, the
  error ServeHTTP returns is dropped, and the client gets status 200 with no body.
\<close>

theorem upstream_error_hidden:
  assumes route: "routes h = \<lparr>Handler = ''proxy'', RoutePath = p, Target = Some target\<rparr> # rest"
    and path: "hasPrefix (Path (URL r)) p" and used: "addresses_used h" and url: "parse_url env target = Some u"
    and dir: "director u [] r = Return outreq" and err: "\<forall>tr. round_trip env tr outreq = Inl e"
  shows "(let c = conn_finish (snd (routeHandler_ServeHTTP env conn_rw r h new_conn))
          in (c_status c, c_body c)) = (200, [])"
  using err by (simp add: serve_proxy_route [OF route path used url] ReverseProxy_ServeHTTP_def NewSingleHostReverseProxy_def
      dir conn_finish_def new_conn_def conn_WriteHeader_def hget_def Let_def)

theorem upstream_error_hidden_witness:
  "(let c = conn_finish (snd (routeHandler_ServeHTTP (example_env (\<lambda>_. [])) conn_rw example_get
        (NewRouteHandler proxy_config) new_conn)) in (c_status c, c_body c)) = (200, [])"
proof -
  obtain outreq where "director example_target [] example_get = Return outreq"
    by (cases "director example_target [] example_get")
       (simp_all add: director_def socketPrefix_def example_target_def example_get_def)
  then show ?thesis
    using upstream_error_hidden [of "NewRouteHandler proxy_config" "''/''" "''http://backend''" "[]" example_get
        "example_env (\<lambda>_. [])" example_target outreq "ErrText ''connection refused''"]
    by (simp add: NewRouteHandler_def proxy_config_def addresses_used_def example_env_def example_get_def hasPrefix_def)
qed

text \<open>The documented setup: files first, then the backend.\<close>

theorem missing_file_falls_through_witness:
  "routeHandler_ServeHTTP ((example_env (\<lambda>_. []))\<lparr>os_Stat := \<lambda>_. NotExist\<rparr>) conn_rw example_get
     \<lparr>routes = \<lparr>Handler = ''file'', RoutePath = ''/'', Target = Some ''/srv''\<rparr> # routes (NewRouteHandler proxy_config),
       proxies = [], next_addr = 0, children = 0\<rparr> new_conn =
   with_routes (\<lparr>Handler = ''file'', RoutePath = ''/'', Target = Some ''/srv''\<rparr> # routes (NewRouteHandler proxy_config))
     (routeHandler_ServeHTTP ((example_env (\<lambda>_. []))\<lparr>os_Stat := \<lambda>_. NotExist\<rparr>) conn_rw example_get
       (NewRouteHandler proxy_config) new_conn)"
  using missing_file_falls_through [of "\<lparr>routes = \<lparr>Handler = ''file'', RoutePath = ''/'', Target = Some ''/srv''\<rparr>
       # routes (NewRouteHandler proxy_config), proxies = [], next_addr = 0, children = 0\<rparr>" "''/''" "''/srv''"
      "routes (NewRouteHandler proxy_config)" "(example_env (\<lambda>_. []))\<lparr>os_Stat := \<lambda>_. NotExist\<rparr>" example_get conn_rw new_conn]
  by (simp add: NewRouteHandler_def)

end
