(* ===== verification/Spec2Isabelle.thy ===== *)
theory Spec2Isabelle
  imports Gzip Redirect Latency_Writer Async_Cib Tls_Config Routes
begin

text \<open>
  Verification of hawk-apiserver, the web server of the Hawk cluster console: one Go
  program that serves HTTPS on one port, answers API requests from the cluster
  information base (CIB) of Pacemaker, lets clients poll for changes of it, serves files
  and passes everything else to a backend.

  \<^bold>\<open>The program and its theories.\<close> A connection is accepted, and told apart as TLS or
  plain HTTP, by redirect.go (theory Redirect). A request over plain HTTP is redirected;
  a request over TLS goes through the compressing writer of gziphandler.go (Gzip) to the
  router of main.go (Routes), which tries its routes in order: API requests are
  authenticated (util.go, theory Auth) and answered by the handlers of api_*.go (Api)
  from the document that AsyncCib in main.go keeps up to date (Async_Cib); monitor
  requests wait for the next version of that document; file requests are looked up below
  a target directory; proxy requests go through reverseproxy.go (Reverse_Proxy), whose
  responses are copied while a second goroutine flushes (Latency_Writer), with the TLS
  configuration copied by tls_clone_*.go (Tls_Config). The route table and the settings
  come from the defaults, the configuration file and the command line (main.go and
  util.go, theory Config). This theory puts router, compression and redirect together
  (\<open>server_handler\<close>, the end of main) and proves what holds from end to end.

  \<^bold>\<open>The language and its library.\<close> Prelude has outcomes (a value or a panic), lists,
  association lists and the reachable states of a step relation with the contract of an
  invariant. Go_Strings, Go_Url, Http and Go_Encoding model what the source uses of
  strings, path, strconv, fmt, net/url, net/http, encoding/xml and encoding/json, on
  byte strings, header maps, element trees and JSON trees. Http states the contract of a
  response writer as the locale \<open>plain_writer\<close>; the server's own connection and the
  compressing writer on top of it are its two interpretations. Api_Structs has every
  struct of api_structs.go as a type descriptor, which Go_Encoding interprets as the
  reflective packages do.

  \<^bold>\<open>Correspondence.\<close> Definitions keep the names of the source. Structs are records,
  handlers are functions from a writer record, a request and the state of the writer to
  an outcome and the new state; a panic is a value, and an early return a branch. The
  goroutines of AsyncCib and of maxLatencyWriter are step relations over their locks and
  channels, with one step per operation on shared state.

  \<^bold>\<open>What is outside.\<close> Parameters stand for code that is not in the repository: the
  compressor (\<open>emit\<close>, with the documented round trip \<open>gz_codec\<close>), http.DetectContentType,
  the tokenizers of XML and JSON and the JSON printer, the regular expression matcher
  (\<open>regexp_documented\<close> states its meaning on the four patterns of the router, for route
  paths of letters, digits, slash, dash and underscore; \<open>literal_match\<close> is one),
  attrd_updater and hawk_chkpwd, the file system, http.ServeFile, url.Parse, the
  transport's round trip, the handshake of TLS, and logrus.ParseLevel. The record
  \<open>environment\<close> of Routes collects those of the router, with the documents a request
  meets: the one it reads and the one whose publication ends its wait. The lemma
  \<open>environment_of_state\<close> there says that what the router reads is what Get and Version
  answer in a reachable state of AsyncCib.

  \<^bold>\<open>Groups of theorems.\<close>
    \<^item> From end to end (this theory): secrecy of the document, delivery of an API
      document and of a proxied response, and the loss of a status by an early flush.
    \<^item> Gzip: the compressing writer refines the abstract response of a handler; which
      requests are compressed; qualities lie between 0 and 1.
    \<^item> Api, Go_Encoding: decoding keeps the declared types; what each handler answers on
      every branch (the lookup over maps of ids once, in the locale \<open>id_lookup\<close>,
      interpreted for resources and constraints); which documents cannot be decoded.
    \<^item> Auth: who is let in with session cookies, exactness of the session key, round trip
      of basic credentials.
    \<^item> Routes: what the built-in route serves, file names and entity tags, files that are
      missing, the monitor's answer, the growth of the proxy map, hidden upstream errors.
    \<^item> Redirect: no byte of a connection is lost, greetings of TLS and of HTTP are told
      apart, where a plain request is sent, and how a silent client blocks the accept loop.
    \<^item> Reverse_Proxy, Latency_Writer: rewriting of requests, headers and bytes of
      responses, websocket tunnels, mutual exclusion and progress of the two goroutines.
    \<^item> Async_Cib: text and version belong together in every reachable state; what a
      monitor request is told from the moment it reads the version, and the update it
      misses; the fetcher's connection.
    \<^item> Config: when an option wins over the file and when it does not, the routes of a
      file, and the error report.
    \<^item> Tls_Config: where the two versions of the clone differ (a lemma).

  \<^bold>\<open>Bounds.\<close> No definition uses fuel: loops are structural recursions or have a
  termination proof, and reading from a connection that stays silent, which never
  returns, is the value None. Integers that can wrap are parsed with Go's 64-bit bounds;
  the counters of responses are unbounded, since no response reaches 2^63 bytes.
  Floating point qualities are rounded to 53 bits as strconv.ParseFloat does.

  \<^bold>\<open>Not modelled.\<close> Log lines other than those of the configuration reader; timers as
  clocks (a tick, a timeout or a flush may happen at any time instead); the server's
  dropping of bodies in responses to HEAD requests; the buffer pool
  and the closing of connections in reverseproxy.go; requests that run at the same time
  in the router, whose shared state is the document (Async_Cib, where any number of
  clients and publishers interleave) and the proxy map under its mutex; the vendored
  packages, the generator of api_structs.go, the certificate script, the manual page and
  the static files.

  \<^bold>\<open>Plan.\<close> Next: requests through the router as steps that interleave with publishing,
  the closing of connections in the proxy, and a refinement of the route table to a
  function from requests to the one handler that answers.
\<close>

section \<open>The server\<close>

text \<open>
  What main.go puts together: the router inside the compressing handler inside the
  redirect to TLS. The router runs on one of two writers, so the one operation of the
  outside world that works on the writer, http.ServeFile, is given at both types.
\<close>

definition at_writer ::
  "('v response_writer \<Rightarrow> request \<Rightarrow> string \<Rightarrow> 'v \<Rightarrow> 'v) \<Rightarrow> 'w environment \<Rightarrow> 'v environment" where
  "at_writer sf env = \<lparr>match_string = match_string env, parse_xml = parse_xml env, render_json = render_json env,
     attrd = attrd env, chkpwd = chkpwd env, cib_now = cib_now env, cib_next = cib_next env,
     os_Stat = os_Stat env, http_ServeFile = sf, parse_url = parse_url env,
     round_trip = round_trip env, tunnel_env = tunnel_env env\<rparr>"

definition router :: "'w environment \<Rightarrow> routeHandler \<Rightarrow> 'w handler" where
  "router env h rw r w = (case routeHandler_ServeHTTP env rw r h w of ((res, _), w') \<Rightarrow> (res, w'))"

definition server_handler ::
  "emitter \<Rightarrow> (bytes \<Rightarrow> string)
     \<Rightarrow> (conn gzip_response_writer response_writer \<Rightarrow> request \<Rightarrow> string \<Rightarrow> conn gzip_response_writer \<Rightarrow> conn gzip_response_writer)
     \<Rightarrow> conn environment \<Rightarrow> routeHandler \<Rightarrow> conn handler" where
  "server_handler emit detect sf env h =
     HTTPRedirectHandler (NewGzipHandler emit detect (router (at_writer sf env) h) (router env h))"

text \<open>The response a client has in hand after the handler has returned, and the body as it reads it.\<close>

definition response_of :: "unit outcome \<times> conn \<Rightarrow> conn" where
  "response_of p = conn_finish (snd p)"

definition client_body :: "(bytes \<Rightarrow> bytes option) \<Rightarrow> conn \<Rightarrow> bytes option" where
  "client_body decode c =
     (if hget (c_sent c) ''Content-Encoding'' = ''gzip'' then decode (c_body c) else Some (c_body c))"

lemma at_writer_fields [simp]:
  "match_string (at_writer sf env) = match_string env" "parse_xml (at_writer sf env) = parse_xml env"
  "render_json (at_writer sf env) = render_json env" "attrd (at_writer sf env) = attrd env"
  "chkpwd (at_writer sf env) = chkpwd env" "cib_now (at_writer sf env) = cib_now env"
  "cib_next (at_writer sf env) = cib_next env" "cib_Get (at_writer sf env) = cib_Get env"
  "parse_url (at_writer sf env) = parse_url env" "round_trip (at_writer sf env) = round_trip env"
  "tunnel_env (at_writer sf env) = tunnel_env env"
  "at_writer sf (env\<lparr>cib_now := d, cib_next := e\<rparr>) = (at_writer sf env)\<lparr>cib_now := d, cib_next := e\<rparr>"
  by (simp_all add: at_writer_def cib_Get_def)

section \<open>Secrecy\<close>

lemma unauthenticated_router:
  assumes "fst (checkHawkAuthMethods (attrd env) (chkpwd env) r) \<noteq> Return True"
    and "''monitor'' \<notin> Handler ` set (routes h) \<or>
      map_option doc_version now = map_option doc_version now' \<and>
      map_option doc_version later = map_option doc_version later'"
  shows "router (env\<lparr>cib_now := now, cib_next := later\<rparr>) h rw r w =
    router (env\<lparr>cib_now := now', cib_next := later'\<rparr>) h rw r w"
  using unauthenticated_sees_nothing [of "env\<lparr>cib_now := now', cib_next := later'\<rparr>" r later now h rw w] assms
  by (simp add: router_def same_versions_def cib_Version_def disj_commute)

text \<open>
  C1. The cluster's configuration reaches no client unless it uses TLS and is
  authenticated. The response to any other request, whole and whether or not it is
  compressed, is the same for any two states of the cluster information base (the
  document the server holds and the one published while the request waits), for every
  route table, except for what a monitor route tells everybody: the version. So without
  a monitor route the response is the same for all documents, and with one it is the same
  for all documents with the same versions, whatever their text.
\<close>

theorem document_needs_authentication:
  assumes auth: "\<not> TLS r \<or> fst (checkHawkAuthMethods (attrd env) (chkpwd env) r) \<noteq> Return True"
    and seen: "''monitor'' \<notin> Handler ` set (routes h) \<or>
      map_option doc_version now = map_option doc_version now' \<and>
      map_option doc_version later = map_option doc_version later'"
  shows "server_handler emit detect sf (env\<lparr>cib_now := now, cib_next := later\<rparr>) h conn_rw r c =
    server_handler emit detect sf (env\<lparr>cib_now := now', cib_next := later'\<rparr>) h conn_rw r c"
proof (cases "TLS r")
  case True
  with auth have n: "fst (checkHawkAuthMethods (attrd env) (chkpwd env) r) \<noteq> Return True" by simp
  then have n': "fst (checkHawkAuthMethods (attrd (at_writer sf env)) (chkpwd (at_writer sf env)) r) \<noteq> Return True" by simp
  show ?thesis
    by (simp add: server_handler_def HTTPRedirectHandler_def NewGzipHandler_def unauthenticated_router [OF n seen]
        unauthenticated_router [OF n' seen] Let_def)
qed (simp add: server_handler_def HTTPRedirectHandler_def)

text \<open>The router's table of README: the API, the monitor, the files of Hawk and Hawk itself.\<close>

definition readme_routes :: routeHandler where
  "readme_routes = \<lparr>routes =
     [\<lparr>Handler = ''api/v1'', RoutePath = ''/api/v1'', Target = None\<rparr>,
      \<lparr>Handler = ''monitor'', RoutePath = ''/monitor'', Target = None\<rparr>,
      \<lparr>Handler = ''file'', RoutePath = ''/'', Target = Some ''/usr/share/hawk/public''\<rparr>,
      \<lparr>Handler = ''proxy'', RoutePath = ''/'', Target = Some ''unix:///var/run/hawk/app.sock''\<rparr>],
     proxies = [], next_addr = 0, children = 0\<rparr>"

theorem document_needs_authentication_witness:
  "server_handler stored_emit (\<lambda>_. []) (\<lambda>rw r n w. w)
     ((example_env (\<lambda>_. []))\<lparr>cib_now := Some \<lparr>doc_text = ''<cib/>'', doc_version = ''0:5:1''\<rparr>, cib_next := None\<rparr>)
     readme_routes conn_rw (example_request ''/monitor'') new_conn =
   server_handler stored_emit (\<lambda>_. []) (\<lambda>rw r n w. w)
     ((example_env (\<lambda>_. []))\<lparr>cib_now := Some \<lparr>doc_text = ''<cib epoch=5>'', doc_version = ''0:5:1''\<rparr>, cib_next := None\<rparr>)
     readme_routes conn_rw (example_request ''/monitor'') new_conn"
  by (rule document_needs_authentication) (simp_all add: no_credentials)

section \<open>Delivery\<close>

lemma document_script: "write_string rw b (json_header rw w) = fold (run_op rw) [RSet ''Content-Type'' ''application/json'', RWrite b] w"
  by (simp add: write_string_def json_header_def)

lemma gzip_handler_cong:
  "(\<And>w. hg (gzip_rw emit detect rw) r w = hg' (gzip_rw emit detect rw) r w) \<Longrightarrow> (\<And>w. hw rw r w = hw' rw r w) \<Longrightarrow>
   NewGzipHandler emit detect hg hw rw r w = NewGzipHandler emit detect hg' hw' rw r w"
  by (simp add: NewGzipHandler_def Let_def)

lemma document_delivered:
  assumes codec: "gz_codec emit decode" and tls: "TLS r"
    and g: "\<And>w. router (at_writer sf env) h (gzip_rw emit detect conn_rw) r w =
      (Return (), write_string (gzip_rw emit detect conn_rw) b (json_header (gzip_rw emit detect conn_rw) w))"
    and w: "\<And>w. router env h conn_rw r w = (Return (), write_string conn_rw b (json_header conn_rw w))"
  shows "(let c = response_of (server_handler emit detect sf env h conn_rw r new_conn)
          in (c_status c, client_body decode c)) = (200, Some b)"
proof (cases "acceptsGzip r")
  case True
  let ?ops = "[RSet ''Content-Type'' ''application/json'', RWrite b]"
  obtain res c where run: "NewGzipHandler emit detect (script_handler ?ops) (router env h) conn_rw r new_conn = (res, c)"
    by (meson surj_pair)
  moreover have "NewGzipHandler emit detect (router (at_writer sf env) h) (router env h) conn_rw r new_conn =
      NewGzipHandler emit detect (script_handler ?ops) (router env h) conn_rw r new_conn"
    by (rule gzip_handler_cong) (simp_all add: g script_handler_def document_script)
  ultimately have "server_handler emit detect sf env h conn_rw r new_conn = (res, c)"
    using tls by (simp add: server_handler_def HTTPRedirectHandler_def)
  then show ?thesis
    using gzip_response [OF codec _ True run] by (simp add: response_of_def client_body_def spec_init_def split: if_splits)
next
  case False
  let ?h = "hset (hadd [] ''Vary'' ''Accept-Encoding'') ''Content-Type'' ''application/json''"
  have h: "hget ?h ''Content-Length'' = []" "hget ?h ''Content-Encoding'' = []"
    by (simp_all add: hget_def header_simps)
  have "snd (server_handler emit detect sf env h conn_rw r new_conn) = snd (conn_Write b (new_conn\<lparr>c_header := ?h\<rparr>))"
    using False tls w by (simp add: server_handler_def HTTPRedirectHandler_def NewGzipHandler_def json_header_def
        write_string_def edit_header_def new_conn_def)
  with h show ?thesis
    by (simp add: response_of_def client_body_def conn_Write_def conn_WriteHeader_def new_conn_def body_allowed_def
        conn_finish_def Let_def)
qed

text \<open>
  C2. From the cluster's document to the client. Behind a route of one segment, an
  authenticated request over TLS for the node list is answered with status 200, and what
  the client reads, after undoing the compression the response declares, is exactly the
  JSON array of the nodes of the document; whether the client accepts gzip or not, and
  whatever the size.
\<close>

theorem node_list_delivered:
  assumes codec: "gz_codec emit decode" and re: "regexp_documented (match_string env)"
    and auth: "checkHawkAuthMethods (attrd env) (chkpwd env) r = (Return True, n)"
    and get: "Method r = ''GET''" and tls: "TLS r"
    and route: "routes h = \<lparr>Handler = ''api/v1'', RoutePath = CHR ''/'' # seg, Target = tgt\<rparr> # rest"
    and seg: "seg \<noteq> []" "plain_pattern seg" "CHR ''/'' \<notin> set seg"
    and path: "Path (URL r) = CHR ''/'' # seg @ ''/configuration/nodes'' @ t" "slash_tail t"
    and dec: "unmarshal_cib (parse_xml env) (cib_Get env) = Inr cib"
    and nodes: "get_path [''Configuration'', ''Nodes'', ''Node''] cib = Return (VSlice ns)"
  shows "(let c = response_of (server_handler emit detect sf env h conn_rw r new_conn)
          in (c_status c, client_body decode c)) =
    (200, Some (render_json env (json_of api_schema (VSlice ns)) @ [newline]))"
proof -
  note args = get route seg path
  note plain = node_list_served [OF re auth args dec nodes]
  have dec': "unmarshal_cib (parse_xml (at_writer sf env)) (cib_Get (at_writer sf env)) = Inr cib" using dec by simp
  have "regexp_documented (match_string (at_writer sf env))"
    "checkHawkAuthMethods (attrd (at_writer sf env)) (chkpwd (at_writer sf env)) r = (Return True, n)"
    using re auth by simp_all
  note gz = node_list_served [OF this args dec' nodes]
  show ?thesis
  proof (rule document_delivered [OF codec tls])
    fix w :: "conn gzip_response_writer"
    show "router (at_writer sf env) h (gzip_rw emit detect conn_rw) r w = (Return (), write_string
        (gzip_rw emit detect conn_rw) (render_json env (json_of api_schema (VSlice ns)) @ [newline])
        (json_header (gzip_rw emit detect conn_rw) w))"
      using gz [of "gzip_rw emit detect conn_rw" w] by (auto simp: router_def)
  next
    fix w :: conn
    show "router env h conn_rw r w = (Return (), write_string conn_rw
        (render_json env (json_of api_schema (VSlice ns)) @ [newline]) (json_header conn_rw w))"
      using plain [of conn_rw w] by (auto simp: router_def)
  qed
qed

definition hawk_routes :: routeHandler where
  "hawk_routes = \<lparr>routes = [\<lparr>Handler = ''api/v1'', RoutePath = ''/hawk'', Target = None\<rparr>],
     proxies = [], next_addr = 0, children = 0\<rparr>"

theorem node_list_delivered_witness:
  "(let c = response_of (server_handler stored_emit (\<lambda>_. []) (\<lambda>rw r n w. w) (example_env (\<lambda>_. replicate 600 CHR ''x''))
        hawk_routes conn_rw (login_request ''/hawk/configuration/nodes/'') new_conn)
    in (c_status c, client_body stored_decode c)) = (200, Some (replicate 600 CHR ''x'' @ [newline]))"
proof -
  let ?env = "example_env (\<lambda>_. replicate 600 CHR ''x'')"
  have env: "regexp_documented (match_string ?env)" "unmarshal_cib (parse_xml ?env) (cib_Get ?env) = Inr example_value"
    "render_json ?env = (\<lambda>_. replicate 600 CHR ''x'')"
    by (simp_all add: example_env_def literal_match_documented example_decodes)
  have "TLS (login_request ''/hawk/configuration/nodes/'')" by (simp add: login_request_def example_login_def)
  with node_list_delivered [OF stored_codec env(1), where r = "login_request ''/hawk/configuration/nodes/''" and n = 0
      and seg = "''hawk''" and t = "''/''" and tgt = None and rest = "[]" and cib = example_value and h = hawk_routes
      and ns = "[example_node ''1'' ''alice'', example_node ''2'' ''bob'']" and detect = "\<lambda>_. []" and sf = "\<lambda>rw r n w. w"]
    example_auth
  show ?thesis
    by (simp add: env example_paths plain_pattern_def alnum_byte_def slash_tail_def hawk_routes_def)
qed

section \<open>A response once sent\<close>

text \<open>The status line is on its way with a status that nothing changes any more.\<close>

definition sent :: "int \<Rightarrow> conn gzip_response_writer \<Rightarrow> bool" where
  "sent code g \<longleftrightarrow> c_wrote (g_under g) \<and> c_status (g_under g) = code"

lemma conn_Write_keeps: "c_wrote c \<Longrightarrow> c_wrote (snd (conn_Write b c)) \<and> c_status (snd (conn_Write b c)) = c_status c"
  by (simp add: conn_Write_def Let_def split: option.split)

lemma gz_send_keeps:
  "c_wrote c \<Longrightarrow> c_wrote (snd (gz_send emit conn_rw x z c)) \<and> c_status (snd (gz_send emit conn_rw x z c)) = c_status c"
  using conn_Write_keeps [of c "emit (z_ops z) x"] by (simp add: gz_send_def split_def)

lemma gz_Write_keeps:
  "c_wrote c \<Longrightarrow> c_wrote (snd (snd (gz_Write emit conn_rw b z c))) \<and>
     c_status (snd (snd (gz_Write emit conn_rw b z c))) = c_status c"
  using gz_send_keeps [of c emit "GzWrite b" z] by (simp add: gz_Write_def split_def split: option.split)

lemma startGzip_keeps: "sent code g \<Longrightarrow> sent code (snd (startGzip emit conn_rw g))"
  using gz_Write_keeps
  by (auto simp: startGzip_def sent_def gzip_edit_def edit_header_def conn_WriteHeader_committed split_def Let_def)

lemma sent_frame [simp]:
  "sent code (gzip_edit conn_rw f g) = sent code g" "sent code (g\<lparr>g_buf := b\<rparr>) = sent code g"
  "sent code (edit_header (gzip_rw emit detect conn_rw) f g) = sent code g"
  by (simp_all add: sent_def gzip_edit_def edit_header_def)

lemma gz_Write_sent:
  "sent code g \<Longrightarrow> sent code (g\<lparr>g_writer := z', g_under := snd (snd (gz_Write emit conn_rw b z (g_under g)))\<rparr>)"
  using gz_Write_keeps [of "g_under g" emit b z] by (simp add: sent_def)

lemma gzip_Write_keeps: "sent code g \<Longrightarrow> sent code (snd (gzip_Write emit detect conn_rw b g))"
proof -
  assume "sent code g"
  moreover define g' where "g' = (if map_of (rw_header conn_rw (g_under g)) ''Content-Type'' = None
    then gzip_edit conn_rw (\<lambda>h. hset h ''Content-Type'' (detect b)) g else g)"
  ultimately have "sent code g'" by simp
  then show ?thesis
    unfolding gzip_Write_def g'_def [symmetric] Let_def
    using startGzip_keeps [of code "g'\<lparr>g_buf := g_buf g' @ b\<rparr>" emit]
    by (cases "g_writer g'"; cases "startGzip emit conn_rw (g'\<lparr>g_buf := g_buf g' @ b\<rparr>)")
       (simp_all add: gz_Write_sent split_def split: option.split)
qed

lemma gzip_Flush_keeps: "sent code g \<Longrightarrow> sent code (gzip_Flush emit conn_rw g)"
  using gz_send_keeps [of "g_under g" emit GzFlush]
  by (auto simp: gzip_Flush_def sent_def gz_Flush_def conn_Flush_def split_def Let_def split: option.split)

lemma gzip_Close_keeps: "sent code g \<Longrightarrow> sent code (snd (gzip_Close emit conn_rw g))"
  using gz_send_keeps [of "g_under g" emit GzClose] conn_Write_keeps [of "g_under g" "g_buf g"]
  by (auto simp: gzip_Close_def sent_def gz_Close_def conn_WriteHeader_committed split_def Let_def split: option.split)

lemma copy_loop_keeps: "sent code g \<Longrightarrow> sent code (copy_loop flushing (gzip_rw emit detect conn_rw) es g)"
proof (induction flushing "gzip_rw emit detect conn_rw" es g rule: copy_loop.induct)
  case (2 flushing es g)
  then show ?case by (simp add: flush_writer_def gzip_Flush_keeps)
next
  case (3 flushing b es g)
  have "sent code w \<Longrightarrow> sent code (last_ticks flushing (gzip_rw emit detect conn_rw) es w)" for w
    by (induction flushing "gzip_rw emit detect conn_rw" es w rule: last_ticks.induct)
       (simp_all add: flush_writer_def gzip_Flush_keeps)
  with 3 gzip_Write_keeps [OF "3.prems", of emit detect b] show ?case
    by (auto split: prod.split)
qed simp

lemma tick_first_sends:
  assumes "g_writer g = None" "\<not> c_wrote (g_under g)" "\<not> c_hijacked (g_under g)"
    and "Trailer res = []" "Body res = Tick # es" "FlushInterval rp \<noteq> 0"
  shows "sent 200 (send_response rp (gzip_rw emit detect conn_rw) res g)"
proof -
  let ?g = "gzip_WriteHeader (StatusCode res) (edit_header (gzip_rw emit detect conn_rw) (\<lambda>h. copyHeader h (RespHeader res)) g)"
  have "sent 200 (gzip_Flush emit conn_rw ?g)"
    using assms(1-3) by (simp add: sent_def gzip_Flush_def gzip_WriteHeader_def conn_Flush_def edit_header_def
        conn_WriteHeader_fresh)
  then have "sent 200 (copyResponse rp (gzip_rw emit detect conn_rw) (Body res) ?g)"
    using assms(5,6) by (simp add: copyResponse_def flush_writer_def copy_loop_keeps)
  then show ?thesis using assms(4) by (simp add: send_response_def Let_def)
qed

section \<open>Proxied responses\<close>

text \<open>
  The compressing writer while the proxy copies a body into it. Until 512 bytes have come
  the status is only saved, and the headers are those the proxy set (and a content type).
\<close>

definition relaying :: "emitter \<Rightarrow> int \<Rightarrow> string \<Rightarrow> bytes \<Rightarrow> conn gzip_response_writer \<Rightarrow> bool" where
  "relaying emit code len data g \<longleftrightarrow>
     gzip_plain emit g \<and> gzip_status g = code \<and> gzip_body g = data \<and>
     (g_writer g \<noteq> None \<longleftrightarrow> minSize \<le> length data) \<and>
     (g_writer g = None \<longrightarrow>
        hget (c_header (g_under g)) ''Content-Encoding'' = [] \<and> hget (c_header (g_under g)) ''Content-Length'' = len)"

lemma relaying_phase:
  assumes "relaying emit code len data g"
  shows "length data < minSize \<Longrightarrow> buffering g" "minSize \<le> length data \<Longrightarrow> compressing emit g"
  using assms by (auto simp: relaying_def gzip_plain_def buffering_def compressing_def)

lemma relaying_Write:
  assumes rel: "relaying emit code len data g"
  shows "fst (gzip_Write emit detect conn_rw b g) = (length b, None)"
    and "relaying emit code len (data @ b) (snd (gzip_Write emit detect conn_rw b g))"
proof -
  let ?g = "snd (gzip_Write emit detect conn_rw b g)"
  have pl: "gzip_plain emit g" "gzip_status g = code" "gzip_body g = data" using rel by (simp_all add: relaying_def)
  note w = gzip_plain_Write [OF pl(1), of detect b]
  show "fst (gzip_Write emit detect conn_rw b g) = (length b, None)" by (rule w(1))
  show "relaying emit code len (data @ b) ?g"
  proof (cases "length data < minSize")
    case True
    note bf = relaying_phase(1) [OF rel True]
    have h: "hget (c_header (g_under g)) ''Content-Encoding'' = []" "hget (c_header (g_under g)) ''Content-Length'' = len"
      "g_buf g = data"
      using rel bf by (simp_all add: relaying_def buffering_def gzip_body_def)
    have "g_writer ?g = None \<Longrightarrow> hget (c_header (g_under ?g)) ''Content-Encoding'' = [] \<and>
        hget (c_header (g_under ?g)) ''Content-Length'' = len"
      using buffering_Write(6) [OF bf, of emit detect b] h by (auto simp: header_simps)
    with buffering_Write(5) [OF bf h(1), of emit detect b] w pl h(3) show ?thesis by (simp add: relaying_def)
  next
    case False
    then have "compressing emit ?g" using relaying_phase(2) [OF rel] compressing_Write(2) by simp
    with False w pl show ?thesis by (auto simp: relaying_def compressing_def)
  qed
qed

lemma relaying_Flush:
  assumes "relaying emit code len data g" and "minSize \<le> length data"
  shows "relaying emit code len data (gzip_Flush emit conn_rw g)"
  using compressing_Flush [OF relaying_phase(2) [OF assms]] assms
  by (auto simp: relaying_def gzip_plain_def compressing_def)

text \<open>A tick of the periodic flush that comes when fewer than 512 bytes have been copied.\<close>

fun early_tick :: "nat \<Rightarrow> copy_event list \<Rightarrow> bool" where
  "early_tick n [] = False"
| "early_tick n (Tick # es) = (n < minSize \<or> early_tick n es)"
| "early_tick n (Chunk b # es) = early_tick (n + length b) es"

lemma relaying_copy:
  assumes "relaying emit code len data g" and "\<not> early_tick (length data) es"
  shows "relaying emit code len (data @ chunk_bytes es) (copy_loop flushing (gzip_rw emit detect conn_rw) es g)"
  using assms
proof (induction es arbitrary: data g rule: chunk_bytes.induct)
  case (2 es)
  then have "relaying emit code len data (if flushing then flush_writer (gzip_rw emit detect conn_rw) g else g)"
    using relaying_Flush by (simp add: flush_writer_def)
  with "2.IH" "2.prems" show ?case by simp
next
  case (3 b es)
  show ?case
  proof (cases "b = []")
    case False
    obtain g' where g': "gzip_Write emit detect conn_rw b g = ((length b, None), g')"
      using relaying_Write(1) [OF "3.prems"(1), of detect b] by (metis prod.collapse)
    with "3.IH" [of "data @ b" g'] relaying_Write(2) [OF "3.prems"(1), of b detect] "3.prems"(2) False
    show ?thesis by simp
  qed (use 3 in simp)
qed simp

lemma relaying_Close:
  assumes rel: "relaying emit code len data g" and codec: "gz_codec emit decode"
    and len: "data = [] \<or> len = [] \<or> parse_int64 len = Some (int (length data))"
  shows "let c = conn_finish (g_under (snd (gzip_Close emit conn_rw g))) in (c_status c, client_body decode c) = (code, Some data)"
proof (cases "length data < minSize")
  case True
  note bf = relaying_phase(1) [OF rel True]
  have h: "hget (c_header (g_under g)) ''Content-Encoding'' = []" "hget (c_header (g_under g)) ''Content-Length'' = len"
      "g_buf g = data" "gzip_status g = code" "gzip_body g = data"
    using rel bf by (simp_all add: relaying_def buffering_def gzip_body_def)
  then have "length_fits (c_header (g_under g)) (g_buf g)" using len by (simp add: length_fits_def)
  from buffering_Close [OF bf this, of emit] h show ?thesis by (simp add: client_body_def)
next
  case False
  then have "compressing emit g" using relaying_phase(2) [OF rel] by simp
  from compressing_Close [OF this codec] rel show ?thesis by (simp add: relaying_def client_body_def conn_finish_def)
qed

text \<open>
  An ordinary response of a backend, as the transport returns it: no websocket upgrade, no
  trailers, no encoding of its own, header keys in canonical form, and a body only with a
  status that allows one and of the length the header declares, if it declares any.
\<close>

definition ordinary :: "response \<Rightarrow> bool" where
  "ordinary res \<longleftrightarrow> \<not> isWebsocket res \<and> Trailer res = [] \<and> Trailer_end res = [] \<and> StatusCode res \<noteq> 0 \<and>
     distinct (map fst (RespHeader res)) \<and> list_all (\<lambda>(k, vv). canonical_key k = k) (RespHeader res) \<and>
     hget (RespHeader res) ''Content-Encoding'' = [] \<and> length_fits (RespHeader res) (chunk_bytes (Body res)) \<and>
     (chunk_bytes (Body res) = [] \<or> body_allowed (StatusCode res))"

text \<open>The headers the proxy leaves on the writer, after the one of the compressing handler.\<close>

definition relayed_header :: "response \<Rightarrow> header" where
  "relayed_header res = copyHeader (hadd [] ''Vary'' ''Accept-Encoding'') (strip_hop_headers (RespHeader res))"

lemma relayed_header_gets:
  assumes "ordinary res"
  shows "hget (relayed_header res) ''Content-Encoding'' = []"
    and "length_fits (relayed_header res) (chunk_bytes (Body res))"
proof -
  have "distinct (map fst (RespHeader res))" "list_all (\<lambda>(k, vv). canonical_key k = k) (RespHeader res)"
    using assms by (simp_all add: ordinary_def)
  note g = hget_proxied [OF this, of "hadd [] ''Vary'' ''Accept-Encoding''", folded relayed_header_def]
  show "hget (relayed_header res) ''Content-Encoding'' = []"
    using g [of "''Content-Encoding''"] assms by (simp add: ordinary_def map_of_hadd)
  show "length_fits (relayed_header res) (chunk_bytes (Body res))"
    using g [of "''Content-Length''"] assms by (auto simp: ordinary_def map_of_hadd length_fits_def)
qed

lemma copy_loop_idle: "chunk_bytes es = [] \<Longrightarrow> \<not> early_tick 0 es \<Longrightarrow> copy_loop flushing rw es w = w"
  by (induction es rule: chunk_bytes.induct) (simp_all add: minSize_def)

lemma send_response_ordinary:
  assumes "ordinary res"
  shows "send_response rp (gzip_rw emit detect conn_rw) (res\<lparr>RespHeader := strip_hop_headers (RespHeader res)\<rparr>)
      (new_gzip (new_conn\<lparr>c_header := hadd [] ''Vary'' ''Accept-Encoding''\<rparr>)) =
    copyResponse rp (gzip_rw emit detect conn_rw) (Body res)
      ((new_gzip (new_conn\<lparr>c_header := relayed_header res\<rparr>))\<lparr>g_code := StatusCode res\<rparr>)"
  using assms
  by (simp add: ordinary_def send_response_def edit_header_def gzip_WriteHeader_def shallowCopyTrailers_def
      relayed_header_def new_gzip_def Let_def)

lemma relayed_compressed:
  assumes codec: "gz_codec emit decode" and res: "ordinary res" and ticks: "\<not> early_tick 0 (Body res)"
  shows "let c = conn_finish (g_under (snd (gzip_Close emit conn_rw (copyResponse rp (gzip_rw emit detect conn_rw) (Body res)
            ((new_gzip (new_conn\<lparr>c_header := relayed_header res\<rparr>))\<lparr>g_code := StatusCode res\<rparr>)))))
         in (c_status c, client_body decode c) = (StatusCode res, Some (chunk_bytes (Body res)))"
proof (cases "body_allowed (StatusCode res)")
  case True
  let ?g = "(new_gzip (new_conn\<lparr>c_header := relayed_header res\<rparr>))\<lparr>g_code := StatusCode res\<rparr>"
  have "relaying emit (StatusCode res) (hget (relayed_header res) ''Content-Length'') [] ?g"
    using True res relayed_header_gets(1) [OF res]
    by (simp add: relaying_def gzip_plain_def buffering_def gzip_status_def gzip_body_def new_gzip_def new_conn_def
        ordinary_def minSize_def)
  from relaying_copy [OF this, of "Body res"] ticks
  have "relaying emit (StatusCode res) (hget (relayed_header res) ''Content-Length'') (chunk_bytes (Body res))
      (copyResponse rp (gzip_rw emit detect conn_rw) (Body res) ?g)" by (simp add: copyResponse_def)
  from relaying_Close [OF this codec] relayed_header_gets(2) [OF res] show ?thesis by (simp add: length_fits_def)
next
  case False
  with res have e: "chunk_bytes (Body res) = []" by (simp add: ordinary_def)
  have "\<not> c_wrote (new_conn\<lparr>c_header := h\<rparr>)" "\<not> c_hijacked (new_conn\<lparr>c_header := h\<rparr>)"
    "c_body (new_conn\<lparr>c_header := h\<rparr>) = []" for h by (simp_all add: new_conn_def)
  with relayed_header_gets(1) [OF res] res e show ?thesis
    unfolding copyResponse_def copy_loop_idle [OF e ticks]
    by (auto simp: gzip_Close_def new_gzip_def conn_finish_def client_body_def ordinary_def conn_WriteHeader_def Let_def
        split: option.splits)
qed

lemma router_relays:
  assumes route: "routes h = \<lparr>Handler = ''proxy'', RoutePath = p, Target = Some target\<rparr> # rest"
    and path: "hasPrefix (Path (URL r)) p" and used: "addresses_used h" and url: "parse_url env target = Some u"
    and dir: "director u [] r = Return outreq" and up: "\<forall>tr. round_trip env tr outreq = Inr res"
    and ws: "isWebsocket res = False"
  shows "router env h rw r w = (Return (), send_response (NewSingleHostReverseProxy u [] DefaultMaxIdleConnsPerHost) rw
    (res\<lparr>RespHeader := strip_hop_headers (RespHeader res)\<rparr>) w)"
proof -
  have "Target_url (NewSingleHostReverseProxy u [] k) = u" "Without (NewSingleHostReverseProxy u [] k) = []" for k
    by (simp_all add: NewSingleHostReverseProxy_def Let_def)
  then show ?thesis
    using serve_proxy_route [OF route path used url, of rw w] up ws
    by (simp add: router_def ReverseProxy_ServeHTTP_def dir Let_def)
qed

text \<open>
  C12. A proxied response arrives. Behind a proxy route, the client of an ordinary
  response (no websocket upgrade, trailers or Content-Encoding; with or without a
  Content-Length; statuses without a body included) gets the status the backend sent
  and, once the compression the response declares is undone, exactly the bytes the
  backend sent, in whatever chunks they came. A client that does not accept gzip gets
  them wherever the periodic flushes fall; a client that accepts gzip, when no flush
  comes before 512 bytes have been copied.
\<close>

theorem proxied_response_delivered:
  assumes codec: "gz_codec emit decode" and tls: "TLS r"
    and route: "routes h = \<lparr>Handler = ''proxy'', RoutePath = p, Target = Some target\<rparr> # rest"
    and path: "hasPrefix (Path (URL r)) p" and used: "addresses_used h" and url: "parse_url env target = Some u"
    and dir: "director u [] r = Return outreq" and up: "\<forall>tr. round_trip env tr outreq = Inr res"
    and res: "ordinary res" and ticks: "acceptsGzip r \<Longrightarrow> \<not> early_tick 0 (Body res)"
  shows "(let c = response_of (server_handler emit detect sf env h conn_rw r new_conn)
          in (c_status c, client_body decode c)) = (StatusCode res, Some (chunk_bytes (Body res)))"
proof -
  let ?rp = "NewSingleHostReverseProxy u [] DefaultMaxIdleConnsPerHost"
  let ?res = "res\<lparr>RespHeader := strip_hop_headers (RespHeader res)\<rparr>"
  let ?c0 = "new_conn\<lparr>c_header := hadd [] ''Vary'' ''Accept-Encoding''\<rparr>"
  have ws: "isWebsocket res = False" using res by (simp add: ordinary_def)
  note relays = router_relays [OF route path used _ dir _ ws]
  have gz: "router (at_writer sf env) h rw r w = (Return (), send_response ?rp rw ?res w)" for rw w
    by (rule relays) (simp_all add: url up)
  have c0: "edit_header conn_rw (\<lambda>h. hadd h ''Vary'' ''Accept-Encoding'') new_conn = ?c0"
    by (simp add: edit_header_def new_conn_def)
  show ?thesis
  proof (cases "acceptsGzip r")
    case True
    then show ?thesis
      using tls gz relayed_compressed [OF codec res ticks [OF True], where rp = ?rp and detect = detect]
      by (simp add: server_handler_def HTTPRedirectHandler_def NewGzipHandler_def response_of_def c0
          send_response_ordinary [OF res] Let_def)
  next
    case False
    have "let c = send_response ?rp conn_rw ?res ?c0 in c_wrote c \<and> c_status c = StatusCode ?res \<and>
        c_sent c = copyHeader (c_header ?c0) (RespHeader ?res) \<and> c_body c = c_body ?c0 @ chunk_bytes (Body ?res)"
      using res relayed_header_gets(2) [OF res]
      by (intro send_response_conn) (auto simp: ordinary_def new_conn_def relayed_header_def)
    then have c: "c_wrote (send_response ?rp conn_rw ?res ?c0)" "c_status (send_response ?rp conn_rw ?res ?c0) = StatusCode res"
        "c_sent (send_response ?rp conn_rw ?res ?c0) = relayed_header res"
        "c_body (send_response ?rp conn_rw ?res ?c0) = chunk_bytes (Body res)"
      by (simp_all add: relayed_header_def new_conn_def Let_def)
    have "response_of (server_handler emit detect sf env h conn_rw r new_conn) = send_response ?rp conn_rw ?res ?c0"
      using False tls c(1) relays [OF url up]
      by (simp add: server_handler_def HTTPRedirectHandler_def NewGzipHandler_def response_of_def c0 conn_finish_def)
    with c relayed_header_gets(1) [OF res] show ?thesis by (simp add: client_body_def)
  qed
qed

definition large_backend :: response where
  "large_backend = \<lparr>StatusCode = 404, RespHeader = [(''Content-Length'', [''604''])],
     Body = [Chunk (replicate 600 CHR ''x''), Tick, Chunk ''done''], Trailer = [], Trailer_end = []\<rparr>"

theorem proxied_response_delivered_witness:
  "(let c = response_of (server_handler stored_emit (\<lambda>_. []) (\<lambda>rw r n w. w)
       ((example_env (\<lambda>_. []))\<lparr>round_trip := \<lambda>_ _. Inr large_backend\<rparr>) (NewRouteHandler proxy_config) conn_rw
       gzip_request new_conn)
    in (c_status c, client_body stored_decode c)) = (404, Some (replicate 600 CHR ''x'' @ ''done''))"
proof -
  have "TLS gzip_request" "Path (URL gzip_request) = ''/''" by (simp_all add: gzip_request_def)
  moreover obtain outreq where "director example_target [] gzip_request = Return outreq"
    by (cases "director example_target [] gzip_request") (simp_all add: director_def example_target_def)
  moreover have "parse_int64 ''604'' = Some 604" by code_simp
  ultimately show ?thesis
    using proxied_response_delivered [OF stored_codec, of gzip_request "NewRouteHandler proxy_config" "''/''" "''http://backend''"
        "[]" "(example_env (\<lambda>_. []))\<lparr>round_trip := \<lambda>_ _. Inr large_backend\<rparr>" example_target outreq large_backend
        "\<lambda>_. []" "\<lambda>rw r n w. w"]
    by (simp add: NewRouteHandler_def proxy_config_def addresses_used_def example_env_def hasPrefix_def large_backend_def
        ordinary_def isWebsocket_def length_fits_def hget_def body_allowed_def minSize_def)
qed

text \<open>
  C3. A flush that comes before the body loses the status. When the backend's answer
  arrives and the proxy's periodic flush fires before the first byte of the body, a
  client that accepts gzip gets status 200, whatever the backend answered: the
  compressing writer has saved the status but not sent it, and flushes the connection
  under it.
\<close>

theorem early_flush_loses_status:
  assumes tls: "TLS r" and gz: "acceptsGzip r"
    and route: "routes h = \<lparr>Handler = ''proxy'', RoutePath = p, Target = Some target\<rparr> # rest"
    and path: "hasPrefix (Path (URL r)) p" and used: "addresses_used h" and url: "parse_url env target = Some u"
    and dir: "director u [] r = Return outreq" and up: "\<forall>tr. round_trip env tr outreq = Inr res"
    and res: "isWebsocket res = False" "Trailer res = []" "Body res = Tick # es"
  shows "c_status (response_of (server_handler emit detect sf env h conn_rw r new_conn)) = 200"
proof -
  let ?rw = "gzip_rw emit detect conn_rw" and ?rp = "NewSingleHostReverseProxy u [] DefaultMaxIdleConnsPerHost"
  let ?g = "new_gzip (edit_header conn_rw (\<lambda>h. hadd h ''Vary'' ''Accept-Encoding'') new_conn)"
  let ?res = "res\<lparr>RespHeader := strip_hop_headers (RespHeader res)\<rparr>"
  have rp: "FlushInterval ?rp = 250" by (simp add: NewSingleHostReverseProxy_def Let_def)
  have run: "router (at_writer sf env) h ?rw r ?g = (Return (), send_response ?rp ?rw ?res ?g)"
    using url up by (intro router_relays [OF route path used _ dir _ res(1)]) simp_all
  have "sent 200 (send_response ?rp ?rw ?res ?g)"
    using res by (intro tick_first_sends [where es = es]) (simp_all add: rp new_gzip_def edit_header_def new_conn_def)
  then have "sent 200 (snd (gzip_Close emit conn_rw (send_response ?rp ?rw ?res ?g)))" by (rule gzip_Close_keeps)
  then show ?thesis
    using tls gz run by (simp add: server_handler_def HTTPRedirectHandler_def NewGzipHandler_def response_of_def
        conn_finish_def sent_def)
qed

definition slow_backend :: response where
  "slow_backend = \<lparr>StatusCode = 503, RespHeader = [], Body = [Tick, Chunk ''busy''], Trailer = [], Trailer_end = []\<rparr>"

theorem early_flush_loses_status_witness:
  "c_status (response_of (server_handler stored_emit (\<lambda>_. []) (\<lambda>rw r n w. w)
     ((example_env (\<lambda>_. []))\<lparr>round_trip := \<lambda>_ _. Inr slow_backend\<rparr>) (NewRouteHandler proxy_config) conn_rw
     gzip_request new_conn)) = 200"
proof -
  have "TLS gzip_request" "Path (URL gzip_request) = ''/''" by (simp_all add: gzip_request_def)
  moreover obtain outreq where "director example_target [] gzip_request = Return outreq"
    by (cases "director example_target [] gzip_request") (simp_all add: director_def example_target_def)
  ultimately show ?thesis
    by (intro early_flush_loses_status [where p = "''/''" and target = "''http://backend''" and rest = "[]"
          and u = example_target and outreq = outreq and res = slow_backend and es = "[Chunk ''busy'']"])
       (simp_all add: gzip_request_accepts NewRouteHandler_def proxy_config_def addresses_used_def example_env_def
          hasPrefix_def slow_backend_def isWebsocket_def)
qed

end
